(* ===== verification/Prelude.thy ===== *)
theory Prelude
  imports "HOL-Library.Word" "HOL-Library.Monad_Syntax"
begin

text \<open>
  Shared vocabulary of the development: names for the machine integers of the flight code,
  raw memory (byte blocks with checked block copies), the little-endian encoding of scalars,
  the entries of the text log, and the collections of rewrite rules that carry the component
  proofs.

  Conventions: a C++ \<open>unsigned\<close> and a \<open>size_t\<close> of the 32-bit targets is a \<open>32 word\<close>,
  a \<open>uint8_t\<close> an \<open>8 word\<close> and so on.  The value \<^term>\<open>None\<close> of an operation on raw memory
  stands for an access outside a block or through a null pointer, which the C++ leaves
  undefined.
\<close>

unbundle bit_operations_syntax

named_theorems mem_simps \<open>block reads and writes\<close>
named_theorems rb_simps \<open>ring buffer selectors and indices\<close>

type_synonym u8 = "8 word"
type_synonym u16 = "16 word"
type_synonym u32 = "32 word"
type_synonym u64 = "64 word"

section \<open>Blocks of memory\<close>

definition mem_write :: "'a list \<Rightarrow> nat \<Rightarrow> 'a list \<Rightarrow> 'a list option" where
  "mem_write b off xs =
     (if off + length xs \<le> length b
      then Some (take off b @ xs @ drop (off + length xs) b) else None)"

definition mem_read :: "'a list \<Rightarrow> nat \<Rightarrow> nat \<Rightarrow> 'a list option" where
  "mem_read b off n = (if off + n \<le> length b then Some (take n (drop off b)) else None)"

lemma mem_write_ok [mem_simps]:
  "off + length xs \<le> length b \<Longrightarrow>
   mem_write b off xs = Some (take off b @ xs @ drop (off + length xs) b)"
  by (simp add: mem_write_def)

lemma mem_read_ok [mem_simps]:
  "off + n \<le> length b \<Longrightarrow> mem_read b off n = Some (take n (drop off b))"
  by (simp add: mem_read_def)

lemma mem_write_length: "mem_write b off xs = Some b' \<Longrightarrow> length b' = length b"
  by (auto simp: mem_write_def split: if_splits)

lemma mem_read_length: "mem_read b off n = Some xs \<Longrightarrow> length xs = n"
  by (auto simp: mem_read_def split: if_splits)

lemma splice_same:
  "off + length xs \<le> length b \<Longrightarrow> n \<le> length xs \<Longrightarrow>
   take n (drop off (take off b @ xs @ drop (off + length xs) b)) = take n xs"
  by simp

lemma splice_block:
  assumes "off + s \<le> length b" "length xs \<le> s"
  shows "take s (drop off (take off b @ xs @ drop (off + length xs) b))
       = xs @ drop (length xs) (take s (drop off b))"
  using assms by (simp add: drop_take add.commute)

lemma splice_disjoint:
  assumes "off + length xs \<le> length b" "o2 + n \<le> length b"
    and "o2 + n \<le> off \<or> off + length xs \<le> o2"
  shows "take n (drop o2 (take off b @ xs @ drop (off + length xs) b)) = take n (drop o2 b)"
  using assms
  by (intro nth_equalityI) (auto simp: nth_append)

section \<open>Little-endian scalars\<close>

fun nat_to_le :: "nat \<Rightarrow> nat \<Rightarrow> u8 list" where
  "nat_to_le 0 x = []"
| "nat_to_le (Suc n) x = of_nat (x mod 256) # nat_to_le n (x div 256)"

fun le_to_nat :: "u8 list \<Rightarrow> nat" where
  "le_to_nat [] = 0"
| "le_to_nat (b # bs) = unat b + 256 * le_to_nat bs"

definition le_bytes :: "'a::len word \<Rightarrow> u8 list" where
  "le_bytes w = nat_to_le (LENGTH('a) div 8) (unat w)"

definition of_le_bytes :: "u8 list \<Rightarrow> 'a::len word" where
  "of_le_bytes bs = of_nat (le_to_nat bs)"

lemma length_nat_to_le [simp]: "length (nat_to_le n x) = n"
  by (induction n arbitrary: x) auto

lemma length_le_bytes [simp]: "length (le_bytes (w :: 'a::len word)) = LENGTH('a) div 8"
  by (simp add: le_bytes_def)

lemma unat_of_nat_u8_mod: "unat (of_nat (x mod 256) :: u8) = x mod 256"
  by (simp add: unat_of_nat)

lemma unat_ucast_16_32 [simp]: "unat (ucast (n :: u16) :: u32) = unat n"
proof -
  have "unat n < 2 ^ 32"
    using unsigned_less [where 'a = nat and w = n] by simp
  then show ?thesis
    by (simp add: unsigned_ucast_eq take_bit_nat_eq_self)
qed

lemma le_to_nat_to_le: "le_to_nat (nat_to_le n x) = x mod 256 ^ n"
proof (induction n arbitrary: x)
  case 0
  then show ?case by simp
next
  case (Suc n)
  then show ?case by (simp add: unat_of_nat_u8_mod mod_mult2_eq del: of_nat_mod)
qed

lemma of_le_bytes_le_bytes:
  fixes w :: "'a::len word"
  assumes "8 dvd LENGTH('a)"
  shows "of_le_bytes (le_bytes w) = w"
proof -
  have "(256::nat) ^ (LENGTH('a) div 8) = 2 ^ (8 * (LENGTH('a) div 8))"
    by (simp add: power_mult)
  also have "\<dots> = 2 ^ LENGTH('a)"
    using assms by simp
  finally have "unat w mod 256 ^ (LENGTH('a) div 8) = unat w"
    using unsigned_less [where 'a = nat and w = w] by simp
  then show ?thesis
    by (simp add: of_le_bytes_def le_bytes_def le_to_nat_to_le)
qed

section \<open>Slots\<close>

text \<open>Fixed tables whose entries are free (\<^term>\<open>None\<close>) or taken.\<close>

fun first_index :: "('a \<Rightarrow> bool) \<Rightarrow> 'a list \<Rightarrow> nat option" where
  "first_index P [] = None"
| "first_index P (x # xs) = (if P x then Some 0 else map_option Suc (first_index P xs))"

lemma first_index_SomeD:
  "first_index P xs = Some i \<Longrightarrow> i < length xs \<and> P (xs ! i) \<and> (\<forall>j < i. \<not> P (xs ! j))"
proof (induction xs arbitrary: i)
  case (Cons x xs)
  then show ?case
    by (cases i) (auto simp: nth_Cons split: if_splits nat.splits)
qed simp

lemma first_index_None: "first_index P xs = None \<longleftrightarrow> (\<forall>x \<in> set xs. \<not> P x)"
  by (induction xs) auto

lemma first_index_map: "first_index P (map f xs) = first_index (\<lambda>x. P (f x)) xs"
  by (induction xs) auto

lemma first_index_cong: "(\<And>x. x \<in> set xs \<Longrightarrow> P x = Q x) \<Longrightarrow> first_index P xs = first_index Q xs"
  by (induction xs) auto

lemma first_index_bound: "first_index P xs = Some i \<Longrightarrow> i < length xs"
  by (simp add: first_index_SomeD)

abbreviation first_free :: "'a option list \<Rightarrow> nat option" where
  "first_free xs \<equiv> first_index (\<lambda>x. x = None) xs"

definition taken :: "'a option list \<Rightarrow> nat" where
  "taken xs = length (filter (\<lambda>x. x \<noteq> None) xs)"

lemma taken_le: "taken xs \<le> length xs"
  by (simp add: taken_def)

lemma first_free_full: "first_free xs = None \<longleftrightarrow> taken xs = length xs"
  by (auto simp: first_index_None taken_def length_filter_conv_card [symmetric]
      dest: filter_True [of xs "\<lambda>x. x \<noteq> None"] length_filter_less)

lemma taken_fill: "i < length xs \<Longrightarrow> xs ! i = None \<Longrightarrow> taken (xs[i := Some y]) = Suc (taken xs)"
proof (induction xs arbitrary: i)
  case (Cons x xs)
  then show ?case
    by (cases i) (auto simp: taken_def)
qed simp

section \<open>Decimal numbers\<close>

definition digit :: "nat \<Rightarrow> char" where
  "digit n = ''0123456789'' ! n"

fun show_nat :: "nat \<Rightarrow> string" where
  "show_nat n = (if n < 10 then [digit n] else show_nat (n div 10) @ [digit (n mod 10)])"

declare show_nat.simps [simp del]

definition show_int :: "int \<Rightarrow> string" where
  "show_int i = (if i < 0 then CHR ''-'' # show_nat (nat (- i)) else show_nat (nat i))"

lemma show_nat_nonempty [simp]: "show_nat n \<noteq> []"
  by (subst show_nat.simps) simp

lemma show_nat_digit: "n < 10 \<Longrightarrow> show_nat n = [digit n]"
  by (subst show_nat.simps) simp

section \<open>Characters as bytes\<close>

definition ascii :: "string \<Rightarrow> u8 list" where
  "ascii s = map (\<lambda>c. of_nat (of_char c)) s"

definition chars :: "u8 list \<Rightarrow> string" where
  "chars bs = map (\<lambda>b. char_of (unat b)) bs"

lemma length_ascii [simp]: "length (ascii s) = length s"
  by (simp add: ascii_def)

lemma unat_of_char [simp]: "unat (of_nat (of_char c) :: u8) = of_char c"
  using nat_of_char_less_256 [of c] by (simp add: unat_of_nat)

lemma chars_ascii [simp]: "chars (ascii s) = s"
  by (induction s) (simp_all add: ascii_def chars_def)

section \<open>Log output\<close>

text \<open>
  Lines sent to the ground station and the console: a critical or an informational message,
  with the instance number where the format string has one.
\<close>

datatype log_entry = Crit string | CritN string nat | Info string

end
