(* ===== verification/Fifo.thy ===== *)
theory Fifo
  imports Prelude
begin

text \<open>
  The contract of a bounded first-in first-out buffer as its clients see it: insertion is
  accepted while there is room and refused afterwards without effect, removal returns the
  oldest item.  The locale states the laws over an abstraction to lists; inside it every
  sequence of insertions and removals is shown to behave as the same sequence on a list
  (\<open>list_run\<close>).  Implementations interpret the locale in their own theories.
\<close>

datatype 'a fifo_op = Enq 'a | Deq
datatype 'a fifo_out = Accepted | Refused | Got 'a | Nothing

fun fifo_run :: "('a \<Rightarrow> 'q \<Rightarrow> (bool \<times> 'q) option) \<Rightarrow> ('q \<Rightarrow> ('a option \<times> 'q) option)
    \<Rightarrow> 'a fifo_op list \<Rightarrow> 'q \<Rightarrow> ('a fifo_out list \<times> 'q) option" where
  "fifo_run enq deq [] q = Some ([], q)"
| "fifo_run enq deq (Enq x # ops) q =
     do {
       (ok, q') \<leftarrow> enq x q;
       (outs, q'') \<leftarrow> fifo_run enq deq ops q';
       Some ((if ok then Accepted else Refused) # outs, q'')
     }"
| "fifo_run enq deq (Deq # ops) q =
     do {
       (r, q') \<leftarrow> deq q;
       (outs, q'') \<leftarrow> fifo_run enq deq ops q';
       Some ((case r of None \<Rightarrow> Nothing | Some x \<Rightarrow> Got x) # outs, q'')
     }"

fun list_run :: "nat \<Rightarrow> 'a fifo_op list \<Rightarrow> 'a list \<Rightarrow> 'a fifo_out list \<times> 'a list" where
  "list_run n [] xs = ([], xs)"
| "list_run n (Enq x # ops) xs =
     (if length xs < n
      then (let (outs, ys) = list_run n ops (xs @ [x]) in (Accepted # outs, ys))
      else (let (outs, ys) = list_run n ops xs in (Refused # outs, ys)))"
| "list_run n (Deq # ops) [] = (let (outs, ys) = list_run n ops [] in (Nothing # outs, ys))"
| "list_run n (Deq # ops) (x # xs) = (let (outs, ys) = list_run n ops xs in (Got x # outs, ys))"

lemma list_run_bound: "length xs \<le> n \<Longrightarrow> length (snd (list_run n ops xs)) \<le> n"
  by (induction n ops xs rule: list_run.induct) (auto simp: Let_def split: prod.splits)

lemma list_run_enqs:
  "length xs + length ys \<le> n \<Longrightarrow>
   list_run n (map Enq ys) xs = (map (\<lambda>_. Accepted) ys, xs @ ys)"
  by (induction ys arbitrary: xs) auto

lemma list_run_deqs:
  "list_run n (replicate (length xs) Deq) (xs @ ys) = (map Got xs, ys)"
  by (induction xs) auto

fun ops_ok :: "('a \<Rightarrow> bool) \<Rightarrow> 'a fifo_op list \<Rightarrow> bool" where
  "ops_ok P [] = True"
| "ops_ok P (Enq x # ops) = (P x \<and> ops_ok P ops)"
| "ops_ok P (Deq # ops) = ops_ok P ops"

locale bounded_fifo =
  fixes enq :: "'a \<Rightarrow> 'q \<Rightarrow> (bool \<times> 'q) option"
    and deq :: "'q \<Rightarrow> ('a option \<times> 'q) option"
    and content :: "'q \<Rightarrow> 'a list"
    and cap :: "'s \<Rightarrow> nat"
    and ok :: "'s \<Rightarrow> 'a \<Rightarrow> bool"
    and inv :: "'s \<Rightarrow> 'q \<Rightarrow> bool"
  assumes enq_room: "inv s q \<Longrightarrow> ok s x \<Longrightarrow> length (content q) < cap s \<Longrightarrow>
      \<exists>q'. enq x q = Some (True, q') \<and> inv s q' \<and> content q' = content q @ [x]"
    and enq_full: "inv s q \<Longrightarrow> ok s x \<Longrightarrow> length (content q) = cap s \<Longrightarrow>
      enq x q = Some (False, q)"
    and deq_some: "inv s q \<Longrightarrow> content q = x # xs \<Longrightarrow>
      \<exists>q'. deq q = Some (Some x, q') \<and> inv s q' \<and> content q' = xs"
    and deq_none: "inv s q \<Longrightarrow> content q = [] \<Longrightarrow> deq q = Some (None, q)"
    and content_cap: "inv s q \<Longrightarrow> length (content q) \<le> cap s"
begin

lemma run_refines:
  "inv s q \<Longrightarrow> ops_ok (ok s) ops \<Longrightarrow>
   \<exists>q'. fifo_run enq deq ops q = Some (fst (list_run (cap s) ops (content q)), q') \<and>
        inv s q' \<and> content q' = snd (list_run (cap s) ops (content q))"
proof (induction ops arbitrary: q)
  case Nil
  then show ?case by simp
next
  case (Cons op ops)
  show ?case
  proof (cases op)
    case (Enq x)
    with Cons.prems have ok: "ok s x" "ops_ok (ok s) ops" by simp_all
    show ?thesis
    proof (cases "length (content q) < cap s")
      case True
      then obtain q' where "enq x q = Some (True, q')" "inv s q'" "content q' = content q @ [x]"
        using enq_room [OF Cons.prems(1) ok(1)] by blast
      then show ?thesis
        using Cons.IH [of q'] ok(2) True Enq by (auto simp: split_beta)
    next
      case False
      then have "enq x q = Some (False, q)"
        using enq_full [OF Cons.prems(1) ok(1)] content_cap [OF Cons.prems(1)] by simp
      then show ?thesis
        using Cons.IH [of q] Cons.prems(1) ok(2) False Enq by (auto simp: split_beta)
    qed
  next
    case Deq
    with Cons.prems have ok: "ops_ok (ok s) ops" by simp
    show ?thesis
    proof (cases "content q")
      case Nil
      then show ?thesis
        using Cons.IH [of q] Cons.prems(1) ok Deq deq_none [OF Cons.prems(1) Nil]
        by (auto simp: split_beta)
    next
      case (Cons x xs)
      then obtain q' where "deq q = Some (Some x, q')" "inv s q'" "content q' = xs"
        using deq_some [OF Cons.prems(1) Cons] by blast
      then show ?thesis
        using Cons.IH [of q'] ok Deq Cons by (auto simp: split_beta)
    qed
  qed
qed

lemma fifo_order:
  assumes "inv s q" "content q = []" "length xs \<le> cap s" "\<forall>x \<in> set xs. ok s x"
  shows "\<exists>q1 q2. fifo_run enq deq (map Enq xs) q = Some (map (\<lambda>_. Accepted) xs, q1) \<and>
    fifo_run enq deq (replicate (length xs) Deq) q1 = Some (map Got xs, q2) \<and> content q2 = []"
proof -
  have "ops_ok (ok s) (map Enq xs)"
    using assms(4) by (induction xs) auto
  then obtain q1 where q1: "fifo_run enq deq (map Enq xs) q = Some (map (\<lambda>_. Accepted) xs, q1)"
    "inv s q1" "content q1 = xs"
    using run_refines [OF assms(1), of "map Enq xs"] list_run_enqs [of "[]" xs "cap s"] assms(2,3)
    by auto
  have "ops_ok (ok s) (replicate n Deq)" for n
    by (induction n) auto
  then show ?thesis
    using run_refines [OF q1(2), of "replicate (length xs) Deq"] q1
      list_run_deqs [of "cap s" xs "[]"] by auto
qed

end

end
