(* ===== verification/RingBuffer.thy ===== *)
theory RingBuffer
  imports Fifo
begin

text \<open>
  The byte ring buffer of the device drivers (\<open>src/drivers/device/ringbuffer.cpp\<close>).

  A buffer holds \<open>_num_items + 1\<close> slots of \<open>_item_size\<close> bytes.  Both indices run downwards
  and wrap to \<open>_num_items\<close>; one slot stays free so that \<open>_tail == _head\<close> means empty.  The
  model keeps the indices and sizes as 32-bit words and the storage as a byte block; an
  operation returns \<^term>\<open>None\<close> when it would touch memory outside the block (or through a null
  pointer) and, for the loops of \<open>force\<close> and \<open>flush\<close>, when it does not return.

  The first part translates the operations, the second relates the indices to the queue of
  items in the buffer (\<open>rb_items\<close>) and proves each operation correct against that queue, the
  third states the queue contract as a locale and interprets it on the buffer, and the last
  follows the lock-free read of \<open>get\<close> under interference by a producer.
\<close>

section \<open>State and operations\<close>

record ringbuffer =
  num_items :: u32
  item_size :: u32
  buf :: "u8 list option"
  head :: u32
  tail :: u32

text \<open>\<open>alloc\<close> stands for \<open>new char[n]\<close>: \<^term>\<open>None\<close> when there is no memory.\<close>

definition rb_new :: "(nat \<Rightarrow> u8 list option) \<Rightarrow> u32 \<Rightarrow> u32 \<Rightarrow> ringbuffer" where
  "rb_new alloc n sz =
     \<lparr>num_items = n, item_size = sz, buf = alloc (unat ((n + 1) * sz)), head = n, tail = n\<rparr>"

definition rb_next :: "ringbuffer \<Rightarrow> u32 \<Rightarrow> u32" where
  "rb_next rb index = (if 0 = index then num_items rb else index - 1)"

definition rb_empty :: "ringbuffer \<Rightarrow> bool" where
  "rb_empty rb \<longleftrightarrow> tail rb = head rb"

definition rb_full :: "ringbuffer \<Rightarrow> bool" where
  "rb_full rb \<longleftrightarrow> rb_next rb (head rb) = tail rb"

definition rb_size :: "ringbuffer \<Rightarrow> u32" where
  "rb_size rb = (if buf rb \<noteq> None then num_items rb else 0)"

text \<open>The size clamp shared by \<open>put\<close> and \<open>get\<close>.\<close>

definition rb_clamp :: "ringbuffer \<Rightarrow> u32 \<Rightarrow> u32" where
  "rb_clamp rb val_size =
     (if val_size = 0 \<or> val_size > item_size rb then item_size rb else val_size)"

text \<open>\<open>val\<close> is the memory the caller's pointer gives access to.\<close>

definition rb_put :: "ringbuffer \<Rightarrow> u8 list \<Rightarrow> u32 \<Rightarrow> (bool \<times> ringbuffer) option" where
  "rb_put rb val val_size =
     (let nxt = rb_next rb (head rb) in
      if nxt \<noteq> tail rb then
        do {
          let n = unat (rb_clamp rb val_size);
          b \<leftarrow> buf rb;
          src \<leftarrow> mem_read val 0 n;
          b' \<leftarrow> mem_write b (unat (head rb * item_size rb)) src;
          Some (True, rb\<lparr>buf := Some b', head := nxt\<rparr>)
        }
      else Some (False, rb))"

text \<open>
  \<open>get\<close> without interference: the compare-and-swap succeeds at the first attempt.  \<open>want\<close> says
  whether the caller passed a buffer (\<open>val != NULL\<close>); the second component is what the
  \<open>memcpy\<close> stored there.
\<close>

definition rb_get :: "ringbuffer \<Rightarrow> bool \<Rightarrow> u32 \<Rightarrow> (bool \<times> u8 list \<times> ringbuffer) option" where
  "rb_get rb want val_size =
     (if tail rb \<noteq> head rb then
        do {
          let n = unat (rb_clamp rb val_size);
          let candidate = tail rb;
          let nxt = rb_next rb candidate;
          data \<leftarrow> (if want
                   then do { b \<leftarrow> buf rb; mem_read b (unat (candidate * item_size rb)) n }
                   else Some []);
          Some (True, data, rb\<lparr>tail := nxt\<rparr>)
        }
      else Some (False, [], rb))"

text \<open>The typed overloads: \<open>put(&val, sizeof(val))\<close> and \<open>get(&val, sizeof(val))\<close>.\<close>

definition rb_put_val :: "ringbuffer \<Rightarrow> 'a::len word \<Rightarrow> (bool \<times> ringbuffer) option" where
  "rb_put_val rb v = rb_put rb (le_bytes v) (of_nat (LENGTH('a) div 8))"

definition rb_get_val :: "ringbuffer \<Rightarrow> 'a::len word \<Rightarrow> (bool \<times> 'a word \<times> ringbuffer) option" where
  "rb_get_val rb old =
     do {
       (ok, data, rb') \<leftarrow> rb_get rb True (of_nat (LENGTH('a) div 8));
       Some (ok, of_le_bytes (data @ drop (length data) (le_bytes old)), rb')
     }"

partial_function (option) rb_force_loop ::
    "ringbuffer \<Rightarrow> u8 list \<Rightarrow> u32 \<Rightarrow> bool \<Rightarrow> (bool \<times> ringbuffer) option" where
  "rb_force_loop rb val val_size overwrote =
     Option.bind (rb_put rb val val_size) (\<lambda>r.
       if fst r then Some (overwrote, snd r)
       else Option.bind (rb_get (snd r) False 0) (\<lambda>g.
         rb_force_loop (snd (snd g)) val val_size True))"

definition rb_force :: "ringbuffer \<Rightarrow> u8 list \<Rightarrow> u32 \<Rightarrow> (bool \<times> ringbuffer) option" where
  "rb_force rb val val_size = rb_force_loop rb val val_size False"

definition rb_force_val :: "ringbuffer \<Rightarrow> 'a::len word \<Rightarrow> (bool \<times> ringbuffer) option" where
  "rb_force_val rb v = rb_force rb (le_bytes v) (of_nat (LENGTH('a) div 8))"

partial_function (option) rb_flush :: "ringbuffer \<Rightarrow> ringbuffer option" where
  "rb_flush rb =
     (if rb_empty rb then Some rb
      else Option.bind (rb_get rb False 0) (\<lambda>g. rb_flush (snd (snd g))))"

definition rb_space :: "ringbuffer \<Rightarrow> u32" where
  "rb_space rb =
     (if tail rb \<ge> head rb then num_items rb - (tail rb - head rb) else head rb - tail rb - 1)"

definition rb_count :: "ringbuffer \<Rightarrow> u32" where
  "rb_count rb = num_items rb - rb_space rb"

definition rb_resize ::
    "(nat \<Rightarrow> u8 list option) \<Rightarrow> ringbuffer \<Rightarrow> u32 \<Rightarrow> bool \<times> ringbuffer" where
  "rb_resize alloc rb new_size =
     (case alloc (unat ((new_size + 1) * item_size rb)) of
        None \<Rightarrow> (False, rb)
      | Some b \<Rightarrow>
          (True, rb\<lparr>buf := Some b, num_items := new_size, head := new_size, tail := new_size\<rparr>))"

section \<open>The queue held by a buffer\<close>

definition slots :: "ringbuffer \<Rightarrow> nat" where
  "slots rb = Suc (unat (num_items rb))"

definition rb_inv :: "ringbuffer \<Rightarrow> bool" where
  "rb_inv rb \<longleftrightarrow>
     (case buf rb of None \<Rightarrow> False | Some b \<Rightarrow> length b = slots rb * unat (item_size rb)) \<and>
     unat (head rb) < slots rb \<and> unat (tail rb) < slots rb \<and>
     slots rb * unat (item_size rb) < 2 ^ 32"

definition slot :: "ringbuffer \<Rightarrow> nat \<Rightarrow> u8 list" where
  "slot rb i = take (unat (item_size rb)) (drop (i * unat (item_size rb)) (the (buf rb)))"

text \<open>The number of items and the slot of the \<open>k\<close>-th oldest one, counted down from the tail.\<close>

definition fill :: "ringbuffer \<Rightarrow> nat" where
  "fill rb = (unat (tail rb) + slots rb - unat (head rb)) mod slots rb"

definition slot_of :: "ringbuffer \<Rightarrow> nat \<Rightarrow> nat" where
  "slot_of rb k = (unat (tail rb) + slots rb - k) mod slots rb"

definition rb_items :: "ringbuffer \<Rightarrow> u8 list list" where
  "rb_items rb = map (\<lambda>k. slot rb (slot_of rb k)) [0..<fill rb]"


subsection \<open>Indices\<close>

lemma slots_pos [simp]: "0 < slots rb"
  by (simp add: slots_def)

lemma slots_cong [simp]:
  "slots (rb\<lparr>head := h\<rparr>) = slots rb" "slots (rb\<lparr>tail := t\<rparr>) = slots rb"
  "slots (rb\<lparr>buf := b\<rparr>) = slots rb"
  by (simp_all add: slots_def)

lemma rb_next_cong [simp]:
  "rb_next (rb\<lparr>head := h\<rparr>) = rb_next rb" "rb_next (rb\<lparr>tail := t\<rparr>) = rb_next rb"
  "rb_next (rb\<lparr>buf := b\<rparr>) = rb_next rb"
  by (simp_all add: rb_next_def fun_eq_iff)

lemma unat_rb_next:
  "unat (rb_next rb i) = (if unat i = 0 then slots rb - 1 else unat i - 1)"
  by (auto simp: rb_next_def slots_def unat_minus_one unat_eq_0)

lemma rb_next_bound: "unat i < slots rb \<Longrightarrow> unat (rb_next rb i) < slots rb"
  by (auto simp: unat_rb_next)

lemma mod_double: "(x::nat) < 2 * m \<Longrightarrow> x mod m = (if x < m then x else x - m)"
  by (auto simp: le_mod_geq)

lemma fill_if:
  assumes "unat (head rb) < slots rb" "unat (tail rb) < slots rb"
  shows "fill rb = (if unat (head rb) \<le> unat (tail rb) then unat (tail rb) - unat (head rb)
                    else unat (tail rb) + slots rb - unat (head rb))"
  using assms by (auto simp: fill_def mod_double)

lemma slot_of_if:
  assumes "unat (tail rb) < slots rb" "k < slots rb"
  shows "slot_of rb k = (if k \<le> unat (tail rb) then unat (tail rb) - k
                         else unat (tail rb) + slots rb - k)"
  using assms by (auto simp: slot_of_def mod_double)

lemma slot_of_bound [simp]: "slot_of rb k < slots rb"
  by (simp add: slot_of_def)

lemma rb_invD:
  assumes "rb_inv rb"
  obtains b where "buf rb = Some b" "length b = slots rb * unat (item_size rb)"
    "unat (head rb) < slots rb" "unat (tail rb) < slots rb"
    "slots rb * unat (item_size rb) < 2 ^ 32"
  using assms by (auto simp: rb_inv_def split: option.splits)

lemma fill_bound: "rb_inv rb \<Longrightarrow> fill rb < slots rb"
  by (simp add: fill_def)

lemma length_rb_items [simp]: "length (rb_items rb) = fill rb"
  by (simp add: rb_items_def)

lemma rb_empty_iff: "rb_inv rb \<Longrightarrow> rb_empty rb \<longleftrightarrow> rb_items rb = []"
proof -
  assume "rb_inv rb"
  then have "rb_empty rb \<longleftrightarrow> fill rb = 0"
    by (elim rb_invD) (auto simp: rb_empty_def fill_if word_unat_eq_iff)
  then show ?thesis
    by (simp add: rb_items_def)
qed

lemma rb_full_iff: "rb_inv rb \<Longrightarrow> rb_full rb \<longleftrightarrow> fill rb = unat (num_items rb)"
  by (elim rb_invD) (auto simp: rb_full_def fill_if word_unat_eq_iff unat_rb_next slots_def)

lemma slot_of_fill: "rb_inv rb \<Longrightarrow> slot_of rb (fill rb) = unat (head rb)"
  by (elim rb_invD) (auto simp: fill_if slot_of_if)

lemma slot_of_head:
  assumes "rb_inv rb" "k < fill rb"
  shows "slot_of rb k \<noteq> unat (head rb)"
  using assms fill_bound [OF assms(1)]
  by (elim rb_invD) (auto simp: fill_if slot_of_if split: if_splits)

lemma block_end: "i < m \<Longrightarrow> i * s + s \<le> m * (s::nat)"
  using mult_le_mono1 [of "Suc i" m s] by simp

lemma offset_word:
  assumes "rb_inv rb" "unat i < slots rb"
  shows "unat (i * item_size rb) = unat i * unat (item_size rb)"
proof -
  have "unat i * unat (item_size rb) + unat (item_size rb) \<le> slots rb * unat (item_size rb)"
    by (rule block_end [OF assms(2)])
  moreover have "slots rb * unat (item_size rb) < 2 ^ 32"
    using assms(1) by (auto elim: rb_invD)
  ultimately have "unat i * unat (item_size rb) < 2 ^ 32"
    by linarith
  then show ?thesis
    by (simp add: unat_word_ariths)
qed

lemma slot_in_block:
  "rb_inv rb \<Longrightarrow> i < slots rb \<Longrightarrow> buf rb = Some b \<Longrightarrow>
   i * unat (item_size rb) + unat (item_size rb) \<le> length b"
  by (elim rb_invD) (auto simp: block_end)

lemma rb_clamp_le: "unat (rb_clamp rb n) \<le> unat (item_size rb)"
  by (auto simp: rb_clamp_def word_less_nat_alt)

lemma length_slot:
  assumes "rb_inv rb" "i < slots rb"
  shows "length (slot rb i) = unat (item_size rb)"
proof -
  obtain b where b: "buf rb = Some b"
    using assms(1) by (auto elim: rb_invD)
  show ?thesis
    using slot_in_block [OF assms b] by (simp add: slot_def b)
qed

lemma block_apart:
  fixes i j s :: nat
  assumes "i \<noteq> j"
  shows "j * s + s \<le> i * s \<or> i * s + s \<le> j * s"
  using assms by (cases "i < j") (auto intro: block_end)

subsection \<open>Writing and releasing a slot\<close>

lemma rb_put_full: "rb_inv rb \<Longrightarrow> fill rb = unat (num_items rb) \<Longrightarrow>
    rb_put rb val sz = Some (False, rb)"
  using rb_full_iff [of rb] by (simp add: rb_put_def rb_full_def)

lemma slot_write_same:
  assumes "rb_inv rb" "buf rb = Some b" "i < slots rb" "length src \<le> unat (item_size rb)"
  defines "off \<equiv> i * unat (item_size rb)"
  shows "slot (rb\<lparr>buf := Some (take off b @ src @ drop (off + length src) b), head := h\<rparr>) i
       = src @ drop (length src) (slot rb i)"
  using splice_block [OF slot_in_block [OF assms(1,3,2)] assms(4)] assms(2)
  by (simp add: slot_def off_def)

lemma slot_write_other:
  assumes "rb_inv rb" "buf rb = Some b" "i < slots rb" "j < slots rb" "i \<noteq> j"
    "length src \<le> unat (item_size rb)"
  defines "off \<equiv> i * unat (item_size rb)"
  shows "slot (rb\<lparr>buf := Some (take off b @ src @ drop (off + length src) b), head := h\<rparr>) j
       = slot rb j"
proof -
  have "off + length src \<le> length b"
    using slot_in_block [OF assms(1,3,2)] assms(6) by (simp add: off_def)
  moreover have "j * unat (item_size rb) + unat (item_size rb) \<le> off \<or>
      off + length src \<le> j * unat (item_size rb)"
    using block_apart [OF assms(5), of "unat (item_size rb)"] assms(6)
    unfolding off_def by linarith
  ultimately show ?thesis
    using splice_disjoint [OF _ slot_in_block [OF assms(1,4,2)]] assms(2)
    by (simp add: slot_def)
qed

lemma slot_of_cong [simp]:
  "slot_of (rb\<lparr>buf := b\<rparr>) = slot_of rb" "slot_of (rb\<lparr>head := h\<rparr>) = slot_of rb"
  by (simp_all add: slot_of_def fun_eq_iff)

lemma fill_buf [simp]: "fill (rb\<lparr>buf := b\<rparr>) = fill rb"
  by (simp add: fill_def)

lemma fill_push:
  "rb_inv rb \<Longrightarrow> fill rb < unat (num_items rb) \<Longrightarrow>
   fill (rb\<lparr>head := rb_next rb (head rb)\<rparr>) = Suc (fill rb)"
  by (elim rb_invD)
     (auto simp: fill_if unat_rb_next rb_next_bound slots_def split: if_splits)

lemma fill_pop:
  assumes "rb_inv rb" "0 < fill rb"
  shows "fill (rb\<lparr>tail := rb_next rb (tail rb)\<rparr>) = fill rb - 1"
proof -
  have h: "unat (head rb) < slots rb" and t: "unat (tail rb) < slots rb"
    using assms(1) by (auto elim: rb_invD)
  have "fill (rb\<lparr>tail := rb_next rb (tail rb)\<rparr>)
      = (if unat (head rb) \<le> unat (rb_next rb (tail rb))
         then unat (rb_next rb (tail rb)) - unat (head rb)
         else unat (rb_next rb (tail rb)) + slots rb - unat (head rb))"
    using h rb_next_bound [OF t] by (simp add: fill_if)
  then show ?thesis
    using h t assms(2) by (auto simp: fill_if unat_rb_next split: if_splits)
qed

lemma slot_of_pop:
  "rb_inv rb \<Longrightarrow> Suc k < slots rb \<Longrightarrow>
   slot_of (rb\<lparr>tail := rb_next rb (tail rb)\<rparr>) k = slot_of rb (Suc k)"
  by (elim rb_invD)
     (auto simp: slot_of_if unat_rb_next rb_next_bound slots_def split: if_splits)

lemma rb_put_room:
  assumes inv: "rb_inv rb" and room: "fill rb < unat (num_items rb)"
    and val: "unat (rb_clamp rb sz) \<le> length val"
  defines "n \<equiv> unat (rb_clamp rb sz)"
  obtains rb' where "rb_put rb val sz = Some (True, rb')" "rb_inv rb'"
    "rb_items rb' = rb_items rb @ [take n val @ drop n (slot rb (unat (head rb)))]"
    "num_items rb' = num_items rb" "item_size rb' = item_size rb" "tail rb' = tail rb"
proof -
  obtain b where b: "buf rb = Some b" and lb: "length b = slots rb * unat (item_size rb)"
    and h: "unat (head rb) < slots rb" and t: "unat (tail rb) < slots rb"
    using inv by (auto elim: rb_invD)
  define src where "src = take n val"
  define off where "off = unat (head rb) * unat (item_size rb)"
  define b' where "b' = take off b @ src @ drop (off + length src) b"
  define rb' where "rb' = rb\<lparr>buf := Some b', head := rb_next rb (head rb)\<rparr>"
  have src: "length src = n" "length src \<le> unat (item_size rb)"
    using val rb_clamp_le [of rb sz] by (simp_all add: src_def n_def)
  have fit: "off + length src \<le> length b"
    using slot_in_block [OF inv h b] src by (simp add: off_def)
  have notfull: "rb_next rb (head rb) \<noteq> tail rb"
    using rb_full_iff [OF inv] room by (simp add: rb_full_def)
  have put: "rb_put rb val sz = Some (True, rb')"
    using notfull b fit val
    by (simp add: rb_put_def Let_def mem_simps offset_word [OF inv h] off_def [symmetric]
        n_def [symmetric] src_def [symmetric] rb'_def b'_def)
  have inv': "rb_inv rb'"
    using inv fit h by (elim rb_invD)
      (auto simp: rb_inv_def rb'_def b'_def b lb slots_def rb_next_bound [unfolded slots_def])
  have fill': "fill rb' = Suc (fill rb)"
    using fill_push [OF inv room] by (simp add: rb'_def fill_def)
  have same: "slot rb' (slot_of rb k) = slot rb (slot_of rb k)" if "k < fill rb" for k
    using slot_write_other [OF inv b h slot_of_bound _ src(2)] slot_of_head [OF inv that]
    by (metis rb'_def b'_def off_def)
  have new: "slot rb' (slot_of rb (fill rb)) = take n val @ drop n (slot rb (unat (head rb)))"
    using slot_write_same [OF inv b h src(2)]
    by (simp add: slot_of_fill [OF inv] rb'_def b'_def off_def src(1)) (simp add: src_def)
  have so: "slot_of rb' = slot_of rb"
    by (simp add: rb'_def)
  have "rb_items rb' = rb_items rb @ [take n val @ drop n (slot rb (unat (head rb)))]"
    using same new by (simp add: rb_items_def fill' so)
  then show ?thesis
    using that put inv' by (simp add: rb'_def)
qed

lemma rb_get_nonempty:
  assumes inv: "rb_inv rb" and items: "rb_items rb = x # xs"
  defines "rb' \<equiv> rb\<lparr>tail := rb_next rb (tail rb)\<rparr>"
  shows "rb_get rb want sz
           = Some (True, if want then take (unat (rb_clamp rb sz)) x else [], rb')"
    and "rb_inv rb'" and "rb_items rb' = xs"
proof -
  obtain b where b: "buf rb = Some b" and h: "unat (head rb) < slots rb"
    and t: "unat (tail rb) < slots rb"
    using inv by (auto elim: rb_invD)
  have f: "0 < fill rb"
    using arg_cong [OF items, of length] by simp
  have x: "slot rb (unat (tail rb)) = x"
    using items f t by (simp add: rb_items_def upt_conv_Cons slot_of_if)
  have ne: "tail rb \<noteq> head rb"
    using rb_empty_iff [OF inv] items by (simp add: rb_empty_def)
  have fit: "unat (tail rb) * unat (item_size rb) + unat (rb_clamp rb sz) \<le> length b"
    using slot_in_block [OF inv t b] rb_clamp_le [of rb sz] by linarith
  have "take (unat (rb_clamp rb sz)) (drop (unat (tail rb) * unat (item_size rb)) b)
      = take (unat (rb_clamp rb sz)) x"
    using rb_clamp_le [of rb sz] by (simp add: x [symmetric] slot_def b min_absorb1)
  then show "rb_get rb want sz
           = Some (True, if want then take (unat (rb_clamp rb sz)) x else [], rb')"
    using ne b fit by (simp add: rb_get_def Let_def offset_word [OF inv t] mem_simps rb'_def)
  show "rb_inv rb'"
    using inv by (elim rb_invD) (auto simp: rb_inv_def rb'_def rb_next_bound)
  have fill': "fill rb' = fill rb - 1"
    using fill_pop [OF inv f] by (simp add: rb'_def)
  have "slot rb' (slot_of rb' k) = slot rb (slot_of rb (Suc k))" if "k < fill rb - 1" for k
    using slot_of_pop [OF inv, of k] that fill_bound [OF inv]
    by (simp add: rb'_def slot_def)
  then have "rb_items rb' = map (\<lambda>k. slot rb (slot_of rb (Suc k))) [0..<fill rb - 1]"
    by (simp add: rb_items_def fill')
  also have "\<dots> = tl (rb_items rb)"
  proof -
    obtain m where "fill rb = Suc m"
      using f gr0_implies_Suc by blast
    then show ?thesis
      by (simp add: rb_items_def upt_conv_Cons map_Suc_upt [symmetric] comp_def
          del: upt_Suc map_Suc_upt)
  qed
  finally show "rb_items rb' = xs"
    by (simp add: items)
qed

lemma rb_get_empty: "rb_inv rb \<Longrightarrow> rb_items rb = [] \<Longrightarrow> rb_get rb want sz = Some (False, [], rb)"
  using rb_empty_iff [of rb] by (simp add: rb_get_def rb_empty_def)

lemma rb_get_shape:
  "rb_get rb want sz = Some (ok, data, rb') \<Longrightarrow>
   num_items rb' = num_items rb \<and> item_size rb' = item_size rb \<and> buf rb' = buf rb \<and>
   head rb' = head rb"
  by (auto simp: rb_get_def Let_def split: if_splits bind_splits)

lemma fill_le: "rb_inv rb \<Longrightarrow> fill rb \<le> unat (num_items rb)"
  using fill_bound [of rb] by (simp add: slots_def)

subsection \<open>The loops: \<open>force\<close> and \<open>flush\<close>\<close>

lemma rb_force_loop_room:
  assumes "rb_inv rb" "fill rb < unat (num_items rb)" "unat (rb_clamp rb sz) \<le> length val"
  shows "\<exists>rb'. rb_force_loop rb val sz ow = Some (ow, rb') \<and> rb_inv rb' \<and>
    rb_items rb' = rb_items rb @ [take (unat (rb_clamp rb sz)) val @
      drop (unat (rb_clamp rb sz)) (slot rb (unat (head rb)))] \<and>
    num_items rb' = num_items rb \<and> item_size rb' = item_size rb"
proof -
  obtain rb' where "rb_put rb val sz = Some (True, rb')" "rb_inv rb'"
    "rb_items rb' = rb_items rb @ [take (unat (rb_clamp rb sz)) val @
      drop (unat (rb_clamp rb sz)) (slot rb (unat (head rb)))]"
    "num_items rb' = num_items rb" "item_size rb' = item_size rb"
    using rb_put_room [OF assms] by blast
  then show ?thesis
    by (simp add: rb_force_loop.simps)
qed

lemma rb_force_loop_full:
  assumes inv: "rb_inv rb" and full: "fill rb = unat (num_items rb)"
    and pos: "num_items rb \<noteq> 0" and val: "unat (rb_clamp rb sz) \<le> length val"
  shows "\<exists>rb'. rb_force_loop rb val sz ow = Some (True, rb') \<and> rb_inv rb' \<and>
    rb_items rb' = tl (rb_items rb) @ [take (unat (rb_clamp rb sz)) val @
      drop (unat (rb_clamp rb sz)) (slot rb (unat (head rb)))] \<and>
    num_items rb' = num_items rb \<and> item_size rb' = item_size rb"
proof -
  define rb1 where "rb1 = rb\<lparr>tail := rb_next rb (tail rb)\<rparr>"
  have "0 < length (rb_items rb)"
    using full pos by (simp add: unat_gt_0)
  then obtain x xs where items: "rb_items rb = x # xs"
    by (cases "rb_items rb") auto
  note g = rb_get_nonempty [OF inv items, folded rb1_def]
  have f1: "fill rb1 < unat (num_items rb1)"
    using full arg_cong [OF g(3), of length] arg_cong [OF items, of length]
    by (simp add: rb1_def)
  have same: "slot rb1 = slot rb" "head rb1 = head rb" "num_items rb1 = num_items rb"
    "item_size rb1 = item_size rb" "rb_clamp rb1 = rb_clamp rb"
    by (simp_all add: rb1_def slot_def rb_clamp_def fun_eq_iff)
  have "rb_force_loop rb val sz ow = rb_force_loop rb1 val sz True"
    using rb_put_full [OF inv full] g(1) by (subst rb_force_loop.simps) simp
  then show ?thesis
    using rb_force_loop_room [OF g(2) f1, of sz val True] val
    by (simp add: same g(3) items)
qed

lemma rb_force_spec:
  assumes "rb_inv rb" "num_items rb \<noteq> 0" "unat (rb_clamp rb sz) \<le> length val"
  shows "\<exists>rb'. rb_force rb val sz = Some (rb_full rb, rb') \<and> rb_inv rb' \<and>
    rb_items rb' = (if rb_full rb then tl (rb_items rb) else rb_items rb) @
      [take (unat (rb_clamp rb sz)) val @
       drop (unat (rb_clamp rb sz)) (slot rb (unat (head rb)))] \<and>
    num_items rb' = num_items rb \<and> item_size rb' = item_size rb"
proof (cases "rb_full rb")
  case True
  then show ?thesis
    using rb_force_loop_full [OF assms(1) _ assms(2,3)] rb_full_iff [OF assms(1)]
    by (simp add: rb_force_def)
next
  case False
  then have "fill rb < unat (num_items rb)"
    using rb_full_iff [OF assms(1)] fill_le [OF assms(1)] by auto
  then show ?thesis
    using rb_force_loop_room [OF assms(1) _ assms(3)] False by (simp add: rb_force_def)
qed

text \<open>A buffer without items is empty and full at once, so the loop of \<open>force\<close> never ends.\<close>

lemma rb_force_loop_zero:
  assumes "rb_force_loop rb val sz ow = Some r"
  shows "rb_inv rb \<longrightarrow> num_items rb \<noteq> 0"
proof (rule rb_force_loop.raw_induct
    [where P = "\<lambda>rb val sz ow r. rb_inv rb \<longrightarrow> num_items rb \<noteq> 0", OF _ assms], intro impI notI)
  fix f :: "ringbuffer \<Rightarrow> u8 list \<Rightarrow> u32 \<Rightarrow> bool \<Rightarrow> (bool \<times> ringbuffer) option"
    and rb val sz ow r
  assume IH: "\<And>rb val sz ow r. f rb val sz ow = Some r \<Longrightarrow> rb_inv rb \<longrightarrow> num_items rb \<noteq> 0"
    and eq: "rb_put rb val sz \<bind> (\<lambda>r. if fst r then Some (ow, snd r)
       else rb_get (snd r) False 0 \<bind> (\<lambda>g. f (snd (snd g)) val sz True)) = Some r"
    and inv: "rb_inv rb" and zero: "num_items rb = 0"
  have "fill rb = 0"
    using fill_le [OF inv] zero by simp
  then have "rb_put rb val sz = Some (False, rb)" "rb_get rb False 0 = Some (False, [], rb)"
    using rb_put_full [OF inv] rb_get_empty [OF inv] zero by (simp_all add: rb_items_def)
  with eq have "f rb val sz True = Some r"
    by simp
  then show False
    using IH inv zero by blast
qed

lemma rb_flush_spec:
  assumes "rb_inv rb"
  shows "\<exists>rb'. rb_flush rb = Some rb' \<and> rb_inv rb' \<and> rb_items rb' = [] \<and>
    num_items rb' = num_items rb \<and> item_size rb' = item_size rb"
  using assms
proof (induction "rb_items rb" arbitrary: rb)
  case Nil
  then show ?case
    using rb_empty_iff [of rb] by (simp add: rb_flush.simps)
next
  case (Cons x xs)
  define rb1 where "rb1 = rb\<lparr>tail := rb_next rb (tail rb)\<rparr>"
  note g = rb_get_nonempty [OF Cons.prems Cons.hyps(2) [symmetric], folded rb1_def]
  have "rb_flush rb = rb_flush rb1"
    using rb_empty_iff [OF Cons.prems] Cons.hyps(2) g(1) by (subst rb_flush.simps) auto
  moreover have "num_items rb1 = num_items rb" "item_size rb1 = item_size rb"
    by (simp_all add: rb1_def)
  ultimately show ?case
    using Cons.hyps(1) [of rb1] g(2,3) by simp
qed

subsection \<open>Free space and fill level\<close>

lemma unat_sub_le: "(b::'a::len word) \<le> a \<Longrightarrow> unat (a - b) = unat a - unat b"
  by (simp add: unat_sub)

lemma rb_space_spec:
  assumes "rb_inv rb"
  shows "unat (rb_space rb) = unat (num_items rb) - length (rb_items rb)"
proof -
  have h: "unat (head rb) < slots rb" and t: "unat (tail rb) < slots rb"
    using assms by (auto elim: rb_invD)
  show ?thesis
  proof (cases "head rb \<le> tail rb")
    case True
    then have d: "unat (tail rb - head rb) = unat (tail rb) - unat (head rb)"
      by (rule unat_sub_le)
    then have "tail rb - head rb \<le> num_items rb"
      using t by (simp add: word_le_nat_alt slots_def)
    then show ?thesis
      using True h t d by (simp add: rb_space_def fill_if unat_sub_le word_le_nat_alt)
  next
    case False
    then have lt: "tail rb < head rb" by simp
    then have d: "unat (head rb - tail rb) = unat (head rb) - unat (tail rb)"
      by (simp add: unat_sub_le)
    then have "1 \<le> head rb - tail rb"
      using lt by (simp add: word_le_nat_alt word_less_nat_alt)
    then show ?thesis
      using lt h t d False
      by (simp add: rb_space_def fill_if unat_sub_le word_le_nat_alt slots_def)
  qed
qed

lemma rb_count_spec:
  assumes "rb_inv rb"
  shows "unat (rb_count rb) = length (rb_items rb)"
proof -
  have "rb_space rb \<le> num_items rb"
    using rb_space_spec [OF assms] by (simp add: word_le_nat_alt)
  then show ?thesis
    using rb_space_spec [OF assms] fill_le [OF assms]
    by (simp add: rb_count_def unat_sub_le)
qed


section \<open>The queue contract\<close>

definition rb_deq :: "ringbuffer \<Rightarrow> (u8 list option \<times> ringbuffer) option" where
  "rb_deq rb = do { (ok, data, rb') \<leftarrow> rb_get rb True 0; Some (if ok then Some data else None, rb') }"

definition rb_shaped :: "u32 \<times> u32 \<Rightarrow> ringbuffer \<Rightarrow> bool" where
  "rb_shaped sh rb \<longleftrightarrow> rb_inv rb \<and> num_items rb = fst sh \<and> item_size rb = snd sh"

lemma rb_clamp_0 [simp]: "rb_clamp rb 0 = item_size rb"
  by (simp add: rb_clamp_def)

lemma rb_items_length:
  assumes "rb_inv rb" "x \<in> set (rb_items rb)"
  shows "length x = unat (item_size rb)"
  using assms length_slot [OF assms(1) slot_of_bound] by (auto simp: rb_items_def)

interpretation rbq: bounded_fifo "\<lambda>x rb. rb_put rb x 0" rb_deq rb_items
    "\<lambda>sh. unat (fst sh)" "\<lambda>sh x. length x = unat (snd sh)" rb_shaped
proof unfold_locales
  fix sh rb and x :: "u8 list"
  assume q: "rb_shaped sh rb" and x: "length x = unat (snd sh)"
    and room: "length (rb_items rb) < unat (fst sh)"
  then have "rb_inv rb" "fill rb < unat (num_items rb)" "unat (rb_clamp rb 0) \<le> length x"
    by (simp_all add: rb_shaped_def)
  from rb_put_room [OF this] obtain rb' where "rb_put rb x 0 = Some (True, rb')" "rb_inv rb'"
    "rb_items rb' = rb_items rb @ [take (unat (rb_clamp rb 0)) x @
       drop (unat (rb_clamp rb 0)) (slot rb (unat (head rb)))]"
    "num_items rb' = num_items rb" "item_size rb' = item_size rb"
    by blast
  moreover have "drop (unat (item_size rb)) (slot rb (unat (head rb))) = []"
    using q by (simp add: rb_shaped_def slot_def)
  ultimately show "\<exists>q'. rb_put rb x 0 = Some (True, q') \<and> rb_shaped sh q' \<and>
      rb_items q' = rb_items rb @ [x]"
    using q x by (auto simp: rb_shaped_def)
next
  fix sh rb and x :: "u8 list"
  assume "rb_shaped sh rb" "length (rb_items rb) = unat (fst sh)"
  then show "rb_put rb x 0 = Some (False, rb)"
    using rb_put_full [of rb x 0] by (simp add: rb_shaped_def)
next
  fix sh rb x xs
  assume q: "rb_shaped sh rb" and items: "rb_items rb = x # xs"
  then have "length x = unat (item_size rb)"
    using rb_items_length [of rb x] by (simp add: rb_shaped_def)
  then show "\<exists>q'. rb_deq rb = Some (Some x, q') \<and> rb_shaped sh q' \<and> rb_items q' = xs"
    using q rb_get_nonempty [OF _ items] by (simp add: rb_shaped_def rb_deq_def)
next
  fix sh rb
  assume "rb_shaped sh rb" "rb_items rb = []"
  then show "rb_deq rb = Some (None, rb)"
    using rb_get_empty [of rb] by (simp add: rb_shaped_def rb_deq_def)
next
  fix sh rb
  assume "rb_shaped sh rb"
  then show "length (rb_items rb) \<le> unat (fst sh)"
    using fill_le [of rb] by (simp add: rb_shaped_def)
qed

subsection \<open>Construction, resizing and typed access\<close>

lemma rb_new_inv:
  assumes "alloc (unat ((n + 1) * sz)) = Some b" "length b = unat ((n + 1) * sz)"
    and "Suc (unat n) * unat sz < 2 ^ 32" "unat n + 1 < 2 ^ 32"
  shows "rb_inv (rb_new alloc n sz)" "rb_items (rb_new alloc n sz) = []"
proof -
  have "unat (n + 1) = Suc (unat n)"
    using assms(4) by (simp add: unat_word_ariths)
  then have "unat ((n + 1) * sz) = Suc (unat n) * unat sz"
    using assms(3) by (simp add: unat_word_ariths)
  then show "rb_inv (rb_new alloc n sz)"
    using assms(1-3) by (auto simp: rb_inv_def rb_new_def slots_def)
  then show "rb_items (rb_new alloc n sz) = []"
    by (subst rb_empty_iff [symmetric]) (simp_all add: rb_empty_def rb_new_def)
qed

lemma rb_resize_new:
  "rb_resize alloc rb n = (case alloc (unat ((n + 1) * item_size rb)) of None \<Rightarrow> (False, rb)
     | Some b \<Rightarrow> (True, rb_new alloc n (item_size rb)))"
  by (auto simp: rb_resize_def rb_new_def split: option.splits)

lemma rb_val_roundtrip:
  fixes v old :: "'a::len word"
  assumes "8 dvd LENGTH('a)" "LENGTH('a) div 8 < 2 ^ 32"
    and "rb_inv rb" "rb_items rb = []" "num_items rb \<noteq> 0"
    and "unat (item_size rb) = LENGTH('a) div 8"
  shows "\<exists>rb' rb''. rb_put_val rb v = Some (True, rb') \<and>
    rb_get_val rb' old = Some (True, v, rb'') \<and> rb_items rb'' = []"
proof -
  have sz: "(of_nat (LENGTH('a) div 8) :: u32) = item_size rb"
    by (simp flip: assms(6))
  have "fill rb < unat (num_items rb)"
    using assms(4,5) length_rb_items [of rb] by (simp add: unat_gt_0)
  moreover have c: "rb_clamp rb (item_size rb) = item_size rb"
    by (simp add: rb_clamp_def)
  ultimately obtain rb' where put: "rb_put rb (le_bytes v) (item_size rb) = Some (True, rb')"
    and inv': "rb_inv rb'" and "item_size rb' = item_size rb"
    and items: "rb_items rb' = [le_bytes v @ drop (unat (item_size rb)) (slot rb (unat (head rb)))]"
    using rb_put_room [OF assms(3), of "item_size rb" "le_bytes v"] assms(4,6) by auto
  moreover have "drop (unat (item_size rb)) (slot rb (unat (head rb))) = []"
    by (simp add: slot_def)
  ultimately have items': "rb_items rb' = [le_bytes v]" and s': "item_size rb' = item_size rb"
    by simp_all
  have "rb_get rb' True (item_size rb)
      = Some (True, le_bytes v, rb'\<lparr>tail := rb_next rb' (tail rb')\<rparr>)"
    and "rb_items (rb'\<lparr>tail := rb_next rb' (tail rb')\<rparr>) = []"
    using rb_get_nonempty [OF inv' items'] assms(6) by (auto simp: s' rb_clamp_def)
  then show ?thesis
    using put of_le_bytes_le_bytes [OF assms(1), of v]
    by (simp add: rb_put_val_def rb_get_val_def sz)
qed


section \<open>The lock-free read under interference\<close>

text \<open>
  \<open>get\<close> reads the tail, copies the item byte by byte and commits with a compare-and-swap on
  the tail; the producer may run at any point in between.  \<open>rb_get_attempt\<close> is one round of the
  loop: \<open>s0\<close> is the state in which the tail was loaded, \<open>ss\<close> the states in which the
  successive bytes were copied and \<open>s1\<close> the state of the compare-and-swap.  \<open>producer k\<close> relates
  states between which a producer ran any number of \<open>put\<close>s and removed \<open>k\<close> items on the way
  (\<open>force\<close> calls \<open>get(NULL)\<close> when the buffer is full).
\<close>

fun copy_bytes :: "ringbuffer list \<Rightarrow> nat \<Rightarrow> u8 list option" where
  "copy_bytes [] off = Some []"
| "copy_bytes (s # ss) off =
     do {
       b \<leftarrow> buf s;
       x \<leftarrow> (if off < length b then Some (b ! off) else None);
       xs \<leftarrow> copy_bytes ss (Suc off);
       Some (x # xs)
     }"

definition rb_get_attempt ::
    "ringbuffer \<Rightarrow> ringbuffer list \<Rightarrow> ringbuffer \<Rightarrow> (bool \<times> u8 list \<times> ringbuffer) option" where
  "rb_get_attempt s0 ss s1 =
     do {
       let candidate = tail s0;
       let nxt = rb_next s0 candidate;
       data \<leftarrow> copy_bytes ss (unat (candidate * item_size s0));
       Some (if tail s1 = candidate then (True, data, s1\<lparr>tail := nxt\<rparr>) else (False, data, s1))
     }"

inductive producer :: "nat \<Rightarrow> ringbuffer \<Rightarrow> ringbuffer \<Rightarrow> bool" where
  idle: "producer 0 rb rb"
| put: "producer k rb rb1 \<Longrightarrow> rb_put rb1 val sz = Some (ok, rb2) \<Longrightarrow> producer k rb rb2"
| steal: "producer k rb rb1 \<Longrightarrow> rb_get rb1 False 0 = Some (ok, data, rb2) \<Longrightarrow>
    producer (if ok then Suc k else k) rb rb2"

inductive interference :: "nat \<Rightarrow> ringbuffer \<Rightarrow> ringbuffer list \<Rightarrow> ringbuffer \<Rightarrow> bool" where
  last: "producer k s0 s1 \<Longrightarrow> interference k s0 [] s1"
| copy: "producer k s0 s \<Longrightarrow> interference m s ss s1 \<Longrightarrow> interference (k + m) s0 (s # ss) s1"

inductive_cases interference_NilE: "interference k s0 [] s1"
inductive_cases interference_ConsE: "interference k s0 (s # ss) s1"

lemma rb_put_preserves:
  assumes "rb_inv rb" "rb_put rb val sz = Some (ok, rb')"
  shows "rb_inv rb' \<and> num_items rb' = num_items rb \<and> item_size rb' = item_size rb \<and>
    tail rb' = tail rb \<and> (\<exists>ys. rb_items rb' = rb_items rb @ ys)"
proof (cases "fill rb = unat (num_items rb)")
  case True
  then show ?thesis
    using rb_put_full [OF assms(1)] assms by auto
next
  case False
  then have room: "fill rb < unat (num_items rb)"
    using fill_le [OF assms(1)] by simp
  then have "rb_next rb (head rb) \<noteq> tail rb"
    using rb_full_iff [OF assms(1)] by (simp add: rb_full_def)
  then have "unat (rb_clamp rb sz) \<le> length val"
    using assms(2) by (auto simp: rb_put_def Let_def mem_read_def split: bind_splits if_splits)
  from rb_put_room [OF assms(1) room this] assms(2) show ?thesis
    by (metis Pair_inject option.inject)
qed

lemma rb_get_preserves:
  assumes "rb_inv rb" "rb_get rb want sz = Some (ok, data, rb')"
  shows "rb_inv rb' \<and> num_items rb' = num_items rb \<and> item_size rb' = item_size rb \<and>
    (ok \<longrightarrow> tail rb' = rb_next rb (tail rb)) \<and> (\<not> ok \<longrightarrow> rb' = rb)"
proof (cases "rb_items rb")
  case Nil
  then show ?thesis
    using rb_get_empty [OF assms(1) Nil] assms by auto
next
  case (Cons x xs)
  then show ?thesis
    using rb_get_nonempty [OF assms(1) Cons] assms by auto
qed

lemma producer_preserves:
  "producer k rb rb' \<Longrightarrow> rb_inv rb \<Longrightarrow>
   rb_inv rb' \<and> num_items rb' = num_items rb \<and> item_size rb' = item_size rb \<and>
   (k = 0 \<longrightarrow> tail rb' = tail rb \<and> (\<exists>ys. rb_items rb' = rb_items rb @ ys))"
proof (induction rule: producer.induct)
  case (idle rb)
  then show ?case by simp
next
  case (put k rb rb1 val sz ok rb2)
  then show ?case
    using rb_put_preserves [of rb1 val sz ok rb2] by auto
next
  case (steal k rb rb1 ok data rb2)
  then show ?case
    using rb_get_preserves [of rb1 False 0 ok data rb2] by auto
qed

lemma dec_mod:
  fixes a m :: nat
  assumes "a < m"
  shows "(if a = 0 then m - 1 else a - 1) = (a + (m - 1)) mod m"
  using assms by (auto simp: mod_double)

lemma producer_tail:
  "producer k rb rb' \<Longrightarrow> rb_inv rb \<Longrightarrow>
   unat (tail rb') = (unat (tail rb) + k * unat (num_items rb)) mod slots rb"
proof (induction rule: producer.induct)
  case (idle rb)
  then show ?case
    by (auto elim: rb_invD)
next
  case (put k rb rb1 val sz ok rb2)
  then show ?case
    using rb_put_preserves [of rb1 val sz ok rb2] producer_preserves [of k rb rb1] by simp
next
  case (steal k rb rb1 ok data rb2)
  then have rb1: "rb_inv rb1" "num_items rb1 = num_items rb"
    using producer_preserves [of k rb rb1] by simp_all
  then have t: "unat (tail rb1) < slots rb1" "slots rb1 = slots rb"
    by (auto elim: rb_invD simp: slots_def)
  show ?case
  proof (cases ok)
    case True
    then have "unat (tail rb2) = (unat (tail rb1) + (slots rb1 - 1)) mod slots rb1"
      using rb_get_preserves [OF rb1(1) steal.hyps(2)] dec_mod [OF t(1)]
      by (simp add: unat_rb_next)
    then show ?thesis
      using steal True t(2) by (simp add: slots_def mod_simps algebra_simps)
  next
    case False
    then show ?thesis
      using steal rb_get_preserves [OF rb1(1) steal.hyps(2)] by simp
  qed
qed

text \<open>Fewer removals than there are slots cannot bring the tail back to where it was.\<close>

lemma producer_no_aba:
  assumes "producer k rb rb'" "rb_inv rb" "k \<le> unat (num_items rb)" "tail rb' = tail rb"
  shows "k = 0"
proof -
  define n where "n = unat (num_items rb)"
  define t where "t = unat (tail rb)"
  have t: "t < Suc n"
    using assms(2) by (auto elim: rb_invD simp: slots_def n_def t_def)
  have "t mod Suc n = (t + k * n) mod Suc n"
    using producer_tail [OF assms(1,2)] assms(4) t by (simp add: n_def t_def slots_def)
  then have "Suc n dvd k * n"
    using mod_eq_dvd_iff_nat [of "t" "t + k * n" "Suc n"] by (simp add: eq_commute)
  moreover have "coprime (Suc n) n"
    by (rule coprime_Suc_left_nat)
  ultimately have "Suc n dvd k"
    by (simp add: coprime_dvd_mult_left_iff)
  then show "k = 0"
    using assms(3) by (auto simp: n_def dest: dvd_imp_le)
qed

lemma producer_trans:
  "producer m b c \<Longrightarrow> producer k a b \<Longrightarrow> producer (k + m) a c"
proof (induction arbitrary: k rule: producer.induct)
  case (idle rb)
  then show ?case by simp
next
  case (put m rb rb1 val sz ok rb2)
  then show ?case by (auto intro: producer.put)
next
  case (steal m rb rb1 ok data rb2)
  then show ?case
    using producer.steal [OF steal.IH [OF steal.prems] steal.hyps(2)] by (cases ok) auto
qed

lemma interference_producer: "interference k s0 ss s1 \<Longrightarrow> producer k s0 s1"
  by (induction rule: interference.induct) (auto intro: producer_trans)

lemma interference_calm:
  "interference k s0 ss s1 \<Longrightarrow> k = 0 \<Longrightarrow> s \<in> set ss \<Longrightarrow> producer 0 s0 s"
proof (induction rule: interference.induct)
  case (last k s0 s1)
  then show ?case by simp
next
  case (copy k s0 s' m ss s1)
  then show ?case
    using producer_trans [of 0 s' s 0 s0] by auto
qed

lemma slot_tail:
  assumes "rb_inv rb" "rb_items rb = x # xs"
  shows "slot rb (unat (tail rb)) = x"
proof -
  have "0 < fill rb"
    using arg_cong [OF assms(2), of length] by simp
  moreover have "unat (tail rb) < slots rb"
    using assms(1) by (auto elim: rb_invD)
  ultimately show ?thesis
    using assms(2) by (simp add: rb_items_def upt_conv_Cons slot_of_if)
qed

lemma copy_bytes_calm:
  assumes "\<forall>s \<in> set ss. rb_inv s \<and> item_size s = sz \<and> t < slots s \<and> slot s t = x"
    and "j + length ss \<le> unat sz"
  shows "copy_bytes ss (t * unat sz + j) = Some (take (length ss) (drop j x))"
  using assms
proof (induction ss arbitrary: j)
  case Nil
  then show ?case by simp
next
  case (Cons s ss)
  obtain b where b: "buf s = Some b"
    using Cons.prems(1) by (auto elim: rb_invD)
  have fit: "t * unat sz + unat sz \<le> length b"
    using slot_in_block [of s t b] Cons.prems(1) b by simp
  have x: "x = take (unat sz) (drop (t * unat sz) b)"
    using Cons.prems(1) b by (auto simp: slot_def)
  have j: "j < length x"
    using Cons.prems(2) fit by (simp add: x)
  have "b ! (t * unat sz + j) = x ! j"
    using Cons.prems(2) fit by (simp add: x)
  moreover have "copy_bytes ss (t * unat sz + Suc j) = Some (take (length ss) (drop (Suc j) x))"
    using Cons.IH [of "Suc j"] Cons.prems by simp
  moreover have "t * unat sz + j < length b"
    using Cons.prems(2) fit by simp
  ultimately show ?case
    using Cons_nth_drop_Suc [OF j] by (simp add: b flip: Cons_nth_drop_Suc [OF j])
qed

lemma rb_get_attempt_commit:
  assumes inv: "rb_inv s0" and ne: "rb_items s0 \<noteq> []"
    and env: "interference k s0 ss s1" and few: "k \<le> unat (num_items s0)"
    and len: "length ss \<le> unat (item_size s0)"
    and get: "rb_get_attempt s0 ss s1 = Some (True, data, s')"
  shows "\<exists>x xs. rb_items s1 = x # xs \<and> data = take (length ss) x \<and>
    rb_inv s' \<and> rb_items s' = xs \<and> rb_items s0 = x # tl (rb_items s0)"
proof -
  have tl: "tail s1 = tail s0" and s': "s' = s1\<lparr>tail := rb_next s0 (tail s0)\<rparr>"
    using get by (auto simp: rb_get_attempt_def Let_def split: bind_splits if_splits)
  have k: "k = 0"
    using producer_no_aba [OF interference_producer [OF env] inv few tl] .
  obtain x ys where x: "rb_items s0 = x # ys"
    using ne by (cases "rb_items s0") auto
  have t0: "unat (tail s0) < slots s0"
    using inv by (auto elim: rb_invD)
  have "rb_inv s \<and> item_size s = item_size s0 \<and> unat (tail s0) < slots s \<and>
      slot s (unat (tail s0)) = x" if "s \<in> set ss" for s
    using producer_preserves [OF interference_calm [OF env k that] inv] t0 x slot_tail [of s x]
    by (auto simp: slots_def)
  then have "copy_bytes ss (unat (tail s0) * unat (item_size s0)) = Some (take (length ss) x)"
    using copy_bytes_calm [of ss "item_size s0" "unat (tail s0)" x 0] len by simp
  then have data: "data = take (length ss) x"
    using get offset_word [OF inv t0]
    by (auto simp: rb_get_attempt_def Let_def split: if_splits)
  obtain zs where s1: "rb_inv s1" "rb_items s1 = x # zs" "num_items s1 = num_items s0"
    using producer_preserves [OF interference_producer [OF env] inv] k x by auto
  have "rb_next s0 = rb_next s1"
    using s1(3) by (simp add: rb_next_def fun_eq_iff)
  then show ?thesis
    using rb_get_nonempty [OF s1(1,2)] data s1(2) x tl by (simp add: s')
qed

lemma rb_get_attempt_retry:
  assumes "rb_inv s0" "interference k s0 ss s1"
    and "rb_get_attempt s0 ss s1 = Some (False, data, s')"
  shows "0 < k \<and> s' = s1"
proof -
  have "tail s1 \<noteq> tail s0" "s' = s1"
    using assms(3) by (auto simp: rb_get_attempt_def Let_def split: bind_splits if_splits)
  then show ?thesis
    using producer_preserves [OF interference_producer [OF assms(2)] assms(1)] by auto
qed


section \<open>Properties\<close>

text \<open>A one-item buffer of two-byte items, before and after a producer overwrote its item twice.\<close>

definition rb_ex0 :: ringbuffer where
  "rb_ex0 = \<lparr>num_items = 1, item_size = 2, buf = Some [0, 0, 1, 2], head = 0, tail = 1\<rparr>"

definition rb_ex1 :: ringbuffer where
  "rb_ex1 = \<lparr>num_items = 1, item_size = 2, buf = Some [3, 4, 1, 2], head = 1, tail = 0\<rparr>"

definition rb_ex2 :: ringbuffer where
  "rb_ex2 = \<lparr>num_items = 1, item_size = 2, buf = Some [3, 4, 5, 6], head = 0, tail = 1\<rparr>"

definition rb_ex_empty :: ringbuffer where
  "rb_ex_empty = \<lparr>num_items = 1, item_size = 2, buf = Some [0, 0, 0, 0], head = 1, tail = 1\<rparr>"

definition rb_ex_none :: ringbuffer where
  "rb_ex_none = \<lparr>num_items = 0, item_size = 2, buf = Some [0, 0], head = 0, tail = 0\<rparr>"

lemmas rb_ex_defs = rb_ex0_def rb_ex1_def rb_ex2_def rb_ex_empty_def rb_ex_none_def

lemmas rb_eval = rb_put_def rb_get_def rb_next_def rb_clamp_def rb_full_def rb_empty_def
  rb_items_def fill_def slots_def slot_def slot_of_def rb_inv_def mem_write_def mem_read_def Let_def

lemma rb_ex_inv: "rb_inv rb_ex0" "rb_inv rb_ex2" "rb_inv rb_ex_empty" "rb_inv rb_ex_none"
  by (simp_all add: rb_ex_defs rb_inv_def slots_def)

lemma rb_ex_items: "rb_items rb_ex0 = [[1, 2]]" "rb_items rb_ex2 = [[5, 6]]"
  "rb_items rb_ex_empty = []" "rb_items rb_ex_none = []"
  by (simp_all add: rb_ex_defs rb_eval mod_Suc)

lemma rb_ex_shape: "num_items rb_ex0 = 1" "item_size rb_ex0 = 2"
  by (simp_all add: rb_ex_defs)

lemma rb_ex_force:
  "rb_put rb_ex0 [3, 4] 0 = Some (False, rb_ex0)"
  "rb_get rb_ex0 False 0 = Some (True, [], rb_ex0\<lparr>tail := 0\<rparr>)"
  "rb_put (rb_ex0\<lparr>tail := 0\<rparr>) [3, 4] 0 = Some (True, rb_ex1)"
  "rb_put rb_ex1 [5, 6] 0 = Some (False, rb_ex1)"
  "rb_get rb_ex1 False 0 = Some (True, [], rb_ex1\<lparr>tail := 1\<rparr>)"
  "rb_put (rb_ex1\<lparr>tail := 1\<rparr>) [5, 6] 0 = Some (True, rb_ex2)"
  by (simp_all add: rb_ex_defs rb_eval)

text \<open>
  A ring buffer is a first-in first-out queue of capacity \<open>_num_items\<close>: any sequence of
  full-size \<open>put\<close>s and \<open>get\<close>s, run on any well-formed buffer, stays inside the buffer's memory
  and answers exactly as the same sequence on a list of at most \<open>_num_items\<close> items.
\<close>

theorem rb_fifo_refinement:
  assumes "rb_inv rb" "ops_ok (\<lambda>x. length x = unat (item_size rb)) ops"
  shows "\<exists>rb'. fifo_run (\<lambda>x rb. rb_put rb x 0) rb_deq ops rb
      = Some (fst (list_run (unat (num_items rb)) ops (rb_items rb)), rb') \<and> rb_inv rb' \<and>
      rb_items rb' = snd (list_run (unat (num_items rb)) ops (rb_items rb))"
  using rbq.run_refines [of "(num_items rb, item_size rb)" rb ops] assms
  by (auto simp: rb_shaped_def)

theorem rb_fifo_refinement_witness:
  "\<exists>rb'. fifo_run (\<lambda>x rb. rb_put rb x 0) rb_deq [Enq [7, 7], Deq, Enq [8, 9]] rb_ex0
      = Some ([Refused, Got [1, 2], Accepted], rb') \<and> rb_inv rb' \<and> rb_items rb' = [[8, 9]]"
  using rb_fifo_refinement [OF rb_ex_inv(1), of "[Enq [7, 7], Deq, Enq [8, 9]]"]
  by (simp add: rb_ex_items rb_ex_shape)

text \<open>
  \<open>force\<close> on a buffer with at least one slot for items returns, appends the new item and
  drops the oldest one exactly when the buffer was full, which is what its result says.
\<close>

theorem rb_force_drops_oldest:
  assumes "rb_inv rb" "num_items rb \<noteq> 0" "length val = unat (item_size rb)"
  shows "\<exists>rb'. rb_force rb val 0
      = Some (length (rb_items rb) = unat (num_items rb), rb') \<and> rb_inv rb' \<and>
      rb_items rb' = (if length (rb_items rb) = unat (num_items rb)
                      then tl (rb_items rb) else rb_items rb) @ [val]"
  using rb_force_spec [OF assms(1,2), of 0 val] assms(3) rb_full_iff [OF assms(1)]
  by (auto simp: slot_def)

theorem rb_force_drops_oldest_witness:
  "\<exists>rb'. rb_force rb_ex0 [3, 4] 0 = Some (True, rb') \<and> rb_inv rb' \<and> rb_items rb' = [[3, 4]]"
  using rb_force_drops_oldest [OF rb_ex_inv(1), of "[3, 4]"]
  by (simp add: rb_ex_items rb_ex_shape)

text \<open>
  A buffer constructed with no item slots is empty and full at the same time, and \<open>force\<close>
  on it never returns, whatever is being inserted.
\<close>

theorem rb_force_no_slots_diverges:
  assumes "rb_inv rb" "num_items rb = 0"
  shows "rb_empty rb \<and> rb_full rb \<and> rb_force rb val sz = None"
proof -
  have "fill rb = 0"
    using fill_le [OF assms(1)] assms(2) by simp
  then have "rb_empty rb" "rb_full rb"
    using rb_empty_iff [OF assms(1)] rb_full_iff [OF assms(1)] assms(2)
    by (simp_all add: rb_items_def)
  moreover have "rb_force rb val sz = None"
    using rb_force_loop_zero [of rb val sz False] assms
    by (cases "rb_force rb val sz") (auto simp: rb_force_def)
  ultimately show ?thesis by simp
qed

theorem rb_force_no_slots_diverges_witness:
  "rb_empty rb_ex_none \<and> rb_full rb_ex_none \<and> rb_force rb_ex_none [1, 2] 0 = None"
  by (rule rb_force_no_slots_diverges [OF rb_ex_inv(4)]) (simp add: rb_ex_none_def)

text \<open>
  \<open>space\<close> and \<open>count\<close> are exact on a buffer that is not being changed, \<open>empty\<close> and \<open>full\<close>
  agree with them, and \<open>flush\<close> returns with an empty buffer of the same capacity.
\<close>

theorem rb_space_count_flush:
  assumes "rb_inv rb"
  shows "unat (rb_space rb) = unat (num_items rb) - length (rb_items rb) \<and>
    unat (rb_count rb) = length (rb_items rb) \<and>
    (rb_empty rb \<longleftrightarrow> rb_count rb = 0) \<and> (rb_full rb \<longleftrightarrow> rb_space rb = 0) \<and>
    (\<exists>rb'. rb_flush rb = Some rb' \<and> rb_inv rb' \<and> rb_items rb' = [] \<and>
       num_items rb' = num_items rb)"
proof -
  note s = rb_space_spec [OF assms] and c = rb_count_spec [OF assms]
  have "rb_empty rb \<longleftrightarrow> rb_count rb = 0"
    using c rb_empty_iff [OF assms] by (metis length_0_conv unat_eq_0)
  moreover have "rb_full rb \<longleftrightarrow> rb_space rb = 0"
    using s rb_full_iff [OF assms] fill_le [OF assms] by (auto simp flip: unat_eq_0)
  ultimately show ?thesis
    using s c rb_flush_spec [OF assms] by blast
qed

theorem rb_space_count_flush_witness:
  "unat (rb_count rb_ex0) = 1 \<and> (\<exists>rb'. rb_flush rb_ex0 = Some rb' \<and> rb_items rb' = [])"
  using rb_space_count_flush [OF rb_ex_inv(1)] by (auto simp: rb_ex_items)

text \<open>
  A scalar written with a typed \<open>put\<close> into an empty buffer of that item size is read back
  unchanged by the typed \<open>get\<close>, whatever the target variable held before.
\<close>

theorem rb_typed_roundtrip:
  fixes v old :: "'a::len word"
  assumes "8 dvd LENGTH('a)" "LENGTH('a) div 8 < 2 ^ 32"
    and "rb_inv rb" "rb_items rb = []" "num_items rb \<noteq> 0"
    and "unat (item_size rb) = LENGTH('a) div 8"
  shows "\<exists>rb' rb''. rb_put_val rb v = Some (True, rb') \<and>
    rb_get_val rb' old = Some (True, v, rb'') \<and> rb_items rb'' = []"
  by (rule rb_val_roundtrip [OF assms])

theorem rb_typed_roundtrip_witness:
  "\<exists>rb' rb''. rb_put_val rb_ex_empty (0xBEEF :: 16 word) = Some (True, rb') \<and>
    rb_get_val rb' 0 = Some (True, 0xBEEF :: 16 word, rb'') \<and> rb_items rb'' = []"
  by (rule rb_typed_roundtrip [OF _ _ rb_ex_inv(3) rb_ex_items(3)]) (simp_all add: rb_ex_empty_def)

text \<open>
  C20: when the compare-and-swap of \<open>get\<close> succeeds and the producer removed at most \<open>_num_items\<close>
  items since the tail was loaded, the copied bytes are the oldest item and removing it is
  atomic at the compare-and-swap, however the copy was interleaved with insertions; when it
  fails, the producer has removed an item in the meantime.
\<close>

theorem rb_get_linearizable:
  assumes "rb_inv s0" "rb_items s0 \<noteq> []" "interference k s0 ss s1"
    and "k \<le> unat (num_items s0)" "length ss \<le> unat (item_size s0)"
    and "rb_get_attempt s0 ss s1 = Some (ok, data, s')"
  shows "if ok then \<exists>xs. rb_items s1 = hd (rb_items s0) # xs \<and>
             data = take (length ss) (hd (rb_items s0)) \<and> rb_inv s' \<and> rb_items s' = xs
         else 0 < k \<and> s' = s1"
proof (cases ok)
  case True
  then show ?thesis
    using rb_get_attempt_commit [OF assms(1-5)] assms(6) by (metis list.sel(1))
next
  case False
  then show ?thesis
    using rb_get_attempt_retry [OF assms(1,3)] assms(6) by simp
qed

theorem rb_get_linearizable_witness:
  "\<exists>xs. rb_items rb_ex0 = [1, 2] # xs \<and> rb_items (rb_ex0\<lparr>tail := 0\<rparr>) = xs"
proof -
  have env: "interference 0 rb_ex0 [rb_ex0, rb_ex0] rb_ex0"
    using interference.copy [OF producer.idle interference.copy [OF producer.idle
          interference.last [OF producer.idle]], of rb_ex0] by simp
  have "rb_get_attempt rb_ex0 [rb_ex0, rb_ex0] rb_ex0 = Some (True, [1, 2], rb_ex0\<lparr>tail := 0\<rparr>)"
    by (simp add: rb_get_attempt_def rb_ex0_def rb_next_def)
  then show ?thesis
    using rb_get_linearizable [OF rb_ex_inv(1) _ env, of True "[1, 2]" "rb_ex0\<lparr>tail := 0\<rparr>"]
    by (simp add: rb_ex_items rb_ex_shape)
qed

text \<open>
  The bound in the previous property is needed.  Two \<open>force\<close> calls during the copy of an
  item from a one-item buffer bring the tail back to its old value: the compare-and-swap
  succeeds and \<open>get\<close> returns one byte of the old item and one byte of the newest.
\<close>

theorem rb_get_torn_read:
  "rb_force rb_ex0 [3, 4] 0 = Some (True, rb_ex1) \<and>
   rb_force rb_ex1 [5, 6] 0 = Some (True, rb_ex2) \<and>
   interference 2 rb_ex0 [rb_ex0, rb_ex2] rb_ex2 \<and>
   rb_items rb_ex0 = [[1, 2]] \<and> rb_items rb_ex2 = [[5, 6]] \<and>
   (\<exists>s'. rb_get_attempt rb_ex0 [rb_ex0, rb_ex2] rb_ex2 = Some (True, [1, 6], s'))"
proof -
  have f: "rb_force rb_ex0 [3, 4] 0 = Some (True, rb_ex1)"
    "rb_force rb_ex1 [5, 6] 0 = Some (True, rb_ex2)"
    by (simp_all add: rb_force_def rb_force_loop.simps rb_ex_force)
  have "producer 1 rb_ex0 rb_ex1"
    using producer.put [OF producer.steal [OF producer.idle rb_ex_force(2)] rb_ex_force(3)] by simp
  then have "producer 2 rb_ex0 rb_ex2"
    using producer.put [OF producer.steal [OF _ rb_ex_force(5)] rb_ex_force(6)]
    by (simp add: numeral_2_eq_2)
  then have "interference 2 rb_ex0 [rb_ex0, rb_ex2] rb_ex2"
    using interference.copy [OF producer.idle interference.copy [OF _
          interference.last [OF producer.idle]], of 2 rb_ex0 rb_ex2]
    by (simp add: numeral_2_eq_2)
  moreover have "\<exists>s'. rb_get_attempt rb_ex0 [rb_ex0, rb_ex2] rb_ex2 = Some (True, [1, 6], s')"
    by (simp add: rb_get_attempt_def rb_ex_defs)
  ultimately show ?thesis
    by (simp add: f rb_ex_items)
qed

end
