(* ===== verification/Float32.thy ===== *)
theory Float32
  imports Prelude
begin

text \<open>
  IEEE 754 single precision by bit pattern.  Comparisons and truncation to an integer need no
  rounding; addition, multiplication and division compute the exact result on integers scaled by a power
  of two and round it once, to nearest with ties to even.
\<close>

section \<open>Single-precision values by bit pattern\<close>

text \<open>
  A \<open>float\<close> is its 32-bit IEEE 754 pattern.  Ordering needs no arithmetic: away from NaN it
  is the ordering of the sign-magnitude integers that the patterns spell, and every
  comparison with a NaN is false.
\<close>

type_synonym f32 = "32 word"

definition f32_magnitude :: "f32 \<Rightarrow> int" where
  "f32_magnitude w = uint (w AND 0x7FFFFFFF)"

definition f32_is_nan :: "f32 \<Rightarrow> bool" where
  "f32_is_nan w \<longleftrightarrow> f32_magnitude w > 0x7F800000"

definition f32_key :: "f32 \<Rightarrow> int" where
  "f32_key w = (if bit w 31 then - f32_magnitude w else f32_magnitude w)"

definition f32_lt :: "f32 \<Rightarrow> f32 \<Rightarrow> bool" where
  "f32_lt a b \<longleftrightarrow> \<not> f32_is_nan a \<and> \<not> f32_is_nan b \<and> f32_key a < f32_key b"

definition f32_gt :: "f32 \<Rightarrow> f32 \<Rightarrow> bool" where
  "f32_gt a b \<longleftrightarrow> f32_lt b a"

lemma f32_lt_irrefl [simp]: "\<not> f32_lt a a"
  by (simp add: f32_lt_def)

lemma f32_lt_trans: "f32_lt a b \<Longrightarrow> f32_lt b c \<Longrightarrow> f32_lt a c"
  by (simp add: f32_lt_def)

lemma f32_lt_nan: "f32_is_nan a \<Longrightarrow> \<not> f32_lt a b \<and> \<not> f32_lt b a"
  by (simp add: f32_lt_def)

lemma f32_lt_neq_zero: "f32_lt 0 a \<Longrightarrow> a \<noteq> 0"
  by auto


definition f32_abs :: "f32 \<Rightarrow> f32" where
  "f32_abs w = w AND 0x7FFFFFFF"

section \<open>Exact values and rounding\<close>

text \<open>
  Every finite value is an integer multiple of \<open>2 ^ -149\<close>; \<open>f32_scaled\<close> is that integer.
  Infinities and NaN have exponent field 255.
\<close>

definition f32_is_finite :: "f32 \<Rightarrow> bool" where
  "f32_is_finite w \<longleftrightarrow> f32_magnitude w < 0x7F800000"

definition f32_scaled :: "f32 \<Rightarrow> int" where
  "f32_scaled w =
     (let m = f32_magnitude w; e = m div 2 ^ 23; frac = m mod 2 ^ 23;
          v = (if e = 0 then frac else (frac + 2 ^ 23) * 2 ^ nat (e - 1))
      in if bit w 31 then - v else v)"

function bit_len :: "int \<Rightarrow> nat" where
  "bit_len n = (if n \<le> 0 then 0 else Suc (bit_len (n div 2)))"
  by pat_completeness auto
termination
  by (relation "measure nat") auto

declare bit_len.simps [simp del]

text \<open>\<open>f32_round neg n k\<close> encodes the value \<open>n / 2 ^ (149 + k)\<close>, negated when \<open>neg\<close>.\<close>

definition f32_round :: "bool \<Rightarrow> int \<Rightarrow> nat \<Rightarrow> f32" where
  "f32_round neg n k =
     (let drop = max k (bit_len n - 24);
          q = n div 2 ^ drop; r = n mod 2 ^ drop;
          up = 2 * r > 2 ^ drop \<or> (2 * r = 2 ^ drop \<and> odd q);
          q' = (if up \<and> 0 < drop then q + 1 else q);
          pat = (if q' < 2 ^ 23 then q' else int (drop - k) * 2 ^ 23 + q');
          pat' = (if pat < 0x7F800000 then pat else 0x7F800000)
      in of_int (if neg then pat' + 2 ^ 31 else pat'))"

definition f32_nan :: f32 where
  "f32_nan = 0x7FC00000"

definition f32_add :: "f32 \<Rightarrow> f32 \<Rightarrow> f32" where
  "f32_add a b =
     (if f32_is_nan a \<or> f32_is_nan b then f32_nan
      else if \<not> f32_is_finite a
      then (if \<not> f32_is_finite b \<and> a \<noteq> b then f32_nan else a)
      else if \<not> f32_is_finite b then b
      else (let s = f32_scaled a + f32_scaled b
            in if s = 0 then (if bit a 31 \<and> bit b 31 then 0x80000000 else 0)
               else f32_round (s < 0) \<bar>s\<bar> 0))"

text \<open>
  Conversion to an integer type truncates towards zero; a value that does not fit the target
  range (and a NaN or an infinity) is undefined behaviour, \<^term>\<open>None\<close>.
\<close>

definition f32_trunc :: "f32 \<Rightarrow> int" where
  "f32_trunc w =
     (if f32_scaled w < 0 then - (\<bar>f32_scaled w\<bar> div 2 ^ 149) else f32_scaled w div 2 ^ 149)"

definition f32_to_int :: "int \<Rightarrow> int \<Rightarrow> f32 \<Rightarrow> int option" where
  "f32_to_int lo hi w =
     (if f32_is_finite w \<and> lo \<le> f32_trunc w \<and> f32_trunc w \<le> hi then Some (f32_trunc w) else None)"

definition f32_to_i32 :: "f32 \<Rightarrow> int option" where
  "f32_to_i32 = f32_to_int (- (2 ^ 31)) (2 ^ 31 - 1)"

definition f32_to_u8 :: "f32 \<Rightarrow> u8 option" where
  "f32_to_u8 w = map_option of_int (f32_to_int 0 255 w)"

definition f32_to_u32 :: "f32 \<Rightarrow> u32 option" where
  "f32_to_u32 w = map_option of_int (f32_to_int 0 (2 ^ 32 - 1) w)"

lemma f32_to_int_range: "f32_to_int lo hi w = Some i \<Longrightarrow> lo \<le> i \<and> i \<le> hi"
  by (auto simp: f32_to_int_def split: if_splits)

section \<open>Products, negation and conversions\<close>

definition f32_le :: "f32 \<Rightarrow> f32 \<Rightarrow> bool" where
  "f32_le a b \<longleftrightarrow> \<not> f32_is_nan a \<and> \<not> f32_is_nan b \<and> f32_key a \<le> f32_key b"

definition f32_neg :: "f32 \<Rightarrow> f32" where
  "f32_neg w = w XOR 0x80000000"

definition f32_sub :: "f32 \<Rightarrow> f32 \<Rightarrow> f32" where
  "f32_sub a b = f32_add a (f32_neg b)"

definition f32_signed :: "bool \<Rightarrow> f32 \<Rightarrow> f32" where
  "f32_signed neg w = (if neg then w OR 0x80000000 else w)"

definition f32_mul :: "f32 \<Rightarrow> f32 \<Rightarrow> f32" where
  "f32_mul a b =
     (let neg = (bit a 31 \<noteq> bit b 31)
      in if f32_is_nan a \<or> f32_is_nan b then f32_nan
         else if \<not> f32_is_finite a \<or> \<not> f32_is_finite b
         then (if f32_magnitude a = 0 \<or> f32_magnitude b = 0 then f32_nan
               else f32_signed neg 0x7F800000)
         else if f32_magnitude a = 0 \<or> f32_magnitude b = 0 then f32_signed neg 0
         else f32_round neg \<bar>f32_scaled a * f32_scaled b\<bar> 149)"

definition f32_of_int :: "int \<Rightarrow> f32" where
  "f32_of_int i = (if i = 0 then 0 else f32_round (i < 0) (\<bar>i\<bar> * 2 ^ 149) 0)"

text \<open>
  The quotient is computed to 449 binary places with a sticky last bit, which no rounding position
  reaches: the last place of a result is \<open>2 ^ -149\<close>.
\<close>

definition f32_div :: "f32 \<Rightarrow> f32 \<Rightarrow> f32" where
  "f32_div a b =
     (let neg = (bit a 31 \<noteq> bit b 31); x = \<bar>f32_scaled a\<bar> * 2 ^ 448; y = \<bar>f32_scaled b\<bar>
      in if f32_is_nan a \<or> f32_is_nan b then f32_nan
         else if \<not> f32_is_finite a
         then (if \<not> f32_is_finite b then f32_nan else f32_signed neg 0x7F800000)
         else if \<not> f32_is_finite b then f32_signed neg 0
         else if f32_magnitude b = 0
         then (if f32_magnitude a = 0 then f32_nan else f32_signed neg 0x7F800000)
         else if f32_magnitude a = 0 then f32_signed neg 0
         else f32_round neg (2 * (x div y) + (if x mod y = 0 then 0 else 1)) 300)"

text \<open>
  Double precision numbers are only stored and converted.  Widening is exact; narrowing rounds
  the value, an integer multiple of \<open>2 ^ -1074\<close>, to nearest even.
\<close>

type_synonym f64 = "64 word"

definition f32_to_f64 :: "f32 \<Rightarrow> f64" where
  "f32_to_f64 w =
     (let m = f32_magnitude w; e = m div 2 ^ 23; frac = m mod 2 ^ 23;
          sign = (if bit w 31 then 2 ^ 63 else 0);
          v = (if e = 255 then 2047 * 2 ^ 52 + frac * 2 ^ 29
               else if e > 0 then (e + 896) * 2 ^ 52 + frac * 2 ^ 29
               else if frac = 0 then 0
               else (let n = bit_len frac
                     in (int n + 873) * 2 ^ 52 + (frac - 2 ^ (n - 1)) * 2 ^ (53 - n)))
      in of_int (sign + v))"

definition f64_to_f32 :: "f64 \<Rightarrow> f32" where
  "f64_to_f32 w =
     (let m = uint w mod 2 ^ 63; e = m div 2 ^ 52; frac = m mod 2 ^ 52; neg = bit w 63;
          v = (if e = 0 then frac else (frac + 2 ^ 52) * 2 ^ nat (e - 1))
      in if e = 2047 then (if frac = 0 then f32_signed neg 0x7F800000 else f32_nan)
         else if v = 0 then f32_signed neg 0
         else f32_round neg v 925)"

end
