(* ===== verification/Preflight.thy ===== *)
theory Preflight
  imports Float32
begin

text \<open>
  The sensor checks that run before arming (\<open>src/modules/commander/PreflightCheck.cpp\<close>).

  The devices are reached through DriverFramework handles, which are not part of the
  repository: a \<open>sensor\<close> records what the handle of one device path answers.  The record
  \<open>preflight_env\<close> collects everything one run of the check reads.  Each check returns its
  verdict together with the lines it logs; the device id that the C++ passes back by
  reference is a component of the result.
\<close>

section \<open>What the checks read\<close>

text \<open>
  \<open>cal_params\<close> lists the parameters \<open>CAL_xxx<n>_ID\<close> that exist for n = 0, 1, ...; an entry is
  \<^term>\<open>None\<close> where \<open>param_get\<close> fails.  \<open>accel_read\<close> is the magnitude of a complete accelerometer
  report, \<^term>\<open>None\<close> for a short read.
\<close>

record sensor =
  handle_valid :: bool
  caltest_ret :: int
  deviceid_ret :: int
  selftest_ret :: int
  cal_params :: "int option list"
  accel_read :: "f32 option"

record preflight_env =
  mag :: "nat \<Rightarrow> sensor"
  accel :: "nat \<Rightarrow> sensor"
  gyro :: "nat \<Rightarrow> sensor"
  baro :: "nat \<Rightarrow> sensor"
  mag_prime :: int
  acc_prime :: int
  gyro_prime :: int
  baro_prime :: int
  airspeed_copy_ret :: int
  airspeed_age :: u64
  airspeed_ias :: f32
  rc_calibration_ret :: int
  gps_poll_ret :: int
  gps_copy_ret :: int
  gps_age :: u64

definition max_mandatory_gyro_count :: nat where "max_mandatory_gyro_count = 1"
definition max_optional_gyro_count :: nat where "max_optional_gyro_count = 3"
definition max_mandatory_accel_count :: nat where "max_mandatory_accel_count = 1"
definition max_optional_accel_count :: nat where "max_optional_accel_count = 3"
definition max_mandatory_mag_count :: nat where "max_mandatory_mag_count = 1"
definition max_optional_mag_count :: nat where "max_optional_mag_count = 3"
definition max_mandatory_baro_count :: nat where "max_mandatory_baro_count = 1"
definition max_optional_baro_count :: nat where "max_optional_baro_count = 1"

lemmas sensor_counts = max_mandatory_gyro_count_def max_optional_gyro_count_def
  max_mandatory_accel_count_def max_optional_accel_count_def max_mandatory_mag_count_def
  max_optional_mag_count_def max_mandatory_baro_count_def max_optional_baro_count_def

section \<open>Single sensors\<close>

definition report :: "bool \<Rightarrow> log_entry \<Rightarrow> log_entry list" where
  "report on l = (if on then [l] else [])"

fun cal_param_search :: "int \<Rightarrow> int option list \<Rightarrow> bool" where
  "cal_param_search devid [] = False"
| "cal_param_search devid (None # ps) = cal_param_search devid ps"
| "cal_param_search devid (Some d # ps) = (devid = d \<or> cal_param_search devid ps)"

text \<open>\<open>check_calibration\<close> returns whether calibration is missing, and the device id.\<close>

definition check_calibration :: "sensor \<Rightarrow> bool \<times> int" where
  "check_calibration h =
     (let found = (caltest_ret h = 0); devid = deviceid_ret h
      in (\<not> (found \<or> cal_param_search devid (cal_params h)), devid))"

definition magnometerCheck ::
    "sensor \<Rightarrow> nat \<Rightarrow> bool \<Rightarrow> int \<Rightarrow> bool \<Rightarrow> bool \<times> int \<times> log_entry list" where
  "magnometerCheck h inst optional device_id report_fail =
     (if \<not> handle_valid h
      then (False, device_id,
            report (\<not> optional \<and> report_fail) (CritN ''PREFLIGHT FAIL: NO MAG SENSOR #%u'' inst))
      else
        (let (ret, devid) = check_calibration h in
         if ret
         then (False, devid, report report_fail (CritN ''PREFLIGHT FAIL: MAG #%u UNCALIBRATED'' inst))
         else if selftest_ret h \<noteq> 0
         then (False, devid,
               report report_fail (CritN ''PREFLIGHT FAIL: MAG #%u SELFTEST FAILED'' inst))
         else (True, devid, [])))"

text \<open>The range check of \<open>dynamic\<close> is compiled in on the flight hardware.\<close>

definition accelerometerCheck ::
    "sensor \<Rightarrow> nat \<Rightarrow> bool \<Rightarrow> bool \<Rightarrow> int \<Rightarrow> bool \<Rightarrow> bool \<times> int \<times> log_entry list" where
  "accelerometerCheck h inst optional dynamic device_id report_fail =
     (if \<not> handle_valid h
      then (False, device_id,
            report (\<not> optional \<and> report_fail) (CritN ''PREFLIGHT FAIL: NO ACCEL SENSOR #%u'' inst))
      else
        (let (ret, devid) = check_calibration h in
         if ret
         then (False, devid,
               report report_fail (CritN ''PREFLIGHT FAIL: ACCEL #%u UNCALIBRATED'' inst))
         else if selftest_ret h \<noteq> 0
         then (False, devid,
               report report_fail (CritN ''PREFLIGHT FAIL: ACCEL #%u SELFTEST FAILED'' inst))
         else if dynamic then
           (case accel_read h of
              Some accel_magnitude \<Rightarrow>
                if f32_lt accel_magnitude 0x40800000 \<or> f32_gt accel_magnitude 0x41700000
                then (False, devid,
                      report report_fail (Crit ''PREFLIGHT FAIL: ACCEL RANGE, hold still on arming''))
                else (True, devid, [])
            | None \<Rightarrow> (False, devid, report report_fail (Crit ''PREFLIGHT FAIL: ACCEL READ'')))
         else (True, devid, [])))"

definition gyroCheck ::
    "sensor \<Rightarrow> nat \<Rightarrow> bool \<Rightarrow> int \<Rightarrow> bool \<Rightarrow> bool \<times> int \<times> log_entry list" where
  "gyroCheck h inst optional device_id report_fail =
     (if \<not> handle_valid h
      then (False, device_id,
            report (\<not> optional \<and> report_fail) (CritN ''PREFLIGHT FAIL: NO GYRO SENSOR #%u'' inst))
      else
        (let (ret, devid) = check_calibration h in
         if ret
         then (False, devid, report report_fail (CritN ''PREFLIGHT FAIL: GYRO #%u UNCALIBRATED'' inst))
         else if selftest_ret h \<noteq> 0
         then (False, devid,
               report report_fail (CritN ''PREFLIGHT FAIL: GYRO #%u SELFTEST FAILED'' inst))
         else (True, devid, [])))"

definition baroCheck ::
    "sensor \<Rightarrow> nat \<Rightarrow> bool \<Rightarrow> int \<Rightarrow> bool \<Rightarrow> bool \<times> int \<times> log_entry list" where
  "baroCheck h inst optional device_id report_fail =
     (if \<not> handle_valid h
      then (False, device_id,
            report (\<not> optional \<and> report_fail) (CritN ''PREFLIGHT FAIL: NO BARO SENSOR #%u'' inst))
      else (True, -1000, []))"

definition airspeedCheck :: "preflight_env \<Rightarrow> bool \<Rightarrow> bool \<times> log_entry list" where
  "airspeedCheck env report_fail =
     (if airspeed_copy_ret env \<noteq> 0 \<or> airspeed_age env > 500 * 1000
      then (False, report report_fail (Crit ''PREFLIGHT FAIL: AIRSPEED SENSOR MISSING''))
      else if f32_gt (f32_abs (airspeed_ias env)) 0x40C00000
      then (True, report report_fail (Crit ''AIRSPEED WARNING: WIND OR CALIBRATION ISSUE''))
      else (True, []))"

definition gnssCheck :: "preflight_env \<Rightarrow> bool \<Rightarrow> bool \<times> log_entry list" where
  "gnssCheck env report_fail =
     (let success = (if gps_poll_ret env \<le> 0 then False
                     else \<not> (gps_copy_ret env \<noteq> 0 \<or> gps_age env > 1000000))
      in (success, report (\<not> success \<and> report_fail) (Crit ''PREFLIGHT FAIL: GPS RECEIVER MISSING'')))"

section \<open>The whole check\<close>

text \<open>
  The loop over the sensors of one kind: it accumulates whether a mandatory sensor failed,
  whether the primary device was seen, and the log.
\<close>

fun sensor_loop :: "(nat \<Rightarrow> bool \<Rightarrow> bool \<times> int \<times> log_entry list) \<Rightarrow> nat \<Rightarrow> int \<Rightarrow> nat list
    \<Rightarrow> bool \<times> bool \<times> log_entry list" where
  "sensor_loop check mandatory prime_id [] = (False, False, [])"
| "sensor_loop check mandatory prime_id (i # is) =
     (let required = i < mandatory;
          (ok, device_id, log) = check i (\<not> required);
          (failed, prime_found, log') = sensor_loop check mandatory prime_id is
      in ((\<not> ok \<and> required) \<or> failed, device_id = prime_id \<or> prime_found, log @ log'))"

definition sensor_group :: "(nat \<Rightarrow> bool \<Rightarrow> bool \<times> int \<times> log_entry list) \<Rightarrow> nat \<Rightarrow> nat \<Rightarrow> int
    \<Rightarrow> bool \<Rightarrow> string \<Rightarrow> bool \<times> log_entry list" where
  "sensor_group check mandatory count prime_id reportFailures msg =
     (let (failed, prime_found, log) = sensor_loop check mandatory prime_id [0..<count]
      in if \<not> prime_found \<and> prime_id \<noteq> 0
         then (True, log @ report reportFailures (Crit msg)) else (failed, log))"

definition check_mags :: "preflight_env \<Rightarrow> bool \<Rightarrow> bool \<times> log_entry list" where
  "check_mags env rep =
     sensor_group (\<lambda>i optional. magnometerCheck (mag env i) i optional (-1) rep)
       max_mandatory_mag_count max_optional_mag_count (mag_prime env) rep
       ''Warning: Primary compass not found''"

definition check_accels :: "preflight_env \<Rightarrow> bool \<Rightarrow> bool \<Rightarrow> bool \<times> log_entry list" where
  "check_accels env checkDynamic rep =
     sensor_group (\<lambda>i optional. accelerometerCheck (accel env i) i optional checkDynamic (-1) rep)
       max_mandatory_accel_count max_optional_accel_count (acc_prime env) rep
       ''Warning: Primary accelerometer not found''"

definition check_gyros :: "preflight_env \<Rightarrow> bool \<Rightarrow> bool \<times> log_entry list" where
  "check_gyros env rep =
     sensor_group (\<lambda>i optional. gyroCheck (gyro env i) i optional (-1) rep)
       max_mandatory_gyro_count max_optional_gyro_count (gyro_prime env) rep
       ''Warning: Primary gyro not found''"

definition check_baros :: "preflight_env \<Rightarrow> bool \<Rightarrow> bool \<times> log_entry list" where
  "check_baros env rep =
     sensor_group (\<lambda>i optional. baroCheck (baro env i) i optional (-1) rep)
       max_mandatory_baro_count max_optional_baro_count (baro_prime env) rep
       ''warning: primary barometer not operational''"

definition check_rc :: "preflight_env \<Rightarrow> bool \<Rightarrow> bool \<times> log_entry list" where
  "check_rc env rep =
     (if rc_calibration_ret env \<noteq> 0 then (True, report rep (Crit ''RC calibration check failed''))
      else (False, []))"

definition run_if :: "bool \<Rightarrow> bool \<times> log_entry list \<Rightarrow> bool \<times> log_entry list" where
  "run_if on r = (if on then r else (False, []))"

definition preflightCheck :: "preflight_env \<Rightarrow> bool \<Rightarrow> bool \<Rightarrow> bool \<Rightarrow> bool \<Rightarrow> bool \<Rightarrow> bool \<Rightarrow> bool
    \<Rightarrow> bool \<Rightarrow> bool \<Rightarrow> bool \<times> log_entry list" where
  "preflightCheck env checkMag checkAcc checkGyro checkBaro checkAirspeed checkRC checkGNSS
       checkDynamic reportFailures =
     (let (f1, l1) = run_if checkMag (check_mags env reportFailures);
          (f2, l2) = run_if checkAcc (check_accels env checkDynamic reportFailures);
          (f3, l3) = run_if checkGyro (check_gyros env reportFailures);
          (f4, l4) = run_if checkBaro (check_baros env reportFailures);
          (f5, l5) = run_if checkAirspeed (apfst Not (airspeedCheck env reportFailures));
          (f6, l6) = run_if checkRC (check_rc env reportFailures);
          (f7, l7) = run_if checkGNSS (apfst Not (gnssCheck env reportFailures))
      in (\<not> (f1 \<or> f2 \<or> f3 \<or> f4 \<or> f5 \<or> f6 \<or> f7), l1 @ l2 @ l3 @ l4 @ l5 @ l6 @ l7))"

section \<open>What a pass means\<close>

text \<open>The declarative reading of the check, sensor kind by sensor kind.\<close>

definition calibrated :: "sensor \<Rightarrow> bool" where
  "calibrated h \<longleftrightarrow> caltest_ret h = 0 \<or> Some (deviceid_ret h) \<in> set (cal_params h)"

definition healthy :: "sensor \<Rightarrow> bool" where
  "healthy h \<longleftrightarrow> handle_valid h \<and> calibrated h \<and> selftest_ret h = 0"

definition accel_still :: "sensor \<Rightarrow> bool" where
  "accel_still h \<longleftrightarrow> (case accel_read h of None \<Rightarrow> False
     | Some a \<Rightarrow> \<not> f32_lt a 0x40800000 \<and> \<not> f32_lt 0x41700000 a)"

definition prime_ok :: "int \<Rightarrow> (nat \<Rightarrow> sensor) \<Rightarrow> bool" where
  "prime_ok prime_id s \<longleftrightarrow>
     prime_id = 0 \<or> (\<exists>i\<in>{0, 1, 2}. (if handle_valid (s i) then deviceid_ret (s i) else -1) = prime_id)"

lemma cal_param_search_iff: "cal_param_search d ps \<longleftrightarrow> Some d \<in> set ps"
  by (induction d ps rule: cal_param_search.induct) auto

lemma check_calibration_iff: "check_calibration h = (\<not> calibrated h, deviceid_ret h)"
  by (simp add: check_calibration_def calibrated_def cal_param_search_iff Let_def)

lemma magnometerCheck_result:
  "fst (magnometerCheck h i opt (-1) rep) = healthy h"
  "fst (snd (magnometerCheck h i opt (-1) rep)) = (if handle_valid h then deviceid_ret h else -1)"
  by (simp_all add: magnometerCheck_def check_calibration_iff healthy_def)

lemma gyroCheck_result:
  "fst (gyroCheck h i opt (-1) rep) = healthy h"
  "fst (snd (gyroCheck h i opt (-1) rep)) = (if handle_valid h then deviceid_ret h else -1)"
  by (simp_all add: gyroCheck_def check_calibration_iff healthy_def)

lemma accelerometerCheck_result:
  "fst (accelerometerCheck h i opt dyn (-1) rep) = (healthy h \<and> (dyn \<longrightarrow> accel_still h))"
  "fst (snd (accelerometerCheck h i opt dyn (-1) rep)) = (if handle_valid h then deviceid_ret h else -1)"
  by (auto simp: accelerometerCheck_def check_calibration_iff healthy_def accel_still_def
      f32_gt_def split: option.splits)

lemma upt_3: "[0..<3::nat] = [0, 1, 2]"
  by (simp add: upt_rec)

lemma sensor_group_three:
  assumes "\<And>i opt. fst (check i opt) = ok i"
    and "\<And>i opt. fst (snd (check i opt)) = (if handle_valid (s i) then deviceid_ret (s i) else -1)"
  shows "fst (sensor_group check 1 3 prime rep msg) \<longleftrightarrow> \<not> (ok 0 \<and> prime_ok prime s)"
  using assms
  by (auto simp: sensor_group_def upt_3 prime_ok_def Let_def split_beta)

lemma check_mags_iff: "fst (check_mags env rep) \<longleftrightarrow>
    \<not> (healthy (mag env 0) \<and> prime_ok (mag_prime env) (mag env))"
  unfolding check_mags_def sensor_counts
  by (rule sensor_group_three) (simp_all add: magnometerCheck_result)

lemma check_gyros_iff: "fst (check_gyros env rep) \<longleftrightarrow>
    \<not> (healthy (gyro env 0) \<and> prime_ok (gyro_prime env) (gyro env))"
  unfolding check_gyros_def sensor_counts
  by (rule sensor_group_three) (simp_all add: gyroCheck_result)

lemma check_accels_iff: "fst (check_accels env dyn rep) \<longleftrightarrow>
    \<not> (healthy (accel env 0) \<and> (dyn \<longrightarrow> accel_still (accel env 0)) \<and>
       prime_ok (acc_prime env) (accel env))"
  unfolding check_accels_def sensor_counts
  by (subst sensor_group_three [where s = "accel env"
        and ok = "\<lambda>i. healthy (accel env i) \<and> (dyn \<longrightarrow> accel_still (accel env i))"])
     (simp_all add: accelerometerCheck_result)

lemma check_baros_iff: "fst (check_baros env rep) \<longleftrightarrow>
    \<not> (handle_valid (baro env 0) \<and> (baro_prime env = 0 \<or> baro_prime env = -1000))"
  by (auto simp: check_baros_def sensor_counts sensor_group_def baroCheck_def Let_def split_beta)

lemma airspeedCheck_iff: "fst (airspeedCheck env rep) \<longleftrightarrow>
    airspeed_copy_ret env = 0 \<and> airspeed_age env \<le> 500000"
  by (auto simp: airspeedCheck_def not_less)

lemma gnssCheck_iff: "fst (gnssCheck env rep) \<longleftrightarrow>
    0 < gps_poll_ret env \<and> gps_copy_ret env = 0 \<and> gps_age env \<le> 1000000"
  by (auto simp: gnssCheck_def Let_def not_less)

lemma fst_run_if: "fst (run_if on r) \<longleftrightarrow> on \<and> fst r"
  by (simp add: run_if_def)

lemma preflightCheck_iff:
  "fst (preflightCheck env cM cA cG cB cAir cRC cGN dyn rep) \<longleftrightarrow>
     \<not> (cM \<and> fst (check_mags env rep)) \<and> \<not> (cA \<and> fst (check_accels env dyn rep)) \<and>
     \<not> (cG \<and> fst (check_gyros env rep)) \<and> \<not> (cB \<and> fst (check_baros env rep)) \<and>
     (cAir \<longrightarrow> fst (airspeedCheck env rep)) \<and> (cRC \<longrightarrow> rc_calibration_ret env = 0) \<and>
     (cGN \<longrightarrow> fst (gnssCheck env rep))"
  by (auto simp: preflightCheck_def Let_def split_beta fst_run_if check_rc_def)

subsection \<open>Reporting\<close>

text \<open>A check that fails while reporting is on logs a reason, and nothing is logged otherwise.\<close>

definition reports :: "bool \<Rightarrow> bool \<times> log_entry list \<Rightarrow> bool" where
  "reports rep r \<longleftrightarrow> (fst r \<and> rep \<longrightarrow> snd r \<noteq> []) \<and> (\<not> rep \<longrightarrow> snd r = [])"

lemma report_simps [simp]: "report True l = [l]" "report False l = []"
  by (simp_all add: report_def)

lemma sensor_loop_reports:
  assumes "\<And>i opt. \<not> rep \<Longrightarrow> snd (snd (check i opt)) = []"
    and "\<And>i. rep \<Longrightarrow> \<not> fst (check i False) \<Longrightarrow> snd (snd (check i False)) \<noteq> []"
  shows "(fst (sensor_loop check m p is) \<and> rep \<longrightarrow> snd (snd (sensor_loop check m p is)) \<noteq> []) \<and>
    (\<not> rep \<longrightarrow> snd (snd (sensor_loop check m p is)) = [])"
  using assms by (induction "is") (auto simp: Let_def split_beta)

lemma sensor_group_reports:
  assumes "\<And>i opt. \<not> rep \<Longrightarrow> snd (snd (check i opt)) = []"
    and "\<And>i. rep \<Longrightarrow> \<not> fst (check i False) \<Longrightarrow> snd (snd (check i False)) \<noteq> []"
  shows "reports rep (sensor_group check m n p rep msg)"
  using sensor_loop_reports [of rep check, OF assms, of m p "[0..<n]"]
  by (cases rep) (auto simp: sensor_group_def reports_def Let_def split_beta)

lemma accelerometerCheck_log:
  "snd (snd (accelerometerCheck h i opt dyn d False)) = []"
  "\<not> fst (accelerometerCheck h i False dyn d True) \<Longrightarrow>
     snd (snd (accelerometerCheck h i False dyn d True)) \<noteq> []"
  by (cases "accel_read h"; force simp: accelerometerCheck_def split_beta split: if_splits)+

lemma group_reports:
  "reports rep (check_mags env rep)" "reports rep (check_accels env dyn rep)"
  "reports rep (check_gyros env rep)" "reports rep (check_baros env rep)"
  unfolding check_mags_def check_accels_def check_gyros_def check_baros_def
  by (rule sensor_group_reports; cases rep;
      simp add: magnometerCheck_def accelerometerCheck_log gyroCheck_def baroCheck_def
        split_beta split: if_splits)+

lemma single_reports:
  "reports rep (apfst Not (airspeedCheck env rep))" "reports rep (apfst Not (gnssCheck env rep))"
  "reports rep (check_rc env rep)"
  by (auto simp: airspeedCheck_def gnssCheck_def check_rc_def reports_def Let_def)

lemma run_if_reports: "reports rep r \<Longrightarrow> reports rep (run_if on r)"
  by (simp add: run_if_def reports_def)

lemma preflightCheck_reports:
  "reports rep (apfst Not (preflightCheck env cM cA cG cB cAir cRC cGN dyn rep))"
proof -
  note r = group_reports(1,3,4) [THEN run_if_reports, of rep] group_reports(2) [THEN run_if_reports]
    single_reports [THEN run_if_reports]
  show ?thesis
    using r(1) [of cM env] r(2) [of cG env] r(3) [of cB env] r(4) [of rep cA env dyn]
      r(5) [of rep cAir env] r(6) [of rep cGN env] r(7) [of rep cRC env]
    by (auto simp: preflightCheck_def Let_def split_beta reports_def)
qed

section \<open>Properties\<close>

text \<open>An environment in which every device answers well, and one with a broken second compass.\<close>

definition good_sensor :: "int \<Rightarrow> sensor" where
  "good_sensor n = \<lparr>handle_valid = True, caltest_ret = 0, deviceid_ret = n, selftest_ret = 0,
     cal_params = [], accel_read = Some 0x411CCCCD\<rparr>"

definition good_env :: preflight_env where
  "good_env = \<lparr>mag = (\<lambda>i. good_sensor (int i)), accel = (\<lambda>i. good_sensor (int i)),
     gyro = (\<lambda>i. good_sensor (int i)), baro = (\<lambda>i. good_sensor (int i)),
     mag_prime = 0, acc_prime = 0, gyro_prime = 0, baro_prime = 0,
     airspeed_copy_ret = 0, airspeed_age = 0, airspeed_ias = 0, rc_calibration_ret = 0,
     gps_poll_ret = 1, gps_copy_ret = 0, gps_age = 0\<rparr>"

lemma good_accel_still: "accel_still (good_sensor n)"
  by (simp add: accel_still_def good_sensor_def f32_lt_def f32_key_def f32_is_nan_def
      f32_magnitude_def)



text \<open>
  A preflight check that fails while failures are to be reported logs at least one line,
  and a check that is not to report logs nothing.
\<close>

theorem preflight_failure_logged:
  "\<not> (\<not> fst (preflightCheck env cM cA cG cB cAir cRC cGN dyn True) \<and>
      snd (preflightCheck env cM cA cG cB cAir cRC cGN dyn True) = []) \<and>
   snd (preflightCheck env cM cA cG cB cAir cRC cGN dyn False) = []"
  using preflightCheck_reports [of True env cM cA cG cB cAir cRC cGN dyn]
    preflightCheck_reports [of False env cM cA cG cB cAir cRC cGN dyn]
  by (auto simp: reports_def)

text \<open>
  The verdict does not depend on the calibration or self test of the second and third
  compass, accelerometer or gyroscope: an optional sensor that is found but not in working
  condition never fails the check.
\<close>

theorem preflight_ignores_optional:
  assumes "mag env' = (\<lambda>i. if i = 0 then mag env 0
      else (mag env i)\<lparr>caltest_ret := c i, selftest_ret := t i, cal_params := p i\<rparr>)"
    and "accel env' = accel env" "gyro env' = gyro env" "baro env' = baro env"
    and "mag_prime env' = mag_prime env" "acc_prime env' = acc_prime env"
      "gyro_prime env' = gyro_prime env" "baro_prime env' = baro_prime env"
  shows "fst (preflightCheck env' cM cA cG cB False False False dyn rep)
       = fst (preflightCheck env cM cA cG cB False False False dyn rep)"
  by (auto simp: preflightCheck_iff check_mags_iff check_accels_iff check_gyros_iff
      check_baros_iff assms prime_ok_def split: if_splits)

definition bad_mag_env :: preflight_env where
  "bad_mag_env = good_env\<lparr>mag := \<lambda>i. if i = 0 then good_sensor 0
     else (good_sensor (int i))\<lparr>caltest_ret := 0, selftest_ret := -1, cal_params := []\<rparr>\<rparr>"

theorem preflight_ignores_optional_witness:
  "fst (preflightCheck bad_mag_env True True True True False False False True True)
   = fst (preflightCheck good_env True True True True False False False True True) \<and>
   fst (magnometerCheck (mag bad_mag_env 1) 1 True (-1) True) = False"
proof
  show "fst (preflightCheck bad_mag_env True True True True False False False True True)
      = fst (preflightCheck good_env True True True True False False False True True)"
    by (rule preflight_ignores_optional [where c = "\<lambda>_. 0" and t = "\<lambda>_. -1" and p = "\<lambda>_. []"])
       (simp_all add: bad_mag_env_def good_env_def fun_eq_iff)
  show "fst (magnometerCheck (mag bad_mag_env 1) 1 True (-1) True) = False"
    by (simp add: bad_mag_env_def magnometerCheck_result healthy_def)
qed

end
