(* ===== verification/StateMachine.thy ===== *)
theory StateMachine
  imports Preflight
begin

text \<open>
  The vehicle state machines of the commander (\<open>src/modules/commander/state_machine_helper.cpp\<close>):
  arming, main mode, hardware-in-the-loop (HIL), the navigation state with its failsafe
  ladder, and the pre-arm check that gates arming.

  The C++ functions update the status and actuator records through pointers; here each returns
  the updated records, its result and the lines it logs.  What one call of the preflight check
  reads is a \<^typ>\<open>preflight_env\<close>.
\<close>

section \<open>State\<close>

datatype arming_state = ARMING_STATE_INIT | ARMING_STATE_STANDBY | ARMING_STATE_ARMED
  | ARMING_STATE_ARMED_ERROR | ARMING_STATE_STANDBY_ERROR | ARMING_STATE_REBOOT
  | ARMING_STATE_IN_AIR_RESTORE

datatype main_state = MAIN_STATE_MANUAL | MAIN_STATE_ALTCTL | MAIN_STATE_POSCTL
  | MAIN_STATE_AUTO_MISSION | MAIN_STATE_AUTO_LOITER | MAIN_STATE_AUTO_RTL | MAIN_STATE_ACRO
  | MAIN_STATE_OFFBOARD | MAIN_STATE_STAB | MAIN_STATE_RATTITUDE | MAIN_STATE_AUTO_TAKEOFF
  | MAIN_STATE_MAX

datatype hil_state = HIL_STATE_OFF | HIL_STATE_ON | HIL_STATE_OTHER u8

datatype navigation_state = NAVIGATION_STATE_MANUAL | NAVIGATION_STATE_ALTCTL
  | NAVIGATION_STATE_POSCTL | NAVIGATION_STATE_AUTO_MISSION | NAVIGATION_STATE_AUTO_LOITER
  | NAVIGATION_STATE_AUTO_RTL | NAVIGATION_STATE_AUTO_RCRECOVER | NAVIGATION_STATE_AUTO_RTGS
  | NAVIGATION_STATE_AUTO_LANDENGFAIL | NAVIGATION_STATE_AUTO_LANDGPSFAIL
  | NAVIGATION_STATE_ACRO | NAVIGATION_STATE_LAND | NAVIGATION_STATE_DESCEND
  | NAVIGATION_STATE_TERMINATION | NAVIGATION_STATE_OFFBOARD | NAVIGATION_STATE_STAB
  | NAVIGATION_STATE_RATTITUDE | NAVIGATION_STATE_AUTO_TAKEOFF

datatype transition_result = TRANSITION_DENIED | TRANSITION_NOT_CHANGED | TRANSITION_CHANGED

text \<open>The fields of the vehicle status that the commander's decisions read or write.\<close>

record vehicle_status =
  timestamp :: u64
  main_state :: main_state
  nav_state :: navigation_state
  arming_state :: arming_state
  hil_state :: hil_state
  failsafe :: bool
  system_id :: u32
  component_id :: u32
  is_rotary_wing :: bool
  is_vtol :: bool
  vtol_fw_permanent_stab :: bool
  in_transition_mode :: bool
  condition_system_sensors_initialized :: bool
  condition_system_prearm_error_reported :: bool
  condition_system_hotplug_timeout :: bool
  condition_global_position_valid :: bool
  condition_home_position_valid :: bool
  condition_local_position_valid :: bool
  condition_local_altitude_valid :: bool
  condition_landed :: bool
  condition_power_input_valid :: bool
  avionics_power_rail_voltage :: f32
  usb_connected :: bool
  rc_signal_lost :: bool
  rc_signal_lost_cmd :: bool
  rc_input_mode :: u8
  data_link_lost :: bool
  data_link_lost_cmd :: bool
  engine_failure :: bool
  engine_failure_cmd :: bool
  gps_failure :: bool
  gps_failure_cmd :: bool
  offboard_control_signal_lost :: bool
  offboard_control_set_by_command :: bool
  circuit_breaker_engaged_power_check :: bool
  circuit_breaker_engaged_airspd_check :: bool
  circuit_breaker_engaged_gpsfailure_check :: bool
  cb_usb :: bool

record safety =
  safety_switch_available :: bool
  safety_off :: bool

record actuator_armed =
  armed :: bool
  ready_to_arm :: bool
  lockdown :: bool
  force_failsafe :: bool

section \<open>The pre-arm check\<close>

definition RC_IN_MODE_DEFAULT :: u8 where "RC_IN_MODE_DEFAULT = 0"

text \<open>\<open>preflight_check\<close> returns whether the check failed, and the status with its report flag.\<close>

definition preflight_check :: "preflight_env \<Rightarrow> int \<Rightarrow> bool \<Rightarrow> bool \<Rightarrow> vehicle_status
    \<Rightarrow> bool \<times> vehicle_status \<times> log_entry list" where
  "preflight_check env mavlink_fd prearm force_report status =
     (let reportFailures = (force_report \<or> \<not> condition_system_prearm_error_reported status \<and>
            condition_system_hotplug_timeout status);
          checkAirspeed = (\<not> circuit_breaker_engaged_airspd_check status \<and>
            (\<not> is_rotary_wing status \<or> is_vtol status));
          (ok, log) = preflightCheck env True True True True checkAirspeed
            (rc_input_mode status = RC_IN_MODE_DEFAULT)
            (\<not> circuit_breaker_engaged_gpsfailure_check status) True reportFailures;
          usb = (\<not> cb_usb status \<and> usb_connected status \<and> prearm);
          preflight_ok = (ok \<and> \<not> usb);
          log' = log @ (if usb \<and> reportFailures
            then [Crit ''NOT ARMING: Flying with USB connected prohibited''] else []);
          status' = (if mavlink_fd \<ge> 0 \<and> reportFailures \<and> \<not> preflight_ok
            then status\<lparr>condition_system_prearm_error_reported := True\<rparr> else status)
      in (\<not> preflight_ok, status', log'))"

section \<open>Arming\<close>

text \<open>The table of allowed transitions: the new state first, then the current one.\<close>

fun arming_transitions :: "arming_state \<Rightarrow> arming_state \<Rightarrow> bool" where
  "arming_transitions ARMING_STATE_INIT c =
     (c \<in> {ARMING_STATE_INIT, ARMING_STATE_STANDBY, ARMING_STATE_STANDBY_ERROR})"
| "arming_transitions ARMING_STATE_STANDBY c =
     (c \<in> {ARMING_STATE_INIT, ARMING_STATE_STANDBY, ARMING_STATE_ARMED, ARMING_STATE_ARMED_ERROR})"
| "arming_transitions ARMING_STATE_ARMED c =
     (c \<in> {ARMING_STATE_STANDBY, ARMING_STATE_ARMED, ARMING_STATE_IN_AIR_RESTORE})"
| "arming_transitions ARMING_STATE_ARMED_ERROR c =
     (c \<in> {ARMING_STATE_ARMED, ARMING_STATE_ARMED_ERROR})"
| "arming_transitions ARMING_STATE_STANDBY_ERROR c =
     (c \<in> {ARMING_STATE_INIT, ARMING_STATE_STANDBY, ARMING_STATE_ARMED, ARMING_STATE_ARMED_ERROR,
           ARMING_STATE_STANDBY_ERROR})"
| "arming_transitions ARMING_STATE_REBOOT c =
     (c \<in> {ARMING_STATE_INIT, ARMING_STATE_STANDBY, ARMING_STATE_STANDBY_ERROR,
           ARMING_STATE_REBOOT, ARMING_STATE_IN_AIR_RESTORE})"
| "arming_transitions ARMING_STATE_IN_AIR_RESTORE c = False"

text \<open>
  The pre-arm check and the preflight check that is repeated while the sensors are failing; the
  second one overwrites the verdict of the first.
\<close>

definition arming_prechecks :: "preflight_env \<Rightarrow> preflight_env \<Rightarrow> int \<Rightarrow> bool \<Rightarrow> arming_state
    \<Rightarrow> vehicle_status \<Rightarrow> bool \<times> vehicle_status \<times> log_entry list" where
  "arming_prechecks env1 env2 mavlink_fd fRunPreArmChecks new_state status =
     (let (prearm_ret, st1, log1) =
            (if fRunPreArmChecks \<and> new_state = ARMING_STATE_ARMED \<and> hil_state status = HIL_STATE_OFF
             then preflight_check env1 mavlink_fd True False status else (False, status, []))
      in if \<not> condition_system_sensors_initialized st1 \<and>
            (new_state = ARMING_STATE_ARMED \<or> new_state = ARMING_STATE_STANDBY) \<and>
            hil_state st1 = HIL_STATE_OFF
         then (let (ret, st2, log2) = preflight_check env2 mavlink_fd False False st1
               in (ret, st2\<lparr>condition_system_sensors_initialized := \<not> ret\<rparr>, log1 @ log2))
         else (prearm_ret, st1, log1))"

text \<open>Lockdown in HIL, with recovery from a pre-arm failure.\<close>

definition enforce_lockdown :: "bool \<Rightarrow> vehicle_status \<Rightarrow> actuator_armed
    \<Rightarrow> bool \<times> vehicle_status \<times> actuator_armed" where
  "enforce_lockdown prearm_ret status ar =
     (if hil_state status = HIL_STATE_ON
      then (False,
            status\<lparr>condition_system_sensors_initialized := True,
              arming_state := (if arming_state status = ARMING_STATE_STANDBY_ERROR
                then ARMING_STATE_STANDBY else arming_state status)\<rparr>,
            ar\<lparr>lockdown := True\<rparr>)
      else (prearm_ret, status, ar\<lparr>lockdown := False\<rparr>))"

text \<open>The power checks: whether they veto arming, whether they gave feedback, what they log.\<close>

definition power_checks :: "vehicle_status \<Rightarrow> bool \<times> bool \<times> log_entry list" where
  "power_checks status =
     (if circuit_breaker_engaged_power_check status then (True, False, [])
      else
        (let (v1, f1, l1) = (if \<not> condition_power_input_valid status
               then (False, True, [Crit ''NOT ARMING: Connect power module.''])
               else (True, False, []));
             volt = avionics_power_rail_voltage status;
             (v2, f2, l2) = (if condition_power_input_valid status \<and> f32_gt volt 0
               then (if f32_lt volt 0x40900000
                     then (False, True, [Crit ''NOT ARMING: Avionics power low: %6.2f Volt''])
                     else if f32_lt volt 0x409CCCCD
                     then (True, True, [Crit ''CAUTION: Avionics power low: %6.2f Volt''])
                     else if f32_gt volt 0x40ACCCCD
                     then (True, True, [Crit ''CAUTION: Avionics power high: %6.2f Volt''])
                     else (True, False, []))
               else (True, False, []))
         in (v1 \<and> v2, f1 \<or> f2, l1 @ l2)))"

text \<open>Secondary validation of a transition that the table allows.\<close>

definition arming_secondary :: "bool \<Rightarrow> arming_state \<Rightarrow> vehicle_status \<Rightarrow> safety
    \<Rightarrow> bool \<times> arming_state \<times> bool \<times> log_entry list" where
  "arming_secondary prearm_ret new_state status safety =
     (if new_state = ARMING_STATE_ARMED then
        (if arming_state status \<noteq> ARMING_STATE_IN_AIR_RESTORE \<and> hil_state status = HIL_STATE_OFF
         then
           (let (v, f, l) = (if prearm_ret then (False, True, [])
                  else if safety_switch_available safety \<and> \<not> safety_off safety
                  then (False, True, [Crit ''NOT ARMING: Press safety switch first!''])
                  else (True, False, []));
                (vp, fp, lp) = power_checks status
            in (v \<and> vp, new_state, f \<or> fp, l @ lp))
         else (True, new_state, False, []))
      else if new_state = ARMING_STATE_STANDBY \<and> arming_state status = ARMING_STATE_ARMED_ERROR
      then (True, ARMING_STATE_STANDBY_ERROR, False, [])
      else (True, new_state, False, []))"

text \<open>The last gate: feedback in STANDBY_ERROR, and sensors that must be up for STANDBY.\<close>

definition standby_gate :: "bool \<Rightarrow> arming_state \<Rightarrow> vehicle_status
    \<Rightarrow> bool \<times> bool \<times> vehicle_status \<times> log_entry list" where
  "standby_gate valid new_state status =
     (if arming_state status = ARMING_STATE_STANDBY_ERROR then
        (valid, True, status,
         (if new_state = ARMING_STATE_ARMED
          then (if condition_system_sensors_initialized status
                then [Crit ''Preflight check resolved, reboot before arming'']
                else [Crit ''Preflight check failed, refusing to arm''])
          else if new_state = ARMING_STATE_STANDBY \<and> condition_system_sensors_initialized status
          then [Crit ''Preflight check resolved, reboot to complete'']
          else []))
      else if hil_state status \<noteq> HIL_STATE_ON \<and> new_state = ARMING_STATE_STANDBY \<and>
        arming_state status \<noteq> ARMING_STATE_STANDBY_ERROR \<and>
        \<not> condition_system_sensors_initialized status
      then
        (if (\<not> condition_system_prearm_error_reported status \<and>
             condition_system_hotplug_timeout status) \<or> new_state = ARMING_STATE_ARMED
         then (False, True, status\<lparr>condition_system_prearm_error_reported := True\<rparr>,
               [Crit ''Not ready to fly: Sensors need inspection''])
         else (False, True, status, []))
      else (valid, False, status, []))"

definition finish_transition :: "bool \<Rightarrow> arming_state \<Rightarrow> vehicle_status \<Rightarrow> actuator_armed
    \<Rightarrow> transition_result \<times> vehicle_status \<times> actuator_armed" where
  "finish_transition valid new_state status ar =
     (let (ret, st, ar') =
            (if valid
             then (TRANSITION_CHANGED, status\<lparr>arming_state := new_state\<rparr>,
                   ar\<lparr>armed := new_state = ARMING_STATE_ARMED \<or> new_state = ARMING_STATE_ARMED_ERROR,
                      ready_to_arm := new_state = ARMING_STATE_ARMED \<or> new_state = ARMING_STATE_STANDBY\<rparr>)
             else (TRANSITION_DENIED, status, ar));
          st' = (if arming_state st \<noteq> ARMING_STATE_STANDBY_ERROR \<and>
                    arming_state st \<noteq> ARMING_STATE_INIT \<and> valid
                 then st\<lparr>condition_system_prearm_error_reported := False\<rparr> else st)
      in (ret, st', ar'))"

definition arming_state_transition :: "preflight_env \<Rightarrow> preflight_env \<Rightarrow> int \<Rightarrow> safety \<Rightarrow> arming_state
    \<Rightarrow> bool \<Rightarrow> vehicle_status \<Rightarrow> actuator_armed
    \<Rightarrow> transition_result \<times> vehicle_status \<times> actuator_armed \<times> log_entry list" where
  "arming_state_transition env1 env2 mavlink_fd safety new_arming_state fRunPreArmChecks status ar =
     (if new_arming_state = arming_state status then (TRANSITION_NOT_CHANGED, status, ar, [])
      else
        (let (prearm_ret0, st1, log1) =
               arming_prechecks env1 env2 mavlink_fd fRunPreArmChecks new_arming_state status;
             (prearm_ret, st2, ar2) = enforce_lockdown prearm_ret0 st1 ar;
             valid0 = arming_transitions new_arming_state (arming_state st2);
             (valid1, new_state, fb1, log2) =
               (if valid0 then arming_secondary prearm_ret new_arming_state st2 safety
                else (False, new_arming_state, False, []));
             valid2 = (valid1 \<or> hil_state st2 = HIL_STATE_ON \<and> new_state = ARMING_STATE_STANDBY);
             (valid3, fb2, st3, log3) = standby_gate valid2 new_state st2;
             (ret, st4, ar4) = finish_transition valid3 new_state st3 ar2;
             log4 = (if ret = TRANSITION_DENIED \<and> \<not> (fb1 \<or> fb2) then [Crit ''INVAL: %s - %s''] else [])
         in (ret, st4, ar4, log1 @ log2 @ log3 @ log4)))"

definition is_safe :: "vehicle_status \<Rightarrow> safety \<Rightarrow> actuator_armed \<Rightarrow> bool" where
  "is_safe status safety ar \<longleftrightarrow>
     \<not> armed ar \<or> (armed ar \<and> lockdown ar) \<or> (safety_switch_available safety \<and> \<not> safety_off safety)"

section \<open>Main mode\<close>

definition main_state_transition :: "vehicle_status \<Rightarrow> main_state
    \<Rightarrow> transition_result \<times> vehicle_status" where
  "main_state_transition status new_main_state =
     (let ret =
        (case new_main_state of
           MAIN_STATE_MANUAL \<Rightarrow> TRANSITION_CHANGED
         | MAIN_STATE_ACRO \<Rightarrow> TRANSITION_CHANGED
         | MAIN_STATE_RATTITUDE \<Rightarrow> TRANSITION_CHANGED
         | MAIN_STATE_STAB \<Rightarrow> TRANSITION_CHANGED
         | MAIN_STATE_ALTCTL \<Rightarrow>
             if \<not> is_rotary_wing status \<or> (condition_local_altitude_valid status \<or>
                  condition_global_position_valid status)
             then TRANSITION_CHANGED else TRANSITION_DENIED
         | MAIN_STATE_POSCTL \<Rightarrow>
             if condition_local_position_valid status \<or> condition_global_position_valid status
             then TRANSITION_CHANGED else TRANSITION_DENIED
         | MAIN_STATE_AUTO_LOITER \<Rightarrow>
             if condition_global_position_valid status then TRANSITION_CHANGED else TRANSITION_DENIED
         | MAIN_STATE_AUTO_MISSION \<Rightarrow>
             if condition_global_position_valid status \<and> condition_home_position_valid status
             then TRANSITION_CHANGED else TRANSITION_DENIED
         | MAIN_STATE_AUTO_RTL \<Rightarrow>
             if condition_global_position_valid status \<and> condition_home_position_valid status
             then TRANSITION_CHANGED else TRANSITION_DENIED
         | MAIN_STATE_AUTO_TAKEOFF \<Rightarrow>
             if condition_global_position_valid status \<and> condition_home_position_valid status
             then TRANSITION_CHANGED else TRANSITION_DENIED
         | MAIN_STATE_OFFBOARD \<Rightarrow>
             if \<not> offboard_control_signal_lost status then TRANSITION_CHANGED else TRANSITION_DENIED
         | MAIN_STATE_MAX \<Rightarrow> TRANSITION_DENIED)
      in if ret = TRANSITION_CHANGED then
           (if main_state status \<noteq> new_main_state
            then (TRANSITION_CHANGED, status\<lparr>main_state := new_main_state\<rparr>)
            else (TRANSITION_NOT_CHANGED, status))
         else (ret, status))"

section \<open>Hardware in the loop\<close>

text \<open>
  What the switch to HIL reads from the system: the entries of the device directory (\<open>None\<close>
  when it cannot be opened) and the answer of \<open>open\<close> for a path on the NuttX targets, the
  virtual devices and the DriverFramework devices with their validity on the others.
\<close>

record device_env =
  dev_dir :: "string list option"
  dev_open :: "string \<Rightarrow> int"
  vdev_names :: "string list"
  df_devices :: "(string \<times> bool) list"

definition hil_skipped :: "string \<Rightarrow> bool" where
  "hil_skipped d \<longleftrightarrow> take 3 d = ''tty'' \<or> take 3 d = ''mtd'' \<or> take 3 d = ''ram'' \<or> take 3 d = ''mmc''
     \<or> d = ''mavlink'' \<or> d = ''console'' \<or> d = ''null''"

text \<open>The path is built in a buffer of 24 bytes, so it keeps at most 23 characters.\<close>

definition hil_devname :: "string \<Rightarrow> string" where
  "hil_devname d = take 23 (''/dev/'' @ d)"

text \<open>The devices whose publications are blocked, in order.\<close>

fun hil_block_nuttx :: "(string \<Rightarrow> int) \<Rightarrow> string list \<Rightarrow> string list" where
  "hil_block_nuttx op [] = []"
| "hil_block_nuttx op (d # ds) =
     (if hil_skipped d then hil_block_nuttx op ds
      else if op (hil_devname d) < 0 then hil_block_nuttx op ds
      else hil_devname d # hil_block_nuttx op ds)"

fun hil_block_vdev :: "(string \<Rightarrow> int) \<Rightarrow> string list \<Rightarrow> string list" where
  "hil_block_vdev op [] = []"
| "hil_block_vdev op (d # ds) =
     (if d = ''/dev/mavlink'' then hil_block_vdev op ds
      else if op d < 0 then hil_block_vdev op ds
      else d # hil_block_vdev op ds)"

fun hil_block_df :: "(string \<times> bool) list \<Rightarrow> string list" where
  "hil_block_df [] = []"
| "hil_block_df ((d, valid) # ds) = (if \<not> valid then hil_block_df ds else d # hil_block_df ds)"

text \<open>
  \<open>hil_state_transition\<close> returns its result, the status, whether the status was published, the
  devices blocked and the log; \<open>now\<close> is the time read when the change is published.
\<close>

definition hil_state_transition :: "bool \<Rightarrow> device_env \<Rightarrow> u64 \<Rightarrow> hil_state \<Rightarrow> vehicle_status
    \<Rightarrow> transition_result \<times> vehicle_status \<times> bool \<times> string list \<times> log_entry list" where
  "hil_state_transition nuttx env now new_state status =
     (let (ret, blocked, log) =
        (if hil_state status = new_state then (TRANSITION_NOT_CHANGED, [], [])
         else case new_state of
           HIL_STATE_OFF \<Rightarrow> (TRANSITION_DENIED, [], [Crit ''Not switching off HIL (safety)''])
         | HIL_STATE_ON \<Rightarrow>
             if arming_state status = ARMING_STATE_INIT \<or> arming_state status = ARMING_STATE_STANDBY
                \<or> arming_state status = ARMING_STATE_STANDBY_ERROR
             then
               (if nuttx then
                  (case dev_dir env of
                     Some ds \<Rightarrow> (TRANSITION_CHANGED, hil_block_nuttx (dev_open env) ds,
                                [Crit ''Switched to ON hil state''])
                   | None \<Rightarrow> (TRANSITION_DENIED, [], [Info ''FAILED LISTING DEVICE ROOT DIRECTORY'']))
                else (TRANSITION_CHANGED,
                      hil_block_vdev (dev_open env) (vdev_names env) @ hil_block_df (df_devices env),
                      [Crit ''Switched to ON hil state'']))
             else (TRANSITION_DENIED, [], [Crit ''Not switching to HIL when armed''])
         | HIL_STATE_OTHER _ \<Rightarrow> (TRANSITION_DENIED, [], []))
      in if ret = TRANSITION_CHANGED
         then (ret, status\<lparr>hil_state := new_state, timestamp := now\<rparr>, True, blocked, log)
         else (ret, status, False, blocked, log))"

section \<open>Navigation state\<close>

definition vehicle_armed :: "vehicle_status \<Rightarrow> bool" where
  "vehicle_armed status \<longleftrightarrow>
     arming_state status = ARMING_STATE_ARMED \<or> arming_state status = ARMING_STATE_ARMED_ERROR"

text \<open>The ladder of failsafe modes, from the one that needs a position down to termination.\<close>

definition nav_local_fallback :: "vehicle_status \<Rightarrow> navigation_state" where
  "nav_local_fallback status =
     (if condition_local_position_valid status then NAVIGATION_STATE_LAND
      else if condition_local_altitude_valid status then NAVIGATION_STATE_DESCEND
      else NAVIGATION_STATE_TERMINATION)"

definition nav_fallback :: "navigation_state \<Rightarrow> vehicle_status \<Rightarrow> navigation_state" where
  "nav_fallback best status =
     (if condition_global_position_valid status \<and> condition_home_position_valid status then best
      else nav_local_fallback status)"

definition nav_manual_modes :: "vehicle_status \<Rightarrow> vehicle_status" where
  "nav_manual_modes status =
     (if (rc_signal_lost status \<or> rc_signal_lost_cmd status) \<and> vehicle_armed status \<and>
         \<not> condition_landed status
      then status\<lparr>failsafe := True,
             nav_state := nav_fallback NAVIGATION_STATE_AUTO_RCRECOVER status\<rparr>
      else status\<lparr>nav_state :=
        (case main_state status of
           MAIN_STATE_ACRO \<Rightarrow> NAVIGATION_STATE_ACRO
         | MAIN_STATE_MANUAL \<Rightarrow> NAVIGATION_STATE_MANUAL
         | MAIN_STATE_RATTITUDE \<Rightarrow> NAVIGATION_STATE_RATTITUDE
         | MAIN_STATE_STAB \<Rightarrow> NAVIGATION_STATE_STAB
         | MAIN_STATE_ALTCTL \<Rightarrow> NAVIGATION_STATE_ALTCTL
         | MAIN_STATE_POSCTL \<Rightarrow> NAVIGATION_STATE_POSCTL
         | _ \<Rightarrow> NAVIGATION_STATE_MANUAL)\<rparr>)"

definition nav_auto_mission :: "bool \<Rightarrow> bool \<Rightarrow> bool \<Rightarrow> vehicle_status \<Rightarrow> vehicle_status" where
  "nav_auto_mission data_link_loss_enabled mission_finished stay_in_failsafe status =
     (if engine_failure_cmd status then status\<lparr>nav_state := NAVIGATION_STATE_AUTO_LANDENGFAIL\<rparr>
      else if data_link_lost_cmd status then status\<lparr>nav_state := NAVIGATION_STATE_AUTO_RTGS\<rparr>
      else if gps_failure_cmd status then status\<lparr>nav_state := NAVIGATION_STATE_AUTO_LANDGPSFAIL\<rparr>
      else if rc_signal_lost_cmd status then status\<lparr>nav_state := NAVIGATION_STATE_AUTO_RCRECOVER\<rparr>
      else if gps_failure status then status\<lparr>nav_state := NAVIGATION_STATE_AUTO_LANDGPSFAIL\<rparr>
      else if engine_failure status then status\<lparr>nav_state := NAVIGATION_STATE_AUTO_LANDENGFAIL\<rparr>
      else if data_link_loss_enabled \<and> data_link_lost status
      then status\<lparr>failsafe := True, nav_state := nav_fallback NAVIGATION_STATE_AUTO_RTGS status\<rparr>
      else if \<not> data_link_loss_enabled \<and> ((rc_signal_lost status \<and> data_link_lost status) \<or>
                (rc_signal_lost status \<and> mission_finished))
      then status\<lparr>failsafe := True, nav_state := nav_fallback NAVIGATION_STATE_AUTO_RCRECOVER status\<rparr>
      else if \<not> stay_in_failsafe then status\<lparr>nav_state := NAVIGATION_STATE_AUTO_MISSION\<rparr>
      else status)"

definition nav_auto_loiter :: "bool \<Rightarrow> vehicle_status \<Rightarrow> vehicle_status" where
  "nav_auto_loiter data_link_loss_enabled status =
     (if engine_failure status then status\<lparr>nav_state := NAVIGATION_STATE_AUTO_LANDENGFAIL\<rparr>
      else if data_link_lost status \<and> data_link_loss_enabled
      then status\<lparr>failsafe := True, nav_state := nav_fallback NAVIGATION_STATE_AUTO_RTGS status\<rparr>
      else if rc_signal_lost status \<and> \<not> data_link_loss_enabled
      then status\<lparr>failsafe := True, nav_state := nav_fallback NAVIGATION_STATE_AUTO_RTGS status\<rparr>
      else if rc_signal_lost status then status\<lparr>nav_state := NAVIGATION_STATE_AUTO_LOITER\<rparr>
      else status\<lparr>nav_state := NAVIGATION_STATE_AUTO_LOITER\<rparr>)"

text \<open>Return to launch and takeoff share their failsafe.\<close>

definition nav_auto_home :: "navigation_state \<Rightarrow> vehicle_status \<Rightarrow> vehicle_status" where
  "nav_auto_home normal status =
     (if engine_failure status then status\<lparr>nav_state := NAVIGATION_STATE_AUTO_LANDENGFAIL\<rparr>
      else if \<not> condition_global_position_valid status \<or> \<not> condition_home_position_valid status
      then status\<lparr>failsafe := True, nav_state := nav_local_fallback status\<rparr>
      else status\<lparr>nav_state := normal\<rparr>)"

definition nav_auto_rtl :: "vehicle_status \<Rightarrow> vehicle_status" where
  "nav_auto_rtl = nav_auto_home NAVIGATION_STATE_AUTO_RTL"

definition nav_auto_takeoff :: "vehicle_status \<Rightarrow> vehicle_status" where
  "nav_auto_takeoff = nav_auto_home NAVIGATION_STATE_AUTO_TAKEOFF"

definition nav_offboard :: "vehicle_status \<Rightarrow> vehicle_status" where
  "nav_offboard status =
     (if offboard_control_signal_lost status \<and> \<not> rc_signal_lost status
      then status\<lparr>failsafe := True, nav_state := NAVIGATION_STATE_POSCTL\<rparr>
      else if offboard_control_signal_lost status \<and> rc_signal_lost status
      then status\<lparr>failsafe := True, nav_state := nav_local_fallback status\<rparr>
      else status\<lparr>nav_state := NAVIGATION_STATE_OFFBOARD\<rparr>)"

definition set_nav_state :: "bool \<Rightarrow> bool \<Rightarrow> bool \<Rightarrow> vehicle_status \<Rightarrow> bool \<times> vehicle_status" where
  "set_nav_state data_link_loss_enabled mission_finished stay_in_failsafe status =
     (let nav_state_old = nav_state status;
          st = status\<lparr>failsafe := False\<rparr>;
          st' = (case main_state st of
              MAIN_STATE_ACRO \<Rightarrow> nav_manual_modes st
            | MAIN_STATE_MANUAL \<Rightarrow> nav_manual_modes st
            | MAIN_STATE_RATTITUDE \<Rightarrow> nav_manual_modes st
            | MAIN_STATE_STAB \<Rightarrow> nav_manual_modes st
            | MAIN_STATE_ALTCTL \<Rightarrow> nav_manual_modes st
            | MAIN_STATE_POSCTL \<Rightarrow> nav_manual_modes st
            | MAIN_STATE_AUTO_MISSION \<Rightarrow>
                nav_auto_mission data_link_loss_enabled mission_finished stay_in_failsafe st
            | MAIN_STATE_AUTO_LOITER \<Rightarrow> nav_auto_loiter data_link_loss_enabled st
            | MAIN_STATE_AUTO_RTL \<Rightarrow> nav_auto_rtl st
            | MAIN_STATE_AUTO_TAKEOFF \<Rightarrow> nav_auto_takeoff st
            | MAIN_STATE_OFFBOARD \<Rightarrow> nav_offboard st
            | MAIN_STATE_MAX \<Rightarrow> st)
      in (nav_state st' \<noteq> nav_state_old, st'))"

section \<open>What each part does\<close>

subsection \<open>The pre-arm check\<close>

text \<open>The sensors pass with the groups that the status selects; the verdict ignores reporting.\<close>

definition sensors_pass :: "preflight_env \<Rightarrow> vehicle_status \<Rightarrow> bool" where
  "sensors_pass env status = fst (preflightCheck env True True True True
     (\<not> circuit_breaker_engaged_airspd_check status \<and> (\<not> is_rotary_wing status \<or> is_vtol status))
     (rc_input_mode status = RC_IN_MODE_DEFAULT)
     (\<not> circuit_breaker_engaged_gpsfailure_check status) True False)"

definition usb_blocks :: "vehicle_status \<Rightarrow> bool" where
  "usb_blocks status \<longleftrightarrow> \<not> cb_usb status \<and> usb_connected status"

lemma preflightCheck_report_irrelevant:
  "fst (preflightCheck env cM cA cG cB cAir cRC cGN dyn rep)
   = fst (preflightCheck env cM cA cG cB cAir cRC cGN dyn False)"
  by (simp add: preflightCheck_iff check_mags_iff check_accels_iff check_gyros_iff check_baros_iff
      airspeedCheck_iff gnssCheck_iff)

lemma preflight_check_verdict:
  "fst (preflight_check env fd prearm force st) \<longleftrightarrow>
     \<not> (sensors_pass env st \<and> \<not> (prearm \<and> usb_blocks st))"
  unfolding preflight_check_def sensors_pass_def usb_blocks_def Let_def split_beta
  by (subst preflightCheck_report_irrelevant) auto

lemma reported_or:
  "(if c then st\<lparr>condition_system_prearm_error_reported := True\<rparr> else st)
   = st\<lparr>condition_system_prearm_error_reported := condition_system_prearm_error_reported st \<or> c\<rparr>"
  by (cases c) simp_all

lemma preflight_check_status:
  obtains b where "fst (snd (preflight_check env fd prearm force st))
    = st\<lparr>condition_system_prearm_error_reported := b\<rparr>"
proof -
  have "\<exists>b. fst (snd (preflight_check env fd prearm force st))
    = st\<lparr>condition_system_prearm_error_reported := b\<rparr>"
    unfolding preflight_check_def Let_def split_beta fst_conv snd_conv reported_or
    by (rule exI, rule refl)
  then show ?thesis using that by blast
qed

lemma preflight_check_result:
  obtains b log where "preflight_check env fd prearm force st =
    (\<not> (sensors_pass env st \<and> \<not> (prearm \<and> usb_blocks st)),
     st\<lparr>condition_system_prearm_error_reported := b\<rparr>, log)"
proof -
  let ?p = "preflight_check env fd prearm force st"
  obtain b where b: "fst (snd ?p) = st\<lparr>condition_system_prearm_error_reported := b\<rparr>"
    by (rule preflight_check_status)
  have "?p = (fst ?p, fst (snd ?p), snd (snd ?p))"
    by simp
  then show ?thesis
    unfolding b preflight_check_verdict by (rule that)
qed

lemma sensors_pass_reported [simp]:
  "sensors_pass env (st\<lparr>condition_system_prearm_error_reported := b\<rparr>) = sensors_pass env st"
  by (simp add: sensors_pass_def)

text \<open>The outcome of the checks before an arming transition.\<close>

definition prearm_fails :: "preflight_env \<Rightarrow> preflight_env \<Rightarrow> bool \<Rightarrow> arming_state \<Rightarrow> vehicle_status
    \<Rightarrow> bool" where
  "prearm_fails env1 env2 run new_state st \<longleftrightarrow>
     (if \<not> condition_system_sensors_initialized st \<and>
         (new_state = ARMING_STATE_ARMED \<or> new_state = ARMING_STATE_STANDBY) \<and>
         hil_state st = HIL_STATE_OFF
      then \<not> sensors_pass env2 st
      else run \<and> new_state = ARMING_STATE_ARMED \<and> hil_state st = HIL_STATE_OFF \<and>
        \<not> (sensors_pass env1 st \<and> \<not> usb_blocks st))"

definition sensors_up :: "preflight_env \<Rightarrow> arming_state \<Rightarrow> vehicle_status \<Rightarrow> bool" where
  "sensors_up env2 new_state st \<longleftrightarrow> condition_system_sensors_initialized st \<or>
     (new_state = ARMING_STATE_ARMED \<or> new_state = ARMING_STATE_STANDBY) \<and>
     hil_state st = HIL_STATE_OFF \<and> sensors_pass env2 st"

lemma first_precheck:
  obtains b log where
    "(if run then preflight_check env fd True False st else (False, st, []))
     = (run \<and> \<not> (sensors_pass env st \<and> \<not> usb_blocks st),
        st\<lparr>condition_system_prearm_error_reported := b\<rparr>, log)"
proof (cases run)
  case True
  then show ?thesis
    using preflight_check_result [of env fd True False st] that by auto
next
  case False
  then show ?thesis
    using that [of "condition_system_prearm_error_reported st" "[]"] by simp
qed

lemma arming_prechecks_result:
  "\<exists>b log. arming_prechecks env1 env2 fd run new_state st =
     (prearm_fails env1 env2 run new_state st,
      st\<lparr>condition_system_prearm_error_reported := b,
         condition_system_sensors_initialized := sensors_up env2 new_state st\<rparr>, log)"
proof -
  let ?run = "run \<and> new_state = ARMING_STATE_ARMED \<and> hil_state st = HIL_STATE_OFF"
  obtain b1 log1 where 1: "(if ?run then preflight_check env1 fd True False st else (False, st, []))
     = (?run \<and> \<not> (sensors_pass env1 st \<and> \<not> usb_blocks st),
        st\<lparr>condition_system_prearm_error_reported := b1\<rparr>, log1)"
    by (rule first_precheck)
  let ?st1 = "st\<lparr>condition_system_prearm_error_reported := b1\<rparr>"
  obtain b2 log2 where 2: "preflight_check env2 fd False False ?st1 =
      (\<not> sensors_pass env2 st, ?st1\<lparr>condition_system_prearm_error_reported := b2\<rparr>, log2)"
    using preflight_check_result [of env2 fd False False ?st1] by auto
  let ?again = "\<not> condition_system_sensors_initialized st \<and>
      (new_state = ARMING_STATE_ARMED \<or> new_state = ARMING_STATE_STANDBY) \<and>
      hil_state st = HIL_STATE_OFF"
  show ?thesis
  proof (cases ?again)
    case True
    then have up: "sensors_up env2 new_state st = sensors_pass env2 st"
      by (auto simp: sensors_up_def)
    have fails: "prearm_fails env1 env2 run new_state st = (\<not> sensors_pass env2 st)"
      using True by (simp add: prearm_fails_def)
    have "arming_prechecks env1 env2 fd run new_state st = (\<not> sensors_pass env2 st,
        ?st1\<lparr>condition_system_prearm_error_reported := b2,
          condition_system_sensors_initialized := sensors_pass env2 st\<rparr>, log1 @ log2)"
      unfolding arming_prechecks_def 1 using True 2 by simp
    then show ?thesis
      unfolding up fails by auto
  next
    case False
    then have up: "sensors_up env2 new_state st = condition_system_sensors_initialized st"
      by (auto simp: sensors_up_def)
    have fails: "prearm_fails env1 env2 run new_state st = (?run \<and> \<not> (sensors_pass env1 st \<and> \<not> usb_blocks st))"
      using False by (auto simp: prearm_fails_def)
    have same: "?st1 = ?st1\<lparr>condition_system_sensors_initialized :=
        condition_system_sensors_initialized st\<rparr>"
      by simp
    have "arming_prechecks env1 env2 fd run new_state st =
        (?run \<and> \<not> (sensors_pass env1 st \<and> \<not> usb_blocks st), ?st1, log1)"
      unfolding arming_prechecks_def 1 using False by auto
    then show ?thesis
      unfolding up fails by (subst (asm) same) blast
  qed
qed

subsection \<open>Arming\<close>

text \<open>
  The verdict on an arming request, read off the state before it: \<open>arming_target\<close> is the state
  that is entered, \<open>arming_from\<close> the current state after the recovery in HIL.
\<close>

definition power_ok :: "vehicle_status \<Rightarrow> bool" where
  "power_ok st \<longleftrightarrow> circuit_breaker_engaged_power_check st \<or>
     (condition_power_input_valid st \<and>
      \<not> (f32_lt 0 (avionics_power_rail_voltage st) \<and> f32_lt (avionics_power_rail_voltage st) 0x40900000))"

definition switch_ok :: "safety \<Rightarrow> bool" where
  "switch_ok saf \<longleftrightarrow> (safety_switch_available saf \<longrightarrow> safety_off saf)"

definition arming_from :: "vehicle_status \<Rightarrow> arming_state" where
  "arming_from st = (if hil_state st = HIL_STATE_ON \<and> arming_state st = ARMING_STATE_STANDBY_ERROR
     then ARMING_STATE_STANDBY else arming_state st)"

definition arming_target :: "arming_state \<Rightarrow> arming_state \<Rightarrow> arming_state" where
  "arming_target new_state cur = (if new_state = ARMING_STATE_STANDBY \<and> cur = ARMING_STATE_ARMED_ERROR
     then ARMING_STATE_STANDBY_ERROR else new_state)"

definition arming_accepts :: "preflight_env \<Rightarrow> preflight_env \<Rightarrow> safety \<Rightarrow> arming_state \<Rightarrow> bool
    \<Rightarrow> vehicle_status \<Rightarrow> bool" where
  "arming_accepts env1 env2 saf new_state run st \<longleftrightarrow>
     (if hil_state st = HIL_STATE_ON
      then arming_transitions new_state (arming_from st) \<or> new_state = ARMING_STATE_STANDBY
      else arming_transitions new_state (arming_state st) \<and>
        (new_state = ARMING_STATE_ARMED \<and> hil_state st = HIL_STATE_OFF \<and>
           arming_state st \<noteq> ARMING_STATE_IN_AIR_RESTORE \<longrightarrow>
         \<not> prearm_fails env1 env2 run new_state st \<and> switch_ok saf \<and> power_ok st) \<and>
        (new_state = ARMING_STATE_STANDBY \<longrightarrow>
         arming_state st = ARMING_STATE_ARMED_ERROR \<or> sensors_up env2 new_state st))"

lemma power_checks_verdict: "fst (power_checks st) = power_ok st"
  by (auto simp: power_checks_def power_ok_def f32_gt_def Let_def)

lemma arming_secondary_verdict:
  "fst (arming_secondary p new_state st saf) \<longleftrightarrow>
     (new_state = ARMING_STATE_ARMED \<and> hil_state st = HIL_STATE_OFF \<and>
        arming_state st \<noteq> ARMING_STATE_IN_AIR_RESTORE \<longrightarrow> \<not> p \<and> switch_ok saf \<and> power_ok st)"
  "fst (snd (arming_secondary p new_state st saf)) = arming_target new_state (arming_state st)"
  by (auto simp: arming_secondary_def arming_target_def switch_ok_def split_beta
      power_checks_verdict)

lemma standby_gate_verdict:
  "fst (standby_gate v new_state st) \<longleftrightarrow> v \<and>
     (hil_state st \<noteq> HIL_STATE_ON \<and> new_state = ARMING_STATE_STANDBY \<longrightarrow>
      arming_state st = ARMING_STATE_STANDBY_ERROR \<or> condition_system_sensors_initialized st)"
  "arming_state (fst (snd (snd (standby_gate v new_state st)))) = arming_state st"
  "hil_state (fst (snd (snd (standby_gate v new_state st)))) = hil_state st"
  by (auto simp: standby_gate_def)

lemma finish_transition_result:
  "fst (finish_transition v s st ar) = (if v then TRANSITION_CHANGED else TRANSITION_DENIED)"
  "arming_state (fst (snd (finish_transition v s st ar))) = (if v then s else arming_state st)"
  "hil_state (fst (snd (finish_transition v s st ar))) = hil_state st"
  "snd (snd (finish_transition v s st ar)) =
     (if v then ar\<lparr>armed := s = ARMING_STATE_ARMED \<or> s = ARMING_STATE_ARMED_ERROR,
        ready_to_arm := s = ARMING_STATE_ARMED \<or> s = ARMING_STATE_STANDBY\<rparr> else ar)"
  by (simp_all add: finish_transition_def)

lemma power_ok_irrelevant [simp]:
  "power_ok (st\<lparr>condition_system_prearm_error_reported := b\<rparr>) = power_ok st"
  "power_ok (st\<lparr>condition_system_sensors_initialized := c\<rparr>) = power_ok st"
  "power_ok (st\<lparr>arming_state := a\<rparr>) = power_ok st"
  by (simp_all add: power_ok_def)

lemma enforce_lockdown_result:
  "fst (enforce_lockdown p st ar) \<longleftrightarrow> p \<and> hil_state st \<noteq> HIL_STATE_ON"
  "arming_state (fst (snd (enforce_lockdown p st ar))) = arming_from st"
  "hil_state (fst (snd (enforce_lockdown p st ar))) = hil_state st"
  "condition_system_sensors_initialized (fst (snd (enforce_lockdown p st ar))) \<longleftrightarrow>
     hil_state st = HIL_STATE_ON \<or> condition_system_sensors_initialized st"
  "power_ok (fst (snd (enforce_lockdown p st ar))) = power_ok st"
  "snd (snd (enforce_lockdown p st ar)) = ar\<lparr>lockdown := hil_state st = HIL_STATE_ON\<rparr>"
  by (simp_all add: enforce_lockdown_def arming_from_def)

lemma arming_not_changed:
  "arming_state_transition env1 env2 fd saf (arming_state st) run st ar
   = (TRANSITION_NOT_CHANGED, st, ar, [])"
  by (simp add: arming_state_transition_def)

lemma arming_target_invalid:
  "\<not> arming_transitions new_state cur \<Longrightarrow> arming_target new_state cur = new_state"
  by (auto simp: arming_target_def)

text \<open>The stages after the checks, on the state that the lockdown stage leaves.\<close>

lemma arming_stages_result:
  fixes new_state :: arming_state and saf :: safety and prearm :: bool
  assumes "arming_state st2 = cur" "hil_state st2 = h"
    and "condition_system_sensors_initialized st2 = up" "power_ok st2 = pw"
  defines "v0 \<equiv> arming_transitions new_state cur"
  defines "s1 \<equiv> (if v0 then arming_secondary prearm new_state st2 saf
      else (False, new_state, False, []))"
  defines "v2 \<equiv> fst s1 \<or> h = HIL_STATE_ON \<and> fst (snd s1) = ARMING_STATE_STANDBY"
  defines "s2 \<equiv> standby_gate v2 (fst (snd s1)) st2"
  shows "fst (snd s1) = arming_target new_state cur"
    and "fst s2 \<longleftrightarrow> (if h = HIL_STATE_ON then v0 \<or> new_state = ARMING_STATE_STANDBY
      else v0 \<and>
        (new_state = ARMING_STATE_ARMED \<and> h = HIL_STATE_OFF \<and> cur \<noteq> ARMING_STATE_IN_AIR_RESTORE \<longrightarrow>
         \<not> prearm \<and> switch_ok saf \<and> pw) \<and>
        (new_state = ARMING_STATE_STANDBY \<longrightarrow> cur = ARMING_STATE_ARMED_ERROR \<or> up))"
proof -
  show t: "fst (snd s1) = arming_target new_state cur"
    using assms(1) by (simp add: s1_def v0_def arming_secondary_verdict arming_target_invalid)
  have v: "fst s1 \<longleftrightarrow> v0 \<and>
      (new_state = ARMING_STATE_ARMED \<and> h = HIL_STATE_OFF \<and> cur \<noteq> ARMING_STATE_IN_AIR_RESTORE \<longrightarrow>
       \<not> prearm \<and> switch_ok saf \<and> pw)"
    using assms(1,2,4) by (simp add: s1_def arming_secondary_verdict)
  show "fst s2 \<longleftrightarrow> (if h = HIL_STATE_ON then v0 \<or> new_state = ARMING_STATE_STANDBY
      else v0 \<and>
        (new_state = ARMING_STATE_ARMED \<and> h = HIL_STATE_OFF \<and> cur \<noteq> ARMING_STATE_IN_AIR_RESTORE \<longrightarrow>
         \<not> prearm \<and> switch_ok saf \<and> pw) \<and>
        (new_state = ARMING_STATE_STANDBY \<longrightarrow> cur = ARMING_STATE_ARMED_ERROR \<or> up))"
    unfolding s2_def standby_gate_verdict t v2_def v using assms(1-3)
    by (auto simp: v0_def arming_target_def)
qed

lemma arming_transition_result:
  fixes env1 env2 :: preflight_env and saf :: safety and new_state :: arming_state
    and run :: bool and fd :: int and st :: vehicle_status and ar :: actuator_armed
  assumes "new_state \<noteq> arming_state st"
  defines "acc \<equiv> arming_accepts env1 env2 saf new_state run st"
  defines "target \<equiv> arming_target new_state (arming_from st)"
  defines "T \<equiv> arming_state_transition env1 env2 fd saf new_state run st ar"
  shows "fst T = (if acc then TRANSITION_CHANGED else TRANSITION_DENIED)"
    and "arming_state (fst (snd T)) = (if acc then target else arming_from st)"
    and "hil_state (fst (snd T)) = hil_state st"
    and "fst (snd (snd T)) = (if acc
      then ar\<lparr>lockdown := hil_state st = HIL_STATE_ON,
        armed := target = ARMING_STATE_ARMED \<or> target = ARMING_STATE_ARMED_ERROR,
        ready_to_arm := target = ARMING_STATE_ARMED \<or> target = ARMING_STATE_STANDBY\<rparr>
      else ar\<lparr>lockdown := hil_state st = HIL_STATE_ON\<rparr>)"
proof -
  obtain b log where pre: "arming_prechecks env1 env2 fd run new_state st =
     (prearm_fails env1 env2 run new_state st,
      st\<lparr>condition_system_prearm_error_reported := b,
         condition_system_sensors_initialized := sensors_up env2 new_state st\<rparr>, log)"
    using arming_prechecks_result by blast
  define st1 where "st1 = st\<lparr>condition_system_prearm_error_reported := b,
         condition_system_sensors_initialized := sensors_up env2 new_state st\<rparr>"
  define e where "e = enforce_lockdown (prearm_fails env1 env2 run new_state st) st1 ar"
  define st2 where "st2 = fst (snd e)"
  have e: "fst e \<longleftrightarrow> prearm_fails env1 env2 run new_state st \<and> hil_state st \<noteq> HIL_STATE_ON"
      "arming_state st2 = arming_from st" "hil_state st2 = hil_state st"
      "condition_system_sensors_initialized st2 \<longleftrightarrow>
        hil_state st = HIL_STATE_ON \<or> sensors_up env2 new_state st"
      "power_ok st2 = power_ok st" "snd (snd e) = ar\<lparr>lockdown := hil_state st = HIL_STATE_ON\<rparr>"
    unfolding e_def st2_def enforce_lockdown_result
    by (simp_all add: st1_def arming_from_def)
  define s1 where "s1 = (if arming_transitions new_state (arming_from st)
    then arming_secondary (fst e) new_state st2 saf else (False, new_state, False, []))"
  define v2 where "v2 \<longleftrightarrow> fst s1 \<or>
    hil_state st = HIL_STATE_ON \<and> fst (snd s1) = ARMING_STATE_STANDBY"
  define s2 where "s2 = standby_gate v2 (fst (snd s1)) st2"
  define f where "f = finish_transition (fst s2) target (fst (snd (snd s2)))
    (ar\<lparr>lockdown := hil_state st = HIL_STATE_ON\<rparr>)"
  note stages = arming_stages_result [OF e(2-5), where prearm = "fst e" and new_state = new_state and saf = saf,
      folded s1_def, folded v2_def, folded s2_def]
  have acc: "fst s2 = acc"
    unfolding stages(2) acc_def arming_accepts_def e(1) arming_from_def by auto
  have T: "fst T = fst f" "fst (snd T) = fst (snd f)" "fst (snd (snd T)) = snd (snd f)"
    unfolding T_def arming_state_transition_def if_not_P [OF assms(1)] pre st1_def [symmetric]
      Let_def split_beta fst_conv snd_conv e_def [symmetric]
    unfolding st2_def [symmetric] e(2,3,6)
    unfolding s1_def [symmetric]
    unfolding v2_def [symmetric]
    unfolding s2_def [symmetric]
    unfolding stages(1)
    unfolding target_def [symmetric] f_def [symmetric]
    by (rule refl)+
  have s2: "arming_state (fst (snd (snd s2))) = arming_from st"
      "hil_state (fst (snd (snd s2))) = hil_state st"
    unfolding s2_def standby_gate_verdict(2,3) e(2,3) by (rule refl)+
  show "fst T = (if acc then TRANSITION_CHANGED else TRANSITION_DENIED)"
    unfolding T f_def finish_transition_result acc by (rule refl)
  show "arming_state (fst (snd T)) = (if acc then target else arming_from st)"
    unfolding T f_def finish_transition_result acc s2 by (rule refl)
  show "hil_state (fst (snd T)) = hil_state st"
    unfolding T f_def finish_transition_result s2 by (rule refl)
  show "fst (snd (snd T)) = (if acc
      then ar\<lparr>lockdown := hil_state st = HIL_STATE_ON,
        armed := target = ARMING_STATE_ARMED \<or> target = ARMING_STATE_ARMED_ERROR,
        ready_to_arm := target = ARMING_STATE_ARMED \<or> target = ARMING_STATE_STANDBY\<rparr>
      else ar\<lparr>lockdown := hil_state st = HIL_STATE_ON\<rparr>)"
    unfolding T f_def finish_transition_result acc by (rule refl)
qed

end
