(* ===== verification/VehicleSafety.thy ===== *)
theory VehicleSafety
  imports StateMachine
begin

text \<open>
  The state machines of the commander run together: a step relation whose steps are the calls of
  the helpers with arbitrary inputs and arbitrary changes of the conditions they read, its
  invariant, and the properties of each helper.
\<close>

section \<open>The machine\<close>

type_synonym vehicle = "vehicle_status \<times> actuator_armed"

inductive sm_step :: "vehicle \<Rightarrow> vehicle \<Rightarrow> bool" where
  arm: "arming_state_transition env1 env2 fd saf new_state run st ar = (r, st', ar', log)
    \<Longrightarrow> sm_step (st, ar) (st', ar')"
| main: "main_state_transition st m = (r, st') \<Longrightarrow> sm_step (st, ar) (st', ar)"
| hil: "hil_state_transition nuttx denv now h st = (r, st', pub, blocked, log)
    \<Longrightarrow> sm_step (st, ar) (st', ar)"
| nav: "set_nav_state dll fin stay st = (c, st') \<Longrightarrow> sm_step (st, ar) (st', ar)"
| conditions: "arming_state st' = arming_state st \<Longrightarrow> hil_state st' = hil_state st
    \<Longrightarrow> sm_step (st, ar) (st', ar)"
| failsafe_command: "sm_step (st, ar) (st, ar\<lparr>force_failsafe := b\<rparr>)"

inductive_cases sm_stepE: "sm_step (st, ar) v"

definition sm_initial :: "vehicle \<Rightarrow> bool" where
  "sm_initial v \<longleftrightarrow> arming_state (fst v) = ARMING_STATE_INIT \<and> hil_state (fst v) = HIL_STATE_OFF \<and>
     \<not> armed (snd v)"

text \<open>What holds in every reachable state.\<close>

definition sm_inv :: "vehicle \<Rightarrow> bool" where
  "sm_inv v \<longleftrightarrow> (armed (snd v) = vehicle_armed (fst v)) \<and>
     arming_state (fst v) \<noteq> ARMING_STATE_IN_AIR_RESTORE \<and>
     hil_state (fst v) \<in> {HIL_STATE_OFF, HIL_STATE_ON} \<and>
     (hil_state (fst v) = HIL_STATE_ON \<and> armed (snd v) \<longrightarrow> lockdown (snd v))"

lemma main_state_frame:
  "arming_state (snd (main_state_transition st m)) = arming_state st"
  "hil_state (snd (main_state_transition st m)) = hil_state st"
  by (simp_all add: main_state_transition_def Let_def)

text \<open>Only the navigation state and the failsafe flag are written.\<close>

definition nav_frame :: "vehicle_status \<Rightarrow> vehicle_status \<Rightarrow> bool" where
  "nav_frame st st' \<longleftrightarrow> st' = st\<lparr>failsafe := failsafe st', nav_state := nav_state st'\<rparr>"

lemma nav_frames:
  "nav_frame st (nav_manual_modes st)" "nav_frame st (nav_auto_mission dll fin stay st)"
  "nav_frame st (nav_auto_loiter dll st)" "nav_frame st (nav_auto_rtl st)"
  "nav_frame st (nav_auto_takeoff st)" "nav_frame st (nav_offboard st)" "nav_frame st st"
  unfolding nav_manual_modes_def nav_auto_mission_def nav_auto_loiter_def nav_auto_rtl_def
    nav_auto_takeoff_def nav_auto_home_def nav_offboard_def
  by (simp_all add: nav_frame_def split del: if_split split: if_split)

lemma nav_frame_failsafe: "nav_frame (st\<lparr>failsafe := b\<rparr>) st' \<Longrightarrow> nav_frame st st'"
  unfolding nav_frame_def by simp

lemma nav_frame_fields:
  assumes "nav_frame st st'"
  shows "arming_state st' = arming_state st" "hil_state st' = hil_state st"
    "main_state st' = main_state st"
  using arg_cong [OF assms [unfolded nav_frame_def], of arming_state]
    arg_cong [OF assms [unfolded nav_frame_def], of hil_state]
    arg_cong [OF assms [unfolded nav_frame_def], of main_state]
  by simp_all

lemma set_nav_state_frame: "nav_frame st (snd (set_nav_state dll fin stay st))"
  by (rule nav_frame_failsafe [where b = False])
     (simp add: set_nav_state_def Let_def nav_frames split: main_state.split)

lemma set_nav_state_changed:
  "fst (set_nav_state dll fin stay st) \<longleftrightarrow> nav_state (snd (set_nav_state dll fin stay st)) \<noteq> nav_state st"
  by (simp add: set_nav_state_def Let_def)

lemma hil_block_nuttx_eq: "hil_block_nuttx op ds =
    map hil_devname (filter (\<lambda>d. \<not> hil_skipped d \<and> 0 \<le> op (hil_devname d)) ds)"
  by (induction ds) auto

lemma hil_accepts: "fst (hil_state_transition nuttx env now h st) = TRANSITION_CHANGED \<longleftrightarrow>
    hil_state st \<noteq> HIL_STATE_ON \<and> h = HIL_STATE_ON \<and>
    arming_state st \<in> {ARMING_STATE_INIT, ARMING_STATE_STANDBY, ARMING_STATE_STANDBY_ERROR} \<and>
    (nuttx \<longrightarrow> dev_dir env \<noteq> None)"
  unfolding hil_state_transition_def Let_def split_beta
  by (cases h) (simp_all split: if_split option.split)

lemma hil_frame:
  "arming_state (fst (snd (hil_state_transition nuttx env now h st))) = arming_state st"
  by (simp add: hil_state_transition_def Let_def split_beta)

lemma hil_state_after:
  "hil_state (fst (snd (hil_state_transition nuttx env now h st))) =
     (if fst (hil_state_transition nuttx env now h st) = TRANSITION_CHANGED
      then HIL_STATE_ON else hil_state st)"
  unfolding hil_accepts hil_state_transition_def Let_def split_beta
  by (cases h) (simp_all split: if_split option.split)

section \<open>The invariant\<close>

lemma arming_target_not_restore:
  "arming_accepts env1 env2 saf new_state run st \<Longrightarrow>
     arming_target new_state cur \<noteq> ARMING_STATE_IN_AIR_RESTORE"
  by (cases new_state) (auto simp: arming_accepts_def arming_target_def split: if_splits)

lemma sm_inv_arm:
  assumes "sm_inv (st, ar)"
  shows "sm_inv (fst (snd (arming_state_transition env1 env2 fd saf new_state run st ar)),
     fst (snd (snd (arming_state_transition env1 env2 fd saf new_state run st ar))))"
proof (cases "new_state = arming_state st")
  case True
  then show ?thesis
    using assms arming_not_changed [of env1 env2 fd saf st run ar] by simp
next
  case False
  show ?thesis
    unfolding sm_inv_def fst_conv snd_conv vehicle_armed_def arming_transition_result [OF False]
    using assms arming_target_not_restore [of env1 env2 saf new_state run st "arming_from st"]
    by (auto simp: sm_inv_def vehicle_armed_def arming_from_def)
qed

lemma sm_inv_step:
  assumes "sm_inv v" "sm_step v w"
  shows "sm_inv w"
  using assms(2,1)
proof cases
  case (arm env1 env2 fd saf new_state run st ar r st' ar' log)
  with sm_inv_arm [of st ar env1 env2 fd saf new_state run] assms(1) show ?thesis by simp
next
  case (main st m r st' ar)
  with main_state_frame [of st m] assms(1) show ?thesis
    by (simp add: sm_inv_def vehicle_armed_def)
next
  case (hil nuttx denv now h st r st' pub blocked log ar)
  with hil_frame [of nuttx denv now h st] hil_state_after [of nuttx denv now h st]
    hil_accepts [of nuttx denv now h st] assms(1)
  show ?thesis
    by (auto simp: sm_inv_def vehicle_armed_def split: if_splits)
next
  case (nav dll fin stay st c st' ar)
  have "nav_frame st st'"
    using set_nav_state_frame [of st dll fin stay] nav(3) by simp
  then have "arming_state st' = arming_state st" "hil_state st' = hil_state st"
    by (simp_all add: nav_frame_fields)
  with nav assms(1) show ?thesis
    by (simp add: sm_inv_def vehicle_armed_def)
qed (auto simp: sm_inv_def vehicle_armed_def)

lemma sm_inv_run: "sm_step\<^sup>*\<^sup>* v w \<Longrightarrow> sm_inv v \<Longrightarrow> sm_inv w"
  by (induction rule: rtranclp_induct) (auto intro: sm_inv_step)

lemma sm_initial_inv: "sm_initial v \<Longrightarrow> sm_inv v"
  by (simp add: sm_initial_def sm_inv_def vehicle_armed_def)

section \<open>Navigation\<close>

text \<open>What a failsafe mode relies on.\<close>

definition failsafe_justified :: "vehicle_status \<Rightarrow> bool" where
  "failsafe_justified st \<longleftrightarrow>
     (case nav_state st of
        NAVIGATION_STATE_AUTO_RCRECOVER \<Rightarrow>
          condition_global_position_valid st \<and> condition_home_position_valid st
      | NAVIGATION_STATE_AUTO_RTGS \<Rightarrow>
          condition_global_position_valid st \<and> condition_home_position_valid st
      | NAVIGATION_STATE_LAND \<Rightarrow> condition_local_position_valid st
      | NAVIGATION_STATE_DESCEND \<Rightarrow>
          condition_local_altitude_valid st \<and> \<not> condition_local_position_valid st
      | NAVIGATION_STATE_TERMINATION \<Rightarrow>
          \<not> condition_local_altitude_valid st \<and> \<not> condition_local_position_valid st
      | NAVIGATION_STATE_POSCTL \<Rightarrow> main_state st = MAIN_STATE_OFFBOARD \<and> \<not> rc_signal_lost st
      | _ \<Rightarrow> False)"

definition failsafe_sound :: "vehicle_status \<Rightarrow> bool" where
  "failsafe_sound st \<longleftrightarrow> \<not> (failsafe st \<and> \<not> failsafe_justified st)"

lemma nav_fallback_justified:
  "failsafe_justified (st\<lparr>nav_state := nav_fallback NAVIGATION_STATE_AUTO_RTGS st\<rparr>)"
  "failsafe_justified (st\<lparr>nav_state := nav_fallback NAVIGATION_STATE_AUTO_RCRECOVER st\<rparr>)"
  "failsafe_justified (st\<lparr>nav_state := nav_local_fallback st\<rparr>)"
  by (simp_all add: failsafe_justified_def nav_fallback_def nav_local_fallback_def)

lemma failsafe_justified_failsafe [simp]:
  "failsafe_justified (st\<lparr>failsafe := b, nav_state := n\<rparr>) = failsafe_justified (st\<lparr>nav_state := n\<rparr>)"
  by (cases n) (simp_all add: failsafe_justified_def)

lemma nav_parts_sound:
  assumes "\<not> failsafe st"
  shows "failsafe_sound (nav_manual_modes st)" "failsafe_sound (nav_auto_mission dll fin stay st)"
    "failsafe_sound (nav_auto_loiter dll st)" "failsafe_sound (nav_auto_rtl st)"
    "failsafe_sound (nav_auto_takeoff st)" "failsafe_sound st"
  unfolding nav_manual_modes_def nav_auto_mission_def nav_auto_loiter_def nav_auto_rtl_def
    nav_auto_takeoff_def nav_auto_home_def
  using assms by (simp_all add: failsafe_sound_def nav_fallback_justified)

lemma nav_offboard_sound:
  "main_state st = MAIN_STATE_OFFBOARD \<Longrightarrow> \<not> failsafe st \<Longrightarrow> failsafe_sound (nav_offboard st)"
  unfolding nav_offboard_def
  by (simp add: failsafe_sound_def nav_fallback_justified)
     (simp add: failsafe_justified_def)

lemma set_nav_state_sound: "failsafe_sound (snd (set_nav_state dll fin stay st))"
  by (simp add: set_nav_state_def Let_def nav_parts_sound nav_offboard_sound split: main_state.split)

text \<open>A second evaluation in the state that the first one leaves changes nothing.\<close>

lemma vehicle_armed_nav [simp]:
  "vehicle_armed (st\<lparr>failsafe := b\<rparr>) = vehicle_armed st"
  "vehicle_armed (st\<lparr>nav_state := n\<rparr>) = vehicle_armed st"
  by (simp_all add: vehicle_armed_def)

lemma nav_fallback_nav [simp]:
  "nav_fallback x (st\<lparr>failsafe := b\<rparr>) = nav_fallback x st"
  "nav_fallback x (st\<lparr>nav_state := n\<rparr>) = nav_fallback x st"
  "nav_local_fallback (st\<lparr>failsafe := b\<rparr>) = nav_local_fallback st"
  "nav_local_fallback (st\<lparr>nav_state := n\<rparr>) = nav_local_fallback st"
  by (simp_all add: nav_fallback_def nav_local_fallback_def)

lemma nav_parts_idempotent:
  assumes "failsafe st = False"
  shows "nav_manual_modes ((nav_manual_modes st)\<lparr>failsafe := False\<rparr>) = nav_manual_modes st"
    "nav_auto_mission dll fin stay ((nav_auto_mission dll fin stay st)\<lparr>failsafe := False\<rparr>)
     = nav_auto_mission dll fin stay st"
    "nav_auto_loiter dll ((nav_auto_loiter dll st)\<lparr>failsafe := False\<rparr>) = nav_auto_loiter dll st"
    "nav_auto_rtl ((nav_auto_rtl st)\<lparr>failsafe := False\<rparr>) = nav_auto_rtl st"
    "nav_auto_takeoff ((nav_auto_takeoff st)\<lparr>failsafe := False\<rparr>) = nav_auto_takeoff st"
    "nav_offboard ((nav_offboard st)\<lparr>failsafe := False\<rparr>) = nav_offboard st"
    "st\<lparr>failsafe := False\<rparr> = st"
  unfolding nav_manual_modes_def nav_auto_mission_def nav_auto_loiter_def nav_auto_rtl_def
    nav_auto_takeoff_def nav_auto_home_def nav_offboard_def
  using assms by (simp_all, blast+)

lemma set_nav_state_twice:
  "set_nav_state dll fin stay (snd (set_nav_state dll fin stay st))
   = (False, snd (set_nav_state dll fin stay st))"
proof -
  let ?st' = "snd (set_nav_state dll fin stay st)"
  have m: "main_state ?st' = main_state st"
    using nav_frame_fields(3) [OF set_nav_state_frame] .
  have f: "failsafe (st\<lparr>failsafe := False\<rparr>) = False"
    by simp
  have "snd (set_nav_state dll fin stay ?st') = ?st'"
    using m unfolding set_nav_state_def Let_def snd_conv
    by (cases "main_state st") (simp_all add: nav_parts_idempotent [OF f])
  then show ?thesis
    using set_nav_state_changed [of dll fin stay ?st'] by (simp add: prod_eq_iff)
qed

definition no_failures :: "vehicle_status \<Rightarrow> bool" where
  "no_failures st \<longleftrightarrow> \<not> rc_signal_lost st \<and> \<not> rc_signal_lost_cmd st \<and> \<not> data_link_lost st \<and>
     \<not> data_link_lost_cmd st \<and> \<not> engine_failure st \<and> \<not> engine_failure_cmd st \<and>
     \<not> gps_failure st \<and> \<not> gps_failure_cmd st"

text \<open>The navigation state that a main mode asks for.\<close>

fun nav_of_main :: "main_state \<Rightarrow> navigation_state option" where
  "nav_of_main MAIN_STATE_MANUAL = Some NAVIGATION_STATE_MANUAL"
| "nav_of_main MAIN_STATE_ALTCTL = Some NAVIGATION_STATE_ALTCTL"
| "nav_of_main MAIN_STATE_POSCTL = Some NAVIGATION_STATE_POSCTL"
| "nav_of_main MAIN_STATE_AUTO_MISSION = Some NAVIGATION_STATE_AUTO_MISSION"
| "nav_of_main MAIN_STATE_AUTO_LOITER = Some NAVIGATION_STATE_AUTO_LOITER"
| "nav_of_main MAIN_STATE_AUTO_RTL = Some NAVIGATION_STATE_AUTO_RTL"
| "nav_of_main MAIN_STATE_ACRO = Some NAVIGATION_STATE_ACRO"
| "nav_of_main MAIN_STATE_OFFBOARD = Some NAVIGATION_STATE_OFFBOARD"
| "nav_of_main MAIN_STATE_STAB = Some NAVIGATION_STATE_STAB"
| "nav_of_main MAIN_STATE_RATTITUDE = Some NAVIGATION_STATE_RATTITUDE"
| "nav_of_main MAIN_STATE_AUTO_TAKEOFF = Some NAVIGATION_STATE_AUTO_TAKEOFF"
| "nav_of_main MAIN_STATE_MAX = None"

lemma main_state_accepted:
  assumes "fst (main_state_transition st m) \<noteq> TRANSITION_DENIED"
  shows "snd (main_state_transition st m) = st\<lparr>main_state := m\<rparr>"
    and "m \<noteq> MAIN_STATE_MAX"
    and "m \<in> {MAIN_STATE_AUTO_RTL, MAIN_STATE_AUTO_TAKEOFF, MAIN_STATE_AUTO_MISSION} \<Longrightarrow>
      condition_global_position_valid st \<and> condition_home_position_valid st"
    and "m = MAIN_STATE_OFFBOARD \<Longrightarrow> \<not> offboard_control_signal_lost st"
  using assms unfolding main_state_transition_def
  by (cases m; auto split: if_splits)+

lemma nav_without_failures:
  assumes "no_failures st" "main_state st = m" "m \<noteq> MAIN_STATE_MAX"
    and "m = MAIN_STATE_OFFBOARD \<Longrightarrow> \<not> offboard_control_signal_lost st"
    and "m \<in> {MAIN_STATE_AUTO_RTL, MAIN_STATE_AUTO_TAKEOFF} \<Longrightarrow>
      condition_global_position_valid st \<and> condition_home_position_valid st"
  shows "Some (nav_state (snd (set_nav_state dll fin False st))) = nav_of_main m \<and>
    \<not> failsafe (snd (set_nav_state dll fin False st))"
  using assms
  by (cases m) (simp_all add: set_nav_state_def no_failures_def nav_manual_modes_def
      nav_auto_mission_def nav_auto_loiter_def nav_auto_rtl_def nav_auto_takeoff_def
      nav_auto_home_def nav_offboard_def)

lemma engine_failure_in_loiter:
  "main_state st = MAIN_STATE_AUTO_LOITER \<Longrightarrow> engine_failure st \<Longrightarrow>
     nav_state (snd (set_nav_state dll fin stay st)) = NAVIGATION_STATE_AUTO_LANDENGFAIL \<and>
     \<not> failsafe (snd (set_nav_state dll fin stay st))"
  by (simp add: set_nav_state_def nav_auto_loiter_def)

section \<open>States for the witnesses\<close>

definition idle_status :: vehicle_status where
  "idle_status = \<lparr>timestamp = 0, main_state = MAIN_STATE_MANUAL,
     nav_state = NAVIGATION_STATE_MANUAL, arming_state = ARMING_STATE_INIT,
     hil_state = HIL_STATE_OFF, failsafe = False, system_id = 1, component_id = 1,
     is_rotary_wing = True, is_vtol = False, vtol_fw_permanent_stab = False,
     in_transition_mode = False, condition_system_sensors_initialized = True,
     condition_system_prearm_error_reported = False, condition_system_hotplug_timeout = True,
     condition_global_position_valid = True, condition_home_position_valid = True,
     condition_local_position_valid = True, condition_local_altitude_valid = True,
     condition_landed = True, condition_power_input_valid = True,
     avionics_power_rail_voltage = 0x40A00000, usb_connected = False, rc_signal_lost = False,
     rc_signal_lost_cmd = False, rc_input_mode = 0, data_link_lost = False,
     data_link_lost_cmd = False, engine_failure = False, engine_failure_cmd = False,
     gps_failure = False, gps_failure_cmd = False, offboard_control_signal_lost = False,
     offboard_control_set_by_command = False, circuit_breaker_engaged_power_check = False,
     circuit_breaker_engaged_airspd_check = False,
     circuit_breaker_engaged_gpsfailure_check = False, cb_usb = False\<rparr>"

definition idle_armed :: actuator_armed where
  "idle_armed = \<lparr>armed = False, ready_to_arm = False, lockdown = False, force_failsafe = False\<rparr>"

definition open_safety :: safety where
  "open_safety = \<lparr>safety_switch_available = True, safety_off = True\<rparr>"

lemma good_env_passes: "sensors_pass good_env st"
  by (simp add: sensors_pass_def preflightCheck_iff check_mags_iff check_accels_iff check_gyros_iff
      check_baros_iff airspeedCheck_iff gnssCheck_iff good_env_def prime_ok_def good_accel_still)
     (simp add: good_sensor_def healthy_def calibrated_def)

section \<open>Properties\<close>

text \<open>
  C9: in every state that the helpers reach from the boot state, under any inputs and any change
  of the conditions, the actuators are armed exactly when the arming state is ARMED or
  ARMED_ERROR, IN_AIR_RESTORE is never entered, and a vehicle in HIL is safe: it is disarmed or
  locked down.
\<close>

theorem vehicle_arming_invariant:
  assumes "sm_initial v0" "sm_step\<^sup>*\<^sup>* v0 v"
  shows "armed (snd v) = vehicle_armed (fst v) \<and>
    arming_state (fst v) \<noteq> ARMING_STATE_IN_AIR_RESTORE \<and>
    \<not> (hil_state (fst v) = HIL_STATE_ON \<and> \<not> is_safe (fst v) saf (snd v))"
  using sm_inv_run [OF assms(2) sm_initial_inv [OF assms(1)]]
  by (auto simp: sm_inv_def is_safe_def)

definition hil_armed :: vehicle where
  "hil_armed =
     (let st1 = fst (snd (hil_state_transition False
            \<lparr>dev_dir = None, dev_open = (\<lambda>_. 0), vdev_names = [], df_devices = []\<rparr> 7
            HIL_STATE_ON idle_status));
          (r2, st2, ar2, l2) = arming_state_transition good_env good_env 3 open_safety
            ARMING_STATE_STANDBY True st1 idle_armed;
          (r3, st3, ar3, l3) = arming_state_transition good_env good_env 3 open_safety
            ARMING_STATE_ARMED True st2 ar2
      in (st3, ar3))"

lemmas arming_eval = arming_state_transition_def arming_prechecks_def enforce_lockdown_def
  arming_secondary_def standby_gate_def finish_transition_def

lemma hil_armed_reached: "sm_step\<^sup>*\<^sup>* (idle_status, idle_armed) hil_armed"
proof -
  have arm: "sm_step (st, ar) (fst (snd T), fst (snd (snd T)))"
    if "T = arming_state_transition env1 env2 fd saf n run st ar" for T env1 env2 fd saf n run st ar
    using that by (intro sm_step.arm [of env1 env2 fd saf n run _ _ "fst T" _ _ "snd (snd (snd T))"]) simp
  have hil: "sm_step (st, ar) (fst (snd T), ar)"
    if "T = hil_state_transition nuttx denv now h st" for T nuttx denv now h st ar
    using that by (intro sm_step.hil [of nuttx denv now h _ "fst T" _ "fst (snd (snd T))"
          "fst (snd (snd (snd T)))" "snd (snd (snd (snd T)))"]) simp
  show ?thesis
    unfolding hil_armed_def Let_def split_beta
    by (rule converse_rtranclp_into_rtranclp, rule hil [OF refl],
        rule converse_rtranclp_into_rtranclp, rule arm [OF refl],
        rule r_into_rtranclp, rule arm [OF refl])
qed

theorem vehicle_arming_invariant_witness:
  "armed (snd hil_armed) \<and> vehicle_armed (fst hil_armed) \<and> is_safe (fst hil_armed) open_safety (snd hil_armed)"
proof -
  have "armed (snd hil_armed)" "hil_state (fst hil_armed) = HIL_STATE_ON"
    by (simp_all add: hil_armed_def arming_eval hil_state_transition_def idle_status_def
        idle_armed_def Let_def)
  then show ?thesis
    using vehicle_arming_invariant [of "(idle_status, idle_armed)" hil_armed open_safety]
      hil_armed_reached
    by (simp add: sm_initial_def idle_status_def idle_armed_def)
qed




definition broken_env :: preflight_env where
  "broken_env = good_env\<lparr>gyro := \<lambda>i. (good_sensor (int i))\<lparr>handle_valid := False\<rparr>\<rparr>"

lemma broken_env_fails: "\<not> sensors_pass broken_env st"
  by (simp add: sensors_pass_def preflightCheck_iff check_gyros_iff broken_env_def healthy_def)


text \<open>
  With the sensors marked as failing, the repeated preflight check replaces the verdict of the
  pre-arm check, so a USB connection no longer prevents arming.
\<close>

lemma usb_check_bypassed:
  "fst (arming_state_transition good_env good_env 3 open_safety ARMING_STATE_ARMED True
     (idle_status\<lparr>arming_state := ARMING_STATE_STANDBY, usb_connected := True,
        condition_system_sensors_initialized := up\<rparr>) idle_armed)
   = (if up then TRANSITION_DENIED else TRANSITION_CHANGED)"
  by (subst arming_transition_result(1))
     (simp_all add: idle_status_def open_safety_def arming_accepts_def prearm_fails_def
       good_env_passes power_ok_def usb_blocks_def switch_ok_def
       f32_lt_def f32_key_def f32_is_nan_def f32_magnitude_def)

text \<open>
  HIL is switched on only from a state in which the vehicle is not armed, it is never
  switched off, and switching it on blocks the publications of every device of the device
  directory that is not exempt and can be opened, in the order of the directory.
\<close>

theorem hil_switch:
  fixes env :: device_env and now :: u64 and h :: hil_state and st :: vehicle_status
  defines "T \<equiv> hil_state_transition True env now h st"
  shows "(fst T = TRANSITION_CHANGED) = (hil_state st \<noteq> HIL_STATE_ON \<and> h = HIL_STATE_ON \<and>
      arming_state st \<in> {ARMING_STATE_INIT, ARMING_STATE_STANDBY, ARMING_STATE_STANDBY_ERROR} \<and>
      dev_dir env \<noteq> None)
    \<and> hil_state (fst (snd T)) = (if fst T = TRANSITION_CHANGED then HIL_STATE_ON else hil_state st)
    \<and> fst (snd (snd (snd T))) = (if fst T = TRANSITION_CHANGED
        then map hil_devname
          (filter (\<lambda>d. \<not> hil_skipped d \<and> 0 \<le> dev_open env (hil_devname d)) (the (dev_dir env)))
        else [])"
proof (intro conjI)
  show "(fst T = TRANSITION_CHANGED) = (hil_state st \<noteq> HIL_STATE_ON \<and> h = HIL_STATE_ON \<and>
      arming_state st \<in> {ARMING_STATE_INIT, ARMING_STATE_STANDBY, ARMING_STATE_STANDBY_ERROR} \<and>
      dev_dir env \<noteq> None)"
    unfolding T_def hil_accepts by simp
  show "hil_state (fst (snd T)) = (if fst T = TRANSITION_CHANGED then HIL_STATE_ON else hil_state st)"
    unfolding T_def by (rule hil_state_after)
  show "fst (snd (snd (snd T))) = (if fst T = TRANSITION_CHANGED
        then map hil_devname
          (filter (\<lambda>d. \<not> hil_skipped d \<and> 0 \<le> dev_open env (hil_devname d)) (the (dev_dir env)))
        else [])"
    unfolding T_def hil_accepts
    unfolding hil_state_transition_def Let_def split_beta hil_block_nuttx_eq
    by (cases h) (simp_all split: if_split option.split)
qed

text \<open>
  A main mode that the transition accepts takes effect: while nothing has failed, the
  navigation state becomes the one of the mode and no failsafe is raised.
\<close>

theorem mode_switch_effective:
  assumes "fst (main_state_transition st m) \<noteq> TRANSITION_DENIED" "no_failures st"
  shows "Some (nav_state (snd (set_nav_state dll fin False (snd (main_state_transition st m)))))
      = nav_of_main m
    \<and> \<not> failsafe (snd (set_nav_state dll fin False (snd (main_state_transition st m))))"
  unfolding main_state_accepted(1) [OF assms(1)]
  using main_state_accepted(2-4) [OF assms(1)] assms(2)
  by (intro nav_without_failures) (auto simp: no_failures_def)

theorem mode_switch_effective_witness:
  "Some (nav_state (snd (set_nav_state True False False
      (snd (main_state_transition idle_status MAIN_STATE_AUTO_RTL)))))
   = Some NAVIGATION_STATE_AUTO_RTL"
proof -
  have "fst (main_state_transition idle_status MAIN_STATE_AUTO_RTL) \<noteq> TRANSITION_DENIED"
    by (simp add: main_state_transition_def idle_status_def)
  moreover have "no_failures idle_status"
    by (simp add: no_failures_def idle_status_def)
  ultimately show ?thesis
    using mode_switch_effective [of idle_status MAIN_STATE_AUTO_RTL True False] by simp
qed


text \<open>
  Evaluating the navigation state is idempotent: a second evaluation under the same
  conditions reports no change and leaves the status as it is.
\<close>

theorem nav_state_stable:
  "set_nav_state dll fin stay (snd (set_nav_state dll fin stay st))
   = (False, snd (set_nav_state dll fin stay st))"
  by (rule set_nav_state_twice)

end
