(* ===== verification/Commander.thy ===== *)
theory Commander
  imports VehicleSafety
begin

text \<open>
  The commander module (\<open>src/modules/commander/commander.cpp\<close>): arming and disarming, the handler
  of vehicle commands, arming by the radio sticks, the mode switches of the radio, the checks
  for flight termination and the control mode that is published for the controllers.

  The file-scope variables are the record \<open>commander\<close>; \<open>status\<close> and \<open>status_local\<close> of the C++ are
  one object and so are one component here.  Clock readings, the preflight environments and
  the device environment are the record \<open>cmd_env\<close>.  An operation returns the new state and the
  lines, tunes and publications it issues; \<^term>\<open>None\<close> is a conversion of a floating-point
  parameter to an integer type that does not hold it, which C++ leaves undefined.
\<close>

section \<open>State\<close>

datatype event = Log log_entry | Tune_positive bool | Tune_negative bool | Tune_home_set bool
  | Home_published

record home_position =
  home_timestamp :: u64
  home_lat :: f64
  home_lon :: f64
  home_alt :: f32
  home_x :: f32
  home_y :: f32
  home_z :: f32
  home_yaw :: f32

record position_env =
  gp_lat :: f64
  gp_lon :: f64
  gp_alt :: f32
  gp_eph :: f32
  gp_epv :: f32
  lp_x :: f32
  lp_y :: f32
  lp_z :: f32
  att_yaw :: f32

record manual_control_setpoint =
  sp_timestamp :: u64
  sp_x :: f32
  sp_y :: f32
  sp_z :: f32
  sp_r :: f32
  mode_switch :: u8
  return_switch :: u8
  rattitude_switch :: u8
  posctl_switch :: u8
  loiter_switch :: u8
  acro_switch :: u8
  offboard_switch :: u8

record vehicle_control_mode =
  flag_armed :: bool
  flag_external_manual_override_ok :: bool
  flag_system_hil_enabled :: bool
  flag_control_manual_enabled :: bool
  flag_control_auto_enabled :: bool
  flag_control_offboard_enabled :: bool
  flag_control_rates_enabled :: bool
  flag_control_attitude_enabled :: bool
  flag_control_velocity_enabled :: bool
  flag_control_position_enabled :: bool
  flag_control_altitude_enabled :: bool
  flag_control_climb_rate_enabled :: bool
  flag_control_termination_enabled :: bool

record offboard_control_mode =
  ignore_attitude :: bool
  ignore_bodyrate :: bool
  ignore_position :: bool
  ignore_velocity :: bool
  ignore_acceleration_force :: bool

record commander =
  c_status :: vehicle_status
  c_safety :: safety
  c_armed :: actuator_armed
  c_home :: home_position
  main_state_pre_offboard :: main_state
  last_print_mode_reject_time :: u64
  last_sp_man :: manual_control_setpoint
  c_control_mode :: vehicle_control_mode
  stick_off_counter :: u32
  stick_on_counter :: u32

text \<open>
  What an operation reads from outside: preflight environments for the (at most two) runs of the
  check, the log descriptor, clock readings and the configuration.
\<close>

record cmd_env =
  pre_env1 :: preflight_env
  pre_env2 :: preflight_env
  mavlink_fd :: int
  on_nuttx :: bool
  hil_devices :: device_env
  positions :: position_env
  commander_boot_timestamp :: u64
  autostart_id :: int
  time_hil :: u64
  time_arm :: u64
  time_home_check :: u64
  time_home :: u64
  time_reject :: u64
  geofence_action_rtl :: bool

record vehicle_command =
  param1 :: f32
  param2 :: f32
  param3 :: f32
  param4 :: f32
  param5 :: f64
  param6 :: f64
  param7 :: f32
  cmd_command :: u32
  target_system :: u32
  target_component :: u32
  source_system :: u32
  source_component :: u32

section \<open>Feedback\<close>

definition PRINT_MODE_REJECT_INTERVAL :: u64 where "PRINT_MODE_REJECT_INTERVAL = 10000000"

definition INAIR_RESTART_HOLDOFF_INTERVAL :: u64 where "INAIR_RESTART_HOLDOFF_INTERVAL = 500000"

definition print_reject_mode :: "u64 \<Rightarrow> string \<Rightarrow> commander \<Rightarrow> commander \<times> event list" where
  "print_reject_mode t msg c =
     (if t - last_print_mode_reject_time c > PRINT_MODE_REJECT_INTERVAL
      then (c\<lparr>last_print_mode_reject_time := t\<rparr>,
            [Log (Crit (''REJECT '' @ msg)), Tune_negative (armed (c_armed c))])
      else (c, []))"

definition print_reject_arm :: "u64 \<Rightarrow> string \<Rightarrow> commander \<Rightarrow> commander \<times> event list" where
  "print_reject_arm t msg c =
     (if t - last_print_mode_reject_time c > PRINT_MODE_REJECT_INTERVAL
      then (c\<lparr>last_print_mode_reject_time := t\<rparr>, [Log (Crit msg), Tune_negative True])
      else (c, []))"

datatype cmd_result = VEHICLE_CMD_RESULT_ACCEPTED | VEHICLE_CMD_RESULT_TEMPORARILY_REJECTED
  | VEHICLE_CMD_RESULT_DENIED | VEHICLE_CMD_RESULT_UNSUPPORTED | VEHICLE_CMD_RESULT_FAILED

fun answer_command :: "u32 \<Rightarrow> cmd_result \<Rightarrow> event list" where
  "answer_command cmd VEHICLE_CMD_RESULT_ACCEPTED = [Tune_positive True]"
| "answer_command cmd VEHICLE_CMD_RESULT_DENIED =
     [Log (CritN ''command denied: %u'' (unat cmd)), Tune_negative True]"
| "answer_command cmd VEHICLE_CMD_RESULT_FAILED =
     [Log (CritN ''command failed: %u'' (unat cmd)), Tune_negative True]"
| "answer_command cmd VEHICLE_CMD_RESULT_TEMPORARILY_REJECTED =
     [Log (CritN ''command temporarily rejected: %u'' (unat cmd)), Tune_negative True]"
| "answer_command cmd VEHICLE_CMD_RESULT_UNSUPPORTED =
     [Log (CritN ''command unsupported: %u'' (unat cmd)), Tune_negative True]"

section \<open>Home position and arming\<close>

text \<open>The accuracy thresholds are 5 m horizontally and 10 m vertically.\<close>

definition commander_set_home_position :: "position_env \<Rightarrow> u64 \<Rightarrow> commander \<Rightarrow> commander \<times> event list" where
  "commander_set_home_position pe now c =
     (if \<not> condition_global_position_valid (c_status c) then (c, [])
      else if f32_gt (gp_eph pe) 0x40A00000 \<or> f32_gt (gp_epv pe) 0x41200000 then (c, [])
      else
        (c\<lparr>c_home := \<lparr>home_timestamp = now, home_lat = gp_lat pe, home_lon = gp_lon pe,
             home_alt = gp_alt pe, home_x = lp_x pe, home_y = lp_y pe, home_z = lp_z pe,
             home_yaw = att_yaw pe\<rparr>,
           c_status := (c_status c)\<lparr>condition_home_position_valid := True\<rparr>\<rparr>,
         [Log (Info ''home: %.7f, %.7f, %.2f''), Home_published] @
         (if \<not> condition_home_position_valid (c_status c) then [Tune_home_set True] else [])))"

definition is_hil_setup :: "int \<Rightarrow> bool" where
  "is_hil_setup i \<longleftrightarrow> 1000 \<le> i \<and> i \<le> 1999"

text \<open>Runs the arming state machine on the commander's records.\<close>

definition run_arming :: "cmd_env \<Rightarrow> arming_state \<Rightarrow> commander
    \<Rightarrow> transition_result \<times> commander \<times> event list" where
  "run_arming env new_state c =
     (let (r, st, ar, log) = arming_state_transition (pre_env1 env) (pre_env2 env) (mavlink_fd env)
            (c_safety c) new_state True (c_status c) (c_armed c)
      in (r, c\<lparr>c_status := st, c_armed := ar\<rparr>, map Log log))"

definition arm_disarm :: "cmd_env \<Rightarrow> bool \<Rightarrow> string \<Rightarrow> commander
    \<Rightarrow> transition_result \<times> commander \<times> event list" where
  "arm_disarm env arm armedBy c =
     (if arm \<and> time_arm env > commander_boot_timestamp env + INAIR_RESTART_HOLDOFF_INTERVAL \<and>
         is_hil_setup (autostart_id env) \<and> hil_state (c_status c) \<noteq> HIL_STATE_ON
      then (TRANSITION_DENIED, c, [Log (Crit ''HIL platform: Connect to simulator before arming'')])
      else
        (let (r, c', ev) = run_arming env
               (if arm then ARMING_STATE_ARMED else ARMING_STATE_STANDBY) c
         in (r, c', ev @
             (if r = TRANSITION_CHANGED \<and> mavlink_fd env \<noteq> 0
              then [Log (Info ((if arm then ''[cmd] ARMED by '' else ''[cmd] DISARMED by '') @ armedBy))]
              else if r = TRANSITION_DENIED then [Tune_negative True] else []))))"

text \<open>Runs the main state machine on the commander's records.\<close>

definition run_main :: "main_state \<Rightarrow> commander \<Rightarrow> transition_result \<times> commander" where
  "run_main m c =
     (let (r, st) = main_state_transition (c_status c) m in (r, c\<lparr>c_status := st\<rparr>))"

section \<open>Vehicle commands\<close>

definition MAV_MODE_FLAG_CUSTOM_MODE_ENABLED :: u8 where "MAV_MODE_FLAG_CUSTOM_MODE_ENABLED = 1"
definition MAV_MODE_FLAG_AUTO_ENABLED :: u8 where "MAV_MODE_FLAG_AUTO_ENABLED = 4"
definition MAV_MODE_FLAG_GUIDED_ENABLED :: u8 where "MAV_MODE_FLAG_GUIDED_ENABLED = 8"
definition MAV_MODE_FLAG_STABILIZE_ENABLED :: u8 where "MAV_MODE_FLAG_STABILIZE_ENABLED = 16"
definition MAV_MODE_FLAG_HIL_ENABLED :: u8 where "MAV_MODE_FLAG_HIL_ENABLED = 32"
definition MAV_MODE_FLAG_MANUAL_INPUT_ENABLED :: u8 where "MAV_MODE_FLAG_MANUAL_INPUT_ENABLED = 64"
definition MAV_MODE_FLAG_SAFETY_ARMED :: u8 where "MAV_MODE_FLAG_SAFETY_ARMED = 128"

lemmas mav_mode_flags = MAV_MODE_FLAG_CUSTOM_MODE_ENABLED_def MAV_MODE_FLAG_AUTO_ENABLED_def
  MAV_MODE_FLAG_GUIDED_ENABLED_def MAV_MODE_FLAG_STABILIZE_ENABLED_def
  MAV_MODE_FLAG_HIL_ENABLED_def MAV_MODE_FLAG_MANUAL_INPUT_ENABLED_def
  MAV_MODE_FLAG_SAFETY_ARMED_def

definition has_flag :: "u8 \<Rightarrow> u8 \<Rightarrow> bool" where
  "has_flag m f \<longleftrightarrow> m AND f \<noteq> 0"

text \<open>The main mode that a set-mode command asks for; the custom modes first.\<close>

definition set_mode_custom :: "u8 \<Rightarrow> u8 \<Rightarrow> commander \<Rightarrow> transition_result \<times> commander \<times> event list" where
  "set_mode_custom custom_main_mode custom_sub_mode c =
     (let go = (\<lambda>m. let (r, c') = run_main m c in (r, c', []))
      in if custom_main_mode = 1 then go MAIN_STATE_MANUAL
         else if custom_main_mode = 2 then go MAIN_STATE_ALTCTL
         else if custom_main_mode = 3 then go MAIN_STATE_POSCTL
         else if custom_main_mode = 4 then
           (if custom_sub_mode > 0 then
              (if custom_sub_mode = 3 then go MAIN_STATE_AUTO_LOITER
               else if custom_sub_mode = 4 then go MAIN_STATE_AUTO_MISSION
               else if custom_sub_mode = 5 then go MAIN_STATE_AUTO_RTL
               else if custom_sub_mode = 2 then go MAIN_STATE_AUTO_TAKEOFF
               else (TRANSITION_DENIED, c, [Log (Crit ''Unsupported auto mode'')]))
            else go MAIN_STATE_AUTO_MISSION)
         else if custom_main_mode = 5 then go MAIN_STATE_ACRO
         else if custom_main_mode = 7 then go MAIN_STATE_STAB
         else if custom_main_mode = 6 then go MAIN_STATE_OFFBOARD
         else (TRANSITION_NOT_CHANGED, c, []))"

definition set_mode_base :: "u8 \<Rightarrow> commander \<Rightarrow> transition_result \<times> commander" where
  "set_mode_base base_mode c =
     (if has_flag base_mode MAV_MODE_FLAG_AUTO_ENABLED then run_main MAIN_STATE_AUTO_MISSION c
      else if has_flag base_mode MAV_MODE_FLAG_MANUAL_INPUT_ENABLED then
        (if has_flag base_mode MAV_MODE_FLAG_GUIDED_ENABLED then run_main MAIN_STATE_POSCTL c
         else if has_flag base_mode MAV_MODE_FLAG_STABILIZE_ENABLED then run_main MAIN_STATE_STAB c
         else run_main MAIN_STATE_MANUAL c)
      else (TRANSITION_NOT_CHANGED, c))"

type_synonym handled = "(cmd_result \<times> commander \<times> event list) option"

definition cmd_do_set_mode :: "cmd_env \<Rightarrow> vehicle_command \<Rightarrow> commander \<Rightarrow> handled" where
  "cmd_do_set_mode env cmd c =
     do {
       base_mode \<leftarrow> f32_to_u8 (param1 cmd);
       custom_main_mode \<leftarrow> f32_to_u8 (param2 cmd);
       custom_sub_mode \<leftarrow> f32_to_u8 (param3 cmd);
       let new_hil_state = (if has_flag base_mode MAV_MODE_FLAG_HIL_ENABLED
         then HIL_STATE_ON else HIL_STATE_OFF);
       let (hil_ret, st1, pub, blocked, log1) = hil_state_transition (on_nuttx env) (hil_devices env)
         (time_hil env) new_hil_state (c_status c);
       let c1 = c\<lparr>c_status := st1\<rparr>;
       let cmd_arm = has_flag base_mode MAV_MODE_FLAG_SAFETY_ARMED;
       let (arming_ret, c2, ev2) = arm_disarm env cmd_arm ''set mode command'' c1;
       let (c3, ev3) =
         (if cmd_arm \<and> arming_ret = TRANSITION_CHANGED \<and>
             time_home_check env > commander_boot_timestamp env + INAIR_RESTART_HOLDOFF_INTERVAL
          then commander_set_home_position (positions env) (time_home env) c2 else (c2, []));
       let (main_ret, c4, ev4) =
         (if has_flag base_mode MAV_MODE_FLAG_CUSTOM_MODE_ENABLED
          then set_mode_custom custom_main_mode custom_sub_mode c3
          else (let (r, c') = set_mode_base base_mode c3 in (r, c', [])));
       let ev = map Log log1 @ ev2 @ ev3 @ ev4;
       if hil_ret \<noteq> TRANSITION_DENIED \<and> arming_ret \<noteq> TRANSITION_DENIED \<and> main_ret \<noteq> TRANSITION_DENIED
       then Some (VEHICLE_CMD_RESULT_ACCEPTED, c4, ev)
       else Some (VEHICLE_CMD_RESULT_TEMPORARILY_REJECTED, c4, ev @
         (if arming_ret = TRANSITION_DENIED then [Log (Crit ''Rejecting arming cmd'')] else []) @
         (if main_ret = TRANSITION_DENIED then [Log (Crit ''Rejecting mode switch cmd'')] else []))
     }"

text \<open>
  The guard compares the negation of the HIL state, a truth value, with \<open>HIL_STATE_ON\<close>, which is
  1: it is false for a vehicle with HIL off and true for one with HIL on.
\<close>

definition hil_number :: "hil_state \<Rightarrow> nat" where
  "hil_number h = (case h of HIL_STATE_OFF \<Rightarrow> 0 | HIL_STATE_ON \<Rightarrow> 1 | HIL_STATE_OTHER b \<Rightarrow> unat b)"

definition preflight_refusal :: "vehicle_status \<Rightarrow> bool" where
  "preflight_refusal st \<longleftrightarrow>
     (if hil_number (hil_state st) = 0 then 1 else 0) \<noteq> hil_number HIL_STATE_ON \<and>
     \<not> condition_system_sensors_initialized st"

definition cmd_component_arm_disarm :: "cmd_env \<Rightarrow> vehicle_command \<Rightarrow> commander \<Rightarrow> handled" where
  "cmd_component_arm_disarm env cmd c =
     do {
       p \<leftarrow> f32_to_i32 (f32_add (param1 cmd) 0x3F000000);
       if p \<noteq> 0 \<and> p \<noteq> 1
       then Some (VEHICLE_CMD_RESULT_UNSUPPORTED, c, [Log (Crit ''Unsupported ARM_DISARM param: %.3f'')])
       else do {
         let onboard = (source_system cmd = system_id (c_status c) \<and>
           source_component cmd = component_id (c_status c));
         if \<not> onboard \<and> preflight_refusal (c_status c)
         then Some (VEHICLE_CMD_RESULT_DENIED, c,
           [Log (Crit ''Arming DENIED. Preflight checks have failed.'')])
         else do {
           let c1 = (if onboard
             then c\<lparr>c_status := (c_status c)\<lparr>arming_state := ARMING_STATE_IN_AIR_RESTORE\<rparr>\<rparr> else c);
           let (arming_res, c2, ev) = arm_disarm env (p = 1) ''arm/disarm component command'' c1;
           if arming_res = TRANSITION_DENIED
           then Some (VEHICLE_CMD_RESULT_TEMPORARILY_REJECTED, c2,
             ev @ [Log (Crit ''REJECTING component arm cmd'')])
           else Some (VEHICLE_CMD_RESULT_ACCEPTED, c2, ev)
         }
       }
     }"

definition cmd_override_goto :: "vehicle_command \<Rightarrow> commander \<Rightarrow> handled" where
  "cmd_override_goto cmd c =
     do {
       mav_goto \<leftarrow> f32_to_u32 (f32_add (param1 cmd) 0x3F000000);
       if mav_goto = 0
       then Some (VEHICLE_CMD_RESULT_ACCEPTED,
         c\<lparr>c_status := (c_status c)\<lparr>nav_state := NAVIGATION_STATE_AUTO_LOITER\<rparr>\<rparr>,
         [Log (Crit ''Pause mission cmd'')])
       else if mav_goto = 1
       then Some (VEHICLE_CMD_RESULT_ACCEPTED,
         c\<lparr>c_status := (c_status c)\<lparr>nav_state := NAVIGATION_STATE_AUTO_MISSION\<rparr>\<rparr>,
         [Log (Crit ''Continue mission cmd'')])
       else Some (VEHICLE_CMD_RESULT_UNSUPPORTED, c, [Log (Crit ''REJ CMD: %.1f %.1f %.1f'')])
     }"

definition cmd_flighttermination :: "vehicle_command \<Rightarrow> commander \<Rightarrow> handled" where
  "cmd_flighttermination cmd c =
     do {
       let ar = (c_armed c)\<lparr>force_failsafe := f32_gt (param1 cmd) 0x3F000000\<rparr>;
       let st = (c_status c)\<lparr>engine_failure_cmd := False, data_link_lost_cmd := False,
         gps_failure_cmd := False, rc_signal_lost_cmd := False\<rparr>;
       p2 \<leftarrow> f32_to_i32 (param2 cmd);
       let st' = (if p2 \<le> 0 then st
         else if p2 = 1 then st\<lparr>engine_failure_cmd := True\<rparr>
         else if p2 = 2 then st\<lparr>data_link_lost_cmd := True\<rparr>
         else if p2 = 3 then st\<lparr>gps_failure_cmd := True\<rparr>
         else if p2 = 4 then st\<lparr>rc_signal_lost_cmd := True\<rparr> else st);
       Some (VEHICLE_CMD_RESULT_ACCEPTED, c\<lparr>c_armed := ar, c_status := st'\<rparr>, [])
     }"

definition cmd_do_set_home :: "cmd_env \<Rightarrow> vehicle_command \<Rightarrow> commander
    \<Rightarrow> cmd_result \<times> commander \<times> event list" where
  "cmd_do_set_home env cmd c =
     (let use_current = f32_gt (param1 cmd) 0x3F000000;
          (cmd_result, home) =
            (if use_current then
               (if condition_global_position_valid (c_status c)
                then (VEHICLE_CMD_RESULT_ACCEPTED, (c_home c)\<lparr>home_lat := gp_lat (positions env),
                        home_lon := gp_lon (positions env), home_alt := gp_alt (positions env),
                        home_timestamp := time_home env\<rparr>)
                else (VEHICLE_CMD_RESULT_TEMPORARILY_REJECTED, c_home c))
             else (VEHICLE_CMD_RESULT_ACCEPTED, (c_home c)\<lparr>home_lat := param5 cmd,
                     home_lon := param6 cmd, home_alt := param7 cmd, home_timestamp := time_home env\<rparr>))
      in if cmd_result = VEHICLE_CMD_RESULT_ACCEPTED
         then (cmd_result, c\<lparr>c_home := home,
                 c_status := (c_status c)\<lparr>condition_home_position_valid := True\<rparr>\<rparr>,
               [Log (Info ''Home position: %.7f, %.7f, %.2f''), Home_published])
         else (cmd_result, c\<lparr>c_home := home\<rparr>, []))"

definition cmd_guided_enable :: "cmd_env \<Rightarrow> vehicle_command \<Rightarrow> commander
    \<Rightarrow> cmd_result \<times> commander \<times> event list" where
  "cmd_guided_enable env cmd c =
     (let c1 = (if main_state (c_status c) \<noteq> MAIN_STATE_OFFBOARD
            then c\<lparr>main_state_pre_offboard := main_state (c_status c)\<rparr> else c);
          set_flag = (\<lambda>b c. c\<lparr>c_status := (c_status c)\<lparr>offboard_control_set_by_command := b\<rparr>\<rparr>)
      in if f32_gt (param1 cmd) 0x3F000000
         then (let (res, c2) = run_main MAIN_STATE_OFFBOARD c1
               in if res = TRANSITION_DENIED
                  then (let (c3, ev) = print_reject_mode (time_reject env) ''OFFBOARD'' c2
                        in (VEHICLE_CMD_RESULT_UNSUPPORTED, set_flag False c3, ev))
                  else (VEHICLE_CMD_RESULT_UNSUPPORTED, set_flag True c2, []))
         else (let (res, c2) = run_main (main_state_pre_offboard c1) c1
               in (VEHICLE_CMD_RESULT_UNSUPPORTED, set_flag False c2, [])))"

definition cmd_nav_takeoff :: "commander \<Rightarrow> cmd_result \<times> commander \<times> event list" where
  "cmd_nav_takeoff c =
     (let (res, c') = run_main MAIN_STATE_AUTO_TAKEOFF c in (VEHICLE_CMD_RESULT_UNSUPPORTED, c', []))"

text \<open>Commands that the low priority loop handles.\<close>

definition low_prio_commands :: "u32 list" where
  "low_prio_commands = [246, 241, 242, 245, 243, 0, 1, 2, 30001, 30002, 205, 220, 204, 2003, 3000]"

text \<open>The first component of the result is whether the command was for this system.\<close>

definition handle_command :: "cmd_env \<Rightarrow> vehicle_command \<Rightarrow> commander
    \<Rightarrow> (bool \<times> commander \<times> event list) option" where
  "handle_command env cmd c =
     (if target_system cmd \<noteq> system_id (c_status c) \<or>
         (target_component cmd \<noteq> component_id (c_status c) \<and> target_component cmd \<noteq> 0)
      then Some (False, c, [])
      else do {
        (cmd_result, c', ev) \<leftarrow>
          (if cmd_command cmd = 176 then cmd_do_set_mode env cmd c
           else if cmd_command cmd = 400 then cmd_component_arm_disarm env cmd c
           else if cmd_command cmd = 252 then cmd_override_goto cmd c
           else if cmd_command cmd = 185 then cmd_flighttermination cmd c
           else if cmd_command cmd = 179 then Some (cmd_do_set_home env cmd c)
           else if cmd_command cmd = 92 then Some (cmd_guided_enable env cmd c)
           else if cmd_command cmd = 22 then Some (cmd_nav_takeoff c)
           else if cmd_command cmd \<in> set low_prio_commands
           then Some (VEHICLE_CMD_RESULT_UNSUPPORTED, c, [])
           else Some (VEHICLE_CMD_RESULT_UNSUPPORTED, c,
             answer_command (cmd_command cmd) VEHICLE_CMD_RESULT_UNSUPPORTED));
        Some (True, c', ev @ (if cmd_result \<noteq> VEHICLE_CMD_RESULT_UNSUPPORTED
          then answer_command (cmd_command cmd) cmd_result else []))
      })"

section \<open>Radio control\<close>

definition SWITCH_POS_NONE :: u8 where "SWITCH_POS_NONE = 0"
definition SWITCH_POS_ON :: u8 where "SWITCH_POS_ON = 1"
definition SWITCH_POS_MIDDLE :: u8 where "SWITCH_POS_MIDDLE = 2"
definition SWITCH_POS_OFF :: u8 where "SWITCH_POS_OFF = 3"

lemmas switch_pos = SWITCH_POS_NONE_def SWITCH_POS_ON_def SWITCH_POS_MIDDLE_def SWITCH_POS_OFF_def

type_synonym rc_result = "transition_result \<times> commander \<times> event list"

text \<open>
  \<open>try_main\<close> enters a main mode and returns when that is not denied, \<open>rejecting\<close> reports a
  rejected mode; both then go on with the next choice.  The clock is read once per evaluation.
\<close>

definition try_main :: "main_state \<Rightarrow> (commander \<Rightarrow> rc_result) \<Rightarrow> commander \<Rightarrow> rc_result" where
  "try_main m next c =
     (let (r, c') = run_main m c in if r \<noteq> TRANSITION_DENIED then (r, c', []) else next c')"

definition rejecting :: "u64 \<Rightarrow> string \<Rightarrow> (commander \<Rightarrow> rc_result) \<Rightarrow> commander \<Rightarrow> rc_result" where
  "rejecting t msg next c =
     (let (c1, ev1) = print_reject_mode t msg c; (r, c2, ev2) = next c1 in (r, c2, ev1 @ ev2))"

definition enter_main :: "main_state \<Rightarrow> commander \<Rightarrow> rc_result" where
  "enter_main m c = (let (r, c') = run_main m c in (r, c', []))"

definition rc_manual :: "manual_control_setpoint \<Rightarrow> commander \<Rightarrow> rc_result" where
  "rc_manual sp c =
     (if acro_switch sp = SWITCH_POS_ON then
        (if is_rotary_wing (c_status c) then enter_main MAIN_STATE_ACRO c else enter_main MAIN_STATE_STAB c)
      else if rattitude_switch sp = SWITCH_POS_ON then
        (if is_rotary_wing (c_status c) then enter_main MAIN_STATE_RATTITUDE c
         else enter_main MAIN_STATE_STAB c)
      else enter_main MAIN_STATE_MANUAL c)"

definition rc_assist :: "u64 \<Rightarrow> manual_control_setpoint \<Rightarrow> commander \<Rightarrow> rc_result" where
  "rc_assist t sp c =
     (let fallback = try_main MAIN_STATE_ALTCTL
            (if posctl_switch sp \<noteq> SWITCH_POS_ON
             then rejecting t ''ALTCTL'' (enter_main MAIN_STATE_MANUAL)
             else enter_main MAIN_STATE_MANUAL)
      in if posctl_switch sp = SWITCH_POS_ON
         then try_main MAIN_STATE_POSCTL (rejecting t ''POSCTL'' fallback) c
         else fallback c)"

definition rc_auto :: "u64 \<Rightarrow> manual_control_setpoint \<Rightarrow> commander \<Rightarrow> rc_result" where
  "rc_auto t sp c =
     (let fallback = try_main MAIN_STATE_POSCTL (try_main MAIN_STATE_ALTCTL
            (enter_main MAIN_STATE_MANUAL))
      in if loiter_switch sp = SWITCH_POS_ON
         then try_main MAIN_STATE_AUTO_LOITER (rejecting t ''AUTO_LOITER'' fallback) c
         else try_main MAIN_STATE_AUTO_MISSION
           (rejecting t ''AUTO_MISSION'' (try_main MAIN_STATE_AUTO_LOITER fallback)) c)"

definition rc_mode_switch :: "u64 \<Rightarrow> manual_control_setpoint \<Rightarrow> commander \<Rightarrow> rc_result" where
  "rc_mode_switch t sp c =
     (if mode_switch sp = SWITCH_POS_NONE then (TRANSITION_NOT_CHANGED, c, [])
      else if mode_switch sp = SWITCH_POS_OFF then rc_manual sp c
      else if mode_switch sp = SWITCH_POS_MIDDLE then rc_assist t sp c
      else if mode_switch sp = SWITCH_POS_ON then rc_auto t sp c
      else (TRANSITION_DENIED, c, []))"

definition rc_return_switch :: "u64 \<Rightarrow> manual_control_setpoint \<Rightarrow> commander \<Rightarrow> rc_result" where
  "rc_return_switch t sp c =
     (if return_switch sp = SWITCH_POS_ON
      then try_main MAIN_STATE_AUTO_RTL
        (rejecting t ''AUTO_RTL'' (try_main MAIN_STATE_AUTO_LOITER (rc_mode_switch t sp))) c
      else rc_mode_switch t sp c)"

definition rc_offboard_switch :: "u64 \<Rightarrow> manual_control_setpoint \<Rightarrow> commander \<Rightarrow> rc_result" where
  "rc_offboard_switch t sp c =
     (if offboard_switch sp = SWITCH_POS_ON
      then try_main MAIN_STATE_OFFBOARD (rejecting t ''OFFBOARD'' (rc_return_switch t sp)) c
      else rc_return_switch t sp c)"

definition switches_same :: "manual_control_setpoint \<Rightarrow> manual_control_setpoint \<Rightarrow> bool" where
  "switches_same a b \<longleftrightarrow> offboard_switch a = offboard_switch b \<and> return_switch a = return_switch b \<and>
     mode_switch a = mode_switch b \<and> acro_switch a = acro_switch b \<and>
     rattitude_switch a = rattitude_switch b \<and> posctl_switch a = posctl_switch b \<and>
     loiter_switch a = loiter_switch b"

definition set_main_state_rc :: "u64 \<Rightarrow> manual_control_setpoint \<Rightarrow> commander \<Rightarrow> rc_result" where
  "set_main_state_rc t sp c =
     (if offboard_control_set_by_command (c_status c) then enter_main MAIN_STATE_OFFBOARD c
      else if sp_timestamp (last_sp_man c) = sp_timestamp sp \<or> switches_same (last_sp_man c) sp
      then (TRANSITION_NOT_CHANGED,
            c\<lparr>last_sp_man := (last_sp_man c)\<lparr>sp_timestamp := sp_timestamp sp, sp_x := sp_x sp,
                sp_y := sp_y sp, sp_z := sp_z sp, sp_r := sp_r sp\<rparr>\<rparr>, [])
      else rc_offboard_switch t sp (c\<lparr>last_sp_man := sp\<rparr>))"

text \<open>
  Arming with the sticks.  The threshold of the counters is
  \<open>STICK_ON_OFF_HYSTERESIS_TIME_MS * (1 / (COMMANDER_MONITORING_INTERVAL / 1000.0f))\<close>, which single
  precision rounds to 20.
\<close>

definition STICK_ON_OFF_COUNTER_LIMIT :: u32 where "STICK_ON_OFF_COUNTER_LIMIT = 20"

definition RC_IN_MODE_OFF :: u8 where "RC_IN_MODE_OFF = 1"

definition stick_disarm_position :: "manual_control_setpoint \<Rightarrow> vehicle_status \<Rightarrow> bool" where
  "stick_disarm_position sp st \<longleftrightarrow> is_rotary_wing st \<and> rc_input_mode st \<noteq> RC_IN_MODE_OFF \<and>
     (arming_state st = ARMING_STATE_ARMED \<or> arming_state st = ARMING_STATE_ARMED_ERROR) \<and>
     (main_state st = MAIN_STATE_MANUAL \<or> main_state st = MAIN_STATE_ACRO \<or>
      main_state st = MAIN_STATE_STAB \<or> main_state st = MAIN_STATE_RATTITUDE \<or>
      condition_landed st) \<and>
     f32_lt (sp_r sp) 0xBF666666 \<and> f32_lt (sp_z sp) 0x3DCCCCCD"

definition stick_disarm :: "cmd_env \<Rightarrow> manual_control_setpoint \<Rightarrow> transition_result \<Rightarrow> commander
    \<Rightarrow> rc_result" where
  "stick_disarm env sp arming_ret c =
     (if stick_disarm_position sp (c_status c) then
        (if stick_off_counter c > STICK_ON_OFF_COUNTER_LIMIT
         then (let (r, c', ev) = run_arming env
                     (if arming_state (c_status c) = ARMING_STATE_ARMED then ARMING_STATE_STANDBY
                      else ARMING_STATE_STANDBY_ERROR) c
               in (r, c'\<lparr>stick_off_counter := 0\<rparr>, ev))
         else (arming_ret, c\<lparr>stick_off_counter := stick_off_counter c + 1\<rparr>, []))
      else (arming_ret, c\<lparr>stick_off_counter := 0\<rparr>, []))"

definition stick_arm :: "cmd_env \<Rightarrow> manual_control_setpoint \<Rightarrow> transition_result \<Rightarrow> commander
    \<Rightarrow> rc_result" where
  "stick_arm env sp arming_ret c =
     (if f32_gt (sp_r sp) 0x3F666666 \<and> f32_lt (sp_z sp) 0x3DCCCCCD \<and>
         rc_input_mode (c_status c) \<noteq> RC_IN_MODE_OFF then
        (if stick_on_counter c > STICK_ON_OFF_COUNTER_LIMIT then
           (let (r, c', ev) =
              (if main_state (c_status c) \<noteq> MAIN_STATE_MANUAL \<and> main_state (c_status c) \<noteq> MAIN_STATE_STAB
               then (let (c1, ev1) = print_reject_arm (time_reject env)
                           ''NOT ARMING: Switch to MANUAL mode first.'' c in (arming_ret, c1, ev1))
               else if \<not> condition_home_position_valid (c_status c) \<and> geofence_action_rtl env
               then (let (c1, ev1) = print_reject_arm (time_reject env)
                           ''NOT ARMING: Geofence RTL requires valid home'' c in (arming_ret, c1, ev1))
               else if arming_state (c_status c) = ARMING_STATE_STANDBY
               then (let (r1, c1, ev1) = run_arming env ARMING_STATE_ARMED c
                     in if r1 = TRANSITION_CHANGED then (r1, c1, ev1)
                        else (let (c2, ev2) = print_reject_arm (time_reject env)
                                    ''NOT ARMING: Configuration error'' c1 in (r1, c2, ev1 @ ev2)))
               else (arming_ret, c, []))
            in (r, c'\<lparr>stick_on_counter := 0\<rparr>, ev))
         else (arming_ret, c\<lparr>stick_on_counter := stick_on_counter c + 1\<rparr>, []))
      else (arming_ret, c\<lparr>stick_on_counter := 0\<rparr>, []))"

text \<open>One evaluation of a fresh radio input: disarm, arm, feedback, then the mode switches.  The
  result of an arming transition earlier in the same iteration of the main loop comes in as
  \<open>arming_ret0\<close>.\<close>

definition rc_input :: "cmd_env \<Rightarrow> manual_control_setpoint \<Rightarrow> transition_result \<Rightarrow> commander \<Rightarrow> commander \<times> event list" where
  "rc_input env sp arming_ret0 c =
     (let (ret1, c1, ev1) = stick_disarm env sp arming_ret0 c;
          (arming_ret, c2, ev2) = stick_arm env sp ret1 c1;
          ev3 = (if arming_ret = TRANSITION_CHANGED
                 then [Log (Info (if arming_state (c_status c2) = ARMING_STATE_ARMED
                   then ''ARMED by RC'' else ''DISARMED by RC''))]
                 else if arming_ret = TRANSITION_DENIED then [Tune_negative True] else []);
          (main_res, c3, ev4) = set_main_state_rc (time_reject env) sp c2;
          ev5 = (if main_res = TRANSITION_CHANGED then [Tune_positive (armed (c_armed c3))]
                 else if main_res = TRANSITION_DENIED
                 then [Log (Crit ''main state transition denied'')] else [])
      in (c3, ev1 @ ev2 @ ev3 @ ev4 @ ev5))"

section \<open>Flight termination and home position\<close>

definition manual_main_state :: "main_state \<Rightarrow> bool" where
  "manual_main_state m \<longleftrightarrow> m = MAIN_STATE_ACRO \<or> m = MAIN_STATE_RATTITUDE \<or> m = MAIN_STATE_MANUAL \<or>
     m = MAIN_STATE_STAB \<or> m = MAIN_STATE_ALTCTL \<or> m = MAIN_STATE_POSCTL"

text \<open>The messages of this check are left out.\<close>

definition check_flight_termination :: "commander \<Rightarrow> commander" where
  "check_flight_termination c =
     (if armed (c_armed c) then
        (let st = c_status c;
             c1 = (if \<not> manual_main_state (main_state st) \<and>
                     ((data_link_lost st \<and> gps_failure st) \<or> (data_link_lost_cmd st \<and> gps_failure_cmd st))
                   then c\<lparr>c_armed := (c_armed c)\<lparr>force_failsafe := True\<rparr>\<rparr> else c)
         in if manual_main_state (main_state st) \<and>
               ((rc_signal_lost st \<and> gps_failure st) \<or> (rc_signal_lost_cmd st \<and> gps_failure_cmd st))
            then c1\<lparr>c_armed := (c_armed c1)\<lparr>force_failsafe := True\<rparr>\<rparr> else c1)
      else c)"

definition update_home :: "cmd_env \<Rightarrow> bool \<Rightarrow> bool \<Rightarrow> commander \<Rightarrow> commander \<times> event list" where
  "update_home env was_armed was_landed c =
     (if \<not> condition_home_position_valid (c_status c) \<and> \<not> armed (c_armed c)
      then commander_set_home_position (positions env) (time_home env) c
      else if ((\<not> was_armed \<and> armed (c_armed c)) \<or> (was_landed \<and> \<not> condition_landed (c_status c))) \<and>
        time_home_check env > commander_boot_timestamp env + INAIR_RESTART_HOLDOFF_INTERVAL
      then commander_set_home_position (positions env) (time_home env) c
      else (c, []))"

section \<open>Control mode\<close>

definition stabilization_required :: "bool \<Rightarrow> vehicle_status \<Rightarrow> bool" where
  "stabilization_required vtol_in_trans_mode st \<longleftrightarrow> is_rotary_wing st \<or> vtol_fw_permanent_stab st \<or>
     (vtol_in_trans_mode \<and> \<not> is_rotary_wing st)"

text \<open>
  The nine flags in the order manual, auto, rates, attitude, altitude, climb rate, position,
  velocity, termination.
\<close>

definition set_flags :: "bool \<Rightarrow> bool \<Rightarrow> bool \<Rightarrow> bool \<Rightarrow> bool \<Rightarrow> bool \<Rightarrow> bool \<Rightarrow> bool \<Rightarrow> bool
    \<Rightarrow> vehicle_control_mode \<Rightarrow> vehicle_control_mode" where
  "set_flags man aut rates att alt climb pos vel term m =
     m\<lparr>flag_control_manual_enabled := man, flag_control_auto_enabled := aut,
       flag_control_rates_enabled := rates, flag_control_attitude_enabled := att,
       flag_control_altitude_enabled := alt, flag_control_climb_rate_enabled := climb,
       flag_control_position_enabled := pos, flag_control_velocity_enabled := vel,
       flag_control_termination_enabled := term\<rparr>"

definition auto_flags :: "vehicle_control_mode \<Rightarrow> vehicle_control_mode" where
  "auto_flags = set_flags False True True True True True True True False"

definition offboard_flags :: "offboard_control_mode \<Rightarrow> vehicle_status \<Rightarrow> vehicle_control_mode
    \<Rightarrow> vehicle_control_mode" where
  "offboard_flags ocm st m =
     m\<lparr>flag_control_manual_enabled := False, flag_control_auto_enabled := False,
       flag_control_offboard_enabled := True,
       flag_control_rates_enabled := \<not> ignore_bodyrate ocm \<or> \<not> ignore_attitude ocm \<or>
         \<not> ignore_position ocm \<or> \<not> ignore_velocity ocm \<or> \<not> ignore_acceleration_force ocm,
       flag_control_attitude_enabled := \<not> ignore_attitude ocm \<or> \<not> ignore_position ocm \<or>
         \<not> ignore_velocity ocm \<or> \<not> ignore_acceleration_force ocm,
       flag_control_velocity_enabled := (\<not> ignore_velocity ocm \<or> \<not> ignore_position ocm) \<and>
         \<not> in_transition_mode st,
       flag_control_climb_rate_enabled := \<not> ignore_velocity ocm \<or> \<not> ignore_position ocm,
       flag_control_position_enabled := \<not> ignore_position ocm \<and> \<not> in_transition_mode st,
       flag_control_altitude_enabled := \<not> ignore_velocity ocm \<or> \<not> ignore_position ocm\<rparr>"

definition control_mode_flags :: "bool \<Rightarrow> offboard_control_mode \<Rightarrow> vehicle_status
    \<Rightarrow> vehicle_control_mode \<Rightarrow> vehicle_control_mode" where
  "control_mode_flags in_trans ocm st m =
     (let stab = stabilization_required in_trans st;
          no_override = (\<lambda>m. m\<lparr>flag_external_manual_override_ok := False\<rparr>);
          trans_off = \<not> in_transition_mode st;
          lpos = condition_local_position_valid st
      in case nav_state st of
        NAVIGATION_STATE_MANUAL \<Rightarrow> set_flags True False stab stab False False False False False m
      | NAVIGATION_STATE_STAB \<Rightarrow>
          no_override (set_flags True False True True False False False False False m)
      | NAVIGATION_STATE_RATTITUDE \<Rightarrow> set_flags True False True True False False False False False m
      | NAVIGATION_STATE_ALTCTL \<Rightarrow> set_flags True False True True True True False False False m
      | NAVIGATION_STATE_POSCTL \<Rightarrow> set_flags True False True True True True trans_off trans_off False m
      | NAVIGATION_STATE_AUTO_RTL \<Rightarrow> auto_flags (no_override m)
      | NAVIGATION_STATE_AUTO_RCRECOVER \<Rightarrow> auto_flags (no_override m)
      | NAVIGATION_STATE_AUTO_RTGS \<Rightarrow> auto_flags m
      | NAVIGATION_STATE_AUTO_LANDENGFAIL \<Rightarrow> auto_flags m
      | NAVIGATION_STATE_AUTO_MISSION \<Rightarrow> auto_flags m
      | NAVIGATION_STATE_AUTO_LOITER \<Rightarrow> auto_flags m
      | NAVIGATION_STATE_AUTO_TAKEOFF \<Rightarrow> auto_flags m
      | NAVIGATION_STATE_AUTO_LANDGPSFAIL \<Rightarrow>
          set_flags False False True True False True False False False m
      | NAVIGATION_STATE_ACRO \<Rightarrow> set_flags True False True False False False False False False m
      | NAVIGATION_STATE_LAND \<Rightarrow> set_flags False True True True True True lpos lpos False m
      | NAVIGATION_STATE_DESCEND \<Rightarrow> set_flags False True True True False True False False False m
      | NAVIGATION_STATE_TERMINATION \<Rightarrow>
          set_flags False False False False False False False False True m
      | NAVIGATION_STATE_OFFBOARD \<Rightarrow> offboard_flags ocm st m)"

definition set_control_mode :: "bool \<Rightarrow> offboard_control_mode \<Rightarrow> commander \<Rightarrow> commander" where
  "set_control_mode in_trans ocm c =
     (let st = c_status c;
          m = (c_control_mode c)\<lparr>flag_armed := armed (c_armed c),
            flag_external_manual_override_ok := \<not> is_rotary_wing st \<and> \<not> is_vtol st,
            flag_system_hil_enabled := hil_state st = HIL_STATE_ON,
            flag_control_offboard_enabled := False\<rparr>
      in c\<lparr>c_control_mode := control_mode_flags in_trans ocm st m\<rparr>)"

section \<open>The commander runs the state machines\<close>

text \<open>
  Every operation is a run of the steps of \<open>VehicleSafety\<close>, so the invariant proved there holds
  for the commander.  The one exception is the arm/disarm command of an onboard system, which
  writes the arming state itself.
\<close>

definition vehicle_of :: "commander \<Rightarrow> vehicle" where
  "vehicle_of c = (c_status c, c_armed c)"

definition sm_run :: "commander \<Rightarrow> commander \<Rightarrow> bool" where
  "sm_run c c' \<longleftrightarrow> sm_step\<^sup>*\<^sup>* (vehicle_of c) (vehicle_of c')"

named_theorems sm_runs \<open>operations that are runs of the state machine\<close>

lemma sm_run_refl [sm_runs, simp]: "sm_run c c"
  by (simp add: sm_run_def)

lemma sm_run_trans: "sm_run a b \<Longrightarrow> sm_run b c \<Longrightarrow> sm_run a c"
  by (simp add: sm_run_def)

lemma sm_run_frame:
  assumes "c_armed c' = c_armed c" "arming_state (c_status c') = arming_state (c_status c)"
    "hil_state (c_status c') = hil_state (c_status c)"
  shows "sm_run c c'"
  unfolding sm_run_def vehicle_of_def assms(1)
  by (rule r_into_rtranclp, rule sm_step.conditions) (simp_all add: assms)

lemma run_arming_run [sm_runs]: "sm_run c (fst (snd (run_arming env n c)))"
proof -
  let ?T = "arming_state_transition (pre_env1 env) (pre_env2 env) (mavlink_fd env)
    (c_safety c) n True (c_status c) (c_armed c)"
  have "sm_step (c_status c, c_armed c) (fst (snd ?T), fst (snd (snd ?T)))"
    by (rule sm_step.arm [of "pre_env1 env" "pre_env2 env" "mavlink_fd env" "c_safety c" n True
          _ _ "fst ?T" _ _ "snd (snd (snd ?T))"]) simp
  then show ?thesis
    by (simp add: sm_run_def vehicle_of_def run_arming_def split_beta r_into_rtranclp)
qed

lemma run_main_run [sm_runs]: "sm_run c (snd (run_main m c))"
  by (rule sm_run_frame) (simp_all add: run_main_def split_beta main_state_frame)

lemma print_reject_run [sm_runs]:
  "sm_run c (fst (print_reject_mode t msg c))" "sm_run c (fst (print_reject_arm t msg c))"
  by (simp_all add: print_reject_mode_def print_reject_arm_def sm_run_frame)

lemma set_home_run [sm_runs]: "sm_run c (fst (commander_set_home_position pe t c))"
  by (simp add: commander_set_home_position_def sm_run_frame)

lemma arm_disarm_run [sm_runs]: "sm_run c (fst (snd (arm_disarm env a who c)))"
  by (simp add: arm_disarm_def split_beta Let_def run_arming_run)

lemma set_hil_run:
  "sm_run c (c\<lparr>c_status := fst (snd (hil_state_transition nx denv now h (c_status c)))\<rparr>)"
proof -
  let ?T = "hil_state_transition nx denv now h (c_status c)"
  have "sm_step (c_status c, c_armed c) (fst (snd ?T), c_armed c)"
    by (rule sm_step.hil [of nx denv now h _ "fst ?T" _ "fst (snd (snd ?T))"
          "fst (snd (snd (snd ?T)))" "snd (snd (snd (snd ?T)))"]) simp
  then show ?thesis
    by (simp add: sm_run_def vehicle_of_def r_into_rtranclp)
qed

lemma set_mode_run [sm_runs]:
  "sm_run c (fst (snd (set_mode_custom mm ms c)))" "sm_run c (snd (set_mode_base bm c))"
  by (simp_all add: set_mode_custom_def set_mode_base_def Let_def split_beta run_main_run)

lemma cmd_do_set_mode_run:
  assumes "cmd_do_set_mode env cmd c = Some (r, c', ev)"
  shows "sm_run c c'"
proof -
  obtain bm mm ms where m: "f32_to_u8 (param1 cmd) = Some bm" "f32_to_u8 (param2 cmd) = Some mm"
      "f32_to_u8 (param3 cmd) = Some ms"
    using assms by (auto simp: cmd_do_set_mode_def bind_eq_Some_conv)
  define c1 where "c1 = c\<lparr>c_status := fst (snd (hil_state_transition (on_nuttx env) (hil_devices env)
    (time_hil env) (if has_flag bm MAV_MODE_FLAG_HIL_ENABLED then HIL_STATE_ON else HIL_STATE_OFF)
    (c_status c)))\<rparr>"
  define c2 where "c2 = fst (snd (arm_disarm env (has_flag bm MAV_MODE_FLAG_SAFETY_ARMED)
    ''set mode command'' c1))"
  have c': "\<exists>c3. (c3 = c2 \<or> c3 = fst (commander_set_home_position (positions env) (time_home env) c2)) \<and>
      (c' = fst (snd (set_mode_custom mm ms c3)) \<or> c' = snd (set_mode_base bm c3))"
    using assms m
    by (auto simp: cmd_do_set_mode_def Let_def split_beta c1_def c2_def split: if_splits)
  have "sm_run c c1" "sm_run c1 c2"
    unfolding c1_def c2_def by (rule set_hil_run, rule arm_disarm_run)
  with c' show ?thesis
    by (metis sm_run_trans set_home_run set_mode_run)
qed

lemma sm_run_termination:
  assumes "c_armed c' = (c_armed c)\<lparr>force_failsafe := b\<rparr>"
    "arming_state (c_status c') = arming_state (c_status c)"
    "hil_state (c_status c') = hil_state (c_status c)"
  shows "sm_run c c'"
proof -
  have "sm_run c (c\<lparr>c_armed := (c_armed c)\<lparr>force_failsafe := b\<rparr>\<rparr>)"
    by (auto simp: sm_run_def vehicle_of_def intro!: sm_step.failsafe_command)
  moreover have "sm_run (c\<lparr>c_armed := (c_armed c)\<lparr>force_failsafe := b\<rparr>\<rparr>) c'"
    using assms by (intro sm_run_frame) simp_all
  ultimately show ?thesis by (rule sm_run_trans)
qed

lemma cmd_flighttermination_run:
  assumes "cmd_flighttermination cmd c = Some (r, c', ev)"
  shows "sm_run c c'"
  using assms
  by (intro sm_run_termination [where b = "f32_gt (param1 cmd) 0x3F000000"])
     (auto simp: cmd_flighttermination_def Let_def bind_eq_Some_conv)

lemma cmd_override_goto_run:
  assumes "cmd_override_goto cmd c = Some (r, c', ev)"
  shows "sm_run c c'"
  using assms
  by (intro sm_run_frame) (auto simp: cmd_override_goto_def bind_eq_Some_conv split: if_splits)

lemma cmd_do_set_home_run: "sm_run c (fst (snd (cmd_do_set_home env cmd c)))"
  by (rule sm_run_frame) (auto simp: cmd_do_set_home_def Let_def)

lemma cmd_guided_enable_run: "sm_run c (fst (snd (cmd_guided_enable env cmd c)))"
  by (rule sm_run_frame)
     (auto simp: cmd_guided_enable_def Let_def split_beta run_main_def main_state_frame
       print_reject_mode_def)

lemma cmd_nav_takeoff_run: "sm_run c (fst (snd (cmd_nav_takeoff c)))"
  by (simp add: cmd_nav_takeoff_def split_beta run_main_run)

definition onboard_command :: "vehicle_command \<Rightarrow> commander \<Rightarrow> bool" where
  "onboard_command cmd c \<longleftrightarrow> source_system cmd = system_id (c_status c) \<and>
     source_component cmd = component_id (c_status c)"

lemma cmd_component_arm_disarm_run:
  assumes "cmd_component_arm_disarm env cmd c = Some (r, c', ev)" "\<not> onboard_command cmd c"
  shows "sm_run c c'"
proof -
  have "\<exists>p. c' = c \<or> c' = fst (snd (arm_disarm env p ''arm/disarm component command'' c))"
    using assms
    by (auto simp: cmd_component_arm_disarm_def onboard_command_def Let_def split_beta
        bind_eq_Some_conv split: if_splits) (metis fst_conv)+
  then show ?thesis
    using arm_disarm_run by fastforce
qed

lemma handle_command_run:
  assumes "handle_command env cmd c = Some (b, c', ev)"
    and "\<not> (cmd_command cmd = 400 \<and> onboard_command cmd c)"
  shows "sm_run c c'"
proof (cases "target_system cmd \<noteq> system_id (c_status c) \<or>
    (target_component cmd \<noteq> component_id (c_status c) \<and> target_component cmd \<noteq> 0)")
  case True
  then show ?thesis
    using assms(1) by (auto simp: handle_command_def)
next
  case False
  obtain r ev' where h: "cmd_do_set_mode env cmd c = Some (r, c', ev') \<or>
      cmd_command cmd = 400 \<and> cmd_component_arm_disarm env cmd c = Some (r, c', ev') \<or>
      cmd_override_goto cmd c = Some (r, c', ev') \<or>
      cmd_flighttermination cmd c = Some (r, c', ev') \<or>
      cmd_do_set_home env cmd c = (r, c', ev') \<or> cmd_guided_enable env cmd c = (r, c', ev') \<or>
      cmd_nav_takeoff c = (r, c', ev') \<or> c' = c"
    using assms(1) False
    by (auto simp: handle_command_def bind_eq_Some_conv split: if_splits)
  show ?thesis
    using h assms(2) cmd_do_set_mode_run cmd_component_arm_disarm_run cmd_override_goto_run
      cmd_flighttermination_run cmd_do_set_home_run [of c env cmd] cmd_guided_enable_run [of c env cmd]
      cmd_nav_takeoff_run [of c]
    by (auto dest: cmd_do_set_mode_run cmd_component_arm_disarm_run)
qed

subsection \<open>Radio control\<close>

lemma enter_main_run [sm_runs]: "sm_run c (fst (snd (enter_main m c)))"
  by (simp add: enter_main_def split_beta run_main_run)

lemma try_main_run:
  assumes "\<And>c. sm_run c (fst (snd (next_choice c)))"
  shows "sm_run c (fst (snd (try_main m next_choice c)))"
  using sm_run_trans [OF run_main_run assms] run_main_run
  by (simp add: try_main_def split_beta)

lemma rejecting_run:
  assumes "\<And>c. sm_run c (fst (snd (next_choice c)))"
  shows "sm_run c (fst (snd (rejecting t msg next_choice c)))"
  using sm_run_trans [OF print_reject_run(1) assms] by (simp add: rejecting_def split_beta)

lemma rc_switch_run:
  "sm_run c (fst (snd (rc_manual sp c)))" "sm_run c (fst (snd (rc_assist t sp c)))"
  "sm_run c (fst (snd (rc_auto t sp c)))"
  unfolding rc_manual_def rc_assist_def rc_auto_def Let_def
  by (auto intro!: try_main_run rejecting_run enter_main_run)

lemma rc_mode_switch_run: "sm_run c (fst (snd (rc_mode_switch t sp c)))"
  by (simp add: rc_mode_switch_def rc_switch_run)

lemma set_main_state_rc_run: "sm_run c (fst (snd (set_main_state_rc t sp c)))"
proof -
  have ret: "sm_run c (fst (snd (rc_return_switch t sp c)))" for c
    unfolding rc_return_switch_def
    by (auto intro!: try_main_run rejecting_run rc_mode_switch_run)
  have off: "sm_run c (fst (snd (rc_offboard_switch t sp c)))" for c
    unfolding rc_offboard_switch_def by (auto intro!: try_main_run rejecting_run ret)
  have upd: "sm_run c (c\<lparr>last_sp_man := x\<rparr>)" for x
    by (rule sm_run_frame) simp_all
  show ?thesis
    unfolding set_main_state_rc_def
    by (simp add: enter_main_run upd sm_run_trans [OF upd off])
qed

lemma stick_counter_run:
  "sm_run c c' \<Longrightarrow> sm_run c (c'\<lparr>stick_off_counter := n\<rparr>)"
  "sm_run c c' \<Longrightarrow> sm_run c (c'\<lparr>stick_on_counter := n\<rparr>)"
  by (simp_all add: sm_run_def vehicle_of_def)

lemma stick_disarm_run: "sm_run c (fst (snd (stick_disarm env sp r c)))"
  by (simp add: stick_disarm_def Let_def split_beta stick_counter_run run_arming_run)

lemma stick_arm_run: "sm_run c (fst (snd (stick_arm env sp r c)))"
  unfolding stick_arm_def Let_def split_beta
  by (auto intro!: stick_counter_run(2) run_arming_run print_reject_run
      sm_run_trans [OF run_arming_run print_reject_run(2)])

lemma rc_input_run: "sm_run c (fst (rc_input env sp r c))"
  unfolding rc_input_def Let_def split_beta fst_conv
  by (metis sm_run_trans stick_disarm_run stick_arm_run set_main_state_rc_run)

lemma check_flight_termination_run: "sm_run c (check_flight_termination c)"
  by (cases "c_armed (check_flight_termination c) = c_armed c")
     (auto simp: check_flight_termination_def Let_def split: if_splits
       intro!: sm_run_frame sm_run_termination [where b = True])

lemma update_home_run: "sm_run c (fst (update_home env wa wl c))"
  by (simp add: update_home_def set_home_run)

lemma sm_run_inv: "sm_run c c' \<Longrightarrow> sm_inv (vehicle_of c) \<Longrightarrow> sm_inv (vehicle_of c')"
  unfolding sm_run_def by (rule sm_inv_run)

section \<open>Radio mode switches\<close>

lemma run_main_denied: "fst (run_main m c) = TRANSITION_DENIED \<Longrightarrow> snd (run_main m c) = c"
  by (auto simp: run_main_def split_beta main_state_transition_def Let_def split: if_splits)

lemma enter_manual_accepted:
  "m \<in> {MAIN_STATE_MANUAL, MAIN_STATE_ACRO, MAIN_STATE_RATTITUDE, MAIN_STATE_STAB} \<Longrightarrow>
     fst (enter_main m c) \<noteq> TRANSITION_DENIED"
  by (auto simp: enter_main_def run_main_def split_beta main_state_transition_def)

lemma try_main_accepted:
  "(\<And>c. fst (next_choice c) \<noteq> TRANSITION_DENIED) \<Longrightarrow> fst (try_main m next_choice c) \<noteq> TRANSITION_DENIED"
  by (auto simp: try_main_def split_beta)

lemma rejecting_accepted:
  "(\<And>c. fst (next_choice c) \<noteq> TRANSITION_DENIED) \<Longrightarrow>
     fst (rejecting t msg next_choice c) \<noteq> TRANSITION_DENIED"
  by (auto simp: rejecting_def split_beta)

lemma rc_mode_switch_accepted:
  assumes "mode_switch sp \<in> {SWITCH_POS_NONE, SWITCH_POS_ON, SWITCH_POS_MIDDLE, SWITCH_POS_OFF}"
  shows "fst (rc_mode_switch t sp c) \<noteq> TRANSITION_DENIED"
proof -
  have "fst (rc_manual sp c) \<noteq> TRANSITION_DENIED"
    by (simp add: rc_manual_def enter_manual_accepted)
  moreover have "fst (rc_assist t sp c) \<noteq> TRANSITION_DENIED"
    unfolding rc_assist_def Let_def
    by (auto intro!: try_main_accepted rejecting_accepted enter_manual_accepted)
  moreover have "fst (rc_auto t sp c) \<noteq> TRANSITION_DENIED"
    unfolding rc_auto_def Let_def
    by (auto intro!: try_main_accepted rejecting_accepted enter_manual_accepted)
  ultimately show ?thesis
    using assms by (auto simp: rc_mode_switch_def)
qed

lemma set_main_state_rc_accepted:
  assumes "mode_switch sp \<in> {SWITCH_POS_NONE, SWITCH_POS_ON, SWITCH_POS_MIDDLE, SWITCH_POS_OFF}"
    and "\<not> offboard_control_set_by_command (c_status c)"
  shows "fst (set_main_state_rc t sp c) \<noteq> TRANSITION_DENIED"
proof -
  have ret: "fst (rc_return_switch t sp c) \<noteq> TRANSITION_DENIED" for c
    unfolding rc_return_switch_def
    by (auto intro!: try_main_accepted rejecting_accepted rc_mode_switch_accepted [OF assms(1)]
        simp: rc_mode_switch_accepted [OF assms(1)])
  have "fst (rc_offboard_switch t sp c) \<noteq> TRANSITION_DENIED" for c
    unfolding rc_offboard_switch_def
    by (auto intro!: try_main_accepted rejecting_accepted ret simp: ret)
  then show ?thesis
    using assms(2) by (simp add: set_main_state_rc_def)
qed

section \<open>States for the witnesses\<close>

definition idle_sp :: manual_control_setpoint where
  "idle_sp = \<lparr>sp_timestamp = 5, sp_x = 0, sp_y = 0, sp_z = 0, sp_r = 0, mode_switch = 3,
     return_switch = 0, rattitude_switch = 0, posctl_switch = 0, loiter_switch = 0,
     acro_switch = 0, offboard_switch = 0\<rparr>"

definition idle_mode :: vehicle_control_mode where
  "idle_mode = \<lparr>flag_armed = False, flag_external_manual_override_ok = False,
     flag_system_hil_enabled = False, flag_control_manual_enabled = False,
     flag_control_auto_enabled = False, flag_control_offboard_enabled = False,
     flag_control_rates_enabled = False, flag_control_attitude_enabled = False,
     flag_control_velocity_enabled = False, flag_control_position_enabled = False,
     flag_control_altitude_enabled = False, flag_control_climb_rate_enabled = False,
     flag_control_termination_enabled = False\<rparr>"

definition idle_commander :: commander where
  "idle_commander = \<lparr>c_status = idle_status, c_safety = open_safety, c_armed = idle_armed,
     c_home = \<lparr>home_timestamp = 0, home_lat = 0, home_lon = 0, home_alt = 0, home_x = 0, home_y = 0,
       home_z = 0, home_yaw = 0\<rparr>,
     main_state_pre_offboard = MAIN_STATE_MANUAL, last_print_mode_reject_time = 0,
     last_sp_man = idle_sp, c_control_mode = idle_mode, stick_off_counter = 0,
     stick_on_counter = 0\<rparr>"

definition idle_env :: cmd_env where
  "idle_env = \<lparr>pre_env1 = good_env, pre_env2 = good_env, mavlink_fd = 3, on_nuttx = True,
     hil_devices = \<lparr>dev_dir = None, dev_open = (\<lambda>_. 0), vdev_names = [], df_devices = []\<rparr>,
     positions = \<lparr>gp_lat = 1, gp_lon = 2, gp_alt = 3, gp_eph = 0, gp_epv = 0, lp_x = 0, lp_y = 0,
       lp_z = 0, att_yaw = 0\<rparr>,
     commander_boot_timestamp = 0, autostart_id = 4001, time_hil = 0, time_arm = 1000000,
     time_home_check = 1000000, time_home = 1000000, time_reject = 1000000,
     geofence_action_rtl = False\<rparr>"

definition gcs_command :: "u32 \<Rightarrow> f32 \<Rightarrow> vehicle_command" where
  "gcs_command n p = \<lparr>param1 = p, param2 = 0, param3 = 0, param4 = 0, param5 = 7, param6 = 8,
     param7 = 9, cmd_command = n, target_system = 1, target_component = 0,
     source_system = 255, source_component = 0\<rparr>"

lemma f32_half: "f32_to_i32 (f32_add 0 0x3F000000) = Some 0" "f32_to_i32 (f32_add 0x3F800000 0x3F000000) = Some 1"
  by code_simp+

section \<open>Properties\<close>



text \<open>
  An onboard command to disarm an armed vehicle first writes IN_AIR_RESTORE into the arming
  state, from which the transition to STANDBY is denied: the command is rejected, the actuators
  stay armed, and the arming state no longer says so.
\<close>

theorem onboard_disarm_desynchronises:
  assumes "onboard_command cmd c" "param1 cmd = 0" "hil_state (c_status c) = HIL_STATE_OFF"
    and "armed (c_armed c)"
  shows "\<exists>c' ev. cmd_component_arm_disarm env cmd c
        = Some (VEHICLE_CMD_RESULT_TEMPORARILY_REJECTED, c', ev) \<and>
      armed (c_armed c') \<and> arming_state (c_status c') = ARMING_STATE_IN_AIR_RESTORE \<and>
      \<not> vehicle_armed (c_status c')"
proof -
  let ?st = "(c_status c)\<lparr>arming_state := ARMING_STATE_IN_AIR_RESTORE\<rparr>"
  have ne: "ARMING_STATE_STANDBY \<noteq> arming_state ?st"
    by simp
  have acc: "\<not> arming_accepts (pre_env1 env) (pre_env2 env) (c_safety c) ARMING_STATE_STANDBY True ?st"
    using assms(3) by (simp add: arming_accepts_def)
  note T = arming_transition_result [OF ne, of "pre_env1 env" "pre_env2 env" "mavlink_fd env"
      "c_safety c" True "c_armed c", unfolded if_not_P [OF acc]]
  show ?thesis
    using assms T(1,2,4)
    by (auto simp: cmd_component_arm_disarm_def onboard_command_def f32_half arm_disarm_def
        run_arming_def Let_def split_beta arming_from_def vehicle_armed_def)
qed

theorem onboard_disarm_desynchronises_witness:
  "\<exists>c' ev. cmd_component_arm_disarm idle_env ((gcs_command 400 0)\<lparr>source_system := 1, source_component := 1\<rparr>)
      (idle_commander\<lparr>c_status := idle_status\<lparr>arming_state := ARMING_STATE_ARMED\<rparr>,
         c_armed := idle_armed\<lparr>armed := True\<rparr>\<rparr>)
    = Some (VEHICLE_CMD_RESULT_TEMPORARILY_REJECTED, c', ev) \<and>
    armed (c_armed c') \<and> \<not> vehicle_armed (c_status c')"
  using onboard_disarm_desynchronises [of "(gcs_command 400 0)\<lparr>source_system := 1, source_component := 1\<rparr>"
      "idle_commander\<lparr>c_status := idle_status\<lparr>arming_state := ARMING_STATE_ARMED\<rparr>,
         c_armed := idle_armed\<lparr>armed := True\<rparr>\<rparr>" idle_env]
  by (auto simp: onboard_command_def gcs_command_def idle_status_def)

text \<open>
  The refusal to arm with failed preflight checks is guarded by the wrong condition: an
  arm or disarm command from elsewhere is answered DENIED exactly when HIL is on and the
  sensors are marked as failed, so with HIL off the check never applies.
\<close>

theorem arm_command_guard:
  assumes "f32_to_i32 (f32_add (param1 cmd) 0x3F000000) \<in> {Some 0, Some 1}"
    and "\<not> onboard_command cmd c" "hil_state (c_status c) \<in> {HIL_STATE_OFF, HIL_STATE_ON}"
  shows "(fst (the (cmd_component_arm_disarm env cmd c)) = VEHICLE_CMD_RESULT_DENIED) =
      (hil_state (c_status c) = HIL_STATE_ON \<and> \<not> condition_system_sensors_initialized (c_status c))
    \<and> cmd_component_arm_disarm env cmd c \<noteq> None"
  using assms
  by (auto simp: cmd_component_arm_disarm_def onboard_command_def preflight_refusal_def
      hil_number_def Let_def split_beta split: if_splits)

theorem arm_command_guard_witness:
  "fst (the (cmd_component_arm_disarm idle_env (gcs_command 400 0x3F800000)
      (idle_commander\<lparr>c_status := idle_status\<lparr>condition_system_sensors_initialized := False\<rparr>\<rparr>)))
     \<noteq> VEHICLE_CMD_RESULT_DENIED"
  using arm_command_guard [of "gcs_command 400 0x3F800000"
      "idle_commander\<lparr>c_status := idle_status\<lparr>condition_system_sensors_initialized := False\<rparr>\<rparr>" idle_env]
  by (simp add: gcs_command_def f32_half onboard_command_def idle_status_def)



text \<open>
  One evaluation of the arming stick as a step of the commander, and the outcome once the stick
  has been held long enough.
\<close>

definition stick_held :: "manual_control_setpoint \<Rightarrow> commander \<Rightarrow> bool" where
  "stick_held sp c \<longleftrightarrow> f32_gt (sp_r sp) 0x3F666666 \<and> f32_lt (sp_z sp) 0x3DCCCCCD \<and>
     rc_input_mode (c_status c) \<noteq> RC_IN_MODE_OFF"

definition stick_arm_step :: "cmd_env \<Rightarrow> manual_control_setpoint \<Rightarrow> commander \<Rightarrow> commander" where
  "stick_arm_step env sp c = fst (snd (stick_arm env sp TRANSITION_NOT_CHANGED c))"

lemma stick_arm_below:
  "stick_held sp c \<Longrightarrow> stick_on_counter c \<le> 20 \<Longrightarrow>
   stick_arm env sp r c = (r, c\<lparr>stick_on_counter := stick_on_counter c + 1\<rparr>, [])"
  by (auto simp: stick_arm_def stick_held_def STICK_ON_OFF_COUNTER_LIMIT_def)

lemma stick_arm_above:
  assumes "stick_held sp c" "stick_on_counter c = 21"
    and "main_state (c_status c) \<in> {MAIN_STATE_MANUAL, MAIN_STATE_STAB}"
    and "condition_home_position_valid (c_status c)" "arming_state (c_status c) = ARMING_STATE_STANDBY"
  shows "fst (stick_arm env sp r c) = fst (run_arming env ARMING_STATE_ARMED c)"
  using assms
  by (auto simp: stick_arm_def stick_held_def STICK_ON_OFF_COUNTER_LIMIT_def Let_def split_beta)

lemma stick_arm_count:
  assumes "stick_held sp c" "stick_on_counter c = 0" "n \<le> 21"
  shows "(stick_arm_step env sp ^^ n) c = c\<lparr>stick_on_counter := of_nat n\<rparr>"
  using assms(3)
proof (induction n)
  case 0
  then show ?case using assms(2) by simp
next
  case (Suc n)
  have "(of_nat n :: u32) \<le> 20"
    using Suc.prems by (simp add: word_le_nat_alt unat_of_nat)
  then show ?case
    using Suc assms(1) stick_arm_below [of sp "c\<lparr>stick_on_counter := of_nat n\<rparr>" env]
    by (simp add: stick_arm_step_def stick_held_def add.commute)
qed

text \<open>
  Arming with the stick needs it to be held: over the first 21 evaluations only the counter
  moves, the 22nd one asks the arming state machine, and an evaluation with the stick released
  starts the count again.
\<close>

theorem stick_arming_hysteresis:
  assumes "stick_held sp c" "stick_on_counter c = 0" "n \<le> 21"
    and "main_state (c_status c) \<in> {MAIN_STATE_MANUAL, MAIN_STATE_STAB}"
    and "condition_home_position_valid (c_status c)" "arming_state (c_status c) = ARMING_STATE_STANDBY"
    and "\<not> stick_held sp' c"
  shows "(stick_arm_step env sp ^^ n) c = c\<lparr>stick_on_counter := of_nat n\<rparr> \<and>
    fst (stick_arm env sp TRANSITION_NOT_CHANGED ((stick_arm_step env sp ^^ 21) c))
      = fst (run_arming env ARMING_STATE_ARMED (c\<lparr>stick_on_counter := 21\<rparr>)) \<and>
    stick_on_counter (stick_arm_step env sp' ((stick_arm_step env sp ^^ n) c)) = 0"
proof (intro conjI)
  show n: "(stick_arm_step env sp ^^ n) c = c\<lparr>stick_on_counter := of_nat n\<rparr>"
    by (rule stick_arm_count [OF assms(1-3)])
  have c21: "(stick_arm_step env sp ^^ 21) c = c\<lparr>stick_on_counter := 21\<rparr>"
    using stick_arm_count [OF assms(1,2), of 21] by simp
  show "fst (stick_arm env sp TRANSITION_NOT_CHANGED ((stick_arm_step env sp ^^ 21) c))
      = fst (run_arming env ARMING_STATE_ARMED (c\<lparr>stick_on_counter := 21\<rparr>))"
    unfolding c21 using assms by (intro stick_arm_above) (simp_all add: stick_held_def)
  show "stick_on_counter (stick_arm_step env sp' ((stick_arm_step env sp ^^ n) c)) = 0"
    unfolding n using assms(7) by (auto simp: stick_arm_step_def stick_arm_def stick_held_def)
qed

theorem stick_arming_hysteresis_witness:
  "(stick_arm_step idle_env (idle_sp\<lparr>sp_r := 0x3F800000\<rparr>) ^^ 5)
     (idle_commander\<lparr>c_status := idle_status\<lparr>arming_state := ARMING_STATE_STANDBY\<rparr>\<rparr>)
   = idle_commander\<lparr>c_status := idle_status\<lparr>arming_state := ARMING_STATE_STANDBY\<rparr>,
       stick_on_counter := 5\<rparr>"
  using stick_arming_hysteresis [of "idle_sp\<lparr>sp_r := 0x3F800000\<rparr>"
      "idle_commander\<lparr>c_status := idle_status\<lparr>arming_state := ARMING_STATE_STANDBY\<rparr>\<rparr>" 5 idle_sp idle_env]
  by (simp add: stick_held_def idle_sp_def idle_commander_def idle_status_def RC_IN_MODE_OFF_def
      f32_gt_def f32_lt_def f32_key_def f32_is_nan_def f32_magnitude_def)

text \<open>
  C27: the published control flags are layered: position control implies velocity control,
  velocity control implies climb rate control, altitude control implies climb rate control,
  attitude control implies rate control; manual and automatic control exclude each other,
  offboard control is on exactly in the offboard state, and termination is on exactly in the
  termination state, except that the offboard state leaves the termination flag as it was.
\<close>

theorem control_mode_layers:
  fixes in_trans :: bool and ocm :: offboard_control_mode and c :: commander
  defines "m \<equiv> c_control_mode (set_control_mode in_trans ocm c)"
  shows "\<not> (flag_control_position_enabled m \<and> \<not> flag_control_velocity_enabled m) \<and>
    \<not> (flag_control_velocity_enabled m \<and> \<not> flag_control_climb_rate_enabled m) \<and>
    \<not> (flag_control_altitude_enabled m \<and> \<not> flag_control_climb_rate_enabled m) \<and>
    \<not> (flag_control_attitude_enabled m \<and> \<not> flag_control_rates_enabled m) \<and>
    \<not> (flag_control_manual_enabled m \<and> flag_control_auto_enabled m) \<and>
    flag_armed m = armed (c_armed c) \<and>
    flag_control_offboard_enabled m = (nav_state (c_status c) = NAVIGATION_STATE_OFFBOARD) \<and>
    flag_control_termination_enabled m =
      (if nav_state (c_status c) = NAVIGATION_STATE_OFFBOARD
       then flag_control_termination_enabled (c_control_mode c)
       else nav_state (c_status c) = NAVIGATION_STATE_TERMINATION)"
  unfolding m_def set_control_mode_def control_mode_flags_def Let_def
  by (cases "nav_state (c_status c)")
     (auto simp: set_flags_def auto_flags_def offboard_flags_def)

end
