(* ===== verification/Dataman.thy ===== *)
theory Dataman
  imports Prelude
begin

text \<open>
  The item store behind the mission protocol (\<open>src/modules/dataman/dataman.c\<close>): items of six
  types are kept in one file, each in a sector of fixed size that starts with the length of the
  item.  The file is a list of bytes; the outcomes of the system calls are inputs.  What a
  client relies on is the locale \<open>item_store\<close>, which the store is an instance of.
\<close>

section \<open>The interface of an item store\<close>

locale item_store =
  fixes rd :: "'f \<Rightarrow> 'k \<Rightarrow> 'x option"
    and wr :: "'f \<Rightarrow> 'k \<Rightarrow> 'x \<Rightarrow> 'f"
    and ok_store :: "'f \<Rightarrow> bool"
    and ok_key :: "'k \<Rightarrow> bool"
    and ok_item :: "'x \<Rightarrow> bool"
  assumes wr_ok: "ok_store f \<Longrightarrow> ok_key k \<Longrightarrow> ok_item x \<Longrightarrow> ok_store (wr f k x)"
    and rd_wr_same: "ok_store f \<Longrightarrow> ok_key k \<Longrightarrow> ok_item x \<Longrightarrow> rd (wr f k x) k = Some x"
    and rd_wr_other: "ok_store f \<Longrightarrow> ok_key k \<Longrightarrow> ok_item x \<Longrightarrow> ok_key k' \<Longrightarrow> k' \<noteq> k \<Longrightarrow>
      rd (wr f k x) k' = rd f k'"
begin

fun wr_all :: "'f \<Rightarrow> ('k \<times> 'x) list \<Rightarrow> 'f" where
  "wr_all f [] = f"
| "wr_all f ((k, x) # kxs) = wr_all (wr f k x) kxs"

definition ok_entries :: "('k \<times> 'x) list \<Rightarrow> bool" where
  "ok_entries kxs \<longleftrightarrow> (\<forall>(k, x) \<in> set kxs. ok_key k \<and> ok_item x)"

lemma wr_all_snoc: "wr_all f (kxs @ [(k, x)]) = wr (wr_all f kxs) k x"
  by (induction f kxs rule: wr_all.induct) auto

lemma wr_all_ok: "ok_store f \<Longrightarrow> ok_entries kxs \<Longrightarrow> ok_store (wr_all f kxs)"
  by (induction f kxs rule: wr_all.induct) (auto simp: ok_entries_def intro: wr_ok)

lemma rd_wr_all_other:
  "ok_store f \<Longrightarrow> ok_entries kxs \<Longrightarrow> ok_key k \<Longrightarrow> k \<notin> fst ` set kxs \<Longrightarrow> rd (wr_all f kxs) k = rd f k"
  by (induction f kxs rule: wr_all.induct) (auto simp: ok_entries_def wr_ok rd_wr_other)

lemma rd_wr_all:
  "ok_store f \<Longrightarrow> ok_entries kxs \<Longrightarrow> distinct (map fst kxs) \<Longrightarrow> (k, x) \<in> set kxs \<Longrightarrow>
   rd (wr_all f kxs) k = Some x"
proof (induction f kxs rule: wr_all.induct)
  case (2 f k' x' kxs)
  have ok: "ok_entries kxs" "ok_key k'" "ok_item x'" "ok_store (wr f k' x')"
    using "2.prems" by (auto simp: ok_entries_def intro: wr_ok)
  show ?case
  proof (cases "(k, x) = (k', x')")
    case True
    then have "k \<notin> fst ` set kxs"
      using "2.prems"(3) by auto
    then show ?thesis
      using True "2.prems"(1) ok by (simp add: rd_wr_all_other rd_wr_same)
  next
    case False
    then show ?thesis
      using "2.IH" "2.prems" ok by auto
  qed
qed simp

text \<open>After a series of writes an item is the last one written under its key.\<close>

lemma rd_wr_all_last:
  "ok_store f \<Longrightarrow> ok_entries kxs \<Longrightarrow> ok_key k \<Longrightarrow>
   rd (wr_all f kxs) k = (case map_of (rev kxs) k of Some x \<Rightarrow> Some x | None \<Rightarrow> rd f k)"
proof (induction kxs arbitrary: f rule: rev_induct)
  case (snoc kx kxs)
  obtain k' x where [simp]: "kx = (k', x)" by fastforce
  have ok: "ok_entries kxs" "ok_key k'" "ok_item x"
    using snoc.prems(2) by (auto simp: ok_entries_def)
  then show ?case
    using snoc.IH [OF snoc.prems(1) ok(1) snoc.prems(3)] snoc.prems(1,3) wr_all_ok
    by (cases "k = k'") (simp_all add: wr_all_snoc rd_wr_same rd_wr_other)
qed simp

end

section \<open>Layout of the file\<close>

datatype dm_item = DM_KEY_SAFE_POINTS | DM_KEY_FENCE_POINTS | DM_KEY_WAYPOINTS_OFFBOARD_0
  | DM_KEY_WAYPOINTS_OFFBOARD_1 | DM_KEY_WAYPOINTS_ONBOARD | DM_KEY_MISSION_STATE

fun dm_number :: "dm_item \<Rightarrow> nat" where
  "dm_number DM_KEY_SAFE_POINTS = 0"
| "dm_number DM_KEY_FENCE_POINTS = 1"
| "dm_number DM_KEY_WAYPOINTS_OFFBOARD_0 = 2"
| "dm_number DM_KEY_WAYPOINTS_OFFBOARD_1 = 3"
| "dm_number DM_KEY_WAYPOINTS_ONBOARD = 4"
| "dm_number DM_KEY_MISSION_STATE = 5"

definition NUM_MISSIONS_SUPPORTED :: nat where "NUM_MISSIONS_SUPPORTED = 256"
definition DM_MAX_DATA_SIZE :: nat where "DM_MAX_DATA_SIZE = 126"
definition DM_SECTOR_HDR_SIZE :: nat where "DM_SECTOR_HDR_SIZE = 4"
definition k_sector_size :: nat where "k_sector_size = DM_MAX_DATA_SIZE + DM_SECTOR_HDR_SIZE"

lemmas dm_sizes = NUM_MISSIONS_SUPPORTED_def DM_MAX_DATA_SIZE_def DM_SECTOR_HDR_SIZE_def
  k_sector_size_def

definition g_per_item_max_index :: "nat list" where
  "g_per_item_max_index = [8, 16, NUM_MISSIONS_SUPPORTED, NUM_MISSIONS_SUPPORTED,
     NUM_MISSIONS_SUPPORTED, 1]"

fun g_key_offsets :: "nat \<Rightarrow> nat" where
  "g_key_offsets 0 = 0"
| "g_key_offsets (Suc i) = g_key_offsets i + g_per_item_max_index ! i * k_sector_size"

text \<open>\<^term>\<open>None\<close> is the error return of \<open>calculate_offset\<close>.\<close>

definition calculate_offset :: "dm_item \<Rightarrow> u8 \<Rightarrow> nat option" where
  "calculate_offset item index =
     (if unat index \<ge> g_per_item_max_index ! dm_number item then None
      else Some (g_key_offsets (dm_number item) + unat index * k_sector_size))"

section \<open>Reading and writing\<close>

definition file_write :: "u8 list \<Rightarrow> nat \<Rightarrow> u8 list \<Rightarrow> u8 list" where
  "file_write f off bs =
     take off (f @ replicate (off - length f) 0) @ bs @ drop (off + length bs) f"

text \<open>
  How a write call ends: the seek fails, or so many bytes reach the file.  The result of
  \<open>dm_write\<close> is the number of bytes of user data, -1 on error.
\<close>

datatype write_io = Seek_failed | Wrote nat

definition dm_write :: "write_io \<Rightarrow> dm_item \<Rightarrow> u8 \<Rightarrow> u8 \<Rightarrow> u8 list \<Rightarrow> u8 list \<Rightarrow> int \<times> u8 list" where
  "dm_write io item index persistence buf f =
     (case calculate_offset item index of
        None \<Rightarrow> (-1, f)
      | Some offset \<Rightarrow>
          if length buf > DM_MAX_DATA_SIZE then (-1, f)
          else
            (let buffer = [of_nat (length buf), persistence, 0, 0] @ buf;
                 count = length buf + DM_SECTOR_HDR_SIZE
             in case io of
                  Seek_failed \<Rightarrow> (-1, f)
                | Wrote n \<Rightarrow>
                    (if n = count then int (count - DM_SECTOR_HDR_SIZE) else -1,
                     file_write f offset (take n buffer))))"

text \<open>
  \<open>dm_read\<close> of at most \<open>count\<close> bytes: the result and the bytes copied to the caller; \<^term>\<open>None\<close> when
  bytes are copied that the read did not fetch.
\<close>

definition dm_read :: "bool \<Rightarrow> dm_item \<Rightarrow> u8 \<Rightarrow> nat \<Rightarrow> u8 list \<Rightarrow> (int \<times> u8 list) option" where
  "dm_read io item index count f =
     (case calculate_offset item index of
        None \<Rightarrow> Some (-1, [])
      | Some offset \<Rightarrow>
          if count > DM_MAX_DATA_SIZE \<or> \<not> io then Some (-1, [])
          else
            (let buffer = take (count + DM_SECTOR_HDR_SIZE) (drop offset f);
                 len = (case buffer of [] \<Rightarrow> 0 | b # bs \<Rightarrow> unat b)
             in if len > count then Some (-1, [])
                else if len > 0 \<and> length buffer < DM_SECTOR_HDR_SIZE + len then None
                else Some (int len, take len (drop DM_SECTOR_HDR_SIZE buffer))))"

section \<open>Sectors\<close>

type_synonym dm_key = "dm_item \<times> u8"

definition dm_valid :: "dm_key \<Rightarrow> bool" where
  "dm_valid k \<longleftrightarrow> unat (snd k) < g_per_item_max_index ! dm_number (fst k)"

definition dm_base :: "dm_item \<Rightarrow> nat" where
  "dm_base i = sum_list (take (dm_number i) g_per_item_max_index)"

definition dm_sector :: "dm_key \<Rightarrow> nat" where
  "dm_sector k = dm_base (fst k) + unat (snd k)"

lemma g_key_offsets_sum: "n \<le> length g_per_item_max_index \<Longrightarrow>
    g_key_offsets n = sum_list (take n g_per_item_max_index) * k_sector_size"
  by (induction n) (simp_all add: take_Suc_conv_app_nth algebra_simps)

lemma g_key_offsets_base: "g_key_offsets (dm_number i) = dm_base i * k_sector_size"
  unfolding dm_base_def
  by (rule g_key_offsets_sum) (cases i; simp add: g_per_item_max_index_def)

lemma calculate_offset_valid:
  "calculate_offset i x = (if dm_valid (i, x) then Some (dm_sector (i, x) * k_sector_size) else None)"
  by (simp add: calculate_offset_def dm_valid_def dm_sector_def g_key_offsets_base algebra_simps)

lemma dm_base_below:
  "i \<noteq> j \<Longrightarrow> dm_base i + g_per_item_max_index ! dm_number i \<le> dm_base j \<or>
   dm_base j + g_per_item_max_index ! dm_number j \<le> dm_base i"
  by (cases i; cases j) (simp_all add: dm_base_def g_per_item_max_index_def dm_sizes)

lemma dm_sector_inj: "dm_valid k \<Longrightarrow> dm_valid k' \<Longrightarrow> dm_sector k = dm_sector k' \<Longrightarrow> k = k'"
  using dm_base_below [of "fst k" "fst k'"]
  by (cases "fst k = fst k'") (auto simp: dm_valid_def dm_sector_def prod_eq_iff word_unat_eq_iff)

lemma sectors_apart:
  assumes "a \<noteq> (b::nat)"
  shows "a * k_sector_size + k_sector_size \<le> b * k_sector_size \<or>
    b * k_sector_size + k_sector_size \<le> a * k_sector_size"
proof (cases "a < b")
  case True
  then show ?thesis
    using mult_le_mono1 [of "Suc a" b k_sector_size] by simp
next
  case False
  then show ?thesis
    using assms mult_le_mono1 [of "Suc b" a k_sector_size] by simp
qed

section \<open>File contents\<close>

lemma length_file_write:
  "length (file_write f off bs) = max (length f) (off + length bs)"
  by (simp add: file_write_def)

lemma file_write_at:
  "take (length bs) (drop off (file_write f off bs)) = bs"
  by (simp add: file_write_def)

lemma nth_file_write:
  "i < max (length f) (off + length bs) \<Longrightarrow> file_write f off bs ! i =
     (if i < off then (if i < length f then f ! i else 0)
      else if i < off + length bs then bs ! (i - off) else f ! i)"
  by (auto simp: file_write_def nth_append min_def)

text \<open>A sector is intact when the bytes that its header announces are in the file.\<close>

definition sector_intact :: "u8 list \<Rightarrow> nat \<Rightarrow> bool" where
  "sector_intact f off \<longleftrightarrow>
     (off < length f \<longrightarrow> off + DM_SECTOR_HDR_SIZE + unat (f ! off) \<le> length f)"

definition dm_intact :: "u8 list \<Rightarrow> bool" where
  "dm_intact f \<longleftrightarrow> (\<forall>s. sector_intact f (s * k_sector_size))"

definition dm_put :: "u8 list \<Rightarrow> dm_key \<Rightarrow> u8 list \<Rightarrow> u8 list" where
  "dm_put f k bs = snd (dm_write (Wrote (length bs + DM_SECTOR_HDR_SIZE)) (fst k) (snd k) 0 bs f)"

definition dm_get :: "u8 list \<Rightarrow> dm_key \<Rightarrow> u8 list option" where
  "dm_get f k = (case dm_read True (fst k) (snd k) DM_MAX_DATA_SIZE f of
     Some (n, bs) \<Rightarrow> if n > 0 then Some bs else None | None \<Rightarrow> None)"

definition dm_storable :: "u8 list \<Rightarrow> bool" where
  "dm_storable bs \<longleftrightarrow> 0 < length bs \<and> length bs \<le> DM_MAX_DATA_SIZE"

definition dm_image :: "u8 list \<Rightarrow> u8 list" where
  "dm_image bs = [of_nat (length bs), 0, 0, 0] @ bs"

lemma dm_put_eq:
  assumes "dm_valid k" "dm_storable bs"
  shows "dm_put f k bs = file_write f (dm_sector k * k_sector_size) (dm_image bs)"
  using assms
  by (cases k) (simp add: dm_put_def dm_write_def calculate_offset_valid dm_storable_def
      dm_image_def DM_SECTOR_HDR_SIZE_def)

lemma dm_write_success:
  assumes "dm_valid (i, x)" "dm_storable bs"
  shows "dm_write (Wrote (length bs + DM_SECTOR_HDR_SIZE)) i x 0 bs f = (int (length bs), dm_put f (i, x) bs)"
  using assms
  by (simp add: dm_put_def dm_write_def calculate_offset_valid dm_storable_def)

lemma dm_image_length: "dm_storable bs \<Longrightarrow> length (dm_image bs) \<le> k_sector_size"
  by (simp add: dm_image_def dm_storable_def dm_sizes)

text \<open>What a read sees, from the bytes of the sector.\<close>

definition sector_value :: "u8 list \<Rightarrow> u8 list option" where
  "sector_value d = (let len = (case d of [] \<Rightarrow> 0 | b # bs \<Rightarrow> unat b)
     in if len = 0 \<or> len > DM_MAX_DATA_SIZE \<or> length d < DM_SECTOR_HDR_SIZE + len then None
        else Some (take len (drop DM_SECTOR_HDR_SIZE d)))"

lemma sector_value_read:
  fixes d :: "u8 list"
  defines "len \<equiv> (case d of [] \<Rightarrow> 0 | b # bs \<Rightarrow> unat b)"
  shows "(case (if len > DM_MAX_DATA_SIZE then Some (-1, [])
        else if len > 0 \<and> length d < DM_SECTOR_HDR_SIZE + len then None
        else Some (int len, take len (drop DM_SECTOR_HDR_SIZE d)))
      of Some (n, bs) \<Rightarrow> if n > 0 then Some bs else None | None \<Rightarrow> None) = sector_value d"
  by (auto simp: sector_value_def len_def Let_def)

lemma dm_get_sector:
  assumes "dm_valid k"
  shows "dm_get f k = sector_value (take k_sector_size (drop (dm_sector k * k_sector_size) f))"
  using assms
  unfolding dm_get_def dm_read_def calculate_offset_valid sector_value_read [symmetric]
  by (simp add: k_sector_size_def Let_def)

lemma length_dm_image: "length (dm_image bs) = length bs + DM_SECTOR_HDR_SIZE"
  by (simp add: dm_image_def DM_SECTOR_HDR_SIZE_def)

lemma unat_of_length: "dm_storable bs \<Longrightarrow> unat (of_nat (length bs) :: u8) = length bs"
  by (simp add: unat_of_nat dm_storable_def DM_MAX_DATA_SIZE_def)

lemma sector_value_image: "dm_storable bs \<Longrightarrow> sector_value (dm_image bs @ rest) = Some bs"
  using unat_of_length [of bs]
  by (simp add: sector_value_def dm_image_def dm_storable_def dm_sizes Let_def)

lemma sector_value_zeros: "sector_value (replicate n 0 @ d) = (if n = 0 then sector_value d else None)"
  by (cases n) (simp_all add: sector_value_def)

lemma sector_value_extend:
  assumes "d \<noteq> []" "unat (hd d) \<le> DM_MAX_DATA_SIZE \<Longrightarrow> DM_SECTOR_HDR_SIZE + unat (hd d) \<le> length d"
  shows "sector_value (d @ z) = sector_value d"
  using assms by (cases d) (auto simp: sector_value_def Let_def DM_SECTOR_HDR_SIZE_def)

lemma dm_put_intact:
  assumes "dm_intact f" "dm_valid k" "dm_storable bs"
  shows "dm_intact (dm_put f k bs)"
  unfolding dm_intact_def
proof
  fix s
  let ?o = "s * k_sector_size" and ?off = "dm_sector k * k_sector_size"
  define g where "g = file_write f ?off (dm_image bs)"
  have len: "length g = max (length f) (?off + length (dm_image bs))"
    by (simp add: g_def length_file_write)
  have img: "length (dm_image bs) \<le> k_sector_size" "4 \<le> k_sector_size"
    using dm_image_length [OF assms(3)] by (simp_all add: dm_sizes)
  have old: "?o < length f \<Longrightarrow> ?o + DM_SECTOR_HDR_SIZE + unat (f ! ?o) \<le> length f"
    using assms(1) by (simp add: dm_intact_def sector_intact_def)
  have "sector_intact g ?o"
  proof (cases "s = dm_sector k")
    case True
    have "g ! ?off = of_nat (length bs)"
      unfolding g_def by (subst nth_file_write) (simp_all add: dm_image_def)
    then show ?thesis
      using True len
      by (simp add: sector_intact_def unat_of_length [OF assms(3)] length_dm_image le_max_iff_disj)
  next
    case False
    show ?thesis
      unfolding sector_intact_def
    proof
      assume o: "?o < length g"
      consider "?o + k_sector_size \<le> ?off" | "?off + k_sector_size \<le> ?o"
        using sectors_apart [OF False] by blast
      then show "?o + DM_SECTOR_HDR_SIZE + unat (g ! ?o) \<le> length g"
      proof cases
        case 1
        then have "?o < ?off"
          using img by linarith
        with 1 have "g ! ?o = (if ?o < length f then f ! ?o else 0)"
          unfolding g_def using o len img by (subst nth_file_write) (auto simp: g_def)
        then show ?thesis
          using 1 old len img by (auto simp: DM_SECTOR_HDR_SIZE_def)
      next
        case 2
        then have above: "\<not> ?o < ?off" "\<not> ?o < ?off + length (dm_image bs)"
          using img by linarith+
        have lf: "?o < length f"
          using above o len by linarith
        then have "g ! ?o = f ! ?o"
          using above unfolding g_def by (subst nth_file_write) auto
        then show ?thesis
          using old len lf by simp
      qed
    qed
  qed
  then show "sector_intact (dm_put f k bs) ?o"
    by (simp add: g_def dm_put_eq assms)
qed

lemma dm_get_put_same:
  assumes "dm_valid k" "dm_storable bs"
  shows "dm_get (dm_put f k bs) k = Some bs"
proof -
  let ?off = "dm_sector k * k_sector_size"
  have "take k_sector_size (drop ?off (file_write f ?off (dm_image bs))) =
      dm_image bs @ take (k_sector_size - length (dm_image bs)) (drop (?off + length (dm_image bs)) f)"
    using dm_image_length [OF assms(2)] by (simp add: file_write_def)
  then show ?thesis
    by (simp add: dm_get_sector assms dm_put_eq sector_value_image)
qed

lemma drop_file_write_above:
  "off + length bs \<le> a \<Longrightarrow> drop a (file_write f off bs) = drop a f"
proof -
  assume "off + length bs \<le> a"
  moreover have "min (length f) off + (off - length f) = off"
    by simp
  ultimately show ?thesis
    by (simp add: file_write_def)
qed

lemma take_file_write_below:
  "a + n \<le> off \<Longrightarrow> take n (drop a (file_write f off bs)) =
     take n (drop a (f @ replicate (off - length f) 0))"
  by (simp add: file_write_def drop_take)

text \<open>A write into one sector, complete or not, leaves what the others hold.\<close>

lemma dm_get_write_other:
  assumes "dm_intact f" "dm_valid k" "length bs \<le> k_sector_size" "dm_valid k'" "k' \<noteq> k"
  shows "dm_get (file_write f (dm_sector k * k_sector_size) bs) k' = dm_get f k'"
proof -
  let ?o = "dm_sector k' * k_sector_size" and ?off = "dm_sector k * k_sector_size"
  let ?d = "take k_sector_size (drop ?o f)"
  have "dm_sector k' \<noteq> dm_sector k"
    using dm_sector_inj assms by blast
  then consider "?o + k_sector_size \<le> ?off" | "?off + k_sector_size \<le> ?o"
    using sectors_apart by blast
  then have "sector_value (take k_sector_size (drop ?o (file_write f ?off bs)))
      = sector_value ?d"
  proof cases
    case 1
    define m where "m = ?off - length f"
    have g: "take k_sector_size (drop ?o (file_write f ?off bs)) =
        ?d @ take (k_sector_size - (length f - ?o)) (replicate m 0)"
      if "?o \<le> length f"
      using that 1 by (simp add: take_file_write_below m_def)
    show ?thesis
    proof (cases "?o < length f")
      case True
      then have hd: "hd ?d = f ! ?o" "?d \<noteq> []"
        by (simp_all add: hd_drop_conv_nth k_sector_size_def DM_SECTOR_HDR_SIZE_def)
      have "?o + DM_SECTOR_HDR_SIZE + unat (f ! ?o) \<le> length f"
        using assms(1) True by (simp add: dm_intact_def sector_intact_def)
      then have "sector_value (?d @ z) = sector_value ?d" for z
        using hd by (intro sector_value_extend) (auto simp: k_sector_size_def)
      then show ?thesis
        using g True by simp
    next
      case False
      then have "take k_sector_size (drop ?o (file_write f ?off bs))
          = take k_sector_size (replicate (m - (?o - length f)) 0)"
        using 1 by (simp add: take_file_write_below m_def)
      then show ?thesis
        using False sector_value_zeros [of _ "[]"] by (simp add: sector_value_def take_replicate)
    qed
  next
    case 2
    then show ?thesis
      using assms(3) by (simp add: drop_file_write_above)
  qed
  then show ?thesis
    by (simp add: dm_get_sector assms)
qed

lemma dm_get_put_other:
  assumes "dm_intact f" "dm_valid k" "dm_storable bs" "dm_valid k'" "k' \<noteq> k"
  shows "dm_get (dm_put f k bs) k' = dm_get f k'"
  using dm_get_write_other [OF assms(1,2) dm_image_length [OF assms(3)] assms(4,5)]
  by (simp add: dm_put_eq assms)

lemma dm_write_other:
  assumes "dm_intact f" "dm_valid k'" "k' \<noteq> (i, x)"
  shows "dm_get (snd (dm_write io i x pers bs f)) k' = dm_get f k'"
proof (cases "dm_valid (i, x) \<and> length bs \<le> DM_MAX_DATA_SIZE")
  case True
  then show ?thesis
  proof (cases io)
    case (Wrote n)
    let ?b = "take n ([of_nat (length bs), pers, 0, 0] @ bs)"
    have "length ?b \<le> k_sector_size"
      using True by (simp add: dm_sizes min.coboundedI1)
    then have "dm_get (file_write f (dm_sector (i, x) * k_sector_size) ?b) k' = dm_get f k'"
      using assms True by (intro dm_get_write_other) auto
    then show ?thesis
      using True Wrote by (simp add: dm_write_def calculate_offset_valid Let_def)
  qed (simp add: dm_write_def calculate_offset_valid)
qed (auto simp: dm_write_def calculate_offset_valid)

interpretation dm: item_store dm_get dm_put dm_intact dm_valid dm_storable
  by unfold_locales (simp_all add: dm_put_intact dm_get_put_same dm_get_put_other)

section \<open>Clients that read less than a sector\<close>

lemma dm_get_valid: "dm_get f (i, x) = Some bs \<Longrightarrow> dm_valid (i, x)"
  by (auto simp: dm_get_def dm_read_def calculate_offset_valid split: if_splits)

lemma sector_value_SomeD:
  assumes "sector_value d = Some bs"
  shows "d \<noteq> []" "unat (hd d) = length bs" "bs = take (length bs) (drop DM_SECTOR_HDR_SIZE d)"
    "length d \<ge> DM_SECTOR_HDR_SIZE + length bs" "0 < length bs" "length bs \<le> DM_MAX_DATA_SIZE"
  using assms
  by (cases d; auto simp: sector_value_def Let_def min_def DM_SECTOR_HDR_SIZE_def split: if_splits)+

lemma dm_read_get:
  assumes "dm_get f (i, x) = Some bs" "length bs \<le> count" "count \<le> DM_MAX_DATA_SIZE"
  shows "dm_read True i x count f = Some (int (length bs), bs)"
proof -
  let ?tail = "drop (dm_sector (i, x) * k_sector_size) f"
  have v: "dm_valid (i, x)" by (rule dm_get_valid [OF assms(1)])
  then have "sector_value (take k_sector_size ?tail) = Some bs"
    using assms(1) by (simp add: dm_get_sector)
  note d = sector_value_SomeD [OF this]
  obtain b rest where t: "?tail = b # rest"
    using d(1) by (cases ?tail) auto
  have b: "unat b = length bs"
    using d(2) t by (simp add: k_sector_size_def DM_SECTOR_HDR_SIZE_def)
  have len: "DM_SECTOR_HDR_SIZE + length bs \<le> length ?tail"
    using d(4) by simp
  have bs: "bs = take (length bs) (drop DM_SECTOR_HDR_SIZE ?tail)"
    using d(3,6) by (simp add: drop_take k_sector_size_def min_def DM_SECTOR_HDR_SIZE_def split: if_splits)
  have buf: "take (length bs) (drop DM_SECTOR_HDR_SIZE (take (count + DM_SECTOR_HDR_SIZE) ?tail)) = bs"
    using bs assms(2) by (simp add: drop_take min_def)
  have hd: "take (count + DM_SECTOR_HDR_SIZE) ?tail = b # take (count + 3) rest"
    using t by (simp add: DM_SECTOR_HDR_SIZE_def take_Cons' add.commute)
  have l: "\<not> length (take (count + DM_SECTOR_HDR_SIZE) ?tail) < DM_SECTOR_HDR_SIZE + length bs"
    using len assms(2) by simp
  show ?thesis
    using v assms(2,3) b buf l
    unfolding dm_read_def calculate_offset_valid hd
    by (simp add: Let_def hd)
qed

lemma dm_write_result:
  assumes "fst (dm_write io i x 0 bs f) = int (length bs)" "dm_storable bs"
  shows "dm_valid (i, x)" "snd (dm_write io i x 0 bs f) = dm_put f (i, x) bs"
proof -
  show v: "dm_valid (i, x)"
    using assms(1) by (auto simp: dm_write_def calculate_offset_valid split: if_splits)
  have "io = Wrote (length bs + DM_SECTOR_HDR_SIZE)"
    using assms v
    by (cases io) (auto simp: dm_write_def calculate_offset_valid dm_storable_def Let_def split: if_splits)
  then show "snd (dm_write io i x 0 bs f) = dm_put f (i, x) bs"
    using dm_write_success [OF v assms(2)] by simp
qed

section \<open>A series of writes\<close>

text \<open>The worker executes the queued writes one after the other.\<close>

definition dm_write_all :: "u8 list \<Rightarrow> (dm_key \<times> u8 list) list \<Rightarrow> u8 list" where
  "dm_write_all f ws = foldl (\<lambda>f (k, bs). dm_put f k bs) f ws"

lemma dm_write_all_eq: "dm_write_all f ws = dm.wr_all f ws"
  by (induction f ws rule: dm.wr_all.induct) (simp_all add: dm_write_all_def)

text \<open>
  C37: reading an item after any series of complete writes gives the bytes last written under its
  type and index, and the old contents when there are none; a write that fails or is cut short
  never changes another item.
\<close>

theorem dm_read_after_writes:
  assumes "dm_intact f" "\<forall>(k', bs) \<in> set ws. dm_valid k' \<and> dm_storable bs" "dm_valid k"
  shows "dm_get (dm_write_all f ws) k
      = (case map_of (rev ws) k of Some bs \<Rightarrow> Some bs | None \<Rightarrow> dm_get f k) \<and>
    (k \<noteq> (i, x) \<longrightarrow> dm_get (snd (dm_write io i x pers bs' (dm_write_all f ws))) k
      = dm_get (dm_write_all f ws) k)"
proof -
  have ok: "dm.ok_entries ws"
    using assms(2) by (simp add: dm.ok_entries_def)
  show ?thesis
    unfolding dm_write_all_eq
    by (simp add: dm.rd_wr_all_last [OF assms(1) ok assms(3)]
        dm_write_other [OF dm.wr_all_ok [OF assms(1) ok] assms(3)])
qed

theorem dm_read_after_writes_witness:
  "dm_get (dm_write_all [] [((DM_KEY_WAYPOINTS_OFFBOARD_1, 7), [1, 2, 3]),
      ((DM_KEY_MISSION_STATE, 0), [9]), ((DM_KEY_WAYPOINTS_OFFBOARD_1, 7), [4, 5])])
    (DM_KEY_WAYPOINTS_OFFBOARD_1, 7) = Some [4, 5]"
  by (subst dm_read_after_writes [THEN conjunct1])
     (simp_all add: dm_intact_def sector_intact_def dm_valid_def dm_storable_def
       g_per_item_max_index_def dm_sizes)

end
