(* ===== verification/MissionItem.thy ===== *)
theory MissionItem
  imports Dataman Float32
begin

text \<open>
  Mission items: the packed structure kept in the store (\<open>src/modules/navigator/navigation.h\<close>),
  the message that carries an item, and the conversions between the two
  (\<open>parse_mavlink_mission_item\<close> and \<open>format_mavlink_mission_item\<close> of
  \<open>src/modules/mavlink/mavlink_mission.cpp\<close>, \<open>_wrap_pi\<close> of \<open>src/lib/geo/geo.c\<close>).
\<close>

section \<open>Items in memory\<close>

text \<open>Signed fields are kept as the words that represent them.\<close>

record mission_item =
  altitude_is_relative :: bool
  mi_lat :: f64
  mi_lon :: f64
  mi_altitude :: f32
  mi_yaw :: f32
  loiter_radius :: f32
  loiter_direction :: u8
  nav_cmd :: u32
  acceptance_radius :: f32
  time_inside :: f32
  pitch_min :: f32
  autocontinue :: bool
  origin :: u32
  do_jump_mission_index :: u32
  do_jump_repeat_count :: u32
  do_jump_current_count :: u32
  actuator_num :: u32
  actuator_value :: u32

definition bool_byte :: "bool \<Rightarrow> u8" where
  "bool_byte b = (if b then 1 else 0)"

definition mission_item_bytes :: "mission_item \<Rightarrow> u8 list" where
  "mission_item_bytes m =
     [bool_byte (altitude_is_relative m)] @ le_bytes (mi_lat m) @ le_bytes (mi_lon m) @
     le_bytes (mi_altitude m) @ le_bytes (mi_yaw m) @ le_bytes (loiter_radius m) @
     [loiter_direction m] @ le_bytes (nav_cmd m) @ le_bytes (acceptance_radius m) @
     le_bytes (time_inside m) @ le_bytes (pitch_min m) @ [bool_byte (autocontinue m)] @
     le_bytes (origin m) @ le_bytes (do_jump_mission_index m) @ le_bytes (do_jump_repeat_count m) @
     le_bytes (do_jump_current_count m) @ le_bytes (actuator_num m) @ le_bytes (actuator_value m)"

definition sizeof_mission_item :: nat where
  "sizeof_mission_item = 71"

definition mission_item_of_bytes :: "u8 list \<Rightarrow> mission_item" where
  "mission_item_of_bytes b =
     (let at = (\<lambda>n off. take n (drop off b)) in
      \<lparr>altitude_is_relative = b ! 0 \<noteq> 0, mi_lat = of_le_bytes (at 8 1), mi_lon = of_le_bytes (at 8 9),
       mi_altitude = of_le_bytes (at 4 17), mi_yaw = of_le_bytes (at 4 21),
       loiter_radius = of_le_bytes (at 4 25), loiter_direction = b ! 29,
       nav_cmd = of_le_bytes (at 4 30), acceptance_radius = of_le_bytes (at 4 34),
       time_inside = of_le_bytes (at 4 38), pitch_min = of_le_bytes (at 4 42),
       autocontinue = b ! 46 \<noteq> 0, origin = of_le_bytes (at 4 47),
       do_jump_mission_index = of_le_bytes (at 4 51), do_jump_repeat_count = of_le_bytes (at 4 55),
       do_jump_current_count = of_le_bytes (at 4 59), actuator_num = of_le_bytes (at 4 63),
       actuator_value = of_le_bytes (at 4 67)\<rparr>)"

lemma length_mission_item_bytes: "length (mission_item_bytes m) = sizeof_mission_item"
  by (simp add: mission_item_bytes_def sizeof_mission_item_def)

lemma mission_item_storable: "dm_storable (mission_item_bytes m)"
  by (simp add: dm_storable_def length_mission_item_bytes sizeof_mission_item_def DM_MAX_DATA_SIZE_def)

lemma mission_item_roundtrip: "mission_item_of_bytes (mission_item_bytes m) = m"
  by (simp add: mission_item_of_bytes_def mission_item_bytes_def of_le_bytes_le_bytes bool_byte_def
      nth_append Let_def)

text \<open>The mission state \<open>mission_s\<close>.\<close>

record mission_s =
  ms_dataman_id :: u32
  ms_count :: u32
  ms_current_seq :: u32

definition mission_s_bytes :: "mission_s \<Rightarrow> u8 list" where
  "mission_s_bytes m = le_bytes (ms_dataman_id m) @ le_bytes (ms_count m) @ le_bytes (ms_current_seq m)"

definition mission_s_of_bytes :: "u8 list \<Rightarrow> mission_s" where
  "mission_s_of_bytes b = \<lparr>ms_dataman_id = of_le_bytes (take 4 b),
     ms_count = of_le_bytes (take 4 (drop 4 b)), ms_current_seq = of_le_bytes (take 4 (drop 8 b))\<rparr>"

lemma length_mission_s_bytes: "length (mission_s_bytes m) = 12"
  by (simp add: mission_s_bytes_def)

lemma mission_s_roundtrip: "mission_s_of_bytes (mission_s_bytes m) = m"
  by (simp add: mission_s_of_bytes_def mission_s_bytes_def of_le_bytes_le_bytes)

lemma mission_s_storable: "dm_storable (mission_s_bytes m)"
  by (simp add: dm_storable_def length_mission_s_bytes DM_MAX_DATA_SIZE_def)

section \<open>Items on the wire\<close>

record mavlink_mission_item =
  wp_target_system :: u8
  wp_target_component :: u8
  wp_seq :: u16
  wp_frame :: u8
  wp_command :: u16
  wp_current :: u8
  wp_autocontinue :: u8
  wp_param1 :: f32
  wp_param2 :: f32
  wp_param3 :: f32
  wp_param4 :: f32
  wp_x :: f32
  wp_y :: f32
  wp_z :: f32

datatype mav_mission_result = MAV_MISSION_ACCEPTED | MAV_MISSION_ERROR
  | MAV_MISSION_UNSUPPORTED_FRAME | MAV_MISSION_NO_SPACE

definition MAV_FRAME_GLOBAL :: u8 where "MAV_FRAME_GLOBAL = 0"
definition MAV_FRAME_MISSION :: u8 where "MAV_FRAME_MISSION = 2"
definition MAV_FRAME_GLOBAL_RELATIVE_ALT :: u8 where "MAV_FRAME_GLOBAL_RELATIVE_ALT = 3"
definition NAV_CMD_TAKEOFF :: u32 where "NAV_CMD_TAKEOFF = 22"
definition NAV_CMD_DO_JUMP :: u32 where "NAV_CMD_DO_JUMP = 177"
definition NAV_CMD_DO_SET_SERVO :: u32 where "NAV_CMD_DO_SET_SERVO = 183"

lemmas mission_consts = MAV_FRAME_GLOBAL_def MAV_FRAME_MISSION_def MAV_FRAME_GLOBAL_RELATIVE_ALT_def
  NAV_CMD_TAKEOFF_def NAV_CMD_DO_JUMP_def NAV_CMD_DO_SET_SERVO_def

text \<open>Angles: \<open>M_PI_F\<close>, \<open>M_TWOPI_F\<close> and the conversion factors in single precision.\<close>

definition M_PI_F :: f32 where "M_PI_F = 0x40490FDB"
definition M_TWOPI_F :: f32 where "M_TWOPI_F = 0x40C90FDB"
definition M_DEG_TO_RAD_F :: f32 where "M_DEG_TO_RAD_F = 0x3C8EFA35"
definition M_RAD_TO_DEG_F :: f32 where "M_RAD_TO_DEG_F = 0x42652EE1"

text \<open>
  The two loops of \<open>_wrap_pi\<close>; \<open>c\<close> counts the rounds, and the fifth round gives NAN
  (\<^term>\<open>None\<close>).
\<close>

function wrap_down :: "nat \<Rightarrow> f32 \<Rightarrow> f32 option" where
  "wrap_down c b =
     (if f32_le M_PI_F b
      then (if c > 3 then None else wrap_down (c + 1) (f32_sub b M_TWOPI_F)) else Some b)"
  by pat_completeness auto
termination
  by (relation "measure (\<lambda>(c, b). 4 - c)") auto

function wrap_up :: "nat \<Rightarrow> f32 \<Rightarrow> f32 option" where
  "wrap_up c b =
     (if f32_lt b (f32_neg M_PI_F)
      then (if c > 3 then None else wrap_up (c + 1) (f32_add b M_TWOPI_F)) else Some b)"
  by pat_completeness auto
termination
  by (relation "measure (\<lambda>(c, b). 4 - c)") auto

declare wrap_down.simps [simp del] wrap_up.simps [simp del]

definition wrap_pi :: "f32 \<Rightarrow> f32" where
  "wrap_pi b =
     (if \<not> f32_is_finite b then b
      else case wrap_down 0 b of None \<Rightarrow> f32_nan
        | Some b1 \<Rightarrow> (case wrap_up 0 b1 of None \<Rightarrow> f32_nan | Some b2 \<Rightarrow> b2))"

text \<open>
  Parsing a message into the item \<open>m\<close>, whose fields hold whatever was there before; fields the
  command does not set keep those values.  \<^term>\<open>None\<close> is a parameter that the target integer does
  not hold.
\<close>

definition parse_frame :: "mavlink_mission_item \<Rightarrow> mission_item \<Rightarrow> mission_item option" where
  "parse_frame wp m =
     (if wp_frame wp = MAV_FRAME_GLOBAL \<or> wp_frame wp = MAV_FRAME_GLOBAL_RELATIVE_ALT
      then Some (m\<lparr>mi_lat := f32_to_f64 (wp_x wp), mi_lon := f32_to_f64 (wp_y wp),
             mi_altitude := wp_z wp,
             altitude_is_relative := wp_frame wp = MAV_FRAME_GLOBAL_RELATIVE_ALT\<rparr>)
      else if wp_frame wp = MAV_FRAME_MISSION then Some m
      else None)"

definition parse_command :: "mavlink_mission_item \<Rightarrow> mission_item \<Rightarrow> mission_item option" where
  "parse_command wp m =
     (if ucast (wp_command wp) = NAV_CMD_TAKEOFF then Some (m\<lparr>pitch_min := wp_param1 wp\<rparr>)
      else if ucast (wp_command wp) = NAV_CMD_DO_JUMP then
        do {
          i \<leftarrow> f32_to_i32 (wp_param1 wp);
          n \<leftarrow> f32_to_u32 (wp_param2 wp);
          Some (m\<lparr>do_jump_mission_index := of_int i, do_jump_current_count := 0,
             do_jump_repeat_count := n\<rparr>)
        }
      else if ucast (wp_command wp) = NAV_CMD_DO_SET_SERVO then
        do {
          n \<leftarrow> f32_to_i32 (wp_param1 wp);
          v \<leftarrow> f32_to_i32 (wp_param2 wp);
          Some (m\<lparr>actuator_num := of_int n, actuator_value := of_int v, time_inside := 0\<rparr>)
        }
      else Some (m\<lparr>acceptance_radius := wp_param2 wp, time_inside := wp_param1 wp\<rparr>))"

definition parse_mavlink_mission_item :: "mavlink_mission_item \<Rightarrow> mission_item
    \<Rightarrow> (mav_mission_result \<times> mission_item) option" where
  "parse_mavlink_mission_item wp m =
     (case parse_frame wp m of
        None \<Rightarrow> Some (MAV_MISSION_UNSUPPORTED_FRAME, m)
      | Some m1 \<Rightarrow> do {
          m2 \<leftarrow> parse_command wp m1;
          Some (MAV_MISSION_ACCEPTED,
            m2\<lparr>mi_yaw := wrap_pi (f32_mul (wp_param4 wp) M_DEG_TO_RAD_F),
               loiter_radius := f32_abs (wp_param3 wp),
               loiter_direction := (if f32_gt (wp_param3 wp) 0 then 1 else -1),
               nav_cmd := ucast (wp_command wp),
               autocontinue := wp_autocontinue wp \<noteq> 0,
               origin := 0,
               do_jump_current_count := 0\<rparr>)
        })"

definition format_mavlink_mission_item :: "mission_item \<Rightarrow> mavlink_mission_item
    \<Rightarrow> mavlink_mission_item" where
  "format_mavlink_mission_item m wp =
     (let wp1 = wp\<lparr>wp_frame := (if altitude_is_relative m then MAV_FRAME_GLOBAL_RELATIVE_ALT
            else MAV_FRAME_GLOBAL)\<rparr>;
          wp2 = (if nav_cmd m = NAV_CMD_TAKEOFF then wp1\<lparr>wp_param1 := pitch_min m\<rparr>
            else if nav_cmd m = NAV_CMD_DO_SET_SERVO
            then wp1\<lparr>wp_param1 := f32_of_int (sint (actuator_num m)),
                   wp_param2 := f32_of_int (sint (actuator_value m))\<rparr>
            else if nav_cmd m = NAV_CMD_DO_JUMP
            then wp1\<lparr>wp_param1 := f32_of_int (sint (do_jump_mission_index m)),
                   wp_param2 := f32_of_int (uint (do_jump_repeat_count m - do_jump_current_count m))\<rparr>
            else wp1\<lparr>wp_param2 := acceptance_radius m, wp_param1 := time_inside m\<rparr>)
      in wp2\<lparr>wp_x := f64_to_f32 (mi_lat m), wp_y := f64_to_f32 (mi_lon m), wp_z := mi_altitude m,
           wp_param4 := f32_mul (mi_yaw m) M_RAD_TO_DEG_F,
           wp_param3 := f32_mul (loiter_radius m) (f32_of_int (sint (loiter_direction m))),
           wp_command := ucast (nav_cmd m),
           wp_autocontinue := bool_byte (autocontinue m)\<rparr>)"

end
