(* ===== verification/MissionManager.thy ===== *)
theory MissionManager
  imports MissionItem
begin

text \<open>
  The mission protocol (\<open>src/modules/mavlink/mavlink_mission.cpp\<close>): a ground station uploads and
  downloads the list of mission items, sets the current item and clears the list.  Two stores of
  the data manager alternate: an upload is written to the inactive one, which becomes active
  when the last item has arrived.

  The state is one manager together with the file-scope variables and the file of the data
  manager.  The console output under \<open>_verbose\<close> is left out.  \<^term>\<open>None\<close> is undefined behaviour of
  a conversion or of a read.
\<close>

section \<open>State and messages\<close>

datatype wpm_state = MAVLINK_WPM_STATE_IDLE | MAVLINK_WPM_STATE_SENDLIST | MAVLINK_WPM_STATE_GETLIST

record mission_manager =
  wpm_state :: wpm_state
  time_last_recv :: u64
  time_last_sent :: u64
  filesystem_errcount :: u32
  my_dataman_id :: u32
  transfer_dataman_id :: u32
  transfer_count :: u32
  transfer_seq :: u32
  transfer_current_seq :: u32
  transfer_partner_sysid :: u32
  transfer_partner_compid :: u32
  slow_last_sent :: u64
  slow_interval :: u64
  dataman_id :: u32
  dataman_init :: bool
  mission_count :: u32
  current_seq :: u32
  transfer_in_progress :: bool
  dm_file :: "u8 list"

text \<open>What one call reads: clock, outcomes of the store accesses, own ids, stack contents.\<close>

record mission_env =
  now_recv :: u64
  now_sent :: u64
  now_check :: u64
  item_io :: write_io
  state_io :: write_io
  read_io :: bool
  own_sysid :: u8
  own_compid :: u8
  stack_item :: mission_item
  stack_wp :: mavlink_mission_item

datatype mission_message =
    Mission_ack u8 u8
  | Mission_set_current u8 u8 u16
  | Mission_request_list u8 u8
  | Mission_request u8 u8 u16
  | Mission_count u8 u8 u16
  | Mission_item mavlink_mission_item
  | Mission_clear_all u8 u8
  | Mission_other

datatype mission_out =
    Out_ack u8 u8 mav_mission_result
  | Out_current u16
  | Out_count u8 u8 u16
  | Out_item mavlink_mission_item
  | Out_request u8 u8 u16
  | Out_reached u16
  | Out_critical string
  | Out_info string
  | Out_publish mission_s

definition MAVLINK_MISSION_PROTOCOL_TIMEOUT_DEFAULT :: u64 where
  "MAVLINK_MISSION_PROTOCOL_TIMEOUT_DEFAULT = 5000000"

definition MAVLINK_MISSION_RETRY_TIMEOUT_DEFAULT :: u64 where
  "MAVLINK_MISSION_RETRY_TIMEOUT_DEFAULT = 500000"

definition FILESYSTEM_ERRCOUNT_NOTIFY_LIMIT :: u32 where
  "FILESYSTEM_ERRCOUNT_NOTIFY_LIMIT = 2"

definition wpm_max_count :: u32 where
  "wpm_max_count = of_nat NUM_MISSIONS_SUPPORTED"

definition check_target :: "mission_env \<Rightarrow> u8 \<Rightarrow> u8 \<Rightarrow> bool" where
  "check_target env target_sys target_comp \<longleftrightarrow> target_sys = own_sysid env \<and>
     (target_comp = own_compid env \<or> target_comp = 190 \<or> target_comp = 0)"

definition dm_key_waypoints :: "u32 \<Rightarrow> dm_item" where
  "dm_key_waypoints dmid = (if dmid = 0 then DM_KEY_WAYPOINTS_OFFBOARD_0 else DM_KEY_WAYPOINTS_OFFBOARD_1)"

type_synonym mm_result = "mission_manager \<times> mission_out list"

section \<open>Sending\<close>

text \<open>A failed access to the store is reported to the user the first two times.\<close>

definition report_storage :: "string \<Rightarrow> mission_manager \<Rightarrow> mm_result" where
  "report_storage msg m =
     (m\<lparr>filesystem_errcount := filesystem_errcount m + 1\<rparr>,
      if filesystem_errcount m < FILESYSTEM_ERRCOUNT_NOTIFY_LIMIT then [Out_critical msg] else [])"

definition update_active_mission :: "mission_env \<Rightarrow> u32 \<Rightarrow> u32 \<Rightarrow> u32 \<Rightarrow> mission_manager
    \<Rightarrow> bool \<times> mm_result" where
  "update_active_mission env dmid count seq m =
     (let mission = \<lparr>ms_dataman_id = dmid, ms_count = count, ms_current_seq = seq\<rparr>;
          (res, f) = dm_write (state_io env) DM_KEY_MISSION_STATE 0 0 (mission_s_bytes mission) (dm_file m);
          m1 = m\<lparr>dm_file := f\<rparr>
      in if res = 12
         then (True, m1\<lparr>dataman_id := dmid, mission_count := count, current_seq := seq,
                 my_dataman_id := dmid\<rparr>, [Out_publish mission])
         else (False, report_storage ''Mission storage: Unable to write to microSD'' m1))"

definition send_mission_ack :: "mav_mission_result \<Rightarrow> mission_manager \<Rightarrow> mission_out" where
  "send_mission_ack r m =
     Out_ack (ucast (transfer_partner_sysid m)) (ucast (transfer_partner_compid m)) r"

definition send_mission_current :: "u16 \<Rightarrow> mission_manager \<Rightarrow> mission_out list" where
  "send_mission_current seq m =
     (if ucast seq < mission_count m then [Out_current seq]
      else if seq = 0 \<and> mission_count m = 0 then []
      else [Out_critical ''ERROR: wp index out of bounds''])"

text \<open>The count sent is always the one of the active mission.\<close>

definition send_mission_count :: "mission_env \<Rightarrow> u8 \<Rightarrow> u8 \<Rightarrow> mission_manager \<Rightarrow> mm_result" where
  "send_mission_count env sysid compid m =
     (m\<lparr>time_last_sent := now_sent env\<rparr>, [Out_count sysid compid (ucast (mission_count m))])"

definition send_mission_item :: "mission_env \<Rightarrow> u8 \<Rightarrow> u8 \<Rightarrow> u16 \<Rightarrow> mission_manager \<Rightarrow> mm_result option" where
  "send_mission_item env sysid compid seq m =
     do {
       (n, bs) \<leftarrow> dm_read (read_io env) (dm_key_waypoints (dataman_id m)) (ucast seq)
         sizeof_mission_item (dm_file m);
       if n = int sizeof_mission_item
       then Some (m\<lparr>time_last_sent := now_sent env\<rparr>,
         [Out_item ((format_mavlink_mission_item (mission_item_of_bytes bs) (stack_wp env))
            \<lparr>wp_target_system := sysid, wp_target_component := compid, wp_seq := seq,
             wp_current := (if current_seq m = ucast seq then 1 else 0)\<rparr>)])
       else (let (m', ev) = report_storage ''Mission storage: Unable to read from microSD'' m
             in Some (m', send_mission_ack MAV_MISSION_ERROR m # ev))
     }"

definition send_mission_request :: "mission_env \<Rightarrow> u8 \<Rightarrow> u8 \<Rightarrow> u16 \<Rightarrow> mission_manager \<Rightarrow> mm_result" where
  "send_mission_request env sysid compid seq m =
     (if ucast seq < wpm_max_count
      then (m\<lparr>time_last_sent := now_sent env\<rparr>, [Out_request sysid compid seq])
      else (m, [Out_critical ''ERROR: Waypoint index exceeds list capacity'']))"

text \<open>The transfer partner as the narrowed arguments of the send functions.\<close>

definition partner_sys :: "mission_manager \<Rightarrow> u8" where
  "partner_sys m = ucast (transfer_partner_sysid m)"

definition partner_comp :: "mission_manager \<Rightarrow> u8" where
  "partner_comp m = ucast (transfer_partner_compid m)"

section \<open>Start\<close>

definition init_offboard_mission :: "mission_env \<Rightarrow> mission_manager \<Rightarrow> mission_manager option" where
  "init_offboard_mission env m =
     (if dataman_init m then Some (m\<lparr>my_dataman_id := dataman_id m\<rparr>)
      else do {
        (n, bs) \<leftarrow> dm_read (read_io env) DM_KEY_MISSION_STATE 0 12 (dm_file m);
        let m1 = m\<lparr>dataman_init := True\<rparr>;
        let m2 = (if n = 12
          then (let s = mission_s_of_bytes bs
                in m1\<lparr>dataman_id := ms_dataman_id s, mission_count := ms_count s,
                     current_seq := ms_current_seq s\<rparr>)
          else m1\<lparr>dataman_id := 0, mission_count := 0, current_seq := 0\<rparr>);
        Some (m2\<lparr>my_dataman_id := dataman_id m2\<rparr>)
      })"

definition new_mission_manager :: "mission_env \<Rightarrow> mission_manager
    \<Rightarrow> mission_manager option" where
  "new_mission_manager env m =
     init_offboard_mission env
       (m\<lparr>wpm_state := MAVLINK_WPM_STATE_IDLE, time_last_recv := 0, time_last_sent := 0,
          filesystem_errcount := 0, my_dataman_id := 0, transfer_dataman_id := 0,
          transfer_count := 0, transfer_seq := 0, transfer_current_seq := 0,
          transfer_partner_sysid := 0, transfer_partner_compid := 0, slow_last_sent := 0,
          slow_interval := 100000\<rparr>)"

section \<open>Handlers\<close>

definition from_partner :: "u8 \<Rightarrow> u8 \<Rightarrow> mission_manager \<Rightarrow> bool" where
  "from_partner sysid compid m \<longleftrightarrow>
     ucast sysid = transfer_partner_sysid m \<and> ucast compid = transfer_partner_compid m"

definition handle_mission_ack :: "mission_env \<Rightarrow> u8 \<Rightarrow> u8 \<Rightarrow> u8 \<Rightarrow> u8 \<Rightarrow> mission_manager \<Rightarrow> mm_result" where
  "handle_mission_ack env sysid compid tsys tcomp m =
     (if \<not> check_target env tsys tcomp then (m, [])
      else if \<not> from_partner sysid compid m then (m, [Out_critical ''REJ. WP CMD: partner id mismatch''])
      else if wpm_state m = MAVLINK_WPM_STATE_SENDLIST
      then (m\<lparr>time_last_recv := now_recv env, wpm_state := MAVLINK_WPM_STATE_IDLE\<rparr>,
            if transfer_seq m = mission_count m then []
            else [Out_critical ''WPM: ERR: not all items sent -> IDLE''])
      else (m, []))"

definition handle_mission_set_current :: "mission_env \<Rightarrow> u8 \<Rightarrow> u8 \<Rightarrow> u16 \<Rightarrow> mission_manager \<Rightarrow> mm_result" where
  "handle_mission_set_current env tsys tcomp seq m =
     (if \<not> check_target env tsys tcomp then (m, [])
      else if wpm_state m = MAVLINK_WPM_STATE_IDLE then
        (let m1 = m\<lparr>time_last_recv := now_recv env\<rparr>
         in if ucast seq < mission_count m1
            then (let (ok, m2, ev) = update_active_mission env (dataman_id m1) (mission_count m1) (ucast seq) m1
                  in if ok then (m2, ev)
                     else (m2, ev @ [Out_critical ''WPM: WP CURR CMD: Error setting ID'']))
            else (m1, [Out_critical ''WPM: WP CURR CMD: Not in list'']))
      else (m, [Out_critical ''WPM: IGN WP CURR CMD: Busy'']))"

definition handle_mission_request_list :: "mission_env \<Rightarrow> u8 \<Rightarrow> u8 \<Rightarrow> u8 \<Rightarrow> u8 \<Rightarrow> mission_manager
    \<Rightarrow> mm_result" where
  "handle_mission_request_list env sysid compid tsys tcomp m =
     (if \<not> check_target env tsys tcomp then (m, [])
      else if wpm_state m = MAVLINK_WPM_STATE_IDLE \<or> wpm_state m = MAVLINK_WPM_STATE_SENDLIST
      then send_mission_count env sysid compid
        (m\<lparr>time_last_recv := now_recv env, wpm_state := MAVLINK_WPM_STATE_SENDLIST, transfer_seq := 0,
           transfer_count := mission_count m, transfer_partner_sysid := ucast sysid,
           transfer_partner_compid := ucast compid\<rparr>)
      else (m, [Out_critical ''IGN REQUEST LIST: Busy'']))"

text \<open>A request that is neither the expected item nor the one before it ends the transfer.\<close>

definition request_error :: "mission_manager \<Rightarrow> mm_result" where
  "request_error m =
     (m\<lparr>wpm_state := MAVLINK_WPM_STATE_IDLE\<rparr>,
      [send_mission_ack MAV_MISSION_ERROR m, Out_critical ''WPM: REJ. CMD: Req. WP was unexpected''])"

definition handle_mission_request :: "mission_env \<Rightarrow> u8 \<Rightarrow> u8 \<Rightarrow> u8 \<Rightarrow> u8 \<Rightarrow> u16 \<Rightarrow> mission_manager
    \<Rightarrow> mm_result option" where
  "handle_mission_request env sysid compid tsys tcomp seq m =
     (if \<not> check_target env tsys tcomp then Some (m, [])
      else if \<not> from_partner sysid compid m
      then Some (m, [Out_critical ''WPM: REJ. CMD: partner id mismatch''])
      else if wpm_state m = MAVLINK_WPM_STATE_SENDLIST then
        (let m1 = m\<lparr>time_last_recv := now_recv env\<rparr>;
             expected = (ucast seq = transfer_seq m1 \<and> transfer_seq m1 < transfer_count m1);
             again = (ucast seq = transfer_seq m1 - 1);
             m2 = (if expected then m1\<lparr>transfer_seq := transfer_seq m1 + 1\<rparr> else m1)
         in if \<not> expected \<and> \<not> again then Some (request_error m1)
            else if ucast seq < mission_count m2
            then send_mission_item env (partner_sys m2) (partner_comp m2) seq m2
            else Some (request_error m2))
      else if wpm_state m = MAVLINK_WPM_STATE_IDLE
      then Some (m, [Out_critical ''IGN MISSION_ITEM_REQUEST: No active transfer''])
      else Some (m, [Out_critical ''WPM: REJ. CMD: Busy'']))"

definition inactive_id :: "u32 \<Rightarrow> u32" where
  "inactive_id i = (if i = 0 then 1 else 0)"

definition request_next :: "mission_env \<Rightarrow> mission_manager \<Rightarrow> mm_result" where
  "request_next env m = send_mission_request env (partner_sys m) (partner_comp m) (ucast (transfer_seq m)) m"

definition handle_mission_count :: "mission_env \<Rightarrow> u8 \<Rightarrow> u8 \<Rightarrow> u8 \<Rightarrow> u8 \<Rightarrow> u16 \<Rightarrow> mission_manager
    \<Rightarrow> mm_result" where
  "handle_mission_count env sysid compid tsys tcomp count m =
     (if \<not> check_target env tsys tcomp then (m, [])
      else if wpm_state m = MAVLINK_WPM_STATE_IDLE then
        (let m1 = m\<lparr>time_last_recv := now_recv env\<rparr>
         in if transfer_in_progress m1 then (m1, [send_mission_ack MAV_MISSION_ERROR m1])
            else if ucast count > wpm_max_count
            then (m1\<lparr>transfer_in_progress := False\<rparr>, [send_mission_ack MAV_MISSION_NO_SPACE m1])
            else if count = 0
            then (let (ok, m2, ev) = update_active_mission env (inactive_id (dataman_id m1)) 0 0 m1
                  in (m2\<lparr>transfer_in_progress := False\<rparr>, ev @ [send_mission_ack MAV_MISSION_ACCEPTED m2]))
            else request_next env
              (m1\<lparr>transfer_in_progress := True, wpm_state := MAVLINK_WPM_STATE_GETLIST, transfer_seq := 0,
                 transfer_partner_sysid := ucast sysid, transfer_partner_compid := ucast compid,
                 transfer_count := ucast count, transfer_dataman_id := inactive_id (dataman_id m1),
                 transfer_current_seq := -1\<rparr>))
      else if wpm_state m = MAVLINK_WPM_STATE_GETLIST then
        (let m1 = m\<lparr>time_last_recv := now_recv env\<rparr>
         in if transfer_seq m1 = 0
            then (let (m2, ev) = request_next env m1 in (m2, Out_info ''WP CMD OK TRY AGAIN'' # ev))
            else (m1, [Out_critical ''WPM: REJ. CMD: Busy'']))
      else (m, [Out_critical ''WPM: IGN MISSION_COUNT: Busy'']))"

text \<open>A transfer that fails while items are received.\<close>

definition abort_upload :: "mission_manager \<Rightarrow> mission_manager" where
  "abort_upload m = m\<lparr>wpm_state := MAVLINK_WPM_STATE_IDLE, transfer_in_progress := False\<rparr>"

definition finish_item :: "mission_env \<Rightarrow> mavlink_mission_item \<Rightarrow> mission_manager \<Rightarrow> mm_result" where
  "finish_item env wp m =
     (let m1 = m\<lparr>transfer_current_seq := (if wp_current wp \<noteq> 0 then ucast (wp_seq wp)
                    else transfer_current_seq m),
                transfer_seq := ucast (wp_seq wp) + 1\<rparr>
      in if transfer_seq m1 = transfer_count m1
         then (let m2 = m1\<lparr>wpm_state := MAVLINK_WPM_STATE_IDLE\<rparr>;
                   (ok, m3, ev) = update_active_mission env (transfer_dataman_id m2) (transfer_count m2)
                     (transfer_current_seq m2) m2
               in (m3\<lparr>transfer_in_progress := False\<rparr>,
                   ev @ [send_mission_ack (if ok then MAV_MISSION_ACCEPTED else MAV_MISSION_ERROR) m3]))
         else request_next env m1)"

definition handle_mission_item :: "mission_env \<Rightarrow> mavlink_mission_item \<Rightarrow> mission_manager
    \<Rightarrow> mm_result option" where
  "handle_mission_item env wp m =
     (if \<not> check_target env (wp_target_system wp) (wp_target_component wp) then Some (m, [])
      else if wpm_state m = MAVLINK_WPM_STATE_IDLE then Some (m, [Out_critical ''IGN MISSION_ITEM: No transfer''])
      else if wpm_state m \<noteq> MAVLINK_WPM_STATE_GETLIST then Some (m, [Out_critical ''IGN MISSION_ITEM: Busy''])
      else if ucast (wp_seq wp) \<noteq> transfer_seq m then Some (m\<lparr>time_last_recv := now_recv env\<rparr>, [])
      else do {
        let m1 = m\<lparr>time_last_recv := now_recv env\<rparr>;
        (ret, item) \<leftarrow> parse_mavlink_mission_item wp (stack_item env);
        if ret \<noteq> MAV_MISSION_ACCEPTED
        then Some (abort_upload m1,
          [Out_critical ''IGN MISSION_ITEM: Busy'', send_mission_ack ret m1])
        else do {
          let (res, f) = dm_write (item_io env) (dm_key_waypoints (transfer_dataman_id m1))
            (ucast (wp_seq wp)) 0 (mission_item_bytes item) (dm_file m1);
          let m2 = m1\<lparr>dm_file := f\<rparr>;
          if res \<noteq> int sizeof_mission_item
          then Some (abort_upload m2,
            [send_mission_ack MAV_MISSION_ERROR m2, Out_critical ''Unable to write on micro SD''])
          else Some (finish_item env wp m2)
        }
      })"

definition handle_mission_clear_all :: "mission_env \<Rightarrow> u8 \<Rightarrow> u8 \<Rightarrow> mission_manager \<Rightarrow> mm_result" where
  "handle_mission_clear_all env tsys tcomp m =
     (if \<not> check_target env tsys tcomp then (m, [])
      else if wpm_state m = MAVLINK_WPM_STATE_IDLE then
        (let m1 = m\<lparr>time_last_recv := now_recv env\<rparr>;
             (ok, m2, ev) = update_active_mission env (inactive_id (dataman_id m1)) 0 0 m1
         in (m2, ev @ [send_mission_ack (if ok then MAV_MISSION_ACCEPTED else MAV_MISSION_ERROR) m2]))
      else (m, [Out_critical ''WPM: IGN CLEAR CMD: Busy'']))"

definition handle_mission_message :: "mission_env \<Rightarrow> u8 \<Rightarrow> u8 \<Rightarrow> mission_message \<Rightarrow> mission_manager
    \<Rightarrow> mm_result option" where
  "handle_mission_message env sysid compid msg m =
     (case msg of
        Mission_ack ts tc \<Rightarrow> Some (handle_mission_ack env sysid compid ts tc m)
      | Mission_set_current ts tc seq \<Rightarrow> Some (handle_mission_set_current env ts tc seq m)
      | Mission_request_list ts tc \<Rightarrow> Some (handle_mission_request_list env sysid compid ts tc m)
      | Mission_request ts tc seq \<Rightarrow> handle_mission_request env sysid compid ts tc seq m
      | Mission_count ts tc n \<Rightarrow> Some (handle_mission_count env sysid compid ts tc n m)
      | Mission_item wp \<Rightarrow> handle_mission_item env wp m
      | Mission_clear_all ts tc \<Rightarrow> Some (handle_mission_clear_all env ts tc m)
      | Mission_other \<Rightarrow> Some (m, []))"

section \<open>The periodic call\<close>

record mission_result =
  seq_reached :: u32
  seq_current :: u32
  mr_reached :: bool
  item_do_jump_changed :: bool
  item_changed_index :: u32

definition send_result :: "mission_env \<Rightarrow> mission_result \<Rightarrow> mission_manager \<Rightarrow> mm_result option" where
  "send_result env r m =
     (let m1 = m\<lparr>current_seq := seq_current r\<rparr>;
          ev = (if mr_reached r then [Out_reached (ucast (seq_reached r))] else []) @
            send_mission_current (ucast (current_seq m1)) m1
      in if item_do_jump_changed r
         then do {
           (m2, ev2) \<leftarrow> send_mission_item env (partner_sys m1) (partner_comp m1)
             (ucast (item_changed_index r)) m1;
           Some (m2, ev @ ev2)
         }
         else Some (m1, ev))"

definition rate_limited_current :: "u64 \<Rightarrow> mission_manager \<Rightarrow> mm_result" where
  "rate_limited_current now m =
     (let dt = now - slow_last_sent m
      in if dt > 0 \<and> dt \<ge> slow_interval m
         then (m\<lparr>slow_last_sent := now\<rparr>, send_mission_current (ucast (current_seq m)) m)
         else (m, []))"

definition check_timeouts :: "mission_env \<Rightarrow> mission_manager \<Rightarrow> mm_result option" where
  "check_timeouts env m =
     (if wpm_state m \<noteq> MAVLINK_WPM_STATE_IDLE \<and>
         now_check env - time_last_recv m > MAVLINK_MISSION_PROTOCOL_TIMEOUT_DEFAULT
      then Some (m\<lparr>wpm_state := MAVLINK_WPM_STATE_IDLE\<rparr>, [Out_critical ''Operation timeout''])
      else if wpm_state m = MAVLINK_WPM_STATE_GETLIST \<and>
         now_check env - time_last_sent m > MAVLINK_MISSION_RETRY_TIMEOUT_DEFAULT
      then Some (request_next env m)
      else if wpm_state m = MAVLINK_WPM_STATE_SENDLIST \<and>
         now_check env - time_last_sent m > MAVLINK_MISSION_RETRY_TIMEOUT_DEFAULT
      then (if transfer_seq m = 0
            then Some (send_mission_count env (partner_sys m) (partner_comp m) m)
            else send_mission_item env (partner_sys m) (partner_comp m) (ucast (transfer_seq m - 1)) m)
      else Some (m, []))"

definition mission_send :: "mission_env \<Rightarrow> u64 \<Rightarrow> mission_result option \<Rightarrow> mission_manager
    \<Rightarrow> mm_result option" where
  "mission_send env now result m =
     do {
       (m1, ev1) \<leftarrow> (case result of Some r \<Rightarrow> send_result env r m
         | None \<Rightarrow> Some (rate_limited_current now m));
       (m2, ev2) \<leftarrow> check_timeouts env m1;
       Some (m2, ev1 @ ev2)
     }"

definition check_active_mission :: "mission_env \<Rightarrow> mission_manager \<Rightarrow> mm_result" where
  "check_active_mission env m =
     (if my_dataman_id m \<noteq> dataman_id m
      then send_mission_count env (partner_sys m) (partner_comp m) (m\<lparr>my_dataman_id := dataman_id m\<rparr>)
      else (m, []))"

section \<open>The invariant of the protocol\<close>

text \<open>
  The store ids are 0 or 1, the number of items fits the store, and while items are received the
  next one is below the announced number, the items go to the inactive store and the transfer is
  marked as in progress.
\<close>

definition mission_inv :: "mission_manager \<Rightarrow> bool" where
  "mission_inv m \<longleftrightarrow> dataman_id m \<in> {0, 1} \<and> mission_count m \<le> wpm_max_count \<and>
     (wpm_state m = MAVLINK_WPM_STATE_GETLIST \<longrightarrow>
        transfer_seq m < transfer_count m \<and> transfer_count m \<le> wpm_max_count \<and>
        transfer_dataman_id m = inactive_id (dataman_id m) \<and> transfer_in_progress m)"

named_theorems mm_fields \<open>fields after the helper operations\<close>

lemma update_active_mission_fields [mm_fields]:
  fixes env :: mission_env and d n q :: u32 and m :: mission_manager
  defines "U \<equiv> update_active_mission env d n q m"
  shows "wpm_state (fst (snd U)) = wpm_state m" "transfer_count (fst (snd U)) = transfer_count m"
    "transfer_seq (fst (snd U)) = transfer_seq m"
    "transfer_dataman_id (fst (snd U)) = transfer_dataman_id m"
    "transfer_in_progress (fst (snd U)) = transfer_in_progress m"
    "dataman_id (fst (snd U)) = (if fst U then d else dataman_id m)"
    "mission_count (fst (snd U)) = (if fst U then n else mission_count m)"
    "dm_file (fst (snd U)) = snd (dm_write (state_io env) DM_KEY_MISSION_STATE 0 0
       (mission_s_bytes \<lparr>ms_dataman_id = d, ms_count = n, ms_current_seq = q\<rparr>) (dm_file m))"
  by (simp_all add: U_def update_active_mission_def Let_def split_beta report_storage_def)

lemma request_next_fields [mm_fields]:
  "wpm_state (fst (request_next env m)) = wpm_state m"
  "transfer_count (fst (request_next env m)) = transfer_count m"
  "transfer_seq (fst (request_next env m)) = transfer_seq m"
  "transfer_dataman_id (fst (request_next env m)) = transfer_dataman_id m"
  "transfer_in_progress (fst (request_next env m)) = transfer_in_progress m"
  "dataman_id (fst (request_next env m)) = dataman_id m"
  "mission_count (fst (request_next env m)) = mission_count m"
  "dm_file (fst (request_next env m)) = dm_file m"
  "transfer_partner_sysid (fst (request_next env m)) = transfer_partner_sysid m"
  "transfer_partner_compid (fst (request_next env m)) = transfer_partner_compid m"
  by (simp_all add: request_next_def send_mission_request_def)

lemma send_mission_item_fields [mm_fields]:
  assumes "send_mission_item env s c q m = Some r"
  shows "wpm_state (fst r) = wpm_state m" "transfer_count (fst r) = transfer_count m"
    "transfer_seq (fst r) = transfer_seq m" "transfer_dataman_id (fst r) = transfer_dataman_id m"
    "transfer_in_progress (fst r) = transfer_in_progress m" "dataman_id (fst r) = dataman_id m"
    "mission_count (fst r) = mission_count m" "dm_file (fst r) = dm_file m"
  using assms
  by (auto simp: send_mission_item_def report_storage_def bind_eq_Some_conv Let_def split: if_splits)

lemma inactive_id_range: "inactive_id d \<in> {0, 1}"
  by (simp add: inactive_id_def)

lemma wpm_max_count_256: "wpm_max_count = 256"
  by (simp add: wpm_max_count_def NUM_MISSIONS_SUPPORTED_def)

text \<open>What the invariant depends on.\<close>

lemma mission_inv_idle:
  "wpm_state m' \<noteq> MAVLINK_WPM_STATE_GETLIST \<Longrightarrow> dataman_id m' \<in> {0, 1} \<Longrightarrow>
   mission_count m' \<le> wpm_max_count \<Longrightarrow> mission_inv m'"
  by (simp add: mission_inv_def)

lemma mission_inv_cong:
  assumes "mission_inv m" "wpm_state m' = wpm_state m" "dataman_id m' = dataman_id m"
    "mission_count m' = mission_count m" "transfer_seq m' = transfer_seq m"
    "transfer_count m' = transfer_count m" "transfer_dataman_id m' = transfer_dataman_id m"
    "transfer_in_progress m' = transfer_in_progress m"
  shows "mission_inv m'"
  using assms by (simp add: mission_inv_def)

lemma request_next_inv: "mission_inv m \<Longrightarrow> mission_inv (fst (request_next env m))"
  by (rule mission_inv_cong) (simp_all add: mm_fields)

lemma finish_item_inv:
  assumes "mission_inv m" "wpm_state m = MAVLINK_WPM_STATE_GETLIST" "ucast (wp_seq wp) = transfer_seq m"
  shows "mission_inv (fst (finish_item env wp m))"
proof -
  let ?m1 = "m\<lparr>transfer_current_seq := (if wp_current wp \<noteq> 0 then ucast (wp_seq wp)
                    else transfer_current_seq m), transfer_seq := ucast (wp_seq wp) + 1\<rparr>"
  have lt: "transfer_seq m < transfer_count m" "transfer_count m \<le> wpm_max_count"
      "transfer_dataman_id m = inactive_id (dataman_id m)" "transfer_in_progress m"
    using assms by (simp_all add: mission_inv_def)
  show ?thesis
  proof (cases "transfer_seq ?m1 = transfer_count ?m1")
    case True
    then show ?thesis
      using assms(1) lt inactive_id_range [of "dataman_id m"]
      by (auto simp: finish_item_def Let_def split_beta mm_fields mission_inv_def)
  next
    case False
    have "transfer_seq m + 1 \<le> transfer_count m"
      using lt(1) by (rule inc_le)
    then have "transfer_seq m + 1 < transfer_count m"
      using False assms(3) by simp
    then have "mission_inv ?m1"
      using assms lt by (simp add: mission_inv_def)
    then show ?thesis
      using False by (simp add: finish_item_def request_next_inv)
  qed
qed

lemma abort_upload_fields [mm_fields]:
  "wpm_state (abort_upload m) = MAVLINK_WPM_STATE_IDLE" "dataman_id (abort_upload m) = dataman_id m"
  "mission_count (abort_upload m) = mission_count m" "dm_file (abort_upload m) = dm_file m"
  "transfer_in_progress (abort_upload m) = False"
  by (simp_all add: abort_upload_def)

lemma abort_upload_inv: "mission_inv m \<Longrightarrow> mission_inv (abort_upload m)"
  by (simp add: mission_inv_def abort_upload_def)

lemma mission_inv_facts:
  "mission_inv m \<Longrightarrow> dataman_id m = 0 \<or> dataman_id m = 1"
  "mission_inv m \<Longrightarrow> mission_count m \<le> wpm_max_count"
  by (auto simp: mission_inv_def)

lemma handle_mission_ack_inv: "mission_inv m \<Longrightarrow> mission_inv (fst (handle_mission_ack env s c ts tc m))"
  by (auto simp: handle_mission_ack_def mission_inv_def)

lemma update_inv:
  assumes "mission_inv m" "wpm_state m \<noteq> MAVLINK_WPM_STATE_GETLIST" "d = 0 \<or> d = 1" "n \<le> wpm_max_count"
  shows "mission_inv (fst (snd (update_active_mission env d n q m)))"
  using assms mission_inv_facts [OF assms(1)]
  by (intro mission_inv_idle) (auto simp: mm_fields)

lemma handle_mission_set_current_inv:
  assumes "mission_inv m"
  shows "mission_inv (fst (handle_mission_set_current env ts tc q m))"
proof -
  have 1: "mission_inv (m\<lparr>time_last_recv := t\<rparr>)" for t
    using assms by (simp add: mission_inv_def)
  show ?thesis
    using assms 1 mission_inv_facts [OF assms]
    by (auto simp: handle_mission_set_current_def Let_def split_beta intro!: update_inv)
qed

lemma handle_mission_clear_all_inv:
  assumes "mission_inv m"
  shows "mission_inv (fst (handle_mission_clear_all env ts tc m))"
proof -
  have 1: "mission_inv (m\<lparr>time_last_recv := t\<rparr>)" for t
    using assms by (simp add: mission_inv_def)
  show ?thesis
    using assms 1 inactive_id_range [of "dataman_id m"]
    by (auto simp: handle_mission_clear_all_def Let_def split_beta intro!: update_inv)
qed

lemma handle_mission_request_list_inv:
  "mission_inv m \<Longrightarrow> mission_inv (fst (handle_mission_request_list env s c ts tc m))"
  by (auto simp: handle_mission_request_list_def send_mission_count_def mission_inv_def)

lemma request_error_fields [mm_fields]:
  "wpm_state (fst (request_error m)) = MAVLINK_WPM_STATE_IDLE"
  "dataman_id (fst (request_error m)) = dataman_id m"
  "mission_count (fst (request_error m)) = mission_count m"
  "dm_file (fst (request_error m)) = dm_file m"
  "transfer_in_progress (fst (request_error m)) = transfer_in_progress m"
  by (simp_all add: request_error_def)

lemma handle_mission_request_fields:
  assumes "handle_mission_request env s c ts tc q m = Some r"
  shows "dataman_id (fst r) = dataman_id m" "mission_count (fst r) = mission_count m"
    "dm_file (fst r) = dm_file m" "transfer_in_progress (fst r) = transfer_in_progress m"
    "wpm_state (fst r) = wpm_state m \<or> wpm_state (fst r) = MAVLINK_WPM_STATE_IDLE"
    "wpm_state m = MAVLINK_WPM_STATE_GETLIST \<Longrightarrow> fst r = m"
  using assms
  by (auto simp: handle_mission_request_def Let_def mm_fields split: if_splits)

lemma handle_mission_request_inv:
  assumes "mission_inv m" "handle_mission_request env s c ts tc q m = Some r"
  shows "mission_inv (fst r)"
proof (cases "wpm_state m = MAVLINK_WPM_STATE_GETLIST")
  case True
  then show ?thesis
    using handle_mission_request_fields(6) [OF assms(2)] assms(1) by simp
next
  case False
  then show ?thesis
    using handle_mission_request_fields [OF assms(2)] mission_inv_facts [OF assms(1)]
    by (intro mission_inv_idle) auto
qed

lemma handle_mission_count_inv:
  assumes "mission_inv m"
  shows "mission_inv (fst (handle_mission_count env s c ts tc n m))"
proof (cases "wpm_state m")
  case MAVLINK_WPM_STATE_IDLE
  have "n \<noteq> 0 \<Longrightarrow> \<not> wpm_max_count < ucast n \<Longrightarrow>
      mission_inv (m\<lparr>time_last_recv := now_recv env, transfer_in_progress := True,
        wpm_state := MAVLINK_WPM_STATE_GETLIST, transfer_seq := 0, transfer_partner_sysid := ucast s,
        transfer_partner_compid := ucast c, transfer_count := ucast n,
        transfer_dataman_id := inactive_id (dataman_id m), transfer_current_seq := -1\<rparr>)"
    using mission_inv_facts [OF assms]
    by (auto simp: mission_inv_def word_less_nat_alt word_le_nat_alt unat_gt_0)
  moreover have "mission_inv ((fst (snd (update_active_mission env (inactive_id (dataman_id m)) 0 0
      (m\<lparr>time_last_recv := now_recv env\<rparr>))))\<lparr>transfer_in_progress := False\<rparr>)"
    using MAVLINK_WPM_STATE_IDLE mission_inv_facts [OF assms] inactive_id_range [of "dataman_id m"]
    by (intro mission_inv_idle) (auto simp: mm_fields)
  moreover have "mission_inv (m\<lparr>time_last_recv := t\<rparr>)"
    "mission_inv (m\<lparr>time_last_recv := t, transfer_in_progress := b\<rparr>)" for t b
    using MAVLINK_WPM_STATE_IDLE assms by (simp_all add: mission_inv_def)
  ultimately show ?thesis
    using MAVLINK_WPM_STATE_IDLE assms
    by (auto simp: handle_mission_count_def Let_def split_beta intro!: request_next_inv)
next
  case MAVLINK_WPM_STATE_GETLIST
  have "mission_inv (m\<lparr>time_last_recv := now_recv env\<rparr>)"
    using assms by (simp add: mission_inv_def)
  then show ?thesis
    using MAVLINK_WPM_STATE_GETLIST assms
    by (auto simp: handle_mission_count_def Let_def split_beta intro!: request_next_inv)
qed (simp add: handle_mission_count_def assms)

lemma handle_mission_item_inv:
  assumes "mission_inv m" "handle_mission_item env wp m = Some r"
  shows "mission_inv (fst r)"
proof -
  have 1: "mission_inv (m\<lparr>time_last_recv := t\<rparr>)" for t
    using assms(1) by (simp add: mission_inv_def)
  have 2: "mission_inv (m\<lparr>time_last_recv := t, dm_file := f\<rparr>)" for t f
    using assms(1) by (simp add: mission_inv_def)
  show ?thesis
    using assms 1 2
    by (auto simp: handle_mission_item_def Let_def split_beta bind_eq_Some_conv
        split: if_splits intro!: finish_item_inv abort_upload_inv)
qed

lemma handle_mission_message_inv:
  assumes "mission_inv m" "handle_mission_message env s c msg m = Some r"
  shows "mission_inv (fst r)"
  using assms
  by (cases msg) (auto simp: handle_mission_message_def handle_mission_ack_inv
      handle_mission_set_current_inv handle_mission_request_list_inv handle_mission_count_inv
      handle_mission_clear_all_inv intro: handle_mission_request_inv handle_mission_item_inv)

lemma send_result_fields [mm_fields]:
  assumes "send_result env r m = Some p"
  shows "wpm_state (fst p) = wpm_state m" "transfer_count (fst p) = transfer_count m"
    "transfer_seq (fst p) = transfer_seq m" "transfer_dataman_id (fst p) = transfer_dataman_id m"
    "transfer_in_progress (fst p) = transfer_in_progress m" "dataman_id (fst p) = dataman_id m"
    "mission_count (fst p) = mission_count m" "dm_file (fst p) = dm_file m"
  using assms send_mission_item_fields
  by (auto simp: send_result_def Let_def bind_eq_Some_conv split: if_splits)

lemma rate_limited_current_fields [mm_fields]:
  "wpm_state (fst (rate_limited_current t m)) = wpm_state m"
  "transfer_count (fst (rate_limited_current t m)) = transfer_count m"
  "transfer_seq (fst (rate_limited_current t m)) = transfer_seq m"
  "transfer_dataman_id (fst (rate_limited_current t m)) = transfer_dataman_id m"
  "transfer_in_progress (fst (rate_limited_current t m)) = transfer_in_progress m"
  "dataman_id (fst (rate_limited_current t m)) = dataman_id m"
  "mission_count (fst (rate_limited_current t m)) = mission_count m"
  "dm_file (fst (rate_limited_current t m)) = dm_file m"
  by (simp_all add: rate_limited_current_def Let_def)

lemma check_timeouts_cases:
  assumes "check_timeouts env m = Some p"
  shows "transfer_in_progress (fst p) = transfer_in_progress m" "dataman_id (fst p) = dataman_id m"
    "mission_count (fst p) = mission_count m" "dm_file (fst p) = dm_file m"
    "wpm_state (fst p) = MAVLINK_WPM_STATE_IDLE \<or> wpm_state (fst p) = wpm_state m \<and>
       transfer_count (fst p) = transfer_count m \<and> transfer_seq (fst p) = transfer_seq m \<and>
       transfer_dataman_id (fst p) = transfer_dataman_id m"
  using assms send_mission_item_fields
  by (auto simp: check_timeouts_def send_mission_count_def mm_fields split: if_splits)

lemma check_timeouts_inv: "mission_inv m \<Longrightarrow> check_timeouts env m = Some p \<Longrightarrow> mission_inv (fst p)"
  using check_timeouts_cases [of env m p] by (auto simp: mission_inv_def)

lemma mission_send_inv:
  assumes "mission_inv m" "mission_send env t r m = Some p"
  shows "mission_inv (fst p)"
proof -
  obtain m1 ev1 where 1: "(case r of Some r \<Rightarrow> send_result env r m
      | None \<Rightarrow> Some (rate_limited_current t m)) = Some (m1, ev1)"
    and 2: "\<exists>ev2. check_timeouts env m1 = Some (fst p, ev2)"
    using assms(2) by (auto simp: mission_send_def bind_eq_Some_conv)
  have "mission_inv m1"
  proof (cases r)
    case None
    then show ?thesis
      using 1 assms(1) rate_limited_current_fields [of t m] by (auto simp: mission_inv_def)
  next
    case (Some a)
    then show ?thesis
      using 1 assms(1) send_result_fields [of env a m "(m1, ev1)"] by (simp add: mission_inv_def)
  qed
  then show ?thesis
    using 2 check_timeouts_inv by fastforce
qed

lemma check_active_mission_inv: "mission_inv m \<Longrightarrow> mission_inv (fst (check_active_mission env m))"
  by (simp add: check_active_mission_def send_mission_count_def mission_inv_def)

subsection \<open>An abandoned upload\<close>

text \<open>A transfer marked as in progress although no items are being received.\<close>

definition upload_abandoned :: "mission_manager \<Rightarrow> bool" where
  "upload_abandoned m \<longleftrightarrow> transfer_in_progress m \<and> wpm_state m \<noteq> MAVLINK_WPM_STATE_GETLIST"

lemma update_abandoned:
  "upload_abandoned m \<Longrightarrow> upload_abandoned (fst (snd (update_active_mission env d n q m)))"
  by (simp add: upload_abandoned_def mm_fields)

lemma handle_mission_message_abandoned:
  assumes "upload_abandoned m" "handle_mission_message env s c msg m = Some r"
  shows "upload_abandoned (fst r)"
proof -
  have t: "upload_abandoned (m\<lparr>time_last_recv := t\<rparr>)" for t
    using assms(1) by (simp add: upload_abandoned_def)
  have "upload_abandoned (fst (handle_mission_ack env s c ts tc m))" for ts tc
    using assms(1) by (simp add: handle_mission_ack_def upload_abandoned_def)
  moreover have "upload_abandoned (fst (handle_mission_set_current env ts tc q m))" for ts tc q
    using assms(1) t by (simp add: handle_mission_set_current_def Let_def split_beta update_abandoned)
  moreover have "upload_abandoned (fst (handle_mission_clear_all env ts tc m))" for ts tc
    using assms(1) t by (simp add: handle_mission_clear_all_def Let_def split_beta update_abandoned)
  moreover have "upload_abandoned (fst (handle_mission_request_list env s c ts tc m))" for ts tc
    using assms(1) by (simp add: handle_mission_request_list_def send_mission_count_def upload_abandoned_def)
  moreover have "upload_abandoned (fst (handle_mission_count env s c ts tc n m))" for ts tc n
    using assms(1) by (simp add: handle_mission_count_def upload_abandoned_def Let_def)
  moreover have "upload_abandoned (fst r')" if "handle_mission_request env s c ts tc q m = Some r'"
    for ts tc q r'
    using assms(1) handle_mission_request_fields(4,5) [OF that] by (auto simp: upload_abandoned_def)
  moreover have "upload_abandoned (fst r')" if "handle_mission_item env wp m = Some r'" for wp r'
    using assms(1) that by (auto simp: handle_mission_item_def upload_abandoned_def split: if_splits)
  ultimately show ?thesis
    using assms by (cases msg) (auto simp: handle_mission_message_def)
qed

lemma check_timeouts_abandoned:
  "upload_abandoned m \<Longrightarrow> check_timeouts env m = Some p \<Longrightarrow> upload_abandoned (fst p)"
  using check_timeouts_cases [of env m p] by (auto simp: upload_abandoned_def)

lemma mission_send_abandoned:
  assumes "upload_abandoned m" "mission_send env t r m = Some p"
  shows "upload_abandoned (fst p)"
proof -
  obtain m1 ev1 where 1: "(case r of Some r \<Rightarrow> send_result env r m
      | None \<Rightarrow> Some (rate_limited_current t m)) = Some (m1, ev1)"
    and 2: "\<exists>ev2. check_timeouts env m1 = Some (fst p, ev2)"
    using assms(2) by (auto simp: mission_send_def bind_eq_Some_conv)
  have "upload_abandoned m1"
    using 1 assms(1) rate_limited_current_fields [of t m] send_result_fields [of env _ m "(m1, ev1)"]
    by (auto simp: upload_abandoned_def split: option.splits)
  then show ?thesis
    using 2 check_timeouts_abandoned by fastforce
qed

subsection \<open>Runs of the manager\<close>

text \<open>A step is one received message, one periodic call or one look at the other instances.\<close>

inductive mission_step :: "mission_manager \<Rightarrow> mission_manager \<Rightarrow> bool" where
  step_message: "handle_mission_message env s c msg m = Some r \<Longrightarrow> mission_step m (fst r)"
| step_send: "mission_send env t res m = Some r \<Longrightarrow> mission_step m (fst r)"
| step_check: "mission_step m (fst (check_active_mission env m))"

inductive_cases mission_stepE: "mission_step m m'"

lemma mission_step_inv: "mission_step m m' \<Longrightarrow> mission_inv m \<Longrightarrow> mission_inv m'"
  by (erule mission_stepE) (simp_all add: handle_mission_message_inv mission_send_inv check_active_mission_inv)

lemma mission_run_inv: "mission_step\<^sup>*\<^sup>* m m' \<Longrightarrow> mission_inv m \<Longrightarrow> mission_inv m'"
  by (induction rule: rtranclp_induct) (simp_all add: mission_step_inv)

lemma check_active_abandoned: "upload_abandoned m \<Longrightarrow> upload_abandoned (fst (check_active_mission env m))"
  by (simp add: check_active_mission_def send_mission_count_def upload_abandoned_def)

lemma mission_step_abandoned: "mission_step m m' \<Longrightarrow> upload_abandoned m \<Longrightarrow> upload_abandoned m'"
  by (erule mission_stepE)
     (simp_all add: handle_mission_message_abandoned mission_send_abandoned check_active_abandoned)

lemma mission_run_abandoned: "mission_step\<^sup>*\<^sup>* m m' \<Longrightarrow> upload_abandoned m \<Longrightarrow> upload_abandoned m'"
  by (induction rule: rtranclp_induct) (simp_all add: mission_step_abandoned)

section \<open>A complete upload\<close>

text \<open>The items of an upload, as the manager receives them after the count.\<close>

fun receive_items :: "mission_env \<Rightarrow> mavlink_mission_item list \<Rightarrow> mission_manager
    \<Rightarrow> mission_manager option" where
  "receive_items env [] m = Some m"
| "receive_items env (wp # wps) m = do { (m', ev) \<leftarrow> handle_mission_item env wp m; receive_items env wps m' }"

text \<open>Messages that announce and carry \<open>items\<close>, and a store that accepts every write.\<close>

definition upload_fits :: "mission_env \<Rightarrow> mavlink_mission_item list \<Rightarrow> mission_item list \<Rightarrow> bool" where
  "upload_fits env wps items \<longleftrightarrow> length items = length wps \<and> 0 < length wps \<and> length wps \<le> 256 \<and>
     item_io env = Wrote (sizeof_mission_item + DM_SECTOR_HDR_SIZE) \<and>
     state_io env = Wrote (12 + DM_SECTOR_HDR_SIZE) \<and>
     (\<forall>i < length wps. wp_seq (wps ! i) = of_nat i \<and>
        check_target env (wp_target_system (wps ! i)) (wp_target_component (wps ! i)) \<and>
        parse_mavlink_mission_item (wps ! i) (stack_item env) = Some (MAV_MISSION_ACCEPTED, items ! i))"

definition upload_entries :: "u32 \<Rightarrow> mission_item list \<Rightarrow> nat \<Rightarrow> (dm_key \<times> u8 list) list" where
  "upload_entries d items k =
     map (\<lambda>i. ((dm_key_waypoints d, of_nat i), mission_item_bytes (items ! i))) [0..<k]"

definition uploading :: "u32 \<Rightarrow> u8 list \<Rightarrow> mission_item list \<Rightarrow> nat \<Rightarrow> mission_manager \<Rightarrow> bool" where
  "uploading d f items k m \<longleftrightarrow> wpm_state m = MAVLINK_WPM_STATE_GETLIST \<and> transfer_seq m = of_nat k \<and>
     transfer_count m = of_nat (length items) \<and> transfer_dataman_id m = d \<and>
     dm_file m = dm.wr_all f (upload_entries d items k)"

definition uploaded :: "u32 \<Rightarrow> u8 list \<Rightarrow> mission_item list \<Rightarrow> mission_manager \<Rightarrow> bool" where
  "uploaded d f items m \<longleftrightarrow> wpm_state m = MAVLINK_WPM_STATE_IDLE \<and> dataman_id m = d \<and>
     mission_count m = of_nat (length items) \<and> \<not> transfer_in_progress m \<and>
     (\<exists>s. dm_file m = dm_put (dm.wr_all f (upload_entries d items (length items)))
        (DM_KEY_MISSION_STATE, 0) (mission_s_bytes s))"

lemma dm_valid_waypoint: "dm_valid (dm_key_waypoints d, x)"
  using unsigned_less [where 'a = nat and w = x]
  by (simp add: dm_valid_def dm_key_waypoints_def g_per_item_max_index_def NUM_MISSIONS_SUPPORTED_def)

lemma dm_valid_state: "dm_valid (DM_KEY_MISSION_STATE, 0)"
  by (simp add: dm_valid_def g_per_item_max_index_def)

lemma upload_entries_snoc:
  "upload_entries d items (Suc k) = upload_entries d items k @
     [((dm_key_waypoints d, of_nat k), mission_item_bytes (items ! k))]"
  by (simp add: upload_entries_def)

lemma upload_entries_ok: "dm.ok_entries (upload_entries d items k)"
  by (auto simp: dm.ok_entries_def upload_entries_def dm_valid_waypoint mission_item_storable)

lemma of_nat_u32_eq: "i \<le> 256 \<Longrightarrow> j \<le> 256 \<Longrightarrow> ((of_nat i :: u32) = of_nat j) = (i = j)"
  by (simp add: word_unat_eq_iff unat_of_nat)

lemma ucast_of_nat_u16: "i \<le> 256 \<Longrightarrow> (ucast (of_nat i :: u16) :: u32) = of_nat i"
  by (simp add: word_unat_eq_iff unat_of_nat)

lemma ucast_of_nat_u8: "(ucast (of_nat i :: u16) :: u8) = of_nat i"
  by (simp add: word_unat_eq_iff unat_of_nat unsigned_ucast_eq take_bit_eq_mod mod_mod_cancel)

lemma state_write:
  assumes "state_io env = Wrote (12 + DM_SECTOR_HDR_SIZE)"
  shows "dm_write (state_io env) DM_KEY_MISSION_STATE 0 0 (mission_s_bytes s) f
      = (12, dm_put f (DM_KEY_MISSION_STATE, 0) (mission_s_bytes s))"
    and "fst (update_active_mission env d n q m)"
proof -
  show w: "dm_write (state_io env) DM_KEY_MISSION_STATE 0 0 (mission_s_bytes s) f
      = (12, dm_put f (DM_KEY_MISSION_STATE, 0) (mission_s_bytes s))" for s f
    using assms dm_write_success [OF dm_valid_state mission_s_storable]
    by (simp add: length_mission_s_bytes)
  show "fst (update_active_mission env d n q m)"
    by (simp add: update_active_mission_def Let_def w)
qed

lemma handle_mission_item_step:
  assumes "upload_fits env wps items" "uploading d f items k m" "k < length wps"
  shows "\<exists>m' ev. handle_mission_item env (wps ! k) m = Some (m', ev) \<and>
    (if Suc k = length wps then uploaded d f items m' else uploading d f items (Suc k) m')"
proof -
  let ?wp = "wps ! k"
  have k: "wp_seq ?wp = of_nat k" "check_target env (wp_target_system ?wp) (wp_target_component ?wp)"
      "parse_mavlink_mission_item ?wp (stack_item env) = Some (MAV_MISSION_ACCEPTED, items ! k)"
      "item_io env = Wrote (sizeof_mission_item + DM_SECTOR_HDR_SIZE)"
      "state_io env = Wrote (12 + DM_SECTOR_HDR_SIZE)"
    using assms(1,3) by (simp_all add: upload_fits_def)
  have n: "length items = length wps" "length wps \<le> 256"
    using assms(1) by (simp_all add: upload_fits_def)
  define m2 where "m2 = m\<lparr>time_last_recv := now_recv env,
    dm_file := dm_put (dm_file m) (dm_key_waypoints d, of_nat k) (mission_item_bytes (items ! k))\<rparr>"
  have w: "dm_write (item_io env) (dm_key_waypoints d) (of_nat k) 0 (mission_item_bytes (items ! k)) (dm_file m)
      = (int sizeof_mission_item, dm_file m2)"
    using dm_write_success [OF dm_valid_waypoint [of d "of_nat k"]
        mission_item_storable [of "items ! k"], of "dm_file m"] k(4)
    by (simp add: length_mission_item_bytes m2_def)
  have stored: "dm_file m2 = dm.wr_all f (upload_entries d items (Suc k))"
    using assms(2) by (simp add: m2_def uploading_def upload_entries_snoc dm.wr_all_snoc)
  have seq: "(ucast (wp_seq ?wp) :: u32) = of_nat k" "(ucast (wp_seq ?wp) :: u32) + 1 = of_nat (Suc k)"
    using k(1) n assms(3) by (simp_all add: ucast_of_nat_u16 add.commute)
  have h: "handle_mission_item env ?wp m = Some (finish_item env ?wp m2)"
    using k w seq assms(2)
    by (simp add: handle_mission_item_def uploading_def Let_def ucast_of_nat_u8 m2_def)
  show ?thesis
  proof (cases "Suc k = length wps")
    case True
    have "(of_nat k :: u32) + 1 = of_nat (length wps)"
      unfolding True [symmetric] by simp
    then have "uploaded d f items (fst (finish_item env ?wp m2))"
      using True assms(2) n stored
      by (auto simp: finish_item_def Let_def split_beta seq uploaded_def mm_fields state_write [OF k(5)]
          m2_def uploading_def)
    then show ?thesis
      using h True by (cases "finish_item env ?wp m2") auto
  next
    case False
    then have ne: "(of_nat (Suc k) :: u32) \<noteq> of_nat (length items)"
      using n assms(3) of_nat_u32_eq [of "Suc k" "length items"] by linarith
    have "uploading d f items (Suc k) (fst (finish_item env ?wp m2))"
      using ne assms(2) stored
      by (simp add: finish_item_def Let_def seq(1) uploading_def mm_fields m2_def add.commute)
    then show ?thesis
      using h False by (cases "finish_item env ?wp m2") auto
  qed
qed

lemma receive_items_run:
  assumes "upload_fits env wps items"
  shows "uploading d f items k m \<Longrightarrow> k < length wps \<Longrightarrow>
    \<exists>m'. receive_items env (drop k wps) m = Some m' \<and> uploaded d f items m'"
proof (induction "length wps - k" arbitrary: k m)
  case (Suc j)
  obtain m1 ev where step: "handle_mission_item env (wps ! k) m = Some (m1, ev)"
      "if Suc k = length wps then uploaded d f items m1 else uploading d f items (Suc k) m1"
    using handle_mission_item_step [OF assms Suc.prems] by blast
  have drop: "drop k wps = wps ! k # drop (Suc k) wps"
    using Suc.prems(2) by (simp add: Cons_nth_drop_Suc)
  show ?case
  proof (cases "Suc k = length wps")
    case True
    then show ?thesis
      using step drop by simp
  next
    case False
    then have "\<exists>m'. receive_items env (drop (Suc k) wps) m1 = Some m' \<and> uploaded d f items m'"
      using Suc step(2) by (intro Suc.hyps(1)) auto
    then show ?thesis
      using step(1) drop by simp
  qed
qed simp

lemma handle_mission_count_start:
  assumes "upload_fits env wps items" "wpm_state m = MAVLINK_WPM_STATE_IDLE" "\<not> transfer_in_progress m"
    and "check_target env ts tc"
  shows "uploading (inactive_id (dataman_id m)) (dm_file m) items 0
    (fst (handle_mission_count env s c ts tc (of_nat (length wps)) m))"
proof -
  have n: "length items = length wps" "length wps \<le> 256" "0 < length wps"
    using assms(1) by (simp_all add: upload_fits_def)
  have c: "(ucast (of_nat (length wps) :: u16) :: u32) = of_nat (length wps)"
    by (rule ucast_of_nat_u16 [OF n(2)])
  have "\<not> wpm_max_count < of_nat (length wps)"
    using n by (simp add: wpm_max_count_256 word_less_nat_alt unat_of_nat)
  moreover have "(of_nat (length wps) :: u16) \<noteq> 0"
    using n by (simp add: word_unat_eq_iff unat_of_nat)
  ultimately show ?thesis
    using assms n c
    by (simp add: handle_mission_count_def Let_def uploading_def mm_fields upload_entries_def)
qed

lemma uploaded_items:
  assumes "uploaded d f items m" "dm_intact f" "length items \<le> 256" "i < length items"
  shows "dm_get (dm_file m) (dm_key_waypoints d, of_nat i) = Some (mission_item_bytes (items ! i))"
proof -
  let ?E = "upload_entries d items (length items)"
  obtain q where q: "dm_file m = dm_put (dm.wr_all f ?E) (DM_KEY_MISSION_STATE, 0) (mission_s_bytes q)"
    using assms(1) by (auto simp: uploaded_def)
  have inj: "inj_on (\<lambda>i. of_nat i :: u8) {0..<length items}"
    using assms(3) by (auto simp: inj_on_def word_unat_eq_iff unat_of_nat)
  have "distinct (map fst ?E)"
    using inj by (simp add: upload_entries_def distinct_map comp_def inj_on_def)
  moreover have "((dm_key_waypoints d, of_nat i), mission_item_bytes (items ! i)) \<in> set ?E"
    using assms(4) by (auto simp: upload_entries_def)
  ultimately have "dm_get (dm.wr_all f ?E) (dm_key_waypoints d, of_nat i) = Some (mission_item_bytes (items ! i))"
    using assms(2) by (intro dm.rd_wr_all upload_entries_ok)
  moreover have "(dm_key_waypoints d, of_nat i) \<noteq> (DM_KEY_MISSION_STATE, 0)"
    unfolding dm_key_waypoints_def by simp
  note dm.rd_wr_other [OF dm.wr_all_ok [OF assms(2) upload_entries_ok] dm_valid_state
      mission_s_storable dm_valid_waypoint this]
  ultimately show ?thesis
    unfolding q by simp
qed

lemma send_stored_item:
  assumes "dm_get (dm_file m) (dm_key_waypoints (dataman_id m), ucast q) = Some (mission_item_bytes item)"
    and "read_io env"
  shows "\<exists>m'. send_mission_item env s c q m = Some (m', [Out_item
    ((format_mavlink_mission_item item (stack_wp env))\<lparr>wp_target_system := s,
       wp_target_component := c, wp_seq := q, wp_current := (if current_seq m = ucast q then 1 else 0)\<rparr>)])"
proof -
  have "dm_read (read_io env) (dm_key_waypoints (dataman_id m)) (ucast q) sizeof_mission_item (dm_file m)
      = Some (int sizeof_mission_item, mission_item_bytes item)"
    using dm_read_get [OF assms(1), of sizeof_mission_item] assms(2)
    by (simp add: length_mission_item_bytes) (simp add: sizeof_mission_item_def DM_MAX_DATA_SIZE_def)
  then show ?thesis
    by (simp add: send_mission_item_def mission_item_roundtrip)
qed

subsection \<open>The active mission during an upload\<close>

lemma update_active_items:
  assumes "dm_intact (dm_file m)"
  shows "dm_get (dm_file (fst (snd (update_active_mission env d n q m)))) (dm_key_waypoints e, x)
    = dm_get (dm_file m) (dm_key_waypoints e, x)"
  unfolding update_active_mission_fields
  using assms by (intro dm_write_other dm_valid_waypoint) (simp_all add: dm_key_waypoints_def)

lemma finish_item_items:
  assumes "dm_intact (dm_file m)"
  shows "dm_get (dm_file (fst (finish_item env wp m))) (dm_key_waypoints e, x)
    = dm_get (dm_file m) (dm_key_waypoints e, x)"
  using assms
  by (simp add: finish_item_def Let_def split_beta request_next_fields update_active_items)

lemma handle_mission_item_items:
  assumes "mission_inv m" "dm_intact (dm_file m)" "handle_mission_item env wp m = Some r"
  shows "dm_get (dm_file (fst r)) (dm_key_waypoints (dataman_id m), x)
    = dm_get (dm_file m) (dm_key_waypoints (dataman_id m), x)"
proof (cases "wpm_state m = MAVLINK_WPM_STATE_GETLIST")
  case True
  then have d: "transfer_dataman_id m = inactive_id (dataman_id m)"
    using assms(1) by (simp add: mission_inv_def)
  have ne: "dm_key_waypoints (transfer_dataman_id m) \<noteq> dm_key_waypoints (dataman_id m)"
    unfolding d by (simp add: dm_key_waypoints_def inactive_id_def)
  let ?w = "\<lambda>item. dm_write (item_io env) (dm_key_waypoints (transfer_dataman_id m)) (ucast (wp_seq wp)) 0
    (mission_item_bytes item) (dm_file m)"
  have w: "dm_get (snd (?w item)) (dm_key_waypoints (dataman_id m), x)
      = dm_get (dm_file m) (dm_key_waypoints (dataman_id m), x)" for item
    using ne by (intro dm_write_other [OF assms(2) dm_valid_waypoint]) auto
  have ok: "dm_intact (snd (?w item))" if "fst (?w item) = int sizeof_mission_item" for item
    using dm_write_result [OF _ mission_item_storable] that dm_put_intact [OF assms(2) dm_valid_waypoint
        mission_item_storable]
    by (simp add: length_mission_item_bytes)
  show ?thesis
    using assms(3) True w ok
    by (auto simp: handle_mission_item_def Let_def split_beta bind_eq_Some_conv mm_fields
        finish_item_items split: if_splits)
next
  case False
  then show ?thesis
    using assms(3) by (auto simp: handle_mission_item_def split: if_splits)
qed

lemma handle_mission_message_items:
  assumes "mission_inv m" "dm_intact (dm_file m)" "handle_mission_message env s c msg m = Some r"
  shows "dm_get (dm_file (fst r)) (dm_key_waypoints (dataman_id m), x)
    = dm_get (dm_file m) (dm_key_waypoints (dataman_id m), x)"
proof (cases msg)
  case (Mission_item wp)
  then show ?thesis
    using assms handle_mission_item_items by (simp add: handle_mission_message_def)
next
  case (Mission_request ts tc q)
  then show ?thesis
    using assms(3) handle_mission_request_fields(3) by (auto simp: handle_mission_message_def)
qed (use assms in \<open>auto simp: handle_mission_message_def handle_mission_ack_def
  handle_mission_set_current_def handle_mission_request_list_def handle_mission_count_def
  handle_mission_clear_all_def Let_def split_beta send_mission_count_def request_next_fields
  update_active_items\<close>)

section \<open>Values for the witnesses\<close>

definition blank_item :: mission_item where
  "blank_item = \<lparr>altitude_is_relative = False, mi_lat = 0, mi_lon = 0, mi_altitude = 0, mi_yaw = 0,
     loiter_radius = 0, loiter_direction = 0, nav_cmd = 0, acceptance_radius = 0, time_inside = 0,
     pitch_min = 0, autocontinue = False, origin = 0, do_jump_mission_index = 0,
     do_jump_repeat_count = 0, do_jump_current_count = 0, actuator_num = 0, actuator_value = 0\<rparr>"

definition waypoint :: "u16 \<Rightarrow> mavlink_mission_item" where
  "waypoint q = \<lparr>wp_target_system = 1, wp_target_component = 1, wp_seq = q, wp_frame = 0,
     wp_command = 16, wp_current = 0, wp_autocontinue = 1, wp_param1 = 0, wp_param2 = 0,
     wp_param3 = 0, wp_param4 = 0, wp_x = 0x42000000, wp_y = 0x41000000, wp_z = 0x43000000\<rparr>"

definition mission_test_env :: mission_env where
  "mission_test_env = \<lparr>now_recv = 10, now_sent = 11, now_check = 6000000, item_io = Wrote 75,
     state_io = Wrote 16, read_io = True, own_sysid = 1, own_compid = 1, stack_item = blank_item,
     stack_wp = waypoint 0\<rparr>"

definition idle_manager :: mission_manager where
  "idle_manager = \<lparr>wpm_state = MAVLINK_WPM_STATE_IDLE, time_last_recv = 0, time_last_sent = 0,
     filesystem_errcount = 0, my_dataman_id = 0, transfer_dataman_id = 0, transfer_count = 0,
     transfer_seq = 0, transfer_current_seq = 0, transfer_partner_sysid = 0,
     transfer_partner_compid = 0, slow_last_sent = 0, slow_interval = 100000, dataman_id = 0,
     dataman_init = True, mission_count = 0, current_seq = 0, transfer_in_progress = False,
     dm_file = []\<rparr>"

lemma dm_intact_empty: "dm_intact []"
  by (simp add: dm_intact_def sector_intact_def)

definition parsed_waypoint :: mission_item where
  "parsed_waypoint = snd (the (parse_mavlink_mission_item (waypoint 0) blank_item))"

lemma test_upload_fits: "upload_fits mission_test_env [waypoint 0] [parsed_waypoint]"
  by (simp add: upload_fits_def mission_test_env_def sizeof_mission_item_def DM_SECTOR_HDR_SIZE_def
      check_target_def parsed_waypoint_def waypoint_def parse_mavlink_mission_item_def
      parse_frame_def parse_command_def mission_consts)

section \<open>Properties\<close>



text \<open>
  C5: an upload of at most 256 valid items to an idle manager ends with the mission switched to
  the other store, the announced number of items and no transfer in progress; sending item i
  of the new mission then gives the formatted i-th uploaded item.
\<close>

theorem mission_upload_download:
  assumes "upload_fits env wps items" "wpm_state m = MAVLINK_WPM_STATE_IDLE"
    and "\<not> transfer_in_progress m" "check_target env ts tc" "dm_intact (dm_file m)" "read_io env'"
  shows "\<exists>m'. receive_items env wps (fst (handle_mission_count env s c ts tc (of_nat (length wps)) m))
        = Some m' \<and>
      wpm_state m' = MAVLINK_WPM_STATE_IDLE \<and> dataman_id m' = inactive_id (dataman_id m) \<and>
      mission_count m' = of_nat (length wps) \<and> \<not> transfer_in_progress m' \<and>
      (\<forall>i < length wps. \<exists>m''. send_mission_item env' s' c' (of_nat i) m' = Some (m'',
         [Out_item ((format_mavlink_mission_item (items ! i) (stack_wp env'))
           \<lparr>wp_target_system := s', wp_target_component := c', wp_seq := of_nat i,
            wp_current := (if current_seq m' = ucast (of_nat i :: u16) then 1 else 0)\<rparr>)]))"
proof -
  let ?d = "inactive_id (dataman_id m)"
  have n: "length items = length wps" "length wps \<le> 256" "0 < length wps"
    using assms(1) by (simp_all add: upload_fits_def)
  obtain m' where m': "receive_items env wps
      (fst (handle_mission_count env s c ts tc (of_nat (length wps)) m)) = Some m'"
      "uploaded ?d (dm_file m) items m'"
    using receive_items_run [OF assms(1) handle_mission_count_start [OF assms(1-4)] n(3)] by auto
  have "dm_get (dm_file m') (dm_key_waypoints (dataman_id m'), ucast (of_nat i :: u16))
      = Some (mission_item_bytes (items ! i))" if "i < length wps" for i
    using uploaded_items [OF m'(2) assms(5)] n that m'(2) by (simp add: ucast_of_nat_u8 uploaded_def)
  then show ?thesis
    using m' n(1) send_stored_item [where env = env' and m = m'] assms(6) by (auto simp: uploaded_def)
qed

theorem mission_upload_download_witness:
  "\<exists>m'. receive_items mission_test_env [waypoint 0]
      (fst (handle_mission_count mission_test_env 255 0 1 1 1 idle_manager)) = Some m' \<and>
    dataman_id m' = 1 \<and> mission_count m' = 1"
  using mission_upload_download [OF test_upload_fits, of idle_manager 1 1 mission_test_env 255 0]
  by (auto simp: idle_manager_def dm_intact_empty check_target_def mission_test_env_def inactive_id_def)



text \<open>
  C29: after an upload that timed out, whatever messages and periodic calls follow, no items are
  received any more: the transfer stays marked as in progress, and each later attempt to start an
  upload is answered with an error.
\<close>

theorem abandoned_upload_locks_out:
  assumes "mission_inv m" "wpm_state m = MAVLINK_WPM_STATE_GETLIST"
    and "now_check env - time_last_recv m > MAVLINK_MISSION_PROTOCOL_TIMEOUT_DEFAULT"
    and "check_timeouts env m = Some r" "mission_step\<^sup>*\<^sup>* (fst r) m'"
    and "wpm_state m' = MAVLINK_WPM_STATE_IDLE" "check_target env' ts tc"
  shows "handle_mission_count env' s c ts tc n m'
    = (m'\<lparr>time_last_recv := now_recv env'\<rparr>, [send_mission_ack MAV_MISSION_ERROR m'])"
proof -
  have "upload_abandoned (fst r)"
    using assms(1-4) by (auto simp: check_timeouts_def upload_abandoned_def mission_inv_def)
  then have "transfer_in_progress m'"
    using mission_run_abandoned [OF assms(5)] by (simp add: upload_abandoned_def)
  then show ?thesis
    using assms(6,7) by (simp add: handle_mission_count_def send_mission_ack_def)
qed

definition stalled_manager :: mission_manager where
  "stalled_manager = idle_manager\<lparr>wpm_state := MAVLINK_WPM_STATE_GETLIST, transfer_count := 2,
     transfer_dataman_id := 1, transfer_in_progress := True\<rparr>"

theorem abandoned_upload_locks_out_witness:
  "snd (handle_mission_count mission_test_env 255 0 1 1 3
     (stalled_manager\<lparr>wpm_state := MAVLINK_WPM_STATE_IDLE\<rparr>)) = [Out_ack 0 0 MAV_MISSION_ERROR]"
proof -
  have "handle_mission_count mission_test_env 255 0 1 1 3 (stalled_manager\<lparr>wpm_state := MAVLINK_WPM_STATE_IDLE\<rparr>)
    = ((stalled_manager\<lparr>wpm_state := MAVLINK_WPM_STATE_IDLE\<rparr>)\<lparr>time_last_recv := now_recv mission_test_env\<rparr>,
       [send_mission_ack MAV_MISSION_ERROR (stalled_manager\<lparr>wpm_state := MAVLINK_WPM_STATE_IDLE\<rparr>)])"
    by (rule abandoned_upload_locks_out [of stalled_manager mission_test_env
          "(stalled_manager\<lparr>wpm_state := MAVLINK_WPM_STATE_IDLE\<rparr>, [Out_critical ''Operation timeout''])"])
       (simp_all add: stalled_manager_def idle_manager_def mission_inv_def inactive_id_def
         mission_test_env_def wpm_max_count_256 MAVLINK_MISSION_PROTOCOL_TIMEOUT_DEFAULT_def
         check_timeouts_def check_target_def)
  then show ?thesis
    by (simp add: send_mission_ack_def stalled_manager_def idle_manager_def)
qed

end
