(* ===== verification/OrbContainers.thy ===== *)
theory OrbContainers
  imports Prelude
begin

text \<open>
  The linked lists behind the object request broker on NuttX (\<open>src/modules/uORB/ORBSet.hpp\<close> and
  \<open>ORBMap.hpp\<close>): a set of topic names and a map from node paths to device nodes.  The cells are
  in an explicit store, because the lists keep a second pointer to the last cell.  An operation
  that dereferences a null or dangling pointer is \<open>Crashed\<close>; a loop that does not end is \<^term>\<open>None\<close>.
\<close>

section \<open>Cells and lists\<close>

type_synonym addr = nat

record 'a cell =
  cell_next :: "addr option"
  cell_name :: string
  cell_node :: 'a

record 'a chain =
  cells :: "addr \<Rightarrow> 'a cell option"
  top_ptr :: "addr option"
  end_ptr :: "addr option"

datatype 'a run = Crashed | Returned 'a

definition new_chain :: "'a chain" where
  "new_chain = \<lparr>cells = (\<lambda>_. None), top_ptr = None, end_ptr = None\<rparr>"

text \<open>The cell at a pointer; \<^term>\<open>None\<close> when it is null or dangling.\<close>

definition deref :: "'a chain \<Rightarrow> addr option \<Rightarrow> 'a cell option" where
  "deref c p = (case p of None \<Rightarrow> None | Some a \<Rightarrow> cells c a)"

section \<open>Operations\<close>

text \<open>\<open>insert\<close>, with the address that \<open>malloc\<close> returns; its cell has arbitrary contents until it is filled.\<close>

definition chain_insert :: "addr \<Rightarrow> 'a cell \<Rightarrow> string \<Rightarrow> 'a \<Rightarrow> 'a chain \<Rightarrow> 'a chain run" where
  "chain_insert a raw name node c =
     (let linked = (case top_ptr c of
            None \<Rightarrow> Some (c\<lparr>top_ptr := Some a, cells := (cells c)(a \<mapsto> raw)\<rparr>)
          | Some _ \<Rightarrow> (case end_ptr c of
                None \<Rightarrow> None
              | Some e \<Rightarrow> (case cells c e of
                    None \<Rightarrow> None
                  | Some x \<Rightarrow> Some (c\<lparr>cells := (cells c)(e \<mapsto> x\<lparr>cell_next := Some a\<rparr>, a \<mapsto> raw)\<rparr>))))
      in case linked of
           None \<Rightarrow> Crashed
         | Some c1 \<Rightarrow>
             (let new_end = (case end_ptr c1 of
                    Some e \<Rightarrow> (case cells c1 e of None \<Rightarrow> None | Some x \<Rightarrow> cell_next x)
                  | None \<Rightarrow> top_ptr c1)
              in case new_end of
                   None \<Rightarrow> Crashed
                 | Some e \<Rightarrow> (case cells c1 e of
                       None \<Rightarrow> Crashed
                     | Some x \<Rightarrow> Returned (c1\<lparr>end_ptr := Some e, cells := (cells c1)(e \<mapsto>
                         \<lparr>cell_next = None, cell_name = name, cell_node = node\<rparr>)\<rparr>))))"

partial_function (option) find_from :: "string \<Rightarrow> addr option \<Rightarrow> 'a chain \<Rightarrow> 'a option run option" where
  "find_from name p c =
     (case p of
        None \<Rightarrow> Some (Returned None)
      | Some a \<Rightarrow> (case cells c a of
            None \<Rightarrow> Some Crashed
          | Some x \<Rightarrow> if cell_name x = name then Some (Returned (Some (cell_node x)))
                      else find_from name (cell_next x) c))"

definition chain_get :: "string \<Rightarrow> 'a chain \<Rightarrow> 'a option run option" where
  "chain_get name c = find_from name (top_ptr c) c"

definition chain_find :: "string \<Rightarrow> 'a chain \<Rightarrow> bool run option" where
  "chain_find name c = map_option (\<lambda>r. case r of Crashed \<Rightarrow> Crashed | Returned v \<Rightarrow> Returned (v \<noteq> None))
     (find_from name (top_ptr c) c)"

definition unlinkNext :: "addr \<Rightarrow> 'a chain \<Rightarrow> 'a chain run" where
  "unlinkNext a c =
     (case cells c a of
        None \<Rightarrow> Crashed
      | Some x \<Rightarrow> (case cell_next x of
            None \<Rightarrow> Returned c
          | Some b \<Rightarrow> (case cells c b of
                None \<Rightarrow> Crashed
              | Some y \<Rightarrow> Returned (c\<lparr>end_ptr := (if end_ptr c = Some b then Some a else end_ptr c),
                  cells := ((cells c)(a \<mapsto> x\<lparr>cell_next := cell_next y\<rparr>))(b := None)\<rparr>))))"

text \<open>The loop of \<open>erase\<close>: its pointer stays at the first cell.\<close>

partial_function (option) erase_loop :: "string \<Rightarrow> addr \<Rightarrow> 'a chain \<Rightarrow> (bool \<times> 'a chain) run option" where
  "erase_loop name p c =
     (case cells c p of
        None \<Rightarrow> Some Crashed
      | Some x \<Rightarrow> (case cell_next x of
            None \<Rightarrow> Some (Returned (False, c))
          | Some q \<Rightarrow> (case cells c q of
                None \<Rightarrow> Some Crashed
              | Some y \<Rightarrow> if cell_name y = name
                  then Some (case unlinkNext p c of Crashed \<Rightarrow> Crashed | Returned c' \<Rightarrow> Returned (True, c'))
                  else erase_loop name p c)))"

definition chain_erase :: "string \<Rightarrow> 'a chain \<Rightarrow> (bool \<times> 'a chain) run option" where
  "chain_erase name c =
     (case top_ptr c of
        None \<Rightarrow> Some Crashed
      | Some t \<Rightarrow> (case cells c t of
            None \<Rightarrow> Some Crashed
          | Some x \<Rightarrow>
              if cell_name x = name
              then Some (Returned (True, c\<lparr>cells := (cells c)(t := None), top_ptr := cell_next x,
                end_ptr := (if cell_next x = None then None else end_ptr c)\<rparr>))
              else erase_loop name t c))"

text \<open>The set of names is the list without nodes.\<close>

definition set_insert :: "addr \<Rightarrow> unit cell \<Rightarrow> string \<Rightarrow> unit chain \<Rightarrow> unit chain run" where
  "set_insert a raw name c = chain_insert a raw name () c"

definition set_find :: "string \<Rightarrow> unit chain \<Rightarrow> bool run option" where
  "set_find name c = chain_find name c"

definition set_erase :: "string \<Rightarrow> unit chain \<Rightarrow> (bool \<times> unit chain) run option" where
  "set_erase name c = chain_erase name c"

section \<open>The list of a chain\<close>

fun path :: "(addr \<Rightarrow> 'a cell option) \<Rightarrow> addr option \<Rightarrow> addr list \<Rightarrow> (string \<times> 'a) list \<Rightarrow> bool" where
  "path h p [] xs \<longleftrightarrow> p = None \<and> xs = []"
| "path h p (a # as) xs \<longleftrightarrow> p = Some a \<and> (\<exists>x ys. h a = Some x \<and> xs = (cell_name x, cell_node x) # ys \<and>
     path h (cell_next x) as ys)"

definition chain_list :: "'a chain \<Rightarrow> addr list \<Rightarrow> (string \<times> 'a) list \<Rightarrow> bool" where
  "chain_list c as xs \<longleftrightarrow> path (cells c) (top_ptr c) as xs \<and> distinct as \<and> dom (cells c) = set as \<and>
     end_ptr c = (if as = [] then None else Some (last as))"

lemma path_upd: "path h p as xs \<Longrightarrow> a \<notin> set as \<Longrightarrow> path (h(a := v)) p as xs"
  by (induction as arbitrary: p xs) auto

lemma path_length: "path h p as xs \<Longrightarrow> length xs = length as"
  by (induction as arbitrary: p xs) auto

lemma path_snoc:
  "path h p as xs \<Longrightarrow> distinct as \<Longrightarrow> a \<notin> set as \<Longrightarrow> as \<noteq> [] \<Longrightarrow> h (last as) = Some x \<Longrightarrow>
   path (h(last as \<mapsto> x\<lparr>cell_next := Some a\<rparr>, a \<mapsto> \<lparr>cell_next = None, cell_name = n, cell_node = v\<rparr>)) p
     (as @ [a]) (xs @ [(n, v)])"
proof (induction as arbitrary: p xs)
  case (Cons b bs)
  show ?case
  proof (cases "bs = []")
    case True
    then show ?thesis
      using Cons.prems by auto
  next
    case False
    obtain y ys where y: "p = Some b" "h b = Some y" "xs = (cell_name y, cell_node y) # ys"
        "path h (cell_next y) bs ys"
      using Cons.prems(1) by auto
    have "b \<noteq> last bs" "b \<noteq> a"
      using Cons.prems(2,3) False by auto
    then show ?thesis
      using Cons.IH [OF y(4)] Cons.prems False y by auto
  qed
qed simp

lemma path_last: "path h p as xs \<Longrightarrow> as \<noteq> [] \<Longrightarrow> \<exists>x. h (last as) = Some x \<and> cell_next x = None"
  by (induction as arbitrary: p xs) (auto split: if_splits)

lemma new_chain_list: "chain_list new_chain [] []"
  by (simp add: chain_list_def new_chain_def)

lemma chain_insert_list:
  assumes "chain_list c as xs" "cells c a = None"
  shows "\<exists>c'. chain_insert a raw name v c = Returned c' \<and> chain_list c' (as @ [a]) (xs @ [(name, v)])"
proof (cases "as = []")
  case True
  then show ?thesis
    using assms by (auto simp: chain_list_def chain_insert_def Let_def)
next
  case False
  have p: "path (cells c) (top_ptr c) as xs" "distinct as" "dom (cells c) = set as"
      "end_ptr c = Some (last as)" "a \<notin> set as"
    using assms False by (auto simp: chain_list_def)
  obtain t where t: "top_ptr c = Some t"
    using p(1) False by (cases as) auto
  obtain x where x: "cells c (last as) = Some x"
    using path_last [OF p(1) False] by auto
  have ne: "a \<noteq> last as"
    using p(5) False by auto
  have ps: "path ((cells c)(last as \<mapsto> x\<lparr>cell_next := Some a\<rparr>,
      a \<mapsto> \<lparr>cell_next = None, cell_name = name, cell_node = v\<rparr>)) (Some t) (as @ [a]) (xs @ [(name, v)])"
    using path_snoc [OF p(1,2,5) False x] t by simp
  show ?thesis
    using p t x ne ps False
    by (auto simp: chain_insert_def Let_def chain_list_def fun_upd_twist)
qed

lemma find_from_path:
  "path (cells c) p as xs \<Longrightarrow> find_from name p c = Some (Returned (map_of xs name))"
proof (induction as arbitrary: p xs)
  case Nil
  then show ?case by (simp add: find_from.simps)
next
  case (Cons a as)
  then obtain x ys where x: "p = Some a" "cells c a = Some x" "xs = (cell_name x, cell_node x) # ys"
      "path (cells c) (cell_next x) as ys"
    by auto
  then show ?case
    using Cons.IH [OF x(4)] by (simp add: find_from.simps)
qed

lemma chain_get_list: "chain_list c as xs \<Longrightarrow> chain_get name c = Some (Returned (map_of xs name))"
  by (auto simp: chain_get_def chain_list_def find_from_path)

lemma chain_find_list:
  "chain_list c as xs \<Longrightarrow> chain_find name c = Some (Returned (name \<in> fst ` set xs))"
  by (auto simp: chain_find_def chain_list_def find_from_path map_of_eq_None_iff)

section \<open>Erasing\<close>

lemma erase_loop_diverges:
  assumes "cells c p = Some x" "cell_next x = Some q" "cells c q = Some y" "cell_name y \<noteq> name"
  shows "erase_loop name p c = None"
proof -
  have "\<not> (n = name \<and> p' = p \<and> c' = c)" if "erase_loop n p' c' = Some r" for n p' c' r
    by (rule erase_loop.raw_induct [OF _ that])
       (use assms in \<open>auto split: option.splits if_splits\<close>)
  then show ?thesis
    by (cases "erase_loop name p c") auto
qed

lemma chain_erase_list:
  assumes "chain_list c (a # as) ((n, v) # xs)"
  shows "chain_erase name c =
    (if n = name then Some (Returned (True, c\<lparr>cells := (cells c)(a := None),
         top_ptr := (case as of [] \<Rightarrow> None | b # _ \<Rightarrow> Some b),
         end_ptr := (if as = [] then None else end_ptr c)\<rparr>))
     else case xs of
         [] \<Rightarrow> Some (Returned (False, c))
       | (m, w) # ys \<Rightarrow> if m = name
           then Some (case unlinkNext a c of Crashed \<Rightarrow> Crashed | Returned c' \<Rightarrow> Returned (True, c'))
           else None)"
proof -
  obtain x where x: "top_ptr c = Some a" "cells c a = Some x" "n = cell_name x" "v = cell_node x"
      "path (cells c) (cell_next x) as xs"
    using assms by (auto simp: chain_list_def)
  show ?thesis
  proof (cases as)
    case Nil
    then have "cell_next x = None" "xs = []"
      using x(5) by auto
    then show ?thesis
      using x Nil by (simp add: chain_erase_def erase_loop.simps)
  next
    case (Cons b bs)
    obtain y ys where y: "cell_next x = Some b" "cells c b = Some y"
        "xs = (cell_name y, cell_node y) # ys"
      using x(5) Cons by auto
    have "erase_loop name a c = (if cell_name y = name
        then Some (case unlinkNext a c of Crashed \<Rightarrow> Crashed | Returned c' \<Rightarrow> Returned (True, c')) else None)"
    proof (cases "cell_name y = name")
      case True
      then show ?thesis
        by (subst erase_loop.simps) (simp add: x(2) y)
    next
      case False
      then show ?thesis
        using erase_loop_diverges [OF x(2) y(1,2)] by simp
    qed
    then show ?thesis
      using x(1-4) y Cons by (simp add: chain_erase_def)
  qed
qed

lemma unlink_first_list:
  assumes "chain_list c (a # b # as) (x # y # xs)"
  shows "\<exists>c'. unlinkNext a c = Returned c' \<and> chain_list c' (a # as) (x # xs)"
proof -
  obtain ca cb where cells: "cells c a = Some ca" "cell_next ca = Some b" "cells c b = Some cb"
      "path (cells c) (cell_next cb) as xs" "x = (cell_name ca, cell_node ca)" "top_ptr c = Some a"
    using assms by (auto simp: chain_list_def)
  have d: "a \<noteq> b" "a \<notin> set as" "b \<notin> set as" "distinct as" "dom (cells c) = {a, b} \<union> set as"
      "end_ptr c = Some (if as = [] then b else last as)"
    using assms by (auto simp: chain_list_def)
  have "path (((cells c)(a \<mapsto> ca\<lparr>cell_next := cell_next cb\<rparr>))(b := None)) (cell_next cb) as xs"
    using cells(4) d(2,3) by (simp add: path_upd del: fun_upd_apply)
  moreover have "last as \<noteq> b" if "as \<noteq> []"
    using d(3) that by auto
  ultimately show ?thesis
    using cells d by (auto simp: unlinkNext_def chain_list_def)
qed

lemma erase_first_list:
  assumes "chain_list c (a # as) (x # xs)"
  shows "chain_list (c\<lparr>cells := (cells c)(a := None),
      top_ptr := (case as of [] \<Rightarrow> None | b # _ \<Rightarrow> Some b),
      end_ptr := (if as = [] then None else end_ptr c)\<rparr>) as xs"
proof -
  obtain ca where ca: "cells c a = Some ca" "path (cells c) (cell_next ca) as xs"
    using assms by (auto simp: chain_list_def)
  have "path ((cells c)(a := None)) (cell_next ca) as xs"
    using ca(2) assms by (intro path_upd) (auto simp: chain_list_def)
  moreover have "cell_next ca = (case as of [] \<Rightarrow> None | b # _ \<Rightarrow> Some b)"
    using ca(2) by (cases as) auto
  ultimately show ?thesis
    using assms by (auto simp: chain_list_def)
qed

section \<open>Properties\<close>

fun chain_inserts :: "(addr \<times> 'a cell \<times> string \<times> 'a) list \<Rightarrow> 'a chain \<Rightarrow> 'a chain run" where
  "chain_inserts [] c = Returned c"
| "chain_inserts ((a, raw, name, v) # ws) c =
     (case chain_insert a raw name v c of Crashed \<Rightarrow> Crashed | Returned c' \<Rightarrow> chain_inserts ws c')"

lemma chain_inserts_list:
  "chain_list c as xs \<Longrightarrow> distinct (map fst ws) \<Longrightarrow> set as \<inter> fst ` set ws = {} \<Longrightarrow>
   \<exists>c'. chain_inserts ws c = Returned c' \<and> chain_list c' (as @ map fst ws) (xs @ map (snd \<circ> snd) ws)"
proof (induction ws arbitrary: c as xs)
  case (Cons w ws)
  obtain a raw name v where w: "w = (a, raw, name, v)"
    by (cases w) auto
  have "cells c a = None"
    using Cons.prems(1,3) w by (auto simp: chain_list_def)
  then obtain c1 where c1: "chain_insert a raw name v c = Returned c1"
      "chain_list c1 (as @ [a]) (xs @ [(name, v)])"
    using chain_insert_list [OF Cons.prems(1)] by blast
  then show ?case
    using Cons.IH [OF c1(2)] Cons.prems(2,3) w by auto
qed simp

text \<open>
  A map filled by any series of insertions, each in a cell of its own, never crashes and finds
  for every path the node that was inserted first under it, and no node for the other paths.
\<close>

theorem orb_map_lookup:
  assumes "distinct (map fst ws)"
  shows "\<exists>c. chain_inserts ws new_chain = Returned c \<and>
    (\<forall>name. chain_get name c = Some (Returned (map_of (map (snd \<circ> snd) ws) name)) \<and>
       chain_find name c = Some (Returned (name \<in> (fst \<circ> snd \<circ> snd) ` set ws)))"
  using chain_inserts_list [OF new_chain_list, of ws] assms
  by (auto simp: chain_get_list chain_find_list image_image)

theorem orb_map_lookup_witness:
  "\<exists>c. chain_inserts [(0, \<lparr>cell_next = None, cell_name = [], cell_node = 9\<rparr>, ''a'', 1),
      (4, \<lparr>cell_next = Some 7, cell_name = [], cell_node = 9\<rparr>, ''b'', 2 :: nat)] new_chain = Returned c \<and>
    chain_get ''b'' c = Some (Returned (Some 2))"
  using orb_map_lookup [of "[(0, \<lparr>cell_next = None, cell_name = [], cell_node = 9\<rparr>, ''a'', 1),
      (4, \<lparr>cell_next = Some 7, cell_name = [], cell_node = 9\<rparr>, ''b'', 2 :: nat)]"]
  by auto

lemma set_erase_two:
  assumes "chain_list c as ((n, ()) # (m, ()) # ys)" "n \<noteq> name"
  shows "set_erase name c = None \<and> m \<noteq> name \<or> m = name \<and>
    (\<exists>c' as'. set_erase name c = Some (Returned (True, c')) \<and> chain_list c' as' ((n, ()) # ys))"
proof -
  have l: "length as = Suc (Suc (length ys))"
    using assms(1) path_length by (fastforce simp: chain_list_def)
  then obtain a b as' where as: "as = a # b # as'"
    by (metis Suc_length_conv)
  show ?thesis
  proof (cases "m = name")
    case True
    obtain c' where "unlinkNext a c = Returned c'" "chain_list c' (a # as') ((n, ()) # ys)"
      using unlink_first_list assms(1) as by blast
    then show ?thesis
      using chain_erase_list [of c a "b # as'" n "()" "(m, ()) # ys" name] assms as True
      by (auto simp: set_erase_def)
  next
    case False
    then show ?thesis
      using chain_erase_list [of c a "b # as'" n "()" "(m, ()) # ys" name] assms as
      by (simp add: set_erase_def)
  qed
qed

lemma set_erase_first:
  assumes "chain_list c as ((name, ()) # ys)"
  shows "\<exists>c' as'. set_erase name c = Some (Returned (True, c')) \<and> chain_list c' as' ys"
proof -
  obtain a as' where as: "as = a # as'"
    using assms path_length by (cases as) (auto simp: chain_list_def)
  show ?thesis
    using chain_erase_list [of c a as' name "()" ys name] erase_first_list [of c a as' "(name, ())" ys]
      assms as by (auto simp: set_erase_def)
qed

text \<open>
  Erasing from the set of names works for the first two names of the list only: there the name
  is removed and the rest of the list is kept.  From an empty set it crashes, and with two or
  more names in the set it never returns for a name beyond the second, present or not.
\<close>

theorem orb_set_erase:
  assumes "chain_list c as (map (\<lambda>n. (n, ())) names)"
  shows "(names = [] \<longrightarrow> set_erase name c = Some Crashed) \<and>
    (name \<in> set (take 2 names) \<longrightarrow> (\<exists>c' as'. set_erase name c = Some (Returned (True, c')) \<and>
       chain_list c' as' (map (\<lambda>n. (n, ())) (remove1 name names)))) \<and>
    (length names = 1 \<and> name \<notin> set names \<longrightarrow> set_erase name c = Some (Returned (False, c))) \<and>
    (2 \<le> length names \<and> name \<notin> set (take 2 names) \<longrightarrow> set_erase name c = None)"
proof (cases names)
  case Nil
  then have "top_ptr c = None"
    using assms path_length [of "cells c" "top_ptr c" as "[]"] by (simp add: chain_list_def)
  then show ?thesis
    using Nil by (simp add: set_erase_def chain_erase_def)
next
  case (Cons n ns)
  show ?thesis
  proof (cases "n = name")
    case True
    then show ?thesis
      using set_erase_first [of c as name "map (\<lambda>n. (n, ())) ns"] assms Cons by auto
  next
    case False
    note n_ne = this
    show ?thesis
    proof (cases ns)
      case Nil
      obtain a where "as = [a]"
        using assms Cons Nil path_length [of "cells c" "top_ptr c" as "[(n, ())]"]
        by (cases as) (auto simp: chain_list_def)
      then show ?thesis
        using chain_erase_list [of c a "[]" n "()" "[]" name] assms Cons Nil n_ne
        by (simp add: set_erase_def)
    next
      case (Cons m ms)
      then show ?thesis
        using set_erase_two [of c as n m "map (\<lambda>n. (n, ())) ms" name] assms \<open>names = n # ns\<close> n_ne
        by auto
    qed
  qed
qed

theorem orb_set_erase_witness:
  "\<exists>c. chain_inserts [(0, \<lparr>cell_next = None, cell_name = [], cell_node = ()\<rparr>, ''a'', ()),
      (1, \<lparr>cell_next = None, cell_name = [], cell_node = ()\<rparr>, ''b'', ()),
      (2, \<lparr>cell_next = None, cell_name = [], cell_node = ()\<rparr>, ''c'', ())] new_chain = Returned c \<and>
    set_find ''c'' c = Some (Returned True) \<and> set_erase ''c'' c = None"
proof -
  let ?ws = "[(0, \<lparr>cell_next = None, cell_name = [], cell_node = ()\<rparr>, ''a'', ()),
      (1, \<lparr>cell_next = None, cell_name = [], cell_node = ()\<rparr>, ''b'', ()),
      (2, \<lparr>cell_next = None, cell_name = [], cell_node = ()\<rparr>, ''c'', ())]"
  obtain c where c: "chain_inserts ?ws new_chain = Returned c"
      "chain_list c [0, 1, 2] [(''a'', ()), (''b'', ()), (''c'', ())]"
    using chain_inserts_list [OF new_chain_list, of ?ws] by auto
  then show ?thesis
    using orb_set_erase [of c "[0, 1, 2]" "[''a'', ''b'', ''c'']" "''c''"]
      chain_find_list [OF c(2), of "''c''"] by (simp add: set_find_def)
qed

end
