(* ===== verification/VDev.thy ===== *)
theory VDev
  imports Prelude
begin

text \<open>
  Virtual character devices (\<open>src/drivers/device/vdev.cpp\<close>): the table of device names, the open
  count of a device and the table of the threads that poll it.  Both tables have a fixed number
  of slots.  Return values are integers, 0 for success and a negated error number otherwise.
\<close>

section \<open>The interface of a directory\<close>

text \<open>
  A directory of names: registering a name succeeds exactly when the name is not taken and there
  is room.  Inside the locale, trying a list of names one after the other is shown to take the
  first one that is free.
\<close>

locale directory =
  fixes look :: "'k \<Rightarrow> 's \<Rightarrow> 'd option"
    and reg :: "'k \<Rightarrow> 'd \<Rightarrow> 's \<Rightarrow> bool \<times> 's"
    and room :: "'s \<Rightarrow> bool"
    and ok :: "'s \<Rightarrow> bool"
  assumes reg_iff: "ok s \<Longrightarrow> room s \<Longrightarrow> fst (reg k d s) \<longleftrightarrow> look k s = None"
    and reg_look: "ok s \<Longrightarrow> room s \<Longrightarrow> look k s = None \<Longrightarrow>
      look k' (snd (reg k d s)) = (if k' = k then Some d else look k' s)"
    and reg_ok: "ok s \<Longrightarrow> room s \<Longrightarrow> ok (snd (reg k d s))"
    and reg_taken: "ok s \<Longrightarrow> room s \<Longrightarrow> look k s \<noteq> None \<Longrightarrow> snd (reg k d s) = s"
begin

fun claim :: "'k list \<Rightarrow> 'd \<Rightarrow> 's \<Rightarrow> nat option \<times> 's" where
  "claim [] d s = (None, s)"
| "claim (k # ks) d s =
     (let (b, s') = reg k d s
      in if b then (Some 0, s') else (let (r, s'') = claim ks d s' in (map_option Suc r, s'')))"

lemma claim_first:
  "ok s \<Longrightarrow> room s \<Longrightarrow> fst (claim ks d s) = first_index (\<lambda>k. look k s = None) ks"
  by (induction ks) (auto simp: reg_iff reg_taken split_beta Let_def)

lemma claim_state:
  "ok s \<Longrightarrow> room s \<Longrightarrow> snd (claim ks d s) =
     (case first_index (\<lambda>k. look k s = None) ks of None \<Rightarrow> s | Some i \<Rightarrow> snd (reg (ks ! i) d s))"
  by (induction ks) (auto simp: reg_iff reg_taken split_beta Let_def split: option.splits)

lemma claim_look:
  assumes "ok s" "room s" "fst (claim ks d s) = Some i"
  shows "look k (snd (claim ks d s)) = (if k = ks ! i then Some d else look k s)"
proof -
  have i: "first_index (\<lambda>k. look k s = None) ks = Some i"
    using claim_first assms by simp
  then have "look (ks ! i) s = None"
    by (drule_tac first_index_SomeD) simp
  then show ?thesis
    using assms(1,2) i by (simp add: claim_state reg_look)
qed

end

section \<open>Error numbers\<close>

definition ENOENT :: int where "ENOENT = 2"
definition EIO :: int where "EIO = 5"
definition EBADF :: int where "EBADF = 9"
definition ENOMEM :: int where "ENOMEM = 12"
definition EBUSY :: int where "EBUSY = 16"
definition EEXIST :: int where "EEXIST = 17"
definition EINVAL :: int where "EINVAL = 22"
definition ENOTTY :: int where "ENOTTY = 25"
definition ENOSPC :: int where "ENOSPC = 28"
definition ENAMETOOLONG :: int where "ENAMETOOLONG = 36"
definition ENOSYS :: int where "ENOSYS = 38"

lemmas errno_defs = ENOENT_def EIO_def EBADF_def ENOMEM_def EBUSY_def EEXIST_def EINVAL_def
  ENOTTY_def ENOSPC_def ENAMETOOLONG_def ENOSYS_def

section \<open>The table of devices\<close>

text \<open>A device is a number that stands for its address.\<close>

type_synonym devmap = "(string \<times> nat) option list"

definition PX4_MAX_DEV :: nat where "PX4_MAX_DEV = 500"

definition empty_devmap :: devmap where
  "empty_devmap = replicate PX4_MAX_DEV None"

definition names_dev :: "string \<Rightarrow> (string \<times> nat) option \<Rightarrow> bool" where
  "names_dev name slot = (case slot of None \<Rightarrow> False | Some (n, d) \<Rightarrow> n = name)"

definition register_driver :: "string option \<Rightarrow> nat option \<Rightarrow> devmap \<Rightarrow> int \<times> devmap" where
  "register_driver name data dm =
     (case (name, data) of
        (Some n, Some d) \<Rightarrow>
          (if first_index (names_dev n) dm \<noteq> None then (- EEXIST, dm)
           else case first_free dm of
               None \<Rightarrow> (- ENOSPC, dm)
             | Some i \<Rightarrow> (0, dm[i := Some (n, d)]))
      | _ \<Rightarrow> (- EINVAL, dm))"

definition unregister_driver :: "string option \<Rightarrow> devmap \<Rightarrow> int \<times> devmap" where
  "unregister_driver name dm =
     (case name of
        None \<Rightarrow> (- EINVAL, dm)
      | Some n \<Rightarrow> (case first_index (names_dev n) dm of
            None \<Rightarrow> (- EINVAL, dm)
          | Some i \<Rightarrow> (0, dm[i := None])))"

definition getDev :: "string \<Rightarrow> devmap \<Rightarrow> nat option" where
  "getDev path dm =
     (case first_index (names_dev path) dm of None \<Rightarrow> None | Some i \<Rightarrow> map_option snd (dm ! i))"

text \<open>Numbered names; the buffer of 32 bytes cuts off what does not fit.\<close>

definition class_name :: "string \<Rightarrow> nat \<Rightarrow> string" where
  "class_name class_devname i = take 31 (class_devname @ show_nat i)"

fun register_class_from :: "nat \<Rightarrow> nat \<Rightarrow> string \<Rightarrow> nat \<Rightarrow> int \<Rightarrow> devmap \<Rightarrow> int \<times> devmap" where
  "register_class_from 0 i class_devname d ret dm = (ret, dm)"
| "register_class_from (Suc n) i class_devname d ret dm =
     (let (r, dm') = register_driver (Some (class_name class_devname i)) (Some d) dm
      in if r = 0 then (int i, dm') else register_class_from n (Suc i) class_devname d r dm')"

definition register_class_devname :: "string option \<Rightarrow> nat \<Rightarrow> devmap \<Rightarrow> int \<times> devmap" where
  "register_class_devname class_devname d dm =
     (case class_devname of
        None \<Rightarrow> (- EINVAL, dm)
      | Some c \<Rightarrow> register_class_from 4 0 c d (- ENOSPC) dm)"

definition unregister_class_devname :: "string \<Rightarrow> nat \<Rightarrow> devmap \<Rightarrow> int \<times> devmap" where
  "unregister_class_devname class_devname inst dm =
     (case first_index (names_dev (class_name class_devname inst)) dm of
        None \<Rightarrow> (- EINVAL, dm)
      | Some i \<Rightarrow> (0, dm[i := None]))"

text \<open>The iterators over the names that start with a prefix, with their cursor.\<close>

definition names_below :: "string \<Rightarrow> (string \<times> nat) option \<Rightarrow> bool" where
  "names_below pre slot = (case slot of None \<Rightarrow> False | Some (n, d) \<Rightarrow> take (length pre) n = pre)"

definition list_next :: "string \<Rightarrow> nat \<Rightarrow> devmap \<Rightarrow> string option \<times> nat" where
  "list_next pre next_i dm =
     (if next_i \<ge> PX4_MAX_DEV then (None, next_i)
      else case first_index (names_below pre) (drop next_i dm) of
          None \<Rightarrow> (None, PX4_MAX_DEV)
        | Some k \<Rightarrow> (map_option fst (dm ! (next_i + k)), next_i + k + 1))"

definition topicList :: "nat \<Rightarrow> devmap \<Rightarrow> string option \<times> nat" where
  "topicList next_i dm = list_next ''/obj/'' next_i dm"

definition devList :: "nat \<Rightarrow> devmap \<Rightarrow> string option \<times> nat" where
  "devList next_i dm = list_next ''/dev/'' next_i dm"

section \<open>One device\<close>

definition max_pollwaiters :: nat where "max_pollwaiters = 8"

record vdev =
  devname :: "string option"
  registered :: bool
  open_count :: u32
  pub_blocked :: bool
  device_id :: u32
  pollset :: "nat option list"

definition new_vdev :: "string option \<Rightarrow> vdev" where
  "new_vdev name = \<lparr>devname = name, registered = False, open_count = 0, pub_blocked = False,
     device_id = 0,     pollset = replicate max_pollwaiters None\<rparr>"

definition vdev_init :: "nat \<Rightarrow> vdev \<Rightarrow> devmap \<Rightarrow> int \<times> vdev \<times> devmap" where
  "vdev_init d v dm =
     (case devname v of
        None \<Rightarrow> (0, v, dm)
      | Some n \<Rightarrow>
          (let (ret, dm') = register_driver (Some n) (Some d) dm
           in if ret \<noteq> 0 then (ret, v, dm') else (ret, v\<lparr>registered := True\<rparr>, dm')))"

text \<open>What the destructor does to the table of devices.\<close>

definition vdev_delete :: "vdev \<Rightarrow> devmap \<Rightarrow> devmap" where
  "vdev_delete v dm = (if registered v then snd (unregister_driver (devname v) dm) else dm)"

definition vdev_open :: "vdev \<Rightarrow> int \<times> vdev" where
  "vdev_open v = (0, v\<lparr>open_count := open_count v + 1\<rparr>)"

definition vdev_close :: "vdev \<Rightarrow> int \<times> vdev" where
  "vdev_close v =
     (if open_count v > 0 then (0, v\<lparr>open_count := open_count v - 1\<rparr>) else (- EBADF, v))"

datatype vdev_cmd =
  Dioc_getpriv | Deviocspubblock u64 | Deviocgpubblock | Deviocgdeviceid | Devioc_other

definition vdev_ioctl :: "vdev_cmd \<Rightarrow> vdev \<Rightarrow> int \<times> vdev" where
  "vdev_ioctl cmd v =
     (case cmd of
        Dioc_getpriv \<Rightarrow> (0, v)
      | Deviocspubblock arg \<Rightarrow> (0, v\<lparr>pub_blocked := (arg \<noteq> 0)\<rparr>)
      | Deviocgpubblock \<Rightarrow> (if pub_blocked v then 1 else 0, v)
      | Deviocgdeviceid \<Rightarrow> (sint (device_id v), v)
      | Devioc_other \<Rightarrow> (- ENOTTY, v))"

definition store_poll_waiter :: "nat \<Rightarrow> vdev \<Rightarrow> int \<times> vdev" where
  "store_poll_waiter fds v =
     (case first_free (pollset v) of
        None \<Rightarrow> (- ENOMEM, v)
      | Some i \<Rightarrow> (0, v\<lparr>pollset := (pollset v)[i := Some fds]\<rparr>))"

definition remove_poll_waiter :: "nat \<Rightarrow> vdev \<Rightarrow> int \<times> vdev" where
  "remove_poll_waiter fds v =
     (case first_index (\<lambda>p. p = Some fds) (pollset v) of
        None \<Rightarrow> (- EINVAL, v)
      | Some i \<Rightarrow> (0, v\<lparr>pollset := (pollset v)[i := None]\<rparr>))"

section \<open>The table as a map\<close>

text \<open>Each name is in one slot only; the table has its fixed size.\<close>

definition devmap_ok :: "devmap \<Rightarrow> bool" where
  "devmap_ok dm \<longleftrightarrow> length dm = PX4_MAX_DEV \<and>
     (\<forall>i < length dm. \<forall>j < length dm. \<forall>n d e. dm ! i = Some (n, d) \<longrightarrow> dm ! j = Some (n, e) \<longrightarrow> i = j)"

lemma devmap_okD:
  "devmap_ok dm \<Longrightarrow> i < length dm \<Longrightarrow> j < length dm \<Longrightarrow> dm ! i = Some (n, d) \<Longrightarrow> dm ! j = Some (n, e) \<Longrightarrow> i = j"
  unfolding devmap_ok_def by metis

lemma empty_devmap_ok: "devmap_ok empty_devmap"
  by (simp add: devmap_ok_def empty_devmap_def)

lemma first_named: "first_index (names_dev n) dm = Some i \<Longrightarrow> i < length dm \<and> (\<exists>d. dm ! i = Some (n, d))"
  by (drule first_index_SomeD) (auto simp: names_dev_def split: option.splits)

lemma getDev_slot:
  assumes "devmap_ok dm" "i < length dm" "dm ! i = Some (n, d)"
  shows "getDev n dm = Some d"
proof (cases "first_index (names_dev n) dm")
  case None
  then have "\<not> names_dev n (dm ! i)"
    using assms(2) by (simp add: first_index_None)
  then show ?thesis
    using assms(3) by (simp add: names_dev_def)
next
  case (Some k)
  then obtain e where "k < length dm" "dm ! k = Some (n, e)"
    using first_named by blast
  then have "k = i"
    using devmap_okD [OF assms(1)] assms(2,3) by blast
  then show ?thesis
    using Some assms(3) by (simp add: getDev_def)
qed

lemma getDev_SomeD: "getDev n dm = Some d \<Longrightarrow> \<exists>i < length dm. dm ! i = Some (n, d)"
  by (auto simp: getDev_def split: option.splits dest!: first_named)

lemma getDev_iff:
  "devmap_ok dm \<Longrightarrow> getDev n dm = Some d \<longleftrightarrow> (\<exists>i < length dm. dm ! i = Some (n, d))"
  using getDev_SomeD getDev_slot by blast

lemma getDev_None: "getDev n dm = None \<longleftrightarrow> first_index (names_dev n) dm = None"
  by (auto simp: getDev_def split: option.splits dest!: first_named)

lemma option_eqI: "(\<And>d. x = Some d \<longleftrightarrow> y = Some d) \<Longrightarrow> x = y"
  by (cases x; cases y) auto

lemma register_driver_free:
  assumes "devmap_ok dm" "getDev n dm = None" "taken dm < PX4_MAX_DEV"
  shows "fst (register_driver (Some n) (Some d) dm) = 0"
    and "devmap_ok (snd (register_driver (Some n) (Some d) dm))"
    and "getDev m (snd (register_driver (Some n) (Some d) dm)) = (if m = n then Some d else getDev m dm)"
    and "taken (snd (register_driver (Some n) (Some d) dm)) = Suc (taken dm)"
proof -
  have len: "length dm = PX4_MAX_DEV"
    using assms(1) by (simp add: devmap_ok_def)
  have "first_free dm \<noteq> None"
    using assms(3) len by (simp add: first_free_full)
  then obtain i where i: "first_free dm = Some i"
    by blast
  note slot = first_index_SomeD [OF i]
  have r: "register_driver (Some n) (Some d) dm = (0, dm[i := Some (n, d)])"
    using assms(2) i by (simp add: register_driver_def getDev_None)
  have new: "dm ! j \<noteq> Some (n, e)" if "j < length dm" for j e
    using getDev_slot [OF assms(1) that] assms(2) by auto
  show ok: "devmap_ok (snd (register_driver (Some n) (Some d) dm))"
    using assms(1) new slot unfolding r devmap_ok_def
    by (auto simp: nth_list_update split: if_splits)
  show "getDev m (snd (register_driver (Some n) (Some d) dm)) = (if m = n then Some d else getDev m dm)"
  proof (rule option_eqI)
    fix e
    show "getDev m (snd (register_driver (Some n) (Some d) dm)) = Some e \<longleftrightarrow>
        (if m = n then Some d else getDev m dm) = Some e"
      using ok assms(1) new slot unfolding r
      by (auto simp: getDev_iff nth_list_update split: if_splits) (metis option.distinct(1))
  qed
  show "fst (register_driver (Some n) (Some d) dm) = 0"
    by (simp add: r)
  show "taken (snd (register_driver (Some n) (Some d) dm)) = Suc (taken dm)"
    using slot by (simp add: r taken_fill)
qed

lemma register_driver_refused:
  assumes "devmap_ok dm" "getDev n dm \<noteq> None \<or> taken dm = PX4_MAX_DEV"
  shows "register_driver (Some n) (Some d) dm
    = (if getDev n dm \<noteq> None then - EEXIST else - ENOSPC, dm)"
proof (cases "getDev n dm = None")
  case True
  then have "first_free dm = None"
    using assms by (simp add: first_free_full devmap_ok_def)
  then show ?thesis
    using True by (simp add: register_driver_def getDev_None)
qed (auto simp: register_driver_def getDev_None)

lemma devmap_ok_free:
  assumes "devmap_ok dm"
  shows "devmap_ok (dm[i := None])"
proof -
  have old: "dm ! a = Some x" if "dm[i := None] ! a = Some x" "a < length dm" for a x
    using that by (cases "a = i") (auto simp: nth_list_update)
  show ?thesis
    unfolding devmap_ok_def
  proof (intro conjI allI impI)
    fix a b n d e
    assume "a < length (dm[i := None])" "b < length (dm[i := None])"
      and "dm[i := None] ! a = Some (n, d)" "dm[i := None] ! b = Some (n, e)"
    then show "a = b"
      using assms old unfolding devmap_ok_def by (metis length_list_update)
  qed (use assms in \<open>simp add: devmap_ok_def\<close>)
qed

lemma unregister_driver_found:
  assumes "devmap_ok dm" "getDev n dm = Some d"
  shows "fst (unregister_driver (Some n) dm) = 0"
    and "devmap_ok (snd (unregister_driver (Some n) dm))"
    and "getDev m (snd (unregister_driver (Some n) dm)) = (if m = n then None else getDev m dm)"
proof -
  have "first_index (names_dev n) dm \<noteq> None"
    using assms(2) getDev_None [of n dm] by auto
  then obtain i where i: "first_index (names_dev n) dm = Some i"
    by blast
  obtain e where e: "i < length dm" "dm ! i = Some (n, e)"
    using first_named [OF i] by blast
  have r: "unregister_driver (Some n) dm = (0, dm[i := None])"
    using i by (simp add: unregister_driver_def)
  have other: "j = i" if "j < length dm" "dm ! j = Some (n, e')" for j e'
    by (rule devmap_okD [OF assms(1) that(1) e(1) that(2) e(2)])
  show ok: "devmap_ok (snd (unregister_driver (Some n) dm))"
    unfolding r snd_conv by (rule devmap_ok_free [OF assms(1)])
  show "getDev m (snd (unregister_driver (Some n) dm)) = (if m = n then None else getDev m dm)"
  proof (rule option_eqI)
    fix d'
    have "(\<exists>j < length dm. dm[i := None] ! j = Some (m, d')) \<longleftrightarrow> m \<noteq> n \<and> (\<exists>j < length dm. dm ! j = Some (m, d'))"
    proof (cases "m = n")
      case True
      have "dm[i := None] ! j \<noteq> Some (m, d')" if "j < length dm" for j
        using that other [of j d'] True e(1)
        by (metis nth_list_update_eq nth_list_update_neq option.distinct(1))
      then show ?thesis
        using True by blast
    next
      case False
      have "dm[i := None] ! j = Some (m, d') \<longleftrightarrow> dm ! j = Some (m, d')" for j
        using e False by (cases "j = i") simp_all
      then show ?thesis
        using False by simp
    qed
    then show "getDev m (snd (unregister_driver (Some n) dm)) = Some d' \<longleftrightarrow>
        (if m = n then None else getDev m dm) = Some d'"
      using ok assms(1) unfolding r by (simp add: getDev_iff)
  qed
  show "fst (unregister_driver (Some n) dm) = 0"
    by (simp add: r)
qed

section \<open>The device table is a directory\<close>

text \<open>The view of a registration: whether it succeeded.\<close>

definition dev_reg :: "string \<Rightarrow> nat \<Rightarrow> devmap \<Rightarrow> bool \<times> devmap" where
  "dev_reg n d dm = (let (r, dm') = register_driver (Some n) (Some d) dm in (r = 0, dm'))"

definition dev_room :: "devmap \<Rightarrow> bool" where
  "dev_room dm \<longleftrightarrow> taken dm < PX4_MAX_DEV"

lemma dev_reg_fields:
  "fst (dev_reg n d dm) \<longleftrightarrow> fst (register_driver (Some n) (Some d) dm) = 0"
  "snd (dev_reg n d dm) = snd (register_driver (Some n) (Some d) dm)"
  by (simp_all add: dev_reg_def split_beta)

lemma register_driver_busy:
  "devmap_ok dm \<Longrightarrow> getDev n dm \<noteq> None \<Longrightarrow> register_driver (Some n) (Some d) dm = (- EEXIST, dm)"
  by (simp add: register_driver_refused)

interpretation dev: directory getDev dev_reg dev_room devmap_ok
proof unfold_locales
  fix dm :: devmap and n n' :: string and d :: nat
  assume ok: "devmap_ok dm" and room: "dev_room dm"
  show "fst (dev_reg n d dm) \<longleftrightarrow> getDev n dm = None"
    using ok room register_driver_free [of dm n] register_driver_busy [of dm n d]
    by (cases "getDev n dm = None") (simp_all add: dev_reg_fields dev_room_def EEXIST_def)
  show "devmap_ok (snd (dev_reg n d dm))"
    using ok room register_driver_free [of dm n] register_driver_busy [of dm n d]
    by (cases "getDev n dm = None") (simp_all add: dev_reg_fields dev_room_def)
  show "getDev n' (snd (dev_reg n d dm)) = (if n' = n then Some d else getDev n' dm)"
    if "getDev n dm = None"
    using that ok room register_driver_free [of dm n] by (simp add: dev_reg_fields dev_room_def)
  show "snd (dev_reg n d dm) = dm" if "getDev n dm \<noteq> None"
    using that ok register_driver_busy [of dm n d] by (simp add: dev_reg_fields)
qed

lemma register_class_claim:
  assumes "devmap_ok dm" "dev_room dm"
  shows "register_class_from n i c d r dm =
    (let (k, dm') = dev.claim (map (class_name c) [i..<i + n]) d dm
     in (case k of Some j \<Rightarrow> int (i + j) | None \<Rightarrow> if n = 0 then r else - EEXIST, dm'))"
  using assms
proof (induction n arbitrary: i r)
  case (Suc n)
  have up: "[i..<i + Suc n] = i # [Suc i..<Suc i + n]"
    by (simp add: upt_rec del: upt_Suc)
  show ?case
  proof (cases "getDev (class_name c i) dm = None")
    case True
    then have "fst (register_driver (Some (class_name c i)) (Some d) dm) = 0"
      using Suc.prems register_driver_free by (simp add: dev_room_def)
    then show ?thesis
      unfolding up by (simp add: dev_reg_fields split_beta Let_def del: upt_Suc)
  next
    case False
    then have "register_driver (Some (class_name c i)) (Some d) dm = (- EEXIST, dm)"
      using Suc.prems(1) register_driver_busy by blast
    then show ?thesis
      unfolding up using Suc.IH [of "Suc i" "- EEXIST"] Suc.prems
      by (simp add: dev_reg_fields split_beta Let_def EEXIST_def del: upt_Suc split: option.splits)
  qed
qed simp

section \<open>Listing\<close>

text \<open>The names that repeated calls of an iterator give, from a cursor, for some number of calls.\<close>

fun list_calls :: "nat \<Rightarrow> string \<Rightarrow> nat \<Rightarrow> devmap \<Rightarrow> string list" where
  "list_calls 0 pre c dm = []"
| "list_calls (Suc n) pre c dm =
     (case list_next pre c dm of
        (None, c') \<Rightarrow> []
      | (Some name, c') \<Rightarrow> name # list_calls n pre c' dm)"

definition names_in :: "string \<Rightarrow> devmap \<Rightarrow> string list" where
  "names_in pre dm = map (fst \<circ> the) (filter (names_below pre) dm)"

lemma first_index_filter:
  "first_index P xs = None \<Longrightarrow> filter P xs = []"
  "first_index P xs = Some k \<Longrightarrow> filter P xs = xs ! k # filter P (drop (Suc k) xs)"
proof -
  show "first_index P xs = None \<Longrightarrow> filter P xs = []"
    by (simp add: first_index_None filter_empty_conv)
  show "first_index P xs = Some k \<Longrightarrow> filter P xs = xs ! k # filter P (drop (Suc k) xs)"
    by (induction xs arbitrary: k) (auto split: if_splits)
qed

lemma list_calls_names:
  assumes "length dm = PX4_MAX_DEV" "length (filter (names_below pre) (drop c dm)) < n"
  shows "list_calls n pre c dm = names_in pre (drop c dm)"
  using assms
proof (induction n arbitrary: c)
  case (Suc n)
  show ?case
  proof (cases "first_index (names_below pre) (drop c dm)")
    case None
    then show ?thesis
      using Suc.prems(1) first_index_filter(1) [OF None]
      by (simp add: list_next_def names_in_def)
  next
    case (Some k)
    have c: "c < PX4_MAX_DEV" "names_below pre (dm ! (c + k))"
      using first_index_SomeD [OF Some] Suc.prems(1) by auto
    then obtain nm d where nm: "dm ! (c + k) = Some (nm, d)"
      by (auto simp: names_below_def split: option.splits)
    have f: "filter (names_below pre) (drop c dm)
        = Some (nm, d) # filter (names_below pre) (drop (Suc (c + k)) dm)"
      using first_index_filter(2) [OF Some] c Suc.prems(1) nm by (simp add: add.commute)
    then show ?thesis
      using Suc.IH [of "Suc (c + k)"] Suc.prems Some c nm
      by (simp add: list_next_def names_in_def)
  qed
qed simp

section \<open>Properties\<close>

text \<open>
  C34: registering a device class takes the first of the four numbered names that is free and binds
  it to the device, leaving the other names alone; with all four taken it fails with EEXIST and
  changes nothing.  Removing the instance again frees its name.
\<close>

theorem class_instance_first_free:
  assumes "devmap_ok dm" "dev_room dm" "length c \<le> 30"
  shows "case first_index (\<lambda>i. getDev (c @ show_nat i) dm = None) [0..<4] of
      None \<Rightarrow> register_class_devname (Some c) d dm = (- EEXIST, dm)
    | Some i \<Rightarrow> \<exists>dm'. register_class_devname (Some c) d dm = (int i, dm') \<and> devmap_ok dm' \<and>
        (\<forall>n. getDev n dm' = (if n = c @ show_nat i then Some d else getDev n dm)) \<and>
        getDev (c @ show_nat i) (snd (unregister_class_devname c i dm')) = None"
proof -
  let ?names = "map (class_name c) [0..<4]"
  have name: "class_name c i = c @ show_nat i" if "i < 4" for i
    using that assms(3) by (simp add: class_name_def show_nat_digit)
  have first: "fst (dev.claim ?names d dm) = first_index (\<lambda>i. getDev (c @ show_nat i) dm = None) [0..<4]"
    unfolding dev.claim_first [OF assms(1,2)] first_index_map
    by (rule first_index_cong) (simp add: name)
  have reg: "register_class_devname (Some c) d dm =
      (let (k, dm') = dev.claim ?names d dm in (case k of Some j \<Rightarrow> int j | None \<Rightarrow> - EEXIST, dm'))"
    using assms(1,2) by (simp add: register_class_devname_def register_class_claim Let_def split_beta split: option.splits)
  show ?thesis
  proof (cases "first_index (\<lambda>i. getDev (c @ show_nat i) dm = None) [0..<4]")
    case None
    then have "snd (dev.claim ?names d dm) = dm"
      using dev.claim_state [OF assms(1,2)] dev.claim_first [OF assms(1,2)] first by simp
    then show ?thesis
      using None reg first by (simp add: split_beta Let_def)
  next
    case (Some i)
    let ?dm' = "snd (dev.claim ?names d dm)"
    have i: "i < 4"
      using first_index_bound [OF Some] by simp
    have f: "fst (dev.claim ?names d dm) = Some i"
      using Some first by simp
    have look: "getDev n ?dm' = (if n = c @ show_nat i then Some d else getDev n dm)" for n
      using dev.claim_look [OF assms(1,2) f] name [OF i] i by simp
    have "?dm' = snd (dev_reg (?names ! i) d dm)"
      using dev.claim_state [OF assms(1,2)] dev.claim_first [OF assms(1,2)] f by simp
    then have ok: "devmap_ok ?dm'"
      using dev.reg_ok [OF assms(1,2)] by simp
    have "getDev (c @ show_nat i) (snd (unregister_driver (Some (c @ show_nat i)) ?dm')) = None"
      using unregister_driver_found(3) [OF ok] look by simp
    then have "getDev (c @ show_nat i) (snd (unregister_class_devname c i ?dm')) = None"
      by (simp add: unregister_class_devname_def unregister_driver_def name [OF i])
    then show ?thesis
      using Some reg f look ok by (auto simp: split_beta Let_def)
  qed
qed

theorem class_instance_first_free_witness:
  "\<exists>dm'. register_class_devname (Some ''/dev/baro'') 7 empty_devmap = (0, dm') \<and>
     getDev ''/dev/baro0'' dm' = Some 7"
proof -
  have room: "dev_room empty_devmap"
    by (simp add: dev_room_def empty_devmap_def taken_def PX4_MAX_DEV_def)
  have look: "getDev n empty_devmap = None" for n
    by (simp add: getDev_None first_index_None empty_devmap_def names_dev_def)
  show ?thesis
    using class_instance_first_free [OF empty_devmap_ok room, of "''/dev/baro''" 7]
    by (auto simp: look upt_rec show_nat_digit digit_def)
qed

text \<open>
  Calling the iterator over the topics until it returns null lists every registered topic name
  exactly in table order, and stops after one call more than there are topics.
\<close>

theorem topic_list_complete:
  assumes "devmap_ok dm" "length (names_in ''/obj/'' dm) < n"
  shows "list_calls n ''/obj/'' 0 dm = names_in ''/obj/'' dm \<and>
    set (names_in ''/obj/'' dm) = {name. getDev name dm \<noteq> None \<and> take 5 name = ''/obj/''} \<and>
    topicList 0 dm = list_next ''/obj/'' 0 dm"
proof -
  have 1: "list_calls n ''/obj/'' 0 dm = names_in ''/obj/'' dm"
    using list_calls_names [of dm "''/obj/''" 0 n] assms by (simp add: devmap_ok_def names_in_def)
  have "x \<in> set (names_in ''/obj/'' dm) \<longleftrightarrow> getDev x dm \<noteq> None \<and> take 5 x = ''/obj/''" for x
  proof
    assume "x \<in> set (names_in ''/obj/'' dm)"
    then obtain sl where "sl \<in> set dm" "names_below ''/obj/'' sl" "x = fst (the sl)"
      by (auto simp: names_in_def)
    then obtain i d where "i < length dm" "dm ! i = Some (x, d)" "take 5 x = ''/obj/''"
      by (auto simp: names_below_def in_set_conv_nth numeral_eq_Suc split: option.splits)
    then show "getDev x dm \<noteq> None \<and> take 5 x = ''/obj/''"
      using getDev_slot [OF assms(1)] by auto
  next
    assume x: "getDev x dm \<noteq> None \<and> take 5 x = ''/obj/''"
    then obtain i d where "i < length dm" "dm ! i = Some (x, d)"
      using getDev_SomeD by blast
    then have "Some (x, d) \<in> set (filter (names_below ''/obj/'') dm)"
      using x nth_mem [of i dm] by (simp add: names_below_def numeral_eq_Suc)
    then show "x \<in> set (names_in ''/obj/'' dm)"
      unfolding names_in_def set_map by (rule rev_image_eqI) simp
  qed
  then show ?thesis
    using 1 by (auto simp: topicList_def)
qed

theorem topic_list_complete_witness:
  "list_calls 2 ''/obj/'' 0 (snd (register_driver (Some ''/obj/a0'') (Some 3) empty_devmap)) = [''/obj/a0'']"
proof -
  let ?dm = "snd (register_driver (Some ''/obj/a0'') (Some 3) empty_devmap)"
  have room: "taken empty_devmap < PX4_MAX_DEV"
    by (simp add: empty_devmap_def taken_def PX4_MAX_DEV_def)
  have look: "getDev n empty_devmap = None" for n
    by (simp add: getDev_None first_index_None empty_devmap_def names_dev_def)
  note reg = register_driver_free [OF empty_devmap_ok look room]
  have dm: "?dm = Some (''/obj/a0'', 3) # replicate 499 None"
    by (simp add: register_driver_def empty_devmap_def PX4_MAX_DEV_def names_dev_def
        first_index_None numeral_nat)
  have "names_in ''/obj/'' ?dm = [''/obj/a0'']"
    unfolding dm by (simp add: names_in_def names_below_def)
  then show ?thesis
    using topic_list_complete [OF reg(2) [of "''/obj/a0''" 3], of 2] by simp
qed

end
