(* ===== verification/UOrb.thy ===== *)
theory UOrb
  imports VDev
begin

text \<open>
  The object request broker, POSIX build: topics as devices (\<open>src/modules/uORB/uORBDevices_posix.cpp\<close>),
  the manager (\<open>uORBManager_posix.cpp\<close>), node paths (\<open>uORBUtils.cpp\<close>) and the descriptor table they
  are reached through (\<open>src/drivers/device/vdev_posix.cpp\<close>, \<open>vfile.cpp\<close>).

  One world holds the devices, the open files, the pollers and the clock.  Devices and file
  objects are never moved, so their position in a list stands for their address; descriptors
  are slots of a table of 200.  An operation that follows a null or freed pointer is \<^term>\<open>None\<close>.
  Each operation runs to its end (the code holds the device lock around the updates of its
  state); interleavings are sequences of operations.
\<close>

section \<open>State\<close>

record orb_metadata =
  o_name :: string
  o_size :: nat

record subscriber =
  sd_generation :: u32
  update_interval :: u32
  call_deadline :: u64
  update_reported :: bool
  sd_priority :: int

record orb_node =
  node_vdev :: vdev
  meta :: orb_metadata
  node_data :: "u8 list option"
  last_update :: u64
  generation :: u32
  publisher :: u64
  priority :: int
  published :: bool
  subscriber_count :: u32

datatype device = Topic orb_node | Master vdev | Vfile vdev

text \<open>The private pointer of a file: null, the data of a subscriber, or freed memory.\<close>

datatype priv = No_sub | Sub subscriber | Freed

record file_obj =
  f_flags :: u32
  f_dev :: nat
  f_fd :: nat
  f_priv :: priv

record pollfd =
  pf_fd :: int
  pf_events :: u16
  pf_revents :: u16
  pf_sem :: nat
  pf_filp :: "nat option"

datatype channel_call =
  Add_subscription string int | Remove_subscription string | Send_message string nat "u8 list"

record orb_world =
  w_now :: u64
  w_devs :: "device list"
  w_devmap :: devmap
  w_nodes :: "string \<Rightarrow> nat option"
  w_objs :: "file_obj list"
  w_files :: "nat option list"
  w_pollfds :: "nat \<Rightarrow> pollfd"
  w_sems :: "nat \<Rightarrow> int"
  w_channel :: "(channel_call \<Rightarrow> int) option"
  w_sent :: "channel_call list"
  w_remote :: "string set"
  w_errno :: int
  w_px4_errno :: int
  w_fresh :: "nat \<Rightarrow> u8"

definition PX4_MAX_FD :: nat where "PX4_MAX_FD = 200"
definition PX4_F_RDONLY :: u32 where "PX4_F_RDONLY = 0"
definition PX4_F_WRONLY :: u32 where "PX4_F_WRONLY = 1"
definition PX4_F_CREAT :: u32 where "PX4_F_CREAT = 64"
definition POLLIN :: u16 where "POLLIN = 1"
definition orb_maxpath :: nat where "orb_maxpath = 64"
definition ORB_MULTI_MAX_INSTANCES :: nat where "ORB_MULTI_MAX_INSTANCES = 4"
definition ORB_PRIO_DEFAULT :: int where "ORB_PRIO_DEFAULT = 75"
definition TOPIC_MASTER_DEVICE_PATH :: string where "TOPIC_MASTER_DEVICE_PATH = ''/obj/_obj_''"

lemmas orb_consts = PX4_F_RDONLY_def PX4_F_WRONLY_def PX4_F_CREAT_def POLLIN_def

section \<open>Access to the state\<close>

definition set_dev :: "nat \<Rightarrow> device \<Rightarrow> orb_world \<Rightarrow> orb_world" where
  "set_dev d x w = w\<lparr>w_devs := (w_devs w)[d := x]\<rparr>"

definition topic_at :: "orb_world \<Rightarrow> nat \<Rightarrow> orb_node option" where
  "topic_at w d = (if d < length (w_devs w)
     then (case w_devs w ! d of Topic n \<Rightarrow> Some n | _ \<Rightarrow> None) else None)"

definition dev_vdev :: "device \<Rightarrow> vdev" where
  "dev_vdev x = (case x of Topic n \<Rightarrow> node_vdev n | Master v \<Rightarrow> v | Vfile v \<Rightarrow> v)"

definition upd_vdev :: "device \<Rightarrow> vdev \<Rightarrow> device" where
  "upd_vdev x v = (case x of Topic n \<Rightarrow> Topic (n\<lparr>node_vdev := v\<rparr>) | Master _ \<Rightarrow> Master v | Vfile _ \<Rightarrow> Vfile v)"

text \<open>The subscriber behind a file pointer; \<^term>\<open>None\<close> when it cannot be dereferenced.\<close>

definition get_sub :: "orb_world \<Rightarrow> nat \<Rightarrow> subscriber option" where
  "get_sub w f = (if f < length (w_objs w)
     then (case f_priv (w_objs w ! f) of Sub sd \<Rightarrow> Some sd | _ \<Rightarrow> None) else None)"

definition set_priv :: "nat \<Rightarrow> priv \<Rightarrow> orb_world \<Rightarrow> orb_world" where
  "set_priv f p w = w\<lparr>w_objs := (w_objs w)[f := (w_objs w ! f)\<lparr>f_priv := p\<rparr>]\<rparr>"

text \<open>A call on the link to the remote processor, when there is one.\<close>

definition channel_call :: "channel_call \<Rightarrow> orb_world \<Rightarrow> int option \<times> orb_world" where
  "channel_call c w = (case w_channel w of
     None \<Rightarrow> (None, w) | Some f \<Rightarrow> (Some (f c), w\<lparr>w_sent := w_sent w @ [c]\<rparr>))"

section \<open>Updates seen by a subscriber\<close>

definition appears_updated :: "u64 \<Rightarrow> orb_node \<Rightarrow> subscriber \<Rightarrow> bool \<times> subscriber" where
  "appears_updated now n sd =
     (if node_data n = None then (False, sd)
      else if sd_generation sd = generation n then (False, sd)
      else if update_interval sd = 0 then (True, sd)
      else if update_reported sd then (True, sd)
      else if call_deadline sd \<noteq> 0 then (False, sd)
      else (True, sd\<lparr>call_deadline := now + ucast (update_interval sd), update_reported := True\<rparr>))"

definition check_sub :: "nat \<Rightarrow> nat \<Rightarrow> orb_world \<Rightarrow> (bool \<times> orb_world) option" where
  "check_sub d f w =
     do {
       n \<leftarrow> topic_at w d;
       sd \<leftarrow> get_sub w f;
       let (b, sd') = appears_updated (w_now w) n sd;
       Some (b, set_priv f (Sub sd') w)
     }"

definition sem_post :: "nat \<Rightarrow> orb_world \<Rightarrow> orb_world" where
  "sem_post s w = w\<lparr>w_sems := (w_sems w)(s := w_sems w s + 1)\<rparr>"

definition vdev_notify_one :: "nat \<Rightarrow> u16 \<Rightarrow> orb_world \<Rightarrow> orb_world" where
  "vdev_notify_one p events w =
     (let fds = w_pollfds w p;
          value = w_sems w (pf_sem fds);
          fds' = fds\<lparr>pf_revents := pf_revents fds OR (pf_events fds AND events)\<rparr>;
          w' = w\<lparr>w_pollfds := (w_pollfds w)(p := fds')\<rparr>
      in if pf_revents fds' \<noteq> 0 \<and> value \<le> 0 then sem_post (pf_sem fds) w' else w')"

definition poll_notify_one :: "nat \<Rightarrow> u16 \<Rightarrow> nat \<Rightarrow> orb_world \<Rightarrow> orb_world option" where
  "poll_notify_one d events p w =
     (if topic_at w d = None then Some (vdev_notify_one p events w)
      else do {
        f \<leftarrow> pf_filp (w_pollfds w p);
        (b, w') \<leftarrow> check_sub d f w;
        Some (if b then vdev_notify_one p events w' else w')
      })"

fun notify_slots :: "nat \<Rightarrow> u16 \<Rightarrow> nat option list \<Rightarrow> orb_world \<Rightarrow> orb_world option" where
  "notify_slots d events [] w = Some w"
| "notify_slots d events (None # ps) w = notify_slots d events ps w"
| "notify_slots d events (Some p # ps) w =
     do { w' \<leftarrow> poll_notify_one d events p w; notify_slots d events ps w' }"

definition poll_notify :: "nat \<Rightarrow> u16 \<Rightarrow> orb_world \<Rightarrow> orb_world option" where
  "poll_notify d events w = notify_slots d events (pollset (dev_vdev (w_devs w ! d))) w"

text \<open>The interval timer of a subscriber, when it is due: its callback notifies the pollers.\<close>

definition timer_fire :: "nat \<Rightarrow> orb_world \<Rightarrow> orb_world option" where
  "timer_fire f w =
     do {
       sd \<leftarrow> get_sub w f;
       if call_deadline sd \<noteq> 0 \<and> call_deadline sd \<le> w_now w
       then poll_notify (f_dev (w_objs w ! f)) POLLIN (set_priv f (Sub (sd\<lparr>call_deadline := 0\<rparr>)) w)
       else Some w
     }"

section \<open>Topics\<close>

definition new_node :: "orb_metadata \<Rightarrow> string \<Rightarrow> int \<Rightarrow> orb_node" where
  "new_node m path prio = \<lparr>node_vdev = new_vdev (Some path), meta = m, node_data = None, last_update = 0,
     generation = 0, publisher = 0, priority = prio, published = False, subscriber_count = 0\<rparr>"

definition add_internal_subscriber :: "nat \<Rightarrow> orb_node \<Rightarrow> orb_world \<Rightarrow> orb_world" where
  "add_internal_subscriber d n w =
     (let c = subscriber_count n + 1;
          w' = set_dev d (Topic (n\<lparr>subscriber_count := c\<rparr>)) w
      in if sint c > 0 then snd (channel_call (Add_subscription (o_name (meta n)) 1) w') else w')"

definition remove_internal_subscriber :: "nat \<Rightarrow> orb_node \<Rightarrow> orb_world \<Rightarrow> orb_world" where
  "remove_internal_subscriber d n w =
     (let c = subscriber_count n - 1;
          w' = set_dev d (Topic (n\<lparr>subscriber_count := c\<rparr>)) w
      in if c = 0 then snd (channel_call (Remove_subscription (o_name (meta n))) w') else w')"

definition new_subscriber :: "orb_node \<Rightarrow> subscriber" where
  "new_subscriber n = \<lparr>sd_generation = generation n, update_interval = 0, call_deadline = 0,
     update_reported = False, sd_priority = priority n\<rparr>"

definition node_open :: "u64 \<Rightarrow> nat \<Rightarrow> nat \<Rightarrow> orb_node \<Rightarrow> orb_world \<Rightarrow> int \<times> orb_world" where
  "node_open pid d f n w =
     (if f_flags (w_objs w ! f) = PX4_F_WRONLY then
        (if publisher n \<noteq> 0 then (- EBUSY, w)
         else (let n1 = n\<lparr>publisher := pid\<rparr>; (ret, v) = vdev_open (node_vdev n1)
               in (ret, set_dev d (Topic ((if ret \<noteq> 0 then n1\<lparr>publisher := 0\<rparr> else n1)\<lparr>node_vdev := v\<rparr>)) w)))
      else if f_flags (w_objs w ! f) = PX4_F_RDONLY then
        (let w1 = set_priv f (Sub (new_subscriber n)) w;
             (ret, v) = vdev_open (node_vdev n);
             w2 = add_internal_subscriber d (n\<lparr>node_vdev := v\<rparr>) w1
         in (ret, if ret \<noteq> 0 then set_priv f Freed w2 else w2))
      else (- EINVAL, w))"

definition node_close :: "u64 \<Rightarrow> nat \<Rightarrow> nat \<Rightarrow> orb_node \<Rightarrow> orb_world \<Rightarrow> (int \<times> orb_world) option" where
  "node_close pid d f n w =
     do {
       w1 \<leftarrow> (if pid = publisher n then Some (set_dev d (Topic (n\<lparr>publisher := 0\<rparr>)) w)
         else case f_priv (w_objs w ! f) of
             No_sub \<Rightarrow> Some w
           | Freed \<Rightarrow> None
           | Sub sd \<Rightarrow> Some (set_priv f Freed (remove_internal_subscriber d n w)));
       let x = w_devs w1 ! d;
       let (ret, v) = vdev_close (dev_vdev x);
       Some (ret, set_dev d (upd_vdev x v) w1)
     }"

text \<open>Reading: the result, the bytes copied when the caller has a buffer, and the world.\<close>

definition node_read :: "nat \<Rightarrow> bool \<Rightarrow> nat \<Rightarrow> orb_node \<Rightarrow> orb_world \<Rightarrow> (int \<times> u8 list option \<times> orb_world) option" where
  "node_read f has_buffer buflen n w =
     (case node_data n of
        None \<Rightarrow> Some (0, None, w)
      | Some bytes \<Rightarrow>
          if buflen \<noteq> o_size (meta n) then Some (- EIO, None, w)
          else do {
            sd \<leftarrow> get_sub w f;
            Some (int (o_size (meta n)), if has_buffer then Some bytes else None,
              set_priv f (Sub (sd\<lparr>sd_generation := generation n, sd_priority := priority n,
                update_reported := False\<rparr>)) w)
          })"

text \<open>The first write allocates the buffer, whose contents are arbitrary.\<close>

definition alloc_node :: "orb_world \<Rightarrow> orb_node \<Rightarrow> orb_node" where
  "alloc_node w n = (if node_data n = None
     then n\<lparr>node_data := Some (map (w_fresh w) [0..<o_size (meta n)])\<rparr> else n)"

definition store_node :: "u64 \<Rightarrow> u8 list \<Rightarrow> orb_node \<Rightarrow> orb_node" where
  "store_node now buffer n = n\<lparr>node_data := Some (take (o_size (meta n)) buffer), last_update := now,
     generation := generation n + 1\<rparr>"

definition node_write :: "nat \<Rightarrow> u8 list \<Rightarrow> nat \<Rightarrow> orb_world \<Rightarrow> (int \<times> orb_world) option" where
  "node_write d buffer buflen w =
     do {
       n \<leftarrow> topic_at w d;
       let w1 = set_dev d (Topic (alloc_node w n)) w;
       if o_size (meta n) \<noteq> buflen then Some (- EIO, w1)
       else if length buffer < o_size (meta n) then None
       else do {
         w2 \<leftarrow> poll_notify d POLLIN (set_dev d (Topic (store_node (w_now w) buffer (alloc_node w n))) w1);
         n3 \<leftarrow> topic_at w2 d;
         Some (int (o_size (meta n3)), set_dev d (Topic (n3\<lparr>published := True\<rparr>)) w2)
       }
     }"

lemma alloc_node_fields [simp]:
  "meta (alloc_node w n) = meta n" "priority (alloc_node w n) = priority n"
  "generation (alloc_node w n) = generation n" "publisher (alloc_node w n) = publisher n"
  "subscriber_count (alloc_node w n) = subscriber_count n" "node_vdev (alloc_node w n) = node_vdev n"
  "published (alloc_node w n) = published n"
  by (simp_all add: alloc_node_def)

lemma store_node_fields [simp]:
  "meta (store_node t b n) = meta n" "priority (store_node t b n) = priority n"
  "generation (store_node t b n) = generation n + 1" "publisher (store_node t b n) = publisher n"
  "subscriber_count (store_node t b n) = subscriber_count n" "node_vdev (store_node t b n) = node_vdev n"
  "published (store_node t b n) = published n" "last_update (store_node t b n) = t"
  "node_data (store_node t b n) = Some (take (o_size (meta n)) b)"
  by (simp_all add: store_node_def)

definition set_errno :: "int \<Rightarrow> orb_world \<Rightarrow> orb_world" where
  "set_errno e w = w\<lparr>w_errno := e\<rparr>"

definition node_publish :: "orb_metadata \<Rightarrow> nat option \<Rightarrow> u8 list \<Rightarrow> orb_world \<Rightarrow> (int \<times> orb_world) option" where
  "node_publish m handle data w =
     (case handle of
        None \<Rightarrow> Some (-1, set_errno EINVAL w)
      | Some d \<Rightarrow> do {
          n \<leftarrow> topic_at w d;
          if meta n \<noteq> m then Some (-1, set_errno EINVAL w)
          else do {
            (ret, w1) \<leftarrow> node_write d data (o_size m) w;
            if ret < 0 then Some (-1, w1)
            else if ret \<noteq> int (o_size m) then Some (-1, set_errno EIO w1)
            else (let (r, w2) = channel_call (Send_message (o_name m) (o_size m) data) w1
                  in Some (if r = None \<or> r = Some 0 then 0 else -1, w2))
          }
        })"

text \<open>Requests from the remote processor, on one node.\<close>

definition node_add_subscription :: "nat \<Rightarrow> orb_world \<Rightarrow> orb_world option" where
  "node_add_subscription d w =
     do {
       n \<leftarrow> topic_at w d;
       Some (case node_data n of
           None \<Rightarrow> w
         | Some bytes \<Rightarrow> snd (channel_call (Send_message (o_name (meta n)) (o_size (meta n)) bytes) w))
     }"

text \<open>The result of the write is kept in 16 bits.\<close>

definition node_received :: "nat \<Rightarrow> int \<Rightarrow> u8 list \<Rightarrow> orb_world \<Rightarrow> (int \<times> orb_world) option" where
  "node_received d len data w =
     do {
       n \<leftarrow> topic_at w d;
       if len \<noteq> int (o_size (meta n)) then Some (-1, w)
       else do {
         (r, w1) \<leftarrow> node_write d data (o_size (meta n)) w;
         let ret = sint (word_of_int r :: 16 word);
         if ret < 0 then Some (-1, w1)
         else if ret \<noteq> int (o_size (meta n)) then Some (-1, set_errno EIO w1)
         else Some (0, w1)
       }
     }"

end
