(* ===== verification/UOrbManager.thy ===== *)
theory UOrbManager
  imports UOrb
begin

text \<open>
  The object request broker from its callers' side: the descriptor table
  (\<open>src/drivers/device/vdev_posix.cpp\<close>), the master device that creates the topics
  (\<open>uORBDevices_posix.cpp\<close>) and the manager with the \<open>orb_\<close> functions (\<open>uORBManager_posix.cpp\<close>).
\<close>

section \<open>Node paths\<close>

datatype flavor = PUBSUB | PARAM

definition node_mkpath :: "flavor \<Rightarrow> string \<Rightarrow> int \<Rightarrow> int \<times> string" where
  "node_mkpath f name index =
     (let path = (case f of PUBSUB \<Rightarrow> ''/obj/'' | PARAM \<Rightarrow> ''/param/'') @ name @ show_int index
      in if length path \<ge> orb_maxpath then (- ENAMETOOLONG, take (orb_maxpath - 1) path) else (0, path))"

text \<open>The index of an instance pointer that may be null.\<close>

definition instance_index :: "int option \<Rightarrow> int" where
  "instance_index inst = (case inst of None \<Rightarrow> 0 | Some i \<Rightarrow> i)"

section \<open>The master device\<close>

text \<open>One round of the advertise loop: try to create a node under a path, or claim an unpublished one.\<close>

definition try_node :: "orb_metadata \<Rightarrow> string \<Rightarrow> int \<Rightarrow> orb_world \<Rightarrow> int \<times> orb_world" where
  "try_node m path prio w =
     (let d = length (w_devs w);
          n = new_node m path prio;
          (ret, v, dm) = vdev_init d (node_vdev n) (w_devmap w)
      in if ret = 0
         then (0, w\<lparr>w_devs := w_devs w @ [Topic (n\<lparr>node_vdev := v\<rparr>)], w_devmap := dm,
                   w_nodes := (w_nodes w)(path \<mapsto> d)\<rparr>)
         else (let w1 = w\<lparr>w_devmap := vdev_delete v dm\<rparr>
               in if ret = - EEXIST
                  then (case w_nodes w1 path of
                      None \<Rightarrow> (ret, w1)
                    | Some e \<Rightarrow> (case topic_at w1 e of
                          None \<Rightarrow> (ret, w1)
                        | Some en \<Rightarrow> if published en then (ret, w1) else (0, w1)))
                  else (ret, w1)))"

fun advertise_loop :: "nat \<Rightarrow> nat \<Rightarrow> orb_metadata \<Rightarrow> string \<Rightarrow> int option \<Rightarrow> int \<Rightarrow> int \<Rightarrow> orb_world
    \<Rightarrow> int \<times> int option \<times> orb_world" where
  "advertise_loop 0 tries m path inst prio ret w = (ret, inst, w)"
| "advertise_loop (Suc n) tries m path inst prio ret w =
     (let path' = (case inst of None \<Rightarrow> path | Some _ \<Rightarrow> butlast path @ [digit tries]);
          inst' = (case inst of None \<Rightarrow> None | Some _ \<Rightarrow> Some (int tries));
          (r, w') = try_node m path' prio w
      in if r = 0 then (r, inst', w') else advertise_loop n (Suc tries) m path' inst' prio r w')"

definition master_advertise :: "orb_metadata \<Rightarrow> int option \<Rightarrow> int \<Rightarrow> orb_world \<Rightarrow> int \<times> int option \<times> orb_world" where
  "master_advertise m inst prio w =
     (let inst0 = (case inst of None \<Rightarrow> None | Some _ \<Rightarrow> Some 0);
          (ret, path) = node_mkpath PUBSUB (o_name m) (instance_index inst0)
      in if ret \<noteq> 0 then (ret, inst0, w)
         else advertise_loop (if inst0 = None then 1 else ORB_MULTI_MAX_INSTANCES) 0 m path inst0 prio (-1) w)"

section \<open>Descriptors\<close>

definition get_vdev :: "int \<Rightarrow> orb_world \<Rightarrow> nat option" where
  "get_vdev fd w =
     (if fd < int PX4_MAX_FD \<and> fd \<ge> 0
      then map_option (\<lambda>f. f_dev (w_objs w ! f)) (w_files w ! nat fd) else None)"

definition filp_of :: "int \<Rightarrow> orb_world \<Rightarrow> nat" where
  "filp_of fd w = the (w_files w ! nat fd)"

definition createFile :: "string \<Rightarrow> orb_world \<Rightarrow> nat \<times> orb_world" where
  "createFile path w =
     (let d = length (w_devs w)
      in (d, w\<lparr>w_devs := w_devs w @ [Vfile (new_vdev (Some path))],
               w_devmap := snd (register_driver (Some path) (Some d) (w_devmap w))\<rparr>))"

definition find_or_create :: "string \<Rightarrow> u32 \<Rightarrow> orb_world \<Rightarrow> nat option \<times> orb_world" where
  "find_or_create path flags w =
     (case getDev path (w_devmap w) of
        Some d \<Rightarrow> (Some d, w)
      | None \<Rightarrow>
          if flags AND (PX4_F_WRONLY OR PX4_F_CREAT) \<noteq> 0 \<and> take 5 path \<noteq> ''/obj/'' \<and>
             take 5 path \<noteq> ''/dev/''
          then (let (d, w') = createFile path w in (Some d, w')) else (None, w))"

definition dev_open :: "u64 \<Rightarrow> nat \<Rightarrow> nat \<Rightarrow> orb_world \<Rightarrow> int \<times> orb_world" where
  "dev_open pid d f w =
     (case w_devs w ! d of
        Topic n \<Rightarrow> node_open pid d f n w
      | x \<Rightarrow> (let (ret, v) = vdev_open (dev_vdev x) in (ret, set_dev d (upd_vdev x v) w)))"

definition px4_open :: "u64 \<Rightarrow> string \<Rightarrow> u32 \<Rightarrow> orb_world \<Rightarrow> int \<times> orb_world" where
  "px4_open pid path flags w =
     (let (dev, w1) = find_or_create path flags w
      in case dev of
           None \<Rightarrow> (-1, w1\<lparr>w_px4_errno := EINVAL\<rparr>)
         | Some d \<Rightarrow> (case first_free (w_files w1) of
               None \<Rightarrow> (-1, w1\<lparr>w_px4_errno := ENOENT\<rparr>)
             | Some i \<Rightarrow>
                 (let f = length (w_objs w1);
                      w2 = w1\<lparr>w_objs := w_objs w1 @ [\<lparr>f_flags = flags, f_dev = d, f_fd = i, f_priv = No_sub\<rparr>],
                              w_files := (w_files w1)[i := Some f]\<rparr>;
                      (ret, w3) = dev_open pid d f w2
                  in if ret < 0 then (-1, w3\<lparr>w_px4_errno := - ret\<rparr>) else (int i, w3))))"

definition dev_close :: "u64 \<Rightarrow> nat \<Rightarrow> nat \<Rightarrow> orb_world \<Rightarrow> (int \<times> orb_world) option" where
  "dev_close pid d f w =
     (case w_devs w ! d of
        Topic n \<Rightarrow> node_close pid d f n w
      | x \<Rightarrow> (let (ret, v) = vdev_close (dev_vdev x) in Some (ret, set_dev d (upd_vdev x v) w)))"

definition px4_close :: "u64 \<Rightarrow> int \<Rightarrow> orb_world \<Rightarrow> (int \<times> orb_world) option" where
  "px4_close pid fd w =
     (case get_vdev fd w of
        None \<Rightarrow> Some (-1, w\<lparr>w_px4_errno := EINVAL\<rparr>)
      | Some d \<Rightarrow> do {
          (ret, w1) \<leftarrow> dev_close pid d (filp_of fd w) w;
          let w2 = w1\<lparr>w_files := (w_files w1)[nat fd := None]\<rparr>;
          Some (if ret < 0 then (-1, w2\<lparr>w_px4_errno := - ret\<rparr>) else (ret, w2))
        })"

definition px4_read :: "int \<Rightarrow> bool \<Rightarrow> nat \<Rightarrow> orb_world \<Rightarrow> (int \<times> u8 list option \<times> orb_world) option" where
  "px4_read fd has_buffer buflen w =
     do {
       (ret, bytes, w1) \<leftarrow> (case get_vdev fd w of
           None \<Rightarrow> Some (- EINVAL, None, w)
         | Some d \<Rightarrow> (case w_devs w ! d of
               Topic n \<Rightarrow> node_read (filp_of fd w) has_buffer buflen n w
             | _ \<Rightarrow> Some (- ENOSYS, None, w)));
       Some (if ret < 0 then (-1, bytes, w1\<lparr>w_px4_errno := - ret\<rparr>) else (ret, bytes, w1))
     }"

text \<open>A file takes anything and only wakes its pollers; the master device does not take data.\<close>

definition px4_write :: "int \<Rightarrow> u8 list \<Rightarrow> nat \<Rightarrow> orb_world \<Rightarrow> (int \<times> orb_world) option" where
  "px4_write fd buffer buflen w =
     do {
       (ret, w1) \<leftarrow> (case get_vdev fd w of
           None \<Rightarrow> Some (- EINVAL, w)
         | Some d \<Rightarrow> (case w_devs w ! d of
               Topic n \<Rightarrow> node_write d buffer buflen w
             | Vfile v \<Rightarrow> do { w1 \<leftarrow> poll_notify d POLLIN w; Some (int buflen, w1) }
             | Master v \<Rightarrow> Some (- ENOSYS, w)));
       Some (if ret < 0 then (-1, w1\<lparr>w_px4_errno := - ret\<rparr>) else (ret, w1))
     }"

text \<open>The requests of an \<open>ioctl\<close> and what they write through their argument.\<close>

datatype orb_cmd = Orb_advertise orb_metadata "int option" int | Orb_lastupdate | Orb_updated
  | Orb_setinterval u64 | Orb_gadvertiser | Orb_gpriority | Orb_vdev vdev_cmd

datatype orb_out = Out_none | Out_time u64 | Out_flag bool | Out_handle nat | Out_priority int
  | Out_instance "int option"

definition base_ioctl :: "nat \<Rightarrow> vdev_cmd \<Rightarrow> orb_world \<Rightarrow> int \<times> orb_out \<times> orb_world" where
  "base_ioctl d cmd w =
     (let (ret, v) = vdev_ioctl cmd (dev_vdev (w_devs w ! d))
      in (ret, Out_none, set_dev d (upd_vdev (w_devs w ! d) v) w))"

definition vdev_request :: "orb_cmd \<Rightarrow> vdev_cmd" where
  "vdev_request cmd = (case cmd of Orb_vdev c \<Rightarrow> c | _ \<Rightarrow> Devioc_other)"

definition node_ioctl :: "nat \<Rightarrow> nat \<Rightarrow> orb_node \<Rightarrow> orb_cmd \<Rightarrow> orb_world \<Rightarrow> (int \<times> orb_out \<times> orb_world) option" where
  "node_ioctl d f n cmd w =
     (case cmd of
        Orb_lastupdate \<Rightarrow> Some (0, Out_time (last_update n), w)
      | Orb_updated \<Rightarrow> do { (b, w') \<leftarrow> check_sub d f w; Some (0, Out_flag b, w') }
      | Orb_setinterval arg \<Rightarrow> do {
          sd \<leftarrow> get_sub w f;
          Some (0, Out_none, set_priv f (Sub (sd\<lparr>update_interval := ucast arg\<rparr>)) w)
        }
      | Orb_gadvertiser \<Rightarrow> Some (0, Out_handle d, w)
      | Orb_gpriority \<Rightarrow> do { sd \<leftarrow> get_sub w f; Some (0, Out_priority (sd_priority sd), w) }
      | _ \<Rightarrow> Some (base_ioctl d (vdev_request cmd) w))"

definition master_ioctl :: "nat \<Rightarrow> orb_cmd \<Rightarrow> orb_world \<Rightarrow> int \<times> orb_out \<times> orb_world" where
  "master_ioctl d cmd w =
     (case cmd of
        Orb_advertise m inst prio \<Rightarrow>
          (let (ret, inst', w') = master_advertise m inst prio w in (ret, Out_instance inst', w'))
      | _ \<Rightarrow> base_ioctl d (vdev_request cmd) w)"

definition px4_ioctl :: "int \<Rightarrow> orb_cmd \<Rightarrow> orb_world \<Rightarrow> (int \<times> orb_out \<times> orb_world) option" where
  "px4_ioctl fd cmd w =
     do {
       (ret, out, w1) \<leftarrow> (case get_vdev fd w of
           None \<Rightarrow> Some (- EINVAL, Out_none, w)
         | Some d \<Rightarrow> (case w_devs w ! d of
               Topic n \<Rightarrow> node_ioctl d (filp_of fd w) n cmd w
             | Master v \<Rightarrow> Some (master_ioctl d cmd w)
             | Vfile v \<Rightarrow> Some (base_ioctl d (vdev_request cmd) w)));
       Some (ret, out, if ret < 0 then w1\<lparr>w_px4_errno := - ret\<rparr> else w1)
     }"

definition px4_access :: "string \<Rightarrow> orb_world \<Rightarrow> int" where
  "px4_access path w = (if getDev path (w_devmap w) \<noteq> None then 0 else -1)"

section \<open>Polling\<close>

definition poll_state :: "nat \<Rightarrow> nat \<Rightarrow> orb_world \<Rightarrow> (u16 \<times> orb_world) option" where
  "poll_state d f w =
     (if topic_at w d = None then Some (0, w)
      else do { (b, w') \<leftarrow> check_sub d f w; Some (if b then POLLIN else 0, w') })"

definition dev_poll_setup :: "nat \<Rightarrow> nat \<Rightarrow> nat \<Rightarrow> orb_world \<Rightarrow> (int \<times> orb_world) option" where
  "dev_poll_setup d f p w =
     do {
       let w1 = w\<lparr>w_pollfds := (w_pollfds w)(p := (w_pollfds w p)\<lparr>pf_filp := Some f\<rparr>)\<rparr>;
       let (ret, v) = store_poll_waiter p (dev_vdev (w_devs w1 ! d));
       if ret \<noteq> 0 then Some (ret, w1)
       else do {
         (st, w2) \<leftarrow> poll_state d f (set_dev d (upd_vdev (w_devs w1 ! d) v) w1);
         let fds = w_pollfds w2 p;
         let fds' = fds\<lparr>pf_revents := pf_revents fds OR (pf_events fds AND st)\<rparr>;
         let w3 = w2\<lparr>w_pollfds := (w_pollfds w2)(p := fds')\<rparr>;
         Some (0, if pf_revents fds' \<noteq> 0 then sem_post (pf_sem fds) w3 else w3)
       }
     }"

definition dev_poll_teardown :: "nat \<Rightarrow> nat \<Rightarrow> orb_world \<Rightarrow> int \<times> orb_world" where
  "dev_poll_teardown d p w =
     (let (ret, v) = remove_poll_waiter p (dev_vdev (w_devs w ! d))
      in (ret, set_dev d (upd_vdev (w_devs w ! d) v) w))"

text \<open>
  \<open>px4_poll\<close> before and after its wait: the loop over the descriptors that stores the waiter in
  every device, with the flag that one can be polled, and the loop that takes it out again and
  counts the descriptors with events.  Both loops stop at the first error.
\<close>

fun px4_poll_setup :: "nat \<Rightarrow> nat list \<Rightarrow> bool \<Rightarrow> int \<Rightarrow> orb_world \<Rightarrow> (bool \<times> int \<times> orb_world) option" where
  "px4_poll_setup sem [] pollable ret w = Some (pollable, ret, w)"
| "px4_poll_setup sem (p # ps) pollable ret w =
     do {
       let w1 = w\<lparr>w_pollfds := (w_pollfds w)(p := (w_pollfds w p)\<lparr>pf_sem := sem, pf_revents := 0, pf_filp := None\<rparr>)\<rparr>;
       (case get_vdev (pf_fd (w_pollfds w1 p)) w1 of
          None \<Rightarrow> px4_poll_setup sem ps pollable ret w1
        | Some d \<Rightarrow> do {
            (r, w2) \<leftarrow> dev_poll_setup d (filp_of (pf_fd (w_pollfds w1 p)) w1) p w1;
            if r < 0 then Some (pollable, r, w2) else px4_poll_setup sem ps True r w2
          })
     }"

fun px4_poll_teardown :: "nat list \<Rightarrow> int \<Rightarrow> int \<Rightarrow> orb_world \<Rightarrow> int \<times> orb_world" where
  "px4_poll_teardown [] count ret w = (if count \<noteq> 0 then count else ret, w)"
| "px4_poll_teardown (p # ps) count ret w =
     (case get_vdev (pf_fd (w_pollfds w p)) w of
        None \<Rightarrow> px4_poll_teardown ps count ret w
      | Some d \<Rightarrow>
          (let (r, w1) = dev_poll_teardown d p w
           in if r < 0 then (if count \<noteq> 0 then count else r, w1)
              else px4_poll_teardown ps (if pf_revents (w_pollfds w1 p) \<noteq> 0 then count + 1 else count) r w1))"

section \<open>The manager\<close>

definition orb_exists :: "orb_metadata \<Rightarrow> int \<Rightarrow> orb_world \<Rightarrow> int \<times> orb_world" where
  "orb_exists m inst w =
     (let (ret, path) = node_mkpath PUBSUB (o_name m) inst
      in if ret \<noteq> 0 then (-1, set_errno (- ret) w) else (px4_access path w, w))"

definition node_advertise :: "u64 \<Rightarrow> orb_metadata \<Rightarrow> int option \<Rightarrow> int \<Rightarrow> orb_world
    \<Rightarrow> (int \<times> int option \<times> orb_world) option" where
  "node_advertise pid m inst prio w =
     (let (fd, w1) = px4_open pid TOPIC_MASTER_DEVICE_PATH 0 w
      in if fd < 0 then Some (-1, inst, w1)
         else do {
           (ret, out, w2) \<leftarrow> px4_ioctl fd (Orb_advertise m inst prio) w1;
           let inst' = (case out of Out_instance i \<Rightarrow> i | _ \<Rightarrow> inst);
           let ret' = (if ret \<noteq> 0 \<and> w_errno w2 = EEXIST then 0 else ret);
           (r, w3) \<leftarrow> px4_close pid fd w2;
           Some (ret', inst', w3)
         })"

text \<open>The second attempt of \<open>node_open\<close>: create the node, then open the path it got.\<close>

definition advertise_and_open :: "u64 \<Rightarrow> flavor \<Rightarrow> orb_metadata \<Rightarrow> string \<Rightarrow> u32 \<Rightarrow> int option \<Rightarrow> int \<Rightarrow> orb_world
    \<Rightarrow> (int \<times> int option \<times> orb_world) option" where
  "advertise_and_open pid f m path flags inst prio w =
     do {
       (ret, inst', w1) \<leftarrow> node_advertise pid m inst prio w;
       if ret = 0
       then (let (r, path') = node_mkpath f (o_name m) (instance_index inst')
             in if r \<noteq> 0 then Some (-1, inst', set_errno (- r) w1)
                else (let (fd, w2) = px4_open pid path' flags w1
                      in Some (if fd < 0 then (-1, inst', set_errno EIO w2) else (fd, inst', w2))))
       else Some (-1, inst', set_errno EIO w1)
     }"

definition orb_node_open :: "u64 \<Rightarrow> flavor \<Rightarrow> orb_metadata option \<Rightarrow> u8 list option \<Rightarrow> bool \<Rightarrow> int option \<Rightarrow> int
    \<Rightarrow> orb_world \<Rightarrow> (int \<times> int option \<times> orb_world) option" where
  "orb_node_open pid f mo data advertiser inst prio w =
     (case mo of
        None \<Rightarrow> Some (-1, inst, set_errno ENOENT w)
      | Some m \<Rightarrow>
          if advertiser \<and> data = None then Some (-1, inst, set_errno EINVAL w)
          else (let (ret, path) = node_mkpath f (o_name m) (instance_index inst);
                    flags = (if advertiser then PX4_F_WRONLY else PX4_F_RDONLY)
                in if ret \<noteq> 0 then Some (-1, inst, set_errno (- ret) w)
                   else (let (fd, w1) = px4_open pid path flags w
                         in if fd \<ge> 0 \<and> inst \<noteq> None \<and> advertiser
                            then do {
                              (r, w2) \<leftarrow> px4_close pid fd w1;
                              advertise_and_open pid f m path flags inst prio w2
                            }
                            else if fd < 0 then advertise_and_open pid f m path flags inst prio w1
                            else Some (fd, inst, w1))))"

definition orb_publish :: "orb_metadata \<Rightarrow> nat option \<Rightarrow> u8 list \<Rightarrow> orb_world \<Rightarrow> (int \<times> orb_world) option" where
  "orb_publish m handle data w = node_publish m handle data w"

definition orb_advertise_multi :: "u64 \<Rightarrow> orb_metadata \<Rightarrow> u8 list \<Rightarrow> int option \<Rightarrow> int \<Rightarrow> orb_world
    \<Rightarrow> (nat option \<times> int option \<times> orb_world) option" where
  "orb_advertise_multi pid m data inst prio w =
     do {
       (fd, inst', w1) \<leftarrow> orb_node_open pid PUBSUB (Some m) (Some data) True inst prio w;
       if fd = -1 then Some (None, inst', w1)
       else do {
         (result, out, w2) \<leftarrow> px4_ioctl fd Orb_gadvertiser w1;
         (r, w3) \<leftarrow> px4_close pid fd w2;
         if result = -1 then Some (None, inst', w3)
         else do {
           d \<leftarrow> (case out of Out_handle d \<Rightarrow> Some d | _ \<Rightarrow> None);
           (result2, w4) \<leftarrow> orb_publish m (Some d) data w3;
           Some (if result2 = -1 then None else Some d, inst', w4)
         }
       }
     }"

definition orb_advertise :: "u64 \<Rightarrow> orb_metadata \<Rightarrow> u8 list \<Rightarrow> orb_world \<Rightarrow> (nat option \<times> orb_world) option" where
  "orb_advertise pid m data w =
     do { (h, inst, w') \<leftarrow> orb_advertise_multi pid m data None ORB_PRIO_DEFAULT w; Some (h, w') }"

definition orb_subscribe_multi :: "u64 \<Rightarrow> orb_metadata \<Rightarrow> int option \<Rightarrow> orb_world \<Rightarrow> (int \<times> orb_world) option" where
  "orb_subscribe_multi pid m inst w =
     do { (fd, i, w') \<leftarrow> orb_node_open pid PUBSUB (Some m) None False inst ORB_PRIO_DEFAULT w; Some (fd, w') }"

definition orb_subscribe :: "u64 \<Rightarrow> orb_metadata \<Rightarrow> orb_world \<Rightarrow> (int \<times> orb_world) option" where
  "orb_subscribe pid m w = orb_subscribe_multi pid m None w"

definition orb_unsubscribe :: "u64 \<Rightarrow> int \<Rightarrow> orb_world \<Rightarrow> (int \<times> orb_world) option" where
  "orb_unsubscribe pid fd w = px4_close pid fd w"

definition orb_copy :: "orb_metadata \<Rightarrow> int \<Rightarrow> bool \<Rightarrow> orb_world \<Rightarrow> (int \<times> u8 list option \<times> orb_world) option" where
  "orb_copy m fd has_buffer w =
     do {
       (ret, bytes, w1) \<leftarrow> px4_read fd has_buffer (o_size m) w;
       Some (if ret < 0 then (-1, bytes, w1)
             else if ret \<noteq> int (o_size m) then (-1, bytes, set_errno EIO w1)
             else (0, bytes, w1))
     }"

definition orb_check :: "int \<Rightarrow> orb_world \<Rightarrow> (int \<times> bool \<times> orb_world) option" where
  "orb_check fd w =
     do {
       (ret, out, w') \<leftarrow> px4_ioctl fd Orb_updated w;
       Some (ret, case out of Out_flag b \<Rightarrow> b | _ \<Rightarrow> False, w')
     }"

definition orb_stat :: "int \<Rightarrow> orb_world \<Rightarrow> (int \<times> orb_out \<times> orb_world) option" where
  "orb_stat fd w = px4_ioctl fd Orb_lastupdate w"

definition orb_priority :: "int \<Rightarrow> orb_world \<Rightarrow> (int \<times> orb_out \<times> orb_world) option" where
  "orb_priority fd w = px4_ioctl fd Orb_gpriority w"

definition orb_set_interval :: "int \<Rightarrow> u32 \<Rightarrow> orb_world \<Rightarrow> (int \<times> orb_out \<times> orb_world) option" where
  "orb_set_interval fd interval w = px4_ioctl fd (Orb_setinterval (ucast (interval * 1000))) w"

text \<open>Requests of the remote processor.\<close>

definition process_add_subscription :: "string \<Rightarrow> orb_world \<Rightarrow> (int \<times> orb_world) option" where
  "process_add_subscription name w =
     (let w1 = w\<lparr>w_remote := insert name (w_remote w)\<rparr>;
          (ret, path) = node_mkpath PUBSUB name 0
      in if ret \<noteq> 0 then Some (-1, w1)
         else case w_nodes w1 path of
             None \<Rightarrow> Some (0, w1)
           | Some d \<Rightarrow> do { w2 \<leftarrow> node_add_subscription d w1; Some (0, w2) })"

definition process_remove_subscription :: "string \<Rightarrow> orb_world \<Rightarrow> int \<times> orb_world" where
  "process_remove_subscription name w =
     (let w1 = w\<lparr>w_remote := w_remote w - {name}\<rparr>;
          (ret, path) = node_mkpath PUBSUB name 0
      in (if ret \<noteq> 0 \<or> w_nodes w1 path = None then -1 else 0, w1))"

definition process_received_message :: "string \<Rightarrow> int \<Rightarrow> u8 list \<Rightarrow> orb_world \<Rightarrow> (int \<times> orb_world) option" where
  "process_received_message name len data w =
     (let (ret, path) = node_mkpath PUBSUB name 0
      in if ret \<noteq> 0 then Some (-1, w)
         else case w_nodes w path of
             None \<Rightarrow> Some (-1, w)
           | Some d \<Rightarrow> do { (r, w') \<leftarrow> node_received d len data w; Some (0, w') })"

definition is_remote_subscriber_present :: "string \<Rightarrow> orb_world \<Rightarrow> bool" where
  "is_remote_subscriber_present name w \<longleftrightarrow> name \<in> w_remote w"

text \<open>The start of the broker: the master device in an empty world.\<close>

definition empty_world :: orb_world where
  "empty_world = \<lparr>w_now = 0, w_devs = [], w_devmap = empty_devmap, w_nodes = (\<lambda>_. None), w_objs = [],
     w_files = replicate PX4_MAX_FD None,
     w_pollfds = (\<lambda>_. \<lparr>pf_fd = -1, pf_events = 0, pf_revents = 0, pf_sem = 0, pf_filp = None\<rparr>),
     w_sems = (\<lambda>_. 0), w_channel = None, w_sent = [], w_remote = {}, w_errno = 0, w_px4_errno = 0,
     w_fresh = (\<lambda>_. 0)\<rparr>"

definition uorb_start :: "orb_world \<Rightarrow> int \<times> orb_world" where
  "uorb_start w =
     (let d = length (w_devs w);
          (ret, v, dm) = vdev_init d (new_vdev (Some TOPIC_MASTER_DEVICE_PATH)) (w_devmap w)
      in if ret \<noteq> 0 then (- EIO, w\<lparr>w_devmap := vdev_delete v dm\<rparr>)
         else (0, w\<lparr>w_devs := w_devs w @ [Master v], w_devmap := dm\<rparr>))"

end
