(* ===== verification/UOrbFrame.thy ===== *)
theory UOrbFrame
  imports UOrbManager
begin

text \<open>
  What each operation of the broker leaves alone.  \<open>frame D R F w w'\<close> relates two worlds: data only
  changes on the topics \<open>D\<close>, the generation and the interval of a subscriber only on the files \<open>R\<close>,
  and only the files \<open>F\<close> are closed.  A pending interval timer is only cleared when it is due.
  Each operation is shown to respect its frame once; the properties compose them.
\<close>

section \<open>Frames\<close>

definition node_core :: "orb_node \<Rightarrow> u8 list option \<times> u64 \<times> u32 \<times> bool" where
  "node_core n = (node_data n, last_update n, generation n, published n)"

definition sub_step :: "u64 \<Rightarrow> subscriber \<Rightarrow> subscriber \<Rightarrow> bool" where
  "sub_step now sd sd' \<longleftrightarrow>
     (call_deadline sd \<noteq> 0 \<longrightarrow> call_deadline sd' = call_deadline sd \<or> call_deadline sd \<le> now)"

definition sub_same :: "subscriber \<Rightarrow> subscriber \<Rightarrow> bool" where
  "sub_same sd sd' \<longleftrightarrow> sd_generation sd' = sd_generation sd \<and> update_interval sd' = update_interval sd"

definition frame_nodes :: "nat set \<Rightarrow> orb_world \<Rightarrow> orb_world \<Rightarrow> bool" where
  "frame_nodes D w w' \<longleftrightarrow> (\<forall>d n. topic_at w d = Some n \<longrightarrow>
     (\<exists>n'. topic_at w' d = Some n' \<and> meta n' = meta n \<and> priority n' = priority n \<and>
        (d \<notin> D \<longrightarrow> node_core n' = node_core n)))"

definition frame_subs :: "nat set \<Rightarrow> nat set \<Rightarrow> orb_world \<Rightarrow> orb_world \<Rightarrow> bool" where
  "frame_subs R F w w' \<longleftrightarrow> (\<forall>f sd. get_sub w f = Some sd \<longrightarrow> f \<notin> F \<longrightarrow>
     (\<exists>sd'. get_sub w' f = Some sd' \<and> sub_step (w_now w') sd sd' \<and> (f \<notin> R \<longrightarrow> sub_same sd sd')))"

definition frame_files :: "nat set \<Rightarrow> orb_world \<Rightarrow> orb_world \<Rightarrow> bool" where
  "frame_files F w w' \<longleftrightarrow> length (w_files w') = length (w_files w) \<and>
     length (w_objs w) \<le> length (w_objs w') \<and> length (w_devs w) \<le> length (w_devs w') \<and>
     (\<forall>i < length (w_files w). \<forall>f. w_files w ! i = Some f \<longrightarrow> f \<notin> F \<longrightarrow> w_files w' ! i = Some f) \<and>
     (\<forall>f < length (w_objs w). f_dev (w_objs w' ! f) = f_dev (w_objs w ! f) \<and>
        f_fd (w_objs w' ! f) = f_fd (w_objs w ! f))"

text \<open>
  A consistent world: a taken slot holds an open file of a device that knows its slot, names and
  node paths lead to existing devices.
\<close>

definition slots_ok :: "orb_world \<Rightarrow> bool" where
  "slots_ok w \<longleftrightarrow> length (w_files w) = PX4_MAX_FD \<and>
     (\<forall>i < PX4_MAX_FD. \<forall>f. w_files w ! i = Some f \<longrightarrow> f < length (w_objs w) \<and>
        f_fd (w_objs w ! f) = i \<and> f_dev (w_objs w ! f) < length (w_devs w))"

definition names_ok :: "orb_world \<Rightarrow> bool" where
  "names_ok w \<longleftrightarrow> devmap_ok (w_devmap w) \<and>
     (\<forall>n d. Some (n, d) \<in> set (w_devmap w) \<longrightarrow> d < length (w_devs w)) \<and>
     (\<forall>p d. w_nodes w p = Some d \<longrightarrow> topic_at w d \<noteq> None)"

definition world_ok :: "orb_world \<Rightarrow> bool" where
  "world_ok w \<longleftrightarrow> slots_ok w \<and> names_ok w"

definition frame :: "nat set \<Rightarrow> nat set \<Rightarrow> nat set \<Rightarrow> orb_world \<Rightarrow> orb_world \<Rightarrow> bool" where
  "frame D R F w w' \<longleftrightarrow> w_now w \<le> w_now w' \<and> frame_nodes D w w' \<and> frame_subs R F w w' \<and>
     frame_files F w w' \<and> (world_ok w \<longrightarrow> world_ok w')"

lemma names_ok_cong:
  "w_devs w' = w_devs w \<Longrightarrow> w_devmap w' = w_devmap w \<Longrightarrow> w_nodes w' = w_nodes w \<Longrightarrow> names_ok w' = names_ok w"
  by (simp add: names_ok_def topic_at_def)

lemma frame_refl: "frame D R F w w"
  by (simp add: frame_def frame_nodes_def frame_subs_def frame_files_def sub_step_def sub_same_def)

lemma sub_step_trans: "sub_step t a b \<Longrightarrow> sub_step t' b c \<Longrightarrow> t \<le> t' \<Longrightarrow> sub_step t' a c"
  by (auto simp: sub_step_def)

lemma frame_nodes_trans:
  "frame_nodes D w w' \<Longrightarrow> frame_nodes D w' w'' \<Longrightarrow> frame_nodes D w w''"
  unfolding frame_nodes_def by metis

lemma frame_subs_trans:
  assumes "frame_subs R F w w'" "frame_subs R F w' w''" "w_now w' \<le> w_now w''"
  shows "frame_subs R F w w''"
  unfolding frame_subs_def
proof (intro allI impI)
  fix f sd
  assume "get_sub w f = Some sd" "f \<notin> F"
  then obtain sd1 where 1: "get_sub w' f = Some sd1" "sub_step (w_now w') sd sd1"
      "f \<notin> R \<longrightarrow> sub_same sd sd1"
    using assms(1) unfolding frame_subs_def by blast
  then obtain sd2 where 2: "get_sub w'' f = Some sd2" "sub_step (w_now w'') sd1 sd2"
      "f \<notin> R \<longrightarrow> sub_same sd1 sd2"
    using assms(2) \<open>f \<notin> F\<close> unfolding frame_subs_def by blast
  have "f \<notin> R \<longrightarrow> sub_same sd sd2"
    using 1(3) 2(3) by (auto simp: sub_same_def)
  then show "\<exists>sd'. get_sub w'' f = Some sd' \<and> sub_step (w_now w'') sd sd' \<and> (f \<notin> R \<longrightarrow> sub_same sd sd')"
    using 2(1) sub_step_trans [OF 1(2) 2(2) assms(3)] by blast
qed

lemma frame_files_trans:
  "frame_files F w w' \<Longrightarrow> frame_files F w' w'' \<Longrightarrow> frame_files F w w''"
  unfolding frame_files_def by (auto dest: order_less_le_trans)

lemma frame_trans: "frame D R F w w' \<Longrightarrow> frame D R F w' w'' \<Longrightarrow> frame D R F w w''"
  unfolding frame_def
  using frame_nodes_trans frame_subs_trans frame_files_trans by (meson order_trans)

lemma frame_mono:
  assumes "frame D R F w w'" "D \<subseteq> D'" "R \<subseteq> R'" "F \<subseteq> F'"
  shows "frame D' R' F' w w'"
  using assms unfolding frame_def frame_nodes_def frame_subs_def frame_files_def
  by (meson subsetD)

text \<open>Worlds that differ in fields outside the frame only.\<close>

lemma frame_same:
  assumes "w_now w' = w_now w" "w_devs w' = w_devs w" "w_objs w' = w_objs w" "w_files w' = w_files w"
    and "w_devmap w' = w_devmap w" "w_nodes w' = w_nodes w"
  shows "frame D R F w w'"
  using assms
  by (simp add: frame_def frame_nodes_def frame_subs_def frame_files_def sub_step_def sub_same_def
      topic_at_def get_sub_def world_ok_def slots_ok_def names_ok_def)

section \<open>Updates of one device or file\<close>

lemma topic_at_set_dev: "topic_at (set_dev d x w) e =
    (if e = d \<and> d < length (w_devs w) then (case x of Topic n \<Rightarrow> Some n | _ \<Rightarrow> None) else topic_at w e)"
  by (simp add: topic_at_def set_dev_def nth_list_update)

lemma set_dev_fields [simp]:
  "w_now (set_dev d x w) = w_now w" "w_objs (set_dev d x w) = w_objs w"
  "w_files (set_dev d x w) = w_files w" "length (w_devs (set_dev d x w)) = length (w_devs w)"
  "w_devmap (set_dev d x w) = w_devmap w" "w_nodes (set_dev d x w) = w_nodes w"
  "w_pollfds (set_dev d x w) = w_pollfds w" "w_channel (set_dev d x w) = w_channel w"
  by (simp_all add: set_dev_def)

lemma get_sub_set_dev [simp]: "get_sub (set_dev d x w) f = get_sub w f"
  by (simp add: get_sub_def)

lemma set_priv_fields [simp]:
  "w_now (set_priv f p w) = w_now w" "w_devs (set_priv f p w) = w_devs w"
  "w_files (set_priv f p w) = w_files w" "length (w_objs (set_priv f p w)) = length (w_objs w)"
  "w_devmap (set_priv f p w) = w_devmap w" "w_nodes (set_priv f p w) = w_nodes w"
  "w_pollfds (set_priv f p w) = w_pollfds w" "w_channel (set_priv f p w) = w_channel w"
  by (simp_all add: set_priv_def)

lemma topic_at_set_priv [simp]: "topic_at (set_priv f p w) d = topic_at w d"
  by (simp add: topic_at_def)

lemma get_sub_set_priv: "get_sub (set_priv f p w) g =
    (if g = f \<and> f < length (w_objs w) then (case p of Sub sd \<Rightarrow> Some sd | _ \<Rightarrow> None) else get_sub w g)"
  by (simp add: get_sub_def set_priv_def nth_list_update)

lemma set_priv_obj: "g < length (w_objs w) \<Longrightarrow> f_dev (w_objs (set_priv f p w) ! g) = f_dev (w_objs w ! g) \<and>
    f_fd (w_objs (set_priv f p w) ! g) = f_fd (w_objs w ! g)"
  by (cases "g = f") (simp_all add: set_priv_def)

lemma frame_set_dev:
  assumes "\<And>n. topic_at w d = Some n \<Longrightarrow> \<exists>n'. x = Topic n' \<and> meta n' = meta n \<and> priority n' = priority n \<and>
    (d \<notin> D \<longrightarrow> node_core n' = node_core n)"
  shows "frame D R F w (set_dev d x w)"
proof -
  have "frame_nodes D w (set_dev d x w)"
    unfolding frame_nodes_def
  proof (intro allI impI)
    fix e n
    assume n: "topic_at w e = Some n"
    then have "e < length (w_devs w)"
      by (simp add: topic_at_def split: if_splits)
    then show "\<exists>n'. topic_at (set_dev d x w) e = Some n' \<and> meta n' = meta n \<and> priority n' = priority n \<and>
        (e \<notin> D \<longrightarrow> node_core n' = node_core n)"
      using n assms by (cases "e = d") (auto simp: topic_at_set_dev)
  qed
  moreover have "world_ok w \<Longrightarrow> world_ok (set_dev d x w)"
    using assms by (fastforce simp: world_ok_def slots_ok_def names_ok_def topic_at_set_dev)
  ultimately show ?thesis
    by (simp add: frame_def frame_subs_def frame_files_def sub_step_def sub_same_def)
qed

lemma frame_set_priv:
  assumes "f \<in> F \<or> (\<forall>sd. get_sub w f = Some sd \<longrightarrow>
    (\<exists>sd'. p = Sub sd' \<and> sub_step (w_now w) sd sd' \<and> (f \<notin> R \<longrightarrow> sub_same sd sd')))"
  shows "frame D R F w (set_priv f p w)"
proof -
  have "frame_subs R F w (set_priv f p w)"
    unfolding frame_subs_def
  proof (intro allI impI)
    fix g sd
    assume g: "get_sub w g = Some sd" "g \<notin> F"
    then have "g < length (w_objs w)"
      by (simp add: get_sub_def split: if_splits)
    then show "\<exists>sd'. get_sub (set_priv f p w) g = Some sd' \<and> sub_step (w_now (set_priv f p w)) sd sd' \<and>
        (g \<notin> R \<longrightarrow> sub_same sd sd')"
      using g assms by (cases "g = f") (auto simp: get_sub_set_priv sub_step_def sub_same_def)
  qed
  moreover have "world_ok w \<Longrightarrow> world_ok (set_priv f p w)"
    by (auto simp: world_ok_def slots_ok_def names_ok_def set_priv_obj)
  ultimately show ?thesis
    by (simp add: frame_def frame_nodes_def frame_files_def set_priv_obj)
qed

lemma upd_vdev_topic: "topic_at w d = Some n \<Longrightarrow>
    upd_vdev (w_devs w ! d) v = Topic (n\<lparr>node_vdev := v\<rparr>)"
  by (auto simp: topic_at_def upd_vdev_def split: if_splits device.splits)

lemma frame_upd_vdev: "frame D R F w (set_dev d (upd_vdev (w_devs w ! d) v) w)"
  by (rule frame_set_dev) (auto simp: upd_vdev_topic node_core_def)

section \<open>Checking and notifying\<close>

lemma appears_updated_step:
  "appears_updated now n sd = (b, sd') \<Longrightarrow> sub_same sd sd' \<and> sub_step now sd sd'"
  by (auto simp: appears_updated_def sub_same_def sub_step_def split: if_splits)

lemma check_sub_frame:
  assumes "check_sub d f w = Some (b, w')"
  shows "frame D R F w w'"
proof -
  obtain n sd where n: "topic_at w d = Some n" "get_sub w f = Some sd"
    using assms by (auto simp: check_sub_def bind_eq_Some_conv)
  obtain b' sd' where "appears_updated (w_now w) n sd = (b', sd')"
    by fastforce
  moreover have "w' = set_priv f (Sub sd') w"
    using assms n calculation by (simp add: check_sub_def)
  ultimately show ?thesis
    using n
    using appears_updated_step by (auto intro!: frame_set_priv)
qed

lemma sem_post_frame: "frame D R F w (sem_post s w)"
  by (rule frame_same) (simp_all add: sem_post_def)

lemma vdev_notify_one_fields [simp]:
  "w_now (vdev_notify_one p ev w) = w_now w" "w_devs (vdev_notify_one p ev w) = w_devs w"
  "w_objs (vdev_notify_one p ev w) = w_objs w" "w_files (vdev_notify_one p ev w) = w_files w"
  "w_channel (vdev_notify_one p ev w) = w_channel w" "w_devmap (vdev_notify_one p ev w) = w_devmap w"
  "w_nodes (vdev_notify_one p ev w) = w_nodes w"
  by (simp_all add: vdev_notify_one_def sem_post_def Let_def)

lemma vdev_notify_one_frame: "frame D R F w (vdev_notify_one p ev w)"
  by (rule frame_same) simp_all

lemma poll_notify_one_frame: "poll_notify_one d ev p w = Some w' \<Longrightarrow> frame D R F w w'"
  using check_sub_frame frame_trans vdev_notify_one_frame
  by (auto simp: poll_notify_one_def bind_eq_Some_conv split: if_splits) blast

lemma notify_slots_frame: "notify_slots d ev ps w = Some w' \<Longrightarrow> frame D R F w w'"
proof (induction d ev ps w rule: notify_slots.induct)
  case (3 d ev p ps w)
  then show ?case
    using poll_notify_one_frame frame_trans by (auto simp: bind_eq_Some_conv) blast
qed (simp_all add: frame_refl)

lemma poll_notify_frame: "poll_notify d ev w = Some w' \<Longrightarrow> frame D R F w w'"
  by (simp add: poll_notify_def notify_slots_frame)

lemma timer_fire_frame:
  assumes "timer_fire f w = Some w'"
  shows "frame D R F w w'"
proof -
  obtain sd where sd: "get_sub w f = Some sd"
    using assms by (auto simp: timer_fire_def bind_eq_Some_conv)
  show ?thesis
  proof (cases "call_deadline sd \<noteq> 0 \<and> call_deadline sd \<le> w_now w")
    case True
    have 1: "frame D R F w (set_priv f (Sub (sd\<lparr>call_deadline := 0\<rparr>)) w)"
      by (rule frame_set_priv) (use True sd in \<open>auto simp: sub_step_def sub_same_def\<close>)
    have "poll_notify (f_dev (w_objs w ! f)) POLLIN (set_priv f (Sub (sd\<lparr>call_deadline := 0\<rparr>)) w) = Some w'"
      using assms sd True by (simp add: timer_fire_def)
    then show ?thesis
      using 1 poll_notify_frame frame_trans by blast
  next
    case False
    then show ?thesis
      using assms sd by (auto simp: timer_fire_def frame_refl)
  qed
qed

section \<open>Operations of a topic\<close>

lemma channel_call_fields [simp]:
  "w_now (snd (channel_call c w)) = w_now w" "w_devs (snd (channel_call c w)) = w_devs w"
  "w_objs (snd (channel_call c w)) = w_objs w" "w_files (snd (channel_call c w)) = w_files w"
  "w_channel (snd (channel_call c w)) = w_channel w" "w_devmap (snd (channel_call c w)) = w_devmap w"
  "w_nodes (snd (channel_call c w)) = w_nodes w"
  by (simp_all add: channel_call_def split: option.splits)

lemma channel_call_frame: "frame D R F w (snd (channel_call c w))"
  by (rule frame_same) simp_all

lemma node_read_frame:
  assumes "node_read f hb len n w = Some (ret, bytes, w')"
  shows "frame D {f} F w w'"
proof (cases "w' = w")
  case False
  then obtain sd where "get_sub w f = Some sd" "w' = set_priv f (Sub (sd\<lparr>sd_generation := generation n,
      sd_priority := priority n, update_reported := False\<rparr>)) w"
    using assms by (auto simp: node_read_def bind_eq_Some_conv split: option.splits if_splits)
  then show ?thesis
    by (auto intro!: frame_set_priv simp: sub_step_def)
qed (simp add: frame_refl)

lemma add_internal_subscriber_frame:
  assumes "\<And>n0. topic_at w d = Some n0 \<Longrightarrow> meta n = meta n0 \<and> priority n = priority n0 \<and> node_core n = node_core n0"
  shows "frame D R F w (add_internal_subscriber d n w)"
proof -
  let ?w = "set_dev d (Topic (n\<lparr>subscriber_count := subscriber_count n + 1\<rparr>)) w"
  have "frame D R F w ?w"
    by (rule frame_set_dev) (use assms in \<open>auto simp: node_core_def\<close>)
  then show ?thesis
    using channel_call_frame frame_trans by (auto simp: add_internal_subscriber_def Let_def)
qed

lemma remove_internal_subscriber_frame:
  assumes "\<And>n0. topic_at w d = Some n0 \<Longrightarrow> meta n = meta n0 \<and> priority n = priority n0 \<and> node_core n = node_core n0"
  shows "frame D R F w (remove_internal_subscriber d n w)"
proof -
  let ?w = "set_dev d (Topic (n\<lparr>subscriber_count := subscriber_count n - 1\<rparr>)) w"
  have "frame D R F w ?w"
    by (rule frame_set_dev) (use assms in \<open>auto simp: node_core_def\<close>)
  then show ?thesis
    using channel_call_frame frame_trans by (auto simp: remove_internal_subscriber_def Let_def)
qed

lemma frame_set_priv_new: "f_priv (w_objs w ! f) = No_sub \<Longrightarrow> frame D R F w (set_priv f p w)"
  by (rule frame_set_priv) (simp add: get_sub_def)

lemma node_open_frame:
  assumes "topic_at w d = Some n" "f_priv (w_objs w ! f) = No_sub" "node_open pid d f n w = (ret, w')"
  shows "frame D R F w w'"
proof (cases "f_flags (w_objs w ! f) = PX4_F_WRONLY \<or> f_flags (w_objs w ! f) \<noteq> PX4_F_RDONLY")
  case True
  then show ?thesis
    using assms(1,3)
    by (auto simp: node_open_def vdev_open_def node_core_def frame_refl PX4_F_WRONLY_def PX4_F_RDONLY_def
        intro!: frame_set_dev split: if_splits)
next
  case False
  let ?w1 = "set_priv f (Sub (new_subscriber n)) w"
  let ?n = "n\<lparr>node_vdev := snd (vdev_open (node_vdev n))\<rparr>"
  have "frame D R F w ?w1"
    using assms(2) by (rule frame_set_priv_new)
  moreover have "frame D R F ?w1 (add_internal_subscriber d ?n ?w1)"
    by (rule add_internal_subscriber_frame) (use assms(1) in \<open>auto simp: node_core_def\<close>)
  moreover have "w' = add_internal_subscriber d ?n ?w1"
    using assms(3) False by (auto simp: node_open_def vdev_open_def)
  ultimately show ?thesis
    using frame_trans by blast
qed

lemma node_close_frame:
  assumes "topic_at w d = Some n" "node_close pid d f n w = Some (ret, w')" "f \<in> F"
  shows "frame D R F w w'"
proof -
  obtain w1 where w1: "(if pid = publisher n then Some (set_dev d (Topic (n\<lparr>publisher := 0\<rparr>)) w)
         else case f_priv (w_objs w ! f) of No_sub \<Rightarrow> Some w | Freed \<Rightarrow> None
           | Sub sd \<Rightarrow> Some (set_priv f Freed (remove_internal_subscriber d n w))) = Some w1"
      "w' = set_dev d (upd_vdev (w_devs w1 ! d) (snd (vdev_close (dev_vdev (w_devs w1 ! d))))) w1"
    using assms(2) by (auto simp: node_close_def Let_def split_beta bind_eq_Some_conv)
  have "frame D R F w (set_dev d (Topic (n\<lparr>publisher := 0\<rparr>)) w)"
    by (rule frame_set_dev) (use assms(1) in \<open>simp add: node_core_def\<close>)
  moreover have "frame D R F w (set_priv f Freed (remove_internal_subscriber d n w))"
    by (rule frame_trans [OF remove_internal_subscriber_frame frame_set_priv])
       (use assms(1,3) in auto)
  ultimately have "frame D R F w w1"
    using w1(1) frame_refl by (auto split: if_splits priv.splits)
  then show ?thesis
    unfolding w1(2) using frame_upd_vdev frame_trans by blast
qed

lemma node_write_cases:
  assumes "node_write d buf len w = Some (ret, w')" "topic_at w d = Some n"
  obtains "o_size (meta n) \<noteq> len" "ret = - EIO" "w' = set_dev d (Topic (alloc_node w n)) w"
  | w2 n3 where "o_size (meta n) = len" "len \<le> length buf"
      "poll_notify d POLLIN (set_dev d (Topic (store_node (w_now w) buf (alloc_node w n)))
         (set_dev d (Topic (alloc_node w n)) w)) = Some w2" "topic_at w2 d = Some n3"
      "ret = int (o_size (meta n3))" "w' = set_dev d (Topic (n3\<lparr>published := True\<rparr>)) w2"
proof (cases "o_size (meta n) = len \<and> len \<le> length buf")
  case True
  then show ?thesis
    using assms that(2) by (auto simp: node_write_def Let_def bind_eq_Some_conv)
next
  case False
  then show ?thesis
    using assms that(1) by (auto simp: node_write_def Let_def split: if_splits)
qed

lemma node_write_frame:
  assumes "node_write d buf len w = Some (ret, w')" "d \<in> D"
  shows "frame D R F w w'"
proof -
  obtain n where n: "topic_at w d = Some n"
    using assms(1) by (auto simp: node_write_def bind_eq_Some_conv)
  let ?w1 = "set_dev d (Topic (alloc_node w n)) w"
  have 1: "frame D R F w ?w1"
    by (rule frame_set_dev) (use n assms(2) in auto)
  show ?thesis
    using assms(1) n
  proof (cases rule: node_write_cases)
    case (2 w2 n3)
    have a: "frame D R F ?w1 (set_dev d (Topic (store_node (w_now w) buf (alloc_node w n))) ?w1)"
      by (rule frame_set_dev) (use assms(2) n in \<open>auto simp: topic_at_set_dev split: if_splits\<close>)
    have b: "frame D R F w2 w'"
      unfolding 2(6) by (rule frame_set_dev) (use assms(2) 2(4) in auto)
    show ?thesis
      by (rule frame_trans [OF frame_trans [OF 1 a] frame_trans [OF poll_notify_frame [OF 2(3)] b]])
  qed (simp add: 1)
qed

section \<open>Descriptors\<close>

lemma base_ioctl_frame: "base_ioctl d c w = (ret, out, w') \<Longrightarrow> frame D R F w w'"
  by (auto simp: base_ioctl_def Let_def split_beta intro: frame_upd_vdev)

lemma register_driver_entries:
  assumes "register_driver (Some n) (Some d) dm = (ret, dm')" "devmap_ok dm"
  shows "devmap_ok dm'" "set dm' \<subseteq> insert (Some (n, d)) (set dm)"
proof -
  have free: "devmap_ok (snd (register_driver (Some n) (Some d) dm))" if "getDev n dm = None" "taken dm < PX4_MAX_DEV"
    using register_driver_free(2) that assms(2) by blast
  have "taken dm \<le> PX4_MAX_DEV"
    using taken_le [of dm] assms(2) by (simp add: devmap_ok_def)
  then show "devmap_ok dm'"
    using assms free register_driver_refused [of dm n d]
    by (cases "getDev n dm = None \<and> taken dm < PX4_MAX_DEV") auto
  show "set dm' \<subseteq> insert (Some (n, d)) (set dm)"
    using assms(1) set_update_subset_insert
    by (fastforce simp: register_driver_def split: if_splits option.splits)
qed

text \<open>A new device at the end of the list, registered under a name or not.\<close>

lemma frame_append:
  assumes "w_now w' = w_now w" "w_files w' = w_files w" "w_objs w' = w_objs w"
    and "w_devs w' = w_devs w @ [x]" "register_driver (Some n) (Some (length (w_devs w))) (w_devmap w) = (ret, w_devmap w')"
    and "w_nodes w' = w_nodes w \<or> (\<exists>node. x = Topic node) \<and> w_nodes w' = (w_nodes w)(n \<mapsto> length (w_devs w))"
  shows "frame D R F w w'"
proof -
  have top: "topic_at w d = Some m \<Longrightarrow> topic_at w' d = Some m" for d m
    using assms(4) by (auto simp: topic_at_def nth_append split: if_splits)
  have "world_ok w'" if ok: "world_ok w"
  proof -
    have "devmap_ok (w_devmap w')" "set (w_devmap w') \<subseteq> insert (Some (n, length (w_devs w))) (set (w_devmap w))"
      using register_driver_entries [OF assms(5)] ok by (auto simp: world_ok_def names_ok_def)
    moreover have "topic_at w' (length (w_devs w)) \<noteq> None" if "x = Topic node" for node
      using assms(4) that by (simp add: topic_at_def)
    ultimately have "names_ok w'"
      using ok assms(4,6) top unfolding world_ok_def names_ok_def
      by (fastforce split: if_splits)
    moreover have "slots_ok w'"
      using ok assms(2-4) by (auto simp: world_ok_def slots_ok_def)
    ultimately show ?thesis
      by (simp add: world_ok_def)
  qed
  then show ?thesis
    using assms(1-4) top
    by (auto simp: frame_def frame_nodes_def frame_subs_def frame_files_def sub_step_def sub_same_def
        get_sub_def)
qed

lemma vdev_init_cases:
  "vdev_init d (new_vdev (Some path)) dm = (ret, v, dm') \<Longrightarrow>
   register_driver (Some path) (Some d) dm = (ret, dm') \<and> (ret \<noteq> 0 \<longrightarrow> vdev_delete v dm' = dm')"
  by (auto simp: vdev_init_def new_vdev_def vdev_delete_def Let_def split_beta prod_eq_iff split: if_splits)

lemma register_driver_failed: "register_driver n d dm = (ret, dm') \<Longrightarrow> ret \<noteq> 0 \<Longrightarrow> dm' = dm"
  by (auto simp: register_driver_def split: option.splits if_splits)

lemma try_node_frame:
  assumes "try_node m path prio w = (ret, w')"
  shows "frame D R F w w'"
proof -
  obtain r v dm where i: "vdev_init (length (w_devs w)) (node_vdev (new_node m path prio)) (w_devmap w) = (r, v, dm)"
    by (metis prod_cases3)
  note reg = vdev_init_cases [OF i [unfolded new_node_def, simplified]]
  show ?thesis
  proof (cases "r = 0")
    case True
    then have w': "w' = w\<lparr>w_devs := w_devs w @ [Topic (new_node m path prio\<lparr>node_vdev := v\<rparr>)], w_devmap := dm,
        w_nodes := (w_nodes w)(path \<mapsto> length (w_devs w))\<rparr>"
      using assms i by (simp add: try_node_def)
    show ?thesis
      by (rule frame_append [of _ _ "Topic (new_node m path prio\<lparr>node_vdev := v\<rparr>)" path r])
         (use reg in \<open>simp_all add: w'\<close>)
  next
    case False
    then have "vdev_delete v dm = w_devmap w"
      using reg register_driver_failed by auto
    then have "w' = w"
      using assms i False by (auto simp: try_node_def Let_def split: if_splits option.splits)
    then show ?thesis
      by (simp add: frame_refl)
  qed
qed

lemmas try_node_frame' = try_node_frame [OF prod.collapse [symmetric]]

lemma advertise_loop_frame:
  "advertise_loop k tries m path inst prio r w = (ret, inst', w') \<Longrightarrow> frame D R F w w'"
proof (induction k tries m path inst prio r w rule: advertise_loop.induct)
  case (2 k tries m path inst prio r w)
  obtain r1 w1 where t: "try_node m (case inst of None \<Rightarrow> path | Some _ \<Rightarrow> butlast path @ [digit tries]) prio w = (r1, w1)"
    by fastforce
  note f = try_node_frame [OF t]
  show ?case
  proof (cases "r1 = 0")
    case True
    then show ?thesis
      using "2.prems" t f by (auto simp: Let_def)
  next
    case False
    then have "frame D R F w1 w'"
      using "2.prems" "2.IH" [OF refl refl t [symmetric] refl] t by (auto simp: Let_def)
    then show ?thesis
      using f frame_trans by blast
  qed
qed (simp add: frame_refl)

lemma advertise_loop_frame': "frame D R F w (snd (snd (advertise_loop k tries m path inst prio r w)))"
  using advertise_loop_frame by (metis prod.collapse)

lemma master_advertise_frame': "frame D R F w (snd (snd (master_advertise m inst prio w)))"
  by (simp add: master_advertise_def Let_def split_beta frame_refl advertise_loop_frame'
      del: advertise_loop.simps)

lemma master_ioctl_frame: "master_ioctl d cmd w = (ret, out, w') \<Longrightarrow> frame D R F w w'"
  by (auto simp: master_ioctl_def Let_def split_beta master_advertise_frame' intro: base_ioctl_frame
      split: orb_cmd.splits)

lemma set_px4_errno_frame: "frame D R F w (w\<lparr>w_px4_errno := e\<rparr>)"
  by (rule frame_same) simp_all

lemma set_errno_frame: "frame D R F w (set_errno e w)"
  by (rule frame_same) (simp_all add: set_errno_def)

lemma node_ioctl_frame:
  assumes "node_ioctl d f n cmd w = Some (ret, out, w')"
    and "f \<in> R \<or> (\<forall>a. cmd \<noteq> Orb_setinterval a)"
  shows "frame D R F w w'"
proof (cases cmd)
  case (Orb_setinterval a)
  then obtain sd where "get_sub w f = Some sd" "w' = set_priv f (Sub (sd\<lparr>update_interval := ucast a\<rparr>)) w"
    using assms(1) by (auto simp: node_ioctl_def bind_eq_Some_conv)
  then show ?thesis
    using assms(2) Orb_setinterval by (auto intro!: frame_set_priv simp: sub_step_def)
qed (use assms(1) in \<open>auto simp: node_ioctl_def bind_eq_Some_conv frame_refl
      intro: check_sub_frame base_ioctl_frame\<close>)

lemma px4_ioctl_frame:
  assumes "px4_ioctl fd cmd w = Some (ret, out, w')"
    and "filp_of fd w \<in> R \<or> (\<forall>a. cmd \<noteq> Orb_setinterval a)"
  shows "frame D R F w w'"
proof -
  obtain ret1 out1 w1 where 1: "(case get_vdev fd w of None \<Rightarrow> Some (- EINVAL, Out_none, w)
      | Some d \<Rightarrow> (case w_devs w ! d of Topic n \<Rightarrow> node_ioctl d (filp_of fd w) n cmd w
        | Master v \<Rightarrow> Some (master_ioctl d cmd w)
        | Vfile v \<Rightarrow> Some (base_ioctl d (vdev_request cmd) w))) = Some (ret1, out1, w1)"
    and w': "w' = (if ret1 < 0 then w1\<lparr>w_px4_errno := - ret1\<rparr> else w1)"
    using assms(1) by (auto simp: px4_ioctl_def bind_eq_Some_conv)
  have "frame D R F w w1"
    using 1 node_ioctl_frame [OF _ assms(2)]
    by (auto simp: frame_refl split: option.splits device.splits intro: master_ioctl_frame base_ioctl_frame)
  then show ?thesis
    unfolding w' using set_px4_errno_frame frame_trans by auto
qed

lemma px4_read_frame:
  assumes "px4_read fd hb len w = Some (ret, bytes, w')"
  shows "frame D {filp_of fd w} F w w'"
proof -
  let ?read = "case get_vdev fd w of None \<Rightarrow> Some (- EINVAL, None, w)
      | Some d \<Rightarrow> (case w_devs w ! d of Topic n \<Rightarrow> node_read (filp_of fd w) hb len n w
        | _ \<Rightarrow> Some (- ENOSYS, None, w))"
  obtain ret1 bytes1 w1 where 1: "?read = Some (ret1, bytes1, w1)"
    using assms unfolding px4_read_def by (cases ?read) auto
  have w': "w' = (if ret1 < 0 then w1\<lparr>w_px4_errno := - ret1\<rparr> else w1)"
    using assms unfolding px4_read_def 1 by (simp split: if_splits)
  have "frame D {filp_of fd w} F w w1"
    using 1 node_read_frame by (auto simp: frame_refl split: option.splits device.splits)
  then show ?thesis
    unfolding w' using set_px4_errno_frame frame_trans by auto
qed

section \<open>Opening and closing\<close>

lemma find_or_create_frame:
  assumes "find_or_create path flags w = (dev, w')"
  shows "frame D R F w w'"
proof (cases "w' = w")
  case False
  have d: "createFile path w = (fst (createFile path w), w')"
    using assms False
    by (auto simp: find_or_create_def Let_def split_beta prod_eq_iff split: option.splits if_splits)
  show ?thesis
    by (rule frame_append [of _ _ "Vfile (new_vdev (Some path))" path
          "fst (register_driver (Some path) (Some (length (w_devs w))) (w_devmap w))"])
       (use d in \<open>auto simp: createFile_def Let_def prod_eq_iff\<close>)
qed (simp add: frame_refl)

lemma getDev_in: "getDev n dm = Some d \<Longrightarrow> Some (n, d) \<in> set dm"
  by (metis getDev_SomeD nth_mem)

lemma find_or_create_dev:
  assumes "find_or_create path flags w = (Some d, w')" "world_ok w"
  shows "d < length (w_devs w')"
proof (cases "getDev path (w_devmap w)")
  case (Some e)
  then show ?thesis
    using assms getDev_in by (fastforce simp: find_or_create_def world_ok_def names_ok_def)
qed (use assms in \<open>auto simp: find_or_create_def createFile_def Let_def split: if_splits\<close>)

text \<open>A new file object in a free slot.\<close>

definition open_slot :: "nat \<Rightarrow> u32 \<Rightarrow> nat \<Rightarrow> orb_world \<Rightarrow> orb_world" where
  "open_slot i flags d w =
     w\<lparr>w_objs := w_objs w @ [\<lparr>f_flags = flags, f_dev = d, f_fd = i, f_priv = No_sub\<rparr>],
       w_files := (w_files w)[i := Some (length (w_objs w))]\<rparr>"

lemma open_slot_fields [simp]:
  "w_devs (open_slot i fl d w) = w_devs w" "w_now (open_slot i fl d w) = w_now w"
  "topic_at (open_slot i fl d w) e = topic_at w e"
  "w_files (open_slot i fl d w) = (w_files w)[i := Some (length (w_objs w))]"
  "w_objs (open_slot i fl d w) ! length (w_objs w) = \<lparr>f_flags = fl, f_dev = d, f_fd = i, f_priv = No_sub\<rparr>"
  "length (w_objs (open_slot i fl d w)) = Suc (length (w_objs w))"
  by (simp_all add: open_slot_def topic_at_def)

lemma open_slot_frame:
  assumes "first_free (w_files w) = Some i" "world_ok w \<Longrightarrow> d < length (w_devs w)"
  shows "frame D R F w (open_slot i flags d w)"
proof -
  have i: "i < length (w_files w)" "w_files w ! i = None"
    using first_index_SomeD [OF assms(1)] by auto
  have obj: "f < length (w_objs w) \<Longrightarrow> w_objs (open_slot i flags d w) ! f = w_objs w ! f" for f
    by (simp add: open_slot_def nth_append)
  have "world_ok (open_slot i flags d w)" if ok: "world_ok w"
  proof -
    have "slots_ok (open_slot i flags d w)"
      unfolding slots_ok_def
    proof (intro conjI allI impI)
      fix j f
      assume j: "j < PX4_MAX_FD" "w_files (open_slot i flags d w) ! j = Some f"
      show "f < length (w_objs (open_slot i flags d w))"
        and "f_fd (w_objs (open_slot i flags d w) ! f) = j"
        and "f_dev (w_objs (open_slot i flags d w) ! f) < length (w_devs (open_slot i flags d w))"
        using j ok obj assms(2) i
        by (cases "j = i"; auto simp: world_ok_def slots_ok_def)+
    qed (use ok in \<open>simp add: world_ok_def slots_ok_def\<close>)
    then show ?thesis
      using ok names_ok_cong [of "open_slot i flags d w" w] by (simp add: world_ok_def open_slot_def)
  qed
  moreover have "frame_files F w (open_slot i flags d w)"
    using i obj by (auto simp: frame_files_def nth_list_update)
  ultimately show ?thesis
    using obj by (auto simp: frame_def frame_nodes_def frame_subs_def sub_step_def sub_same_def
        get_sub_def split: if_splits)
qed

lemma dev_open_frame:
  assumes "dev_open pid d f w = (ret, w')" "d < length (w_devs w)" "f_priv (w_objs w ! f) = No_sub"
  shows "frame D R F w w'"
proof (cases "w_devs w ! d")
  case (Topic n)
  then show ?thesis
    using assms node_open_frame [of w d n f pid ret w' D R F] by (simp add: dev_open_def topic_at_def)
next
  case (Master v)
  then show ?thesis
    using assms(1) frame_upd_vdev [of D R F w d] by (auto simp: dev_open_def Let_def split: prod.splits)
next
  case (Vfile v)
  then show ?thesis
    using assms(1) frame_upd_vdev [of D R F w d] by (auto simp: dev_open_def Let_def split: prod.splits)
qed

lemma px4_open_cases:
  assumes "px4_open pid path flags w = (fd, w')"
  obtains (no_dev) w1 where "find_or_create path flags w = (None, w1)" "fd = -1"
      "w' = w1\<lparr>w_px4_errno := EINVAL\<rparr>"
  | (no_slot) d w1 where "find_or_create path flags w = (Some d, w1)" "first_free (w_files w1) = None"
      "fd = -1" "w' = w1\<lparr>w_px4_errno := ENOENT\<rparr>"
  | (opened) d w1 i ret w3 where "find_or_create path flags w = (Some d, w1)"
      "first_free (w_files w1) = Some i"
      "dev_open pid d (length (w_objs w1)) (open_slot i flags d w1) = (ret, w3)"
      "fd = (if ret < 0 then -1 else int i)" "w' = (if ret < 0 then w3\<lparr>w_px4_errno := - ret\<rparr> else w3)"
proof -
  obtain dev w1 where 1: "find_or_create path flags w = (dev, w1)"
    by fastforce
  show ?thesis
  proof (cases dev)
    case None
    then show ?thesis
      using assms 1 no_dev by (auto simp: px4_open_def)
  next
    case (Some d)
    show ?thesis
    proof (cases "first_free (w_files w1)")
      case None
      then show ?thesis
        using assms 1 Some no_slot by (auto simp: px4_open_def)
    next
      case (Some i)
      obtain ret w3 where "dev_open pid d (length (w_objs w1)) (open_slot i flags d w1) = (ret, w3)"
        by fastforce
      then show ?thesis
        using assms 1 \<open>dev = Some d\<close> Some opened
        by (auto simp: px4_open_def open_slot_def Let_def split: if_splits)
    qed
  qed
qed

lemma px4_open_frame:
  assumes "px4_open pid path flags w = (fd, w')" "world_ok w"
  shows "frame D R F w w'"
  using assms(1)
proof (cases rule: px4_open_cases)
  case (no_dev w1)
  then show ?thesis
    using find_or_create_frame frame_trans set_px4_errno_frame by blast
next
  case (no_slot d w1)
  then show ?thesis
    using find_or_create_frame frame_trans set_px4_errno_frame by blast
next
  case (opened d w1 i ret w3)
  have 1: "frame D R F w w1"
    by (rule find_or_create_frame [OF opened(1)])
  have d: "d < length (w_devs w1)"
    using find_or_create_dev [OF opened(1) assms(2)] .
  have 2: "frame D R F w1 (open_slot i flags d w1)"
    by (rule open_slot_frame [OF opened(2)]) (rule d)
  have 3: "frame D R F (open_slot i flags d w1) w3"
    by (rule dev_open_frame [OF opened(3)]) (simp_all add: d)
  have "frame D R F w w3"
    by (rule frame_trans [OF frame_trans [OF 1 2] 3])
  then show ?thesis
    unfolding opened(5) using frame_trans set_px4_errno_frame by auto
qed

lemma frame_ok: "frame D R F w w' \<Longrightarrow> world_ok w \<Longrightarrow> world_ok w'"
  by (simp add: frame_def)

lemma dev_close_frame:
  assumes "dev_close pid d f w = Some (ret, w')" "d < length (w_devs w)" "f \<in> F"
  shows "frame D R F w w'"
proof (cases "w_devs w ! d")
  case (Topic n)
  then show ?thesis
    using assms node_close_frame [of w d n pid f ret w' F D R] by (simp add: dev_close_def topic_at_def)
next
  case (Master v)
  then show ?thesis
    using assms(1) frame_upd_vdev [of D R F w d] by (auto simp: dev_close_def Let_def split: prod.splits)
next
  case (Vfile v)
  then show ?thesis
    using assms(1) frame_upd_vdev [of D R F w d] by (auto simp: dev_close_def Let_def split: prod.splits)
qed

lemma free_slot_frame:
  assumes "\<And>f. i < length (w_files w) \<Longrightarrow> w_files w ! i = Some f \<Longrightarrow> f \<in> F"
  shows "frame D R F w (w\<lparr>w_files := (w_files w)[i := None]\<rparr>)"
proof -
  have old: "w_files w ! j = Some f" if "(w_files w)[i := None] ! j = Some f" "j < length (w_files w)" for j f
    using that by (cases "j = i") auto
  have "world_ok (w\<lparr>w_files := (w_files w)[i := None]\<rparr>)" if "world_ok w"
    using that old names_ok_cong [of "w\<lparr>w_files := (w_files w)[i := None]\<rparr>" w]
    by (simp add: world_ok_def slots_ok_def)
  then show ?thesis
    using assms
    by (cases "i < length (w_files w)")
       (auto simp: frame_def frame_nodes_def frame_subs_def frame_files_def sub_step_def sub_same_def
        topic_at_def get_sub_def nth_list_update list_update_beyond)
qed

lemma get_vdev_SomeD:
  assumes "get_vdev fd w = Some d"
  shows "0 \<le> fd" "nat fd < PX4_MAX_FD" "w_files w ! nat fd = Some (filp_of fd w)"
    "d = f_dev (w_objs w ! filp_of fd w)"
  using assms by (auto simp: get_vdev_def filp_of_def split: if_splits)

lemma get_vdev_ok:
  assumes "get_vdev fd w = Some d" "world_ok w"
  shows "d < length (w_devs w)" "filp_of fd w < length (w_objs w)" "f_fd (w_objs w ! filp_of fd w) = nat fd"
  using get_vdev_SomeD [OF assms(1)] assms(2) by (auto simp: world_ok_def slots_ok_def)

lemma px4_close_frame:
  assumes "px4_close pid fd w = Some (ret, w')" "world_ok w"
  shows "frame D R {filp_of fd w} w w'"
proof (cases "get_vdev fd w")
  case None
  then show ?thesis
    using assms(1) set_px4_errno_frame by (auto simp: px4_close_def)
next
  case (Some d)
  note fd = get_vdev_SomeD [OF Some] get_vdev_ok [OF Some assms(2)]
  obtain r w1 where w1: "dev_close pid d (filp_of fd w) w = Some (r, w1)"
    using assms(1) Some by (auto simp: px4_close_def bind_eq_Some_conv)
  have 1: "frame D R {filp_of fd w} w w1"
    by (rule dev_close_frame [OF w1 fd(5)]) simp
  have "w_files w1 = w_files w"
    using w1 by (auto simp: dev_close_def node_close_def remove_internal_subscriber_def Let_def split_beta
        bind_eq_Some_conv split: device.splits if_splits priv.splits)
  then have 2: "frame D R {filp_of fd w} w1 (w1\<lparr>w_files := (w_files w1)[nat fd := None]\<rparr>)"
    using fd(3) by (intro free_slot_frame) simp
  have "w' = (let w2 = w1\<lparr>w_files := (w_files w1)[nat fd := None]\<rparr> in
      if r < 0 then w2\<lparr>w_px4_errno := - r\<rparr> else w2)"
    using assms(1) Some w1 by (auto simp: px4_close_def Let_def split: if_splits)
  then show ?thesis
    using frame_trans [OF 1 2] set_px4_errno_frame frame_trans by (auto simp: Let_def)
qed

end
