(* ===== verification/UOrbRun.thy ===== *)
theory UOrbRun
  imports UOrbFrame
begin

text \<open>
  Runs of the broker: sequences of operations by any number of publishers, subscribers and pollers
  in any order.  The properties say what a subscriber sees whatever the others do in between.
\<close>

section \<open>Frames of the remaining operations\<close>

lemma store_pollfd_frame: "frame D R F w (w\<lparr>w_pollfds := g\<rparr>)"
  by (rule frame_same) simp_all

lemma poll_state_frame: "poll_state d f w = Some (st, w') \<Longrightarrow> frame D R F w w'"
  by (auto simp: poll_state_def bind_eq_Some_conv frame_refl intro: check_sub_frame split: if_splits)

lemma dev_poll_setup_frame:
  assumes "dev_poll_setup d f p w = Some (ret, w')"
  shows "frame D R F w w'"
proof -
  let ?w1 = "w\<lparr>w_pollfds := (w_pollfds w)(p := (w_pollfds w p)\<lparr>pf_filp := Some f\<rparr>)\<rparr>"
  let ?st = "store_poll_waiter p (dev_vdev (w_devs ?w1 ! d))"
  let ?w2 = "set_dev d (upd_vdev (w_devs ?w1 ! d) (snd ?st)) ?w1"
  have 1: "frame D R F w ?w1"
    by (rule store_pollfd_frame)
  have 2: "frame D R F ?w1 ?w2"
    by (rule frame_upd_vdev)
  show ?thesis
  proof (cases "fst ?st = 0")
    case False
    then show ?thesis
      using assms 1 by (auto simp: dev_poll_setup_def Let_def split_beta)
  next
    case True
    then obtain s w3 where 3: "poll_state d f ?w2 = Some (s, w3)"
      using assms by (auto simp: dev_poll_setup_def Let_def split_beta bind_eq_Some_conv)
    let ?fds = "(w_pollfds w3 p)\<lparr>pf_revents := pf_revents (w_pollfds w3 p) OR (pf_events (w_pollfds w3 p) AND s)\<rparr>"
    let ?w4 = "w3\<lparr>w_pollfds := (w_pollfds w3)(p := ?fds)\<rparr>"
    have "w' = (if pf_revents ?fds \<noteq> 0 then sem_post (pf_sem (w_pollfds w3 p)) ?w4 else ?w4)"
      using assms True 3 by (auto simp: dev_poll_setup_def Let_def split_beta split: if_splits)
    moreover have "frame D R F w ?w4"
      by (rule frame_trans [OF frame_trans [OF 1 2] frame_trans [OF poll_state_frame [OF 3] store_pollfd_frame]])
    ultimately show ?thesis
      using frame_trans [OF _ sem_post_frame] by auto
  qed
qed

lemma px4_poll_setup_frame: "px4_poll_setup sem ps b r w = Some (b', ret, w') \<Longrightarrow> frame D R F w w'"
proof (induction sem ps b r w rule: px4_poll_setup.induct)
  case (2 sem p ps b r w)
  let ?w1 = "w\<lparr>w_pollfds := (w_pollfds w)(p := (w_pollfds w p)\<lparr>pf_sem := sem, pf_revents := 0, pf_filp := None\<rparr>)\<rparr>"
  have 1: "frame D R F w ?w1"
    by (rule store_pollfd_frame)
  show ?case
  proof (cases "get_vdev (pf_fd (w_pollfds ?w1 p)) ?w1")
    case None
    then have "frame D R F ?w1 w'"
      using 2 by simp
    then show ?thesis
      by (rule frame_trans [OF 1])
  next
    case (Some d)
    then obtain r2 w2 where s: "dev_poll_setup d (filp_of (pf_fd (w_pollfds ?w1 p)) ?w1) p ?w1 = Some (r2, w2)"
      using 2(3) by (auto simp: bind_eq_Some_conv Let_def)
    have 3: "frame D R F w w2"
      by (rule frame_trans [OF 1 dev_poll_setup_frame [OF s]])
    show ?thesis
    proof (cases "r2 < 0")
      case True
      then show ?thesis
        using 2(3) Some s 3 by (simp add: Let_def)
    next
      case False
      then have "frame D R F w2 w'"
        using 2(2) [OF refl Some s refl] 2(3) Some s by (simp add: Let_def)
      then show ?thesis
        by (rule frame_trans [OF 3])
    qed
  qed
qed (simp add: frame_refl)

lemma dev_poll_teardown_frame: "dev_poll_teardown d p w = (ret, w') \<Longrightarrow> frame D R F w w'"
  by (auto simp: dev_poll_teardown_def Let_def split_beta intro: frame_upd_vdev)

lemma px4_poll_teardown_frame: "px4_poll_teardown ps c r w = (ret, w') \<Longrightarrow> frame D R F w w'"
proof (induction ps c r w rule: px4_poll_teardown.induct)
  case (2 p ps c r w)
  show ?case
  proof (cases "get_vdev (pf_fd (w_pollfds w p)) w")
    case None
    then show ?thesis
      using 2(1,3) by simp
  next
    case (Some d)
    obtain r1 w1 where t: "dev_poll_teardown d p w = (r1, w1)"
      by fastforce
    note 1 = dev_poll_teardown_frame [OF t]
    show ?thesis
    proof (cases "r1 < 0")
      case True
      then show ?thesis
        using 2(3) Some t 1 by (auto split: if_splits)
    next
      case False
      then have "frame D R F w1 w'"
        using 2(2) [OF Some t [symmetric] refl] 2(3) Some t by simp
      then show ?thesis
        by (rule frame_trans [OF 1])
    qed
  qed
qed (auto simp: frame_refl)

text \<open>Operations of the manager.\<close>

lemma frame_no_files: "frame D R {} w w' \<Longrightarrow> frame D R F w w'"
  by (rule frame_mono) auto

text \<open>The first slot that is free afterwards is not one of the files that were open before.\<close>

lemma px4_open_fd:
  assumes "px4_open pid path flags w = (fd, w')" "0 \<le> fd"
  obtains d w1 w3 where "find_or_create path flags w = (Some d, w1)"
    "first_free (w_files w1) = Some (nat fd)" "w_files w1 = w_files w" "w_objs w1 = w_objs w"
    "dev_open pid d (length (w_objs w)) (open_slot (nat fd) flags d w1) = (0, w') \<or>
     (\<exists>r > 0. dev_open pid d (length (w_objs w)) (open_slot (nat fd) flags d w1) = (r, w'))"
  using assms(1)
proof (cases rule: px4_open_cases)
  case (opened d w1 i ret w3)
  have "w_files w1 = w_files w" "w_objs w1 = w_objs w"
    using opened(1) by (auto simp: find_or_create_def createFile_def Let_def split: option.splits if_splits)
  then show ?thesis
    using opened that assms(2) by (auto split: if_splits) (metis antisym_conv2 linorder_not_less)
qed (use assms(2) in auto)

lemma open_keeps_slots:
  "dev_open pid d f w = (ret, w') \<Longrightarrow> w_files w' = w_files w"
  by (auto simp: dev_open_def node_open_def vdev_open_def add_internal_subscriber_def Let_def split_beta
      split: device.splits if_splits)

lemma px4_open_new:
  assumes "px4_open pid path flags w = (fd, w')" "0 \<le> fd"
  shows "w_files w' ! nat fd = Some (length (w_objs w))" "nat fd < length (w_files w)"
    "length (w_files w') = length (w_files w)"
proof -
  obtain d w1 r where 1: "first_free (w_files w1) = Some (nat fd)" "w_files w1 = w_files w"
      "w_objs w1 = w_objs w" "dev_open pid d (length (w_objs w)) (open_slot (nat fd) flags d w1) = (r, w')"
    using px4_open_fd [OF assms] by metis
  have "nat fd < length (w_files w)"
    using first_index_bound [OF 1(1)] 1(2) by simp
  then show "w_files w' ! nat fd = Some (length (w_objs w))" "nat fd < length (w_files w)"
      "length (w_files w') = length (w_files w)"
    using open_keeps_slots [OF 1(4)] 1(2,3) by simp_all
qed

lemma frame_slot:
  assumes "frame D R F w w'" "w_files w ! i = Some f" "i < length (w_files w)" "f \<notin> F"
  shows "w_files w' ! i = Some f" "length (w_files w') = length (w_files w)"
  using assms by (auto simp: frame_def frame_files_def)

text \<open>Closing files that were not open before is no change for those that were.\<close>

lemma frame_new_files:
  assumes "frame D R F w w'" "world_ok w" "\<And>f. f \<in> F \<Longrightarrow> length (w_objs w) \<le> f"
  shows "frame D R {} w w'"
proof -
  have old: "f \<notin> F" if "f < length (w_objs w)" for f
    using assms(3) [of f] that by auto
  have sub: "f < length (w_objs w)" if "get_sub w f = Some sd" for f sd
    using that by (simp add: get_sub_def split: if_splits)
  have slot: "f < length (w_objs w)" if "w_files w ! i = Some f" "i < length (w_files w)" for i f
    using that assms(2) by (simp add: world_ok_def slots_ok_def)
  have "frame_subs R {} w w'"
    using assms(1) old sub unfolding frame_def frame_subs_def by blast
  moreover have "frame_files {} w w'"
    using assms(1) old slot unfolding frame_def frame_files_def by blast
  ultimately show ?thesis
    using assms(1) by (simp add: frame_def)
qed

lemma px4_open_close_frame:
  assumes "px4_open pid path flags w = (fd, w1)" "0 \<le> fd" "world_ok w" "frame D R {} w1 w2"
    and "px4_close pid' fd w2 = Some (r, w3)"
  shows "frame D R {} w w3"
proof -
  have 1: "frame D R {length (w_objs w)} w w1"
    by (rule px4_open_frame [OF assms(1,3)])
  have 2: "frame D R {length (w_objs w)} w1 w2"
    by (rule frame_no_files [OF assms(4)])
  note slot1 = px4_open_new [OF assms(1,2)]
  have "w_files w2 ! nat fd = Some (length (w_objs w))"
    by (rule frame_slot(1) [OF assms(4) slot1(1)]) (use slot1 in auto)
  then have "filp_of fd w2 = length (w_objs w)"
    by (simp add: filp_of_def)
  then have 3: "frame D R {length (w_objs w)} w2 w3"
    using px4_close_frame [OF assms(5)] frame_ok [OF 2 frame_ok [OF 1 assms(3)]] by metis
  show ?thesis
    by (rule frame_new_files [OF frame_trans [OF frame_trans [OF 1 2] 3] assms(3)]) simp
qed

lemma node_advertise_frame:
  assumes "node_advertise pid m inst prio w = Some (ret, inst', w')" "world_ok w"
  shows "frame D R {} w w'"
proof -
  obtain fd w1 where o: "px4_open pid TOPIC_MASTER_DEVICE_PATH 0 w = (fd, w1)"
    by fastforce
  show ?thesis
  proof (cases "fd < 0")
    case True
    then show ?thesis
      using assms(1) o px4_open_frame [OF o assms(2)] by (auto simp: node_advertise_def)
  next
    case False
    then obtain r2 out w2 r3 where i: "px4_ioctl fd (Orb_advertise m inst prio) w1 = Some (r2, out, w2)"
        "px4_close pid fd w2 = Some (r3, w')"
      using assms(1) o by (auto simp: node_advertise_def bind_eq_Some_conv)
    have "frame D R {} w1 w2"
      by (rule px4_ioctl_frame [OF i(1)]) simp
    then show ?thesis
      using px4_open_close_frame [OF o _ assms(2) _ i(2)] False by auto
  qed
qed

lemma advertise_and_open_frame:
  assumes "advertise_and_open pid f m path flags inst prio w = Some (fd, inst', w')" "world_ok w"
  shows "frame D R {} w w'"
proof -
  obtain ret i1 w1 where 1: "node_advertise pid m inst prio w = Some (ret, i1, w1)"
    using assms(1) by (auto simp: advertise_and_open_def bind_eq_Some_conv)
  have f1: "frame D R {} w w1"
    by (rule node_advertise_frame [OF 1 assms(2)])
  have ok: "world_ok w1"
    by (rule frame_ok [OF f1 assms(2)])
  show ?thesis
  proof (cases "ret = 0 \<and> fst (node_mkpath f (o_name m) (instance_index i1)) = 0")
    case True
    obtain fd2 w2 where o: "px4_open pid (snd (node_mkpath f (o_name m) (instance_index i1))) flags w1 = (fd2, w2)"
      by fastforce
    have "frame D R {} w w2"
      by (rule frame_trans [OF f1 px4_open_frame [OF o ok]])
    moreover have "w' = w2 \<or> w' = set_errno EIO w2"
      using assms(1) 1 True o by (auto simp: advertise_and_open_def Let_def split_beta split: if_splits)
    ultimately show ?thesis
      using frame_trans [OF _ set_errno_frame] by auto
  next
    case False
    then have "\<exists>e. w' = set_errno e w1"
      using assms(1) 1 by (auto simp: advertise_and_open_def Let_def split_beta split: if_splits)
    then show ?thesis
      using frame_trans [OF f1 set_errno_frame] by auto
  qed
qed

lemma orb_node_open_frame:
  assumes "orb_node_open pid f mo data adv inst prio w = Some (fd, inst', w')" "world_ok w"
  shows "frame D R {} w w'"
proof (cases "mo = None \<or> adv \<and> data = None \<or> (\<exists>m. mo = Some m \<and>
    fst (node_mkpath f (o_name m) (instance_index inst)) \<noteq> 0)")
  case True
  then have "\<exists>e. w' = set_errno e w"
    using assms(1) unfolding orb_node_open_def Let_def
    by (cases mo) (auto simp: split_beta split: if_split_asm)
  then show ?thesis
    using set_errno_frame by auto
next
  case False
  then obtain m where m: "mo = Some m" "fst (node_mkpath f (o_name m) (instance_index inst)) = 0"
    by auto
  let ?path = "snd (node_mkpath f (o_name m) (instance_index inst))"
  let ?flags = "if adv then PX4_F_WRONLY else PX4_F_RDONLY"
  obtain fd1 w1 where o: "px4_open pid ?path ?flags w = (fd1, w1)"
    by fastforce
  have f1: "frame D R {} w w1"
    by (rule px4_open_frame [OF o assms(2)])
  show ?thesis
  proof (cases "fd1 \<ge> 0 \<and> inst \<noteq> None \<and> adv")
    case True
    then obtain r w2 where 2: "px4_close pid fd1 w1 = Some (r, w2)"
        "advertise_and_open pid f m ?path ?flags inst prio w2 = Some (fd, inst', w')"
      using assms(1) m o False by (auto simp: orb_node_open_def Let_def split_beta bind_eq_Some_conv)
    have f2: "frame D R {} w w2"
      using px4_open_close_frame [OF o _ assms(2) frame_refl 2(1)] True by auto
    show ?thesis
      by (rule frame_trans [OF f2 advertise_and_open_frame [OF 2(2) frame_ok [OF f2 assms(2)]]])
  next
    case open_failed: False
    show ?thesis
    proof (cases "fd1 < 0")
      case True
      then have "advertise_and_open pid f m ?path ?flags inst prio w1 = Some (fd, inst', w')"
        using assms(1) m o False open_failed by (auto simp: orb_node_open_def Let_def split_beta)
      then show ?thesis
        using frame_trans [OF f1 advertise_and_open_frame [OF _ frame_ok [OF f1 assms(2)]]] by blast
    next
      case fine: False
      then have "w' = w1"
        using assms(1) m o False open_failed by (auto simp: orb_node_open_def Let_def split_beta)
      then show ?thesis
        using f1 by simp
    qed
  qed
qed

section \<open>Sequences of operations\<close>

datatype orb_op =
    Publish orb_metadata "nat option" "u8 list"
  | Copy orb_metadata int bool
  | Check int
  | Set_interval int u32
  | Stat int
  | Tick u64
  | Timer nat
  | Subscribe u64 orb_metadata "int option"
  | Unsubscribe u64 int
  | Poll_begin nat "nat list"
  | Poll_end "nat list"
  | Remote_subscription string

text \<open>The clock only moves forward.\<close>

definition tick :: "u64 \<Rightarrow> orb_world \<Rightarrow> orb_world" where
  "tick t w = w\<lparr>w_now := max (w_now w) t\<rparr>"

fun orb_step :: "orb_op \<Rightarrow> orb_world \<Rightarrow> orb_world option" where
  "orb_step (Publish m h data) w = map_option snd (orb_publish m h data w)"
| "orb_step (Copy m fd b) w = map_option (snd \<circ> snd) (orb_copy m fd b w)"
| "orb_step (Check fd) w = map_option (snd \<circ> snd) (orb_check fd w)"
| "orb_step (Set_interval fd i) w = map_option (snd \<circ> snd) (orb_set_interval fd i w)"
| "orb_step (Stat fd) w = map_option (snd \<circ> snd) (orb_stat fd w)"
| "orb_step (Tick t) w = Some (tick t w)"
| "orb_step (Timer f) w = timer_fire f w"
| "orb_step (Subscribe pid m inst) w = map_option snd (orb_subscribe_multi pid m inst w)"
| "orb_step (Unsubscribe pid fd) w = map_option snd (orb_unsubscribe pid fd w)"
| "orb_step (Poll_begin s ps) w = map_option (snd \<circ> snd) (px4_poll_setup s ps False (-1) w)"
| "orb_step (Poll_end ps) w = Some (snd (px4_poll_teardown ps 0 0 w))"
| "orb_step (Remote_subscription name) w = map_option snd (process_add_subscription name w)"

fun orb_run :: "orb_op list \<Rightarrow> orb_world \<Rightarrow> orb_world option" where
  "orb_run [] w = Some w"
| "orb_run (op # ops) w = do { w' \<leftarrow> orb_step op w; orb_run ops w' }"

definition touched :: "int \<Rightarrow> orb_world \<Rightarrow> nat set" where
  "touched fd w = (if get_vdev fd w = None then {} else {filp_of fd w})"

fun op_writes :: "orb_op \<Rightarrow> nat set" where
  "op_writes (Publish m h data) = set_option h"
| "op_writes _ = {}"

fun op_reads :: "orb_op \<Rightarrow> orb_world \<Rightarrow> nat set" where
  "op_reads (Copy m fd b) w = touched fd w"
| "op_reads (Set_interval fd i) w = touched fd w"
| "op_reads _ w = {}"

fun op_closes :: "orb_op \<Rightarrow> orb_world \<Rightarrow> nat set" where
  "op_closes (Unsubscribe pid fd) w = touched fd w"
| "op_closes _ w = {}"

lemma node_publish_frame:
  assumes "node_publish m h data w = Some (ret, w')"
  shows "frame (set_option h) R F w w'"
proof (cases h)
  case None
  then show ?thesis
    using assms set_errno_frame by (auto simp: node_publish_def)
next
  case (Some d)
  obtain n where n: "topic_at w d = Some n"
    using assms Some by (auto simp: node_publish_def bind_eq_Some_conv)
  show ?thesis
  proof (cases "meta n = m")
    case False
    then show ?thesis
      using assms Some n set_errno_frame by (auto simp: node_publish_def)
  next
    case True
    then obtain r w1 where w1: "node_write d data (o_size m) w = Some (r, w1)"
      using assms Some n by (auto simp: node_publish_def bind_eq_Some_conv)
    have "frame (set_option h) R F w w1"
      by (rule node_write_frame [OF w1]) (simp add: Some)
    moreover have "w' = w1 \<or> w' = set_errno EIO w1 \<or> w' = snd (channel_call (Send_message (o_name m) (o_size m) data) w1)"
      using assms Some n True w1 by (auto simp: node_publish_def Let_def split_beta split: if_splits)
    ultimately show ?thesis
      using frame_trans [OF _ set_errno_frame] frame_trans [OF _ channel_call_frame] by auto
  qed
qed

lemma orb_copy_frame:
  assumes "orb_copy m fd b w = Some (ret, bytes, w')"
  shows "frame D (touched fd w) F w w'"
proof -
  obtain r bs w1 where 1: "px4_read fd b (o_size m) w = Some (r, bs, w1)"
    using assms by (auto simp: orb_copy_def bind_eq_Some_conv)
  have "frame D (touched fd w) F w w1"
  proof (cases "get_vdev fd w")
    case None
    then show ?thesis
      using 1 set_px4_errno_frame by (auto simp: px4_read_def EINVAL_def)
  next
    case (Some d)
    then show ?thesis
      using px4_read_frame [OF 1] by (simp add: touched_def)
  qed
  moreover have "w' = w1 \<or> w' = set_errno EIO w1"
    using assms 1 by (auto simp: orb_copy_def split: if_splits)
  ultimately show ?thesis
    using frame_trans [OF _ set_errno_frame] by auto
qed

lemma px4_ioctl_touched:
  assumes "px4_ioctl fd cmd w = Some (ret, out, w')"
  shows "frame D (touched fd w) F w w'"
proof (cases "get_vdev fd w")
  case None
  then show ?thesis
    using assms set_px4_errno_frame by (auto simp: px4_ioctl_def EINVAL_def)
next
  case (Some d)
  then show ?thesis
    using px4_ioctl_frame [OF assms, of "touched fd w"] by (simp add: touched_def)
qed

lemma px4_close_touched:
  assumes "px4_close pid fd w = Some (ret, w')" "world_ok w"
  shows "frame D R (touched fd w) w w'"
proof (cases "get_vdev fd w")
  case None
  then show ?thesis
    using assms set_px4_errno_frame by (auto simp: px4_close_def)
next
  case (Some d)
  then show ?thesis
    using px4_close_frame [OF assms] by (simp add: touched_def)
qed

lemma tick_frame: "frame D R F w (tick t w)"
  by (auto simp: tick_def frame_def frame_nodes_def frame_subs_def frame_files_def sub_step_def
      sub_same_def world_ok_def slots_ok_def names_ok_def topic_at_def get_sub_def)

lemma process_add_frame:
  assumes "process_add_subscription name w = Some (ret, w')"
  shows "frame D R F w w'"
proof -
  have 1: "frame D R F w (w\<lparr>w_remote := X\<rparr>)" for X
    by (rule frame_same) simp_all
  have "w' = w\<lparr>w_remote := insert name (w_remote w)\<rparr> \<or>
      (\<exists>c. w' = snd (channel_call c (w\<lparr>w_remote := insert name (w_remote w)\<rparr>)))"
    using assms
    by (auto simp: process_add_subscription_def node_add_subscription_def Let_def split_beta
        bind_eq_Some_conv split: if_splits option.splits)
  then show ?thesis
    using frame_trans [OF 1 channel_call_frame] 1 by auto
qed

lemma orb_step_frame:
  assumes "orb_step op w = Some w'" "world_ok w"
  shows "frame (op_writes op) (op_reads op w) (op_closes op w) w w'"
proof (cases op)
  case (Publish m h data)
  then show ?thesis
    using assms(1) node_publish_frame by (auto simp: orb_publish_def)
next
  case (Copy m fd b)
  then show ?thesis
    using assms(1) orb_copy_frame by auto
next
  case (Check fd)
  then show ?thesis
    using assms(1) by (auto simp: orb_check_def bind_eq_Some_conv intro!: px4_ioctl_frame)
next
  case (Set_interval fd i)
  then show ?thesis
    using assms(1) px4_ioctl_touched by (auto simp: orb_set_interval_def)
next
  case (Stat fd)
  then show ?thesis
    using assms(1) by (auto simp: orb_stat_def intro!: px4_ioctl_frame)
next
  case (Tick t)
  then show ?thesis
    using assms(1) tick_frame by auto
next
  case (Timer f)
  then show ?thesis
    using assms(1) timer_fire_frame by auto
next
  case (Subscribe pid m inst)
  then show ?thesis
    using assms by (auto simp: orb_subscribe_multi_def bind_eq_Some_conv intro!: orb_node_open_frame)
next
  case (Unsubscribe pid fd)
  then show ?thesis
    using assms px4_close_touched by (auto simp: orb_unsubscribe_def)
next
  case (Poll_begin s ps)
  then show ?thesis
    using assms(1) px4_poll_setup_frame by auto
next
  case (Poll_end ps)
  then show ?thesis
    using assms(1) px4_poll_teardown_frame by (metis op_closes.simps op_reads.simps op_writes.simps
        option.inject orb_step.simps(11) prod.collapse)
next
  case (Remote_subscription name)
  then show ?thesis
    using assms(1) process_add_frame by auto
qed

section \<open>What a run leaves alone\<close>

text \<open>A descriptor that is open throughout a run: the run never closes it.\<close>

fun op_fd :: "orb_op \<Rightarrow> int option" where
  "op_fd (Copy m fd b) = Some fd"
| "op_fd (Set_interval fd i) = Some fd"
| "op_fd (Unsubscribe pid fd) = Some fd"
| "op_fd _ = None"

fun op_closed_fd :: "orb_op \<Rightarrow> int option" where
  "op_closed_fd (Unsubscribe pid fd) = Some fd"
| "op_closed_fd _ = None"

lemma touched_other:
  assumes "world_ok w" "get_vdev fd w = Some d" "fd' \<noteq> fd"
  shows "filp_of fd w \<notin> touched fd' w"
proof
  assume "filp_of fd w \<in> touched fd' w"
  then obtain d' where d': "get_vdev fd' w = Some d'" "filp_of fd' w = filp_of fd w"
    by (auto simp: touched_def split: if_splits)
  have "nat fd = nat fd'"
    using get_vdev_ok(3) [OF assms(2,1)] get_vdev_ok(3) [OF d'(1) assms(1)] d'(2) by simp
  then show False
    using get_vdev_SomeD(1) [OF assms(2)] get_vdev_SomeD(1) [OF d'(1)] assms(3) by simp
qed

lemma frame_get_vdev:
  assumes "frame D R F w w'" "world_ok w" "get_vdev fd w = Some d" "filp_of fd w \<notin> F"
  shows "get_vdev fd w' = Some d" "filp_of fd w' = filp_of fd w"
proof -
  note fd = get_vdev_SomeD [OF assms(3)] get_vdev_ok [OF assms(3,2)]
  have len: "nat fd < length (w_files w)"
    using fd(2) assms(2) by (simp add: world_ok_def slots_ok_def)
  have slot: "w_files w' ! nat fd = Some (filp_of fd w)"
    by (rule frame_slot(1) [OF assms(1) fd(3) len assms(4)])
  then show f: "filp_of fd w' = filp_of fd w"
    by (simp add: filp_of_def)
  have "f_dev (w_objs w' ! filp_of fd w) = d"
    using assms(1) fd(4,6) by (simp add: frame_def frame_files_def)
  then show "get_vdev fd w' = Some d"
    using fd(1,2) slot by (simp add: get_vdev_def)
qed

lemma op_closes_fd:
  assumes "world_ok w" "get_vdev fd w = Some d" "op_closed_fd op \<noteq> Some fd"
  shows "filp_of fd w \<notin> op_closes op w"
  using touched_other [OF assms(1,2)] assms(3) by (cases op) auto

lemma op_reads_fd:
  assumes "world_ok w" "get_vdev fd w = Some d" "op_fd op \<noteq> Some fd"
  shows "filp_of fd w \<notin> op_reads op w"
  using touched_other [OF assms(1,2)] assms(3) by (cases op) auto

lemma orb_step_ok: "orb_step op w = Some w' \<Longrightarrow> world_ok w \<Longrightarrow> world_ok w'"
  using orb_step_frame frame_ok by blast

lemma orb_run_ok: "orb_run ops w = Some w' \<Longrightarrow> world_ok w \<Longrightarrow> world_ok w'"
  by (induction ops arbitrary: w) (auto simp: bind_eq_Some_conv dest: orb_step_ok)

text \<open>The descriptor still leads to its device, and the pending timer is only cleared when due.\<close>

lemma orb_run_fd:
  assumes "orb_run ops w = Some w'" "world_ok w" "get_vdev fd w = Some d"
    and "\<forall>op \<in> set ops. op_closed_fd op \<noteq> Some fd" "get_sub w (filp_of fd w) = Some sd"
  shows "get_vdev fd w' = Some d \<and> filp_of fd w' = filp_of fd w \<and> w_now w \<le> w_now w' \<and>
    (\<exists>sd'. get_sub w' (filp_of fd w) = Some sd' \<and> sub_step (w_now w') sd sd' \<and>
      ((\<forall>op \<in> set ops. op_fd op \<noteq> Some fd) \<longrightarrow> sub_same sd sd'))"
  using assms
proof (induction ops arbitrary: w sd)
  case Nil
  then show ?case by (auto simp: sub_step_def sub_same_def)
next
  case (Cons op ops)
  obtain w1 where s: "orb_step op w = Some w1" "orb_run ops w1 = Some w'"
    using Cons.prems(1) by (auto simp: bind_eq_Some_conv)
  note f = orb_step_frame [OF s(1) Cons.prems(2)]
  have ok1: "world_ok w1"
    by (rule frame_ok [OF f Cons.prems(2)])
  have nc: "filp_of fd w \<notin> op_closes op w"
    by (rule op_closes_fd [OF Cons.prems(2,3)]) (use Cons.prems(4) in simp)
  note v = frame_get_vdev [OF f Cons.prems(2,3) nc]
  obtain sd1 where sd1: "get_sub w1 (filp_of fd w) = Some sd1" "sub_step (w_now w1) sd sd1"
      "filp_of fd w \<notin> op_reads op w \<longrightarrow> sub_same sd sd1"
    using f nc Cons.prems(5) unfolding frame_def frame_subs_def by blast
  have IH: "get_vdev fd w' = Some d \<and> filp_of fd w' = filp_of fd w1 \<and> w_now w1 \<le> w_now w' \<and>
      (\<exists>sd'. get_sub w' (filp_of fd w1) = Some sd' \<and> sub_step (w_now w') sd1 sd' \<and>
        ((\<forall>op \<in> set ops. op_fd op \<noteq> Some fd) \<longrightarrow> sub_same sd1 sd'))"
    using Cons.IH [OF s(2) ok1 v(1)] Cons.prems(4) sd1(1) v(2) by simp
  then obtain sd' where sd': "get_sub w' (filp_of fd w) = Some sd'" "sub_step (w_now w') sd1 sd'"
      "(\<forall>op \<in> set ops. op_fd op \<noteq> Some fd) \<longrightarrow> sub_same sd1 sd'"
    using v(2) by auto
  have now: "w_now w1 \<le> w_now w'"
    using IH by simp
  have "sub_same sd sd'" if "\<forall>op' \<in> set (op # ops). op_fd op' \<noteq> Some fd"
    using that sd1(3) sd'(3) op_reads_fd [OF Cons.prems(2,3)] by (auto simp: sub_same_def)
  moreover have "w_now w \<le> w_now w1"
    using f by (simp add: frame_def)
  ultimately show ?case
    using IH v(2) now sd'(1) sub_step_trans [OF sd1(2) sd'(2) now] by auto
qed

section \<open>The data of a topic\<close>

fun op_data :: "nat \<Rightarrow> orb_metadata \<Rightarrow> orb_op \<Rightarrow> u8 list option" where
  "op_data d m (Publish m' h data) = (if h = Some d \<and> m' = m then Some (take (o_size m) data) else None)"
| "op_data d m _ = None"

text \<open>The data published on one topic in a run, in order.\<close>

definition publications :: "nat \<Rightarrow> orb_metadata \<Rightarrow> orb_op list \<Rightarrow> u8 list list" where
  "publications d m ops = List.map_filter (op_data d m) ops"

lemma node_write_core:
  assumes "node_write d data (o_size (meta n)) w = Some (ret, w')" "topic_at w d = Some n"
  shows "\<exists>n'. topic_at w' d = Some n' \<and> meta n' = meta n \<and>
    node_core n' = (Some (take (o_size (meta n)) data), w_now w, generation n + 1, True)"
  using assms
proof (cases rule: node_write_cases)
  case (2 w2 n3)
  have d: "d < length (w_devs w)"
    using assms(2) by (simp add: topic_at_def split: if_splits)
  let ?s = "store_node (w_now w) data (alloc_node w n)"
  have "topic_at (set_dev d (Topic ?s) (set_dev d (Topic (alloc_node w n)) w)) d = Some ?s"
    using d by (simp add: topic_at_set_dev)
  then obtain n' where n': "topic_at w2 d = Some n'" "meta n' = meta ?s" "node_core n' = node_core ?s"
    using poll_notify_frame [OF 2(3), of "{}" "{}" "{}"] unfolding frame_def frame_nodes_def by blast
  have "d < length (w_devs w2)"
    using 2(4) by (simp add: topic_at_def split: if_splits)
  then show ?thesis
    using 2(4,6) n' by (auto simp: topic_at_set_dev node_core_def)
qed simp

lemma topic_at_cong: "w_devs w' = w_devs w \<Longrightarrow> topic_at w' d = topic_at w d"
  by (simp add: topic_at_def)

lemma orb_step_data:
  assumes "orb_step op w = Some w'" "world_ok w" "topic_at w d = Some n"
  shows "\<exists>n'. topic_at w' d = Some n' \<and> meta n' = meta n \<and>
    (case op_data d (meta n) op of
       None \<Rightarrow> node_data n' = node_data n \<and> generation n' = generation n
     | Some x \<Rightarrow> node_data n' = Some x \<and> generation n' = generation n + 1)"
proof (cases "op_data d (meta n) op")
  case (Some x)
  then obtain data where op: "op = Publish (meta n) (Some d) data" "x = take (o_size (meta n)) data"
    by (cases op) (auto split: if_splits)
  then obtain ret where p: "node_publish (meta n) (Some d) data w = Some (ret, w')"
    using assms(1) by (auto simp: orb_publish_def)
  then obtain r w1 where w1: "node_write d data (o_size (meta n)) w = Some (r, w1)"
    using assms(3) by (auto simp: node_publish_def bind_eq_Some_conv)
  let ?c = "channel_call (Send_message (o_name (meta n)) (o_size (meta n)) data) w1"
  have "w' \<in> {w1, set_errno EIO w1, snd ?c}"
    using p assms(3) w1 by (simp add: node_publish_def Let_def split_beta split: if_splits)
  then have "w_devs w' = w_devs w1"
    by (auto simp: set_errno_def)
  then have "topic_at w' d = topic_at w1 d"
    by (rule topic_at_cong)
  then show ?thesis
    using node_write_core [OF w1 assms(3)] Some op(2) by (auto simp: node_core_def)
next
  case None
  note f = orb_step_frame [OF assms(1,2)]
  obtain n' where n': "topic_at w' d = Some n'" "meta n' = meta n"
      "d \<notin> op_writes op \<longrightarrow> node_core n' = node_core n"
    using f assms(3) unfolding frame_def frame_nodes_def by blast
  show ?thesis
  proof (cases "d \<in> op_writes op")
    case False
    then show ?thesis
      using n' None by (auto simp: node_core_def)
  next
    case True
    then obtain m data where op: "op = Publish m (Some d) data" "m \<noteq> meta n"
      using None by (cases op) (auto split: if_splits)
    then have "w_devs w' = w_devs w"
      using assms(1,3) by (auto simp: orb_publish_def node_publish_def set_errno_def)
    then have "topic_at w' d = Some n"
      using assms(3) topic_at_cong [of w' w d] by simp
    then show ?thesis
      using None by simp
  qed
qed

lemma orb_run_data:
  assumes "orb_run ops w = Some w'" "world_ok w" "topic_at w d = Some n"
  shows "\<exists>n'. topic_at w' d = Some n' \<and> meta n' = meta n \<and>
    node_data n' = (if publications d (meta n) ops = [] then node_data n
      else Some (last (publications d (meta n) ops))) \<and>
    generation n' = generation n + of_nat (length (publications d (meta n) ops))"
  using assms
proof (induction ops arbitrary: w n)
  case Nil
  then show ?case by (simp add: publications_def List.map_filter_def)
next
  case (Cons op ops)
  obtain w1 where s: "orb_step op w = Some w1" "orb_run ops w1 = Some w'"
    using Cons.prems(1) by (auto simp: bind_eq_Some_conv)
  obtain n1 where n1: "topic_at w1 d = Some n1" "meta n1 = meta n"
      "case op_data d (meta n) op of
         None \<Rightarrow> node_data n1 = node_data n \<and> generation n1 = generation n
       | Some x \<Rightarrow> node_data n1 = Some x \<and> generation n1 = generation n + 1"
    using orb_step_data [OF s(1) Cons.prems(2,3)] by blast
  have p: "publications d (meta n) (op # ops)
      = (case op_data d (meta n) op of None \<Rightarrow> [] | Some x \<Rightarrow> [x]) @ publications d (meta n) ops"
    by (simp add: publications_def List.map_filter_def split: option.splits)
  show ?case
    using Cons.IH [OF s(2) orb_step_ok [OF s(1) Cons.prems(2)] n1(1)] n1(2,3) unfolding p
    by (auto split: option.splits)
qed

end
