(* ===== verification/UOrbProps.thy ===== *)
theory UOrbProps
  imports UOrbRun
begin

text \<open>
  The promises of the object request broker to its clients, as properties of runs: a subscriber
  reads what was published last, is told of new data exactly when there is some, not more often
  than its interval; an advertiser gets the first instance that is free; and what a refused
  open costs.
\<close>

section \<open>Reading and checking\<close>

lemma topic_dev: "topic_at w d = Some n \<Longrightarrow> w_devs w ! d = Topic n"
  by (auto simp: topic_at_def split: if_splits device.splits)

lemma orb_copy_fd:
  assumes "get_vdev fd w = Some d" "topic_at w d = Some n" "get_sub w (filp_of fd w) = Some sd"
    and "node_data n = Some bytes"
  shows "orb_copy (meta n) fd b w = Some (0, if b then Some bytes else None,
    set_priv (filp_of fd w) (Sub (sd\<lparr>sd_generation := generation n, sd_priority := priority n,
      update_reported := False\<rparr>)) w)"
  using assms topic_dev [OF assms(2)] by (simp add: orb_copy_def px4_read_def node_read_def)

lemma orb_check_fd:
  assumes "get_vdev fd w = Some d" "topic_at w d = Some n" "get_sub w (filp_of fd w) = Some sd"
  shows "orb_check fd w = Some (0, fst (appears_updated (w_now w) n sd),
    set_priv (filp_of fd w) (Sub (snd (appears_updated (w_now w) n sd))) w)"
  using assms topic_dev [OF assms(2)]
  by (simp add: orb_check_def px4_ioctl_def node_ioctl_def check_sub_def split_beta)

lemma get_vdev_set_priv [simp]:
  "get_vdev fd (set_priv f p w) = get_vdev fd w" "filp_of fd (set_priv f p w) = filp_of fd w"
proof -
  have "f_dev ((w_objs w)[f := (w_objs w ! f)\<lparr>f_priv := p\<rparr>] ! g) = f_dev (w_objs w ! g)" for g
    by (cases "g = f"; cases "f < length (w_objs w)") (simp_all add: list_update_beyond)
  then show "get_vdev fd (set_priv f p w) = get_vdev fd w"
    by (simp add: get_vdev_def set_priv_def)
qed (simp add: filp_of_def)

lemma get_sub_bound: "get_sub w f = Some sd \<Longrightarrow> f < length (w_objs w)"
  by (simp add: get_sub_def split: if_splits)

section \<open>Advertising\<close>

text \<open>A path can be claimed when it has no device, or a topic on which nothing was published yet.\<close>

definition claimable :: "orb_world \<Rightarrow> string \<Rightarrow> bool" where
  "claimable w path \<longleftrightarrow> getDev path (w_devmap w) = None \<or>
     (case w_nodes w path of None \<Rightarrow> False
      | Some e \<Rightarrow> (case topic_at w e of None \<Rightarrow> False | Some n \<Rightarrow> \<not> published n))"

lemma try_node_result:
  assumes "devmap_ok (w_devmap w)" "dev_room (w_devmap w)"
  shows "fst (try_node m path prio w) = (if claimable w path then 0 else - EEXIST)"
    and "\<not> claimable w path \<Longrightarrow> snd (try_node m path prio w) = w"
    and "claimable w path \<Longrightarrow> getDev path (w_devmap (snd (try_node m path prio w))) \<noteq> None"
proof -
  let ?d = "length (w_devs w)"
  obtain r v dm where i: "vdev_init ?d (node_vdev (new_node m path prio)) (w_devmap w) = (r, v, dm)"
    by (metis prod_cases3)
  note reg = vdev_init_cases [OF i [unfolded new_node_def, simplified]]
  have "fst (try_node m path prio w) = (if claimable w path then 0 else - EEXIST) \<and>
    (\<not> claimable w path \<longrightarrow> snd (try_node m path prio w) = w) \<and>
    (claimable w path \<longrightarrow> getDev path (w_devmap (snd (try_node m path prio w))) \<noteq> None)"
  proof (cases "getDev path (w_devmap w) = None")
    case True
    have "r = 0" "getDev path dm = Some ?d"
      using register_driver_free(1,3) [OF assms(1) True, where d = ?d] assms(2) reg
      by (simp_all add: dev_room_def)
    then show ?thesis
      using True i by (simp add: try_node_def claimable_def)
  next
    case False
    then have r: "r = - EEXIST" "dm = w_devmap w"
      using register_driver_refused [OF assms(1), of path ?d] False reg by auto
    then have v: "vdev_delete v dm = w_devmap w"
      using reg by (simp add: EEXIST_def)
    show ?thesis
      using False i r v
      by (auto simp: try_node_def claimable_def EEXIST_def topic_at_def split: option.splits)
  qed
  then show "fst (try_node m path prio w) = (if claimable w path then 0 else - EEXIST)"
    and "\<not> claimable w path \<Longrightarrow> snd (try_node m path prio w) = w"
    and "claimable w path \<Longrightarrow> getDev path (w_devmap (snd (try_node m path prio w))) \<noteq> None"
    by blast+
qed

lemma advertise_loop_first:
  assumes "devmap_ok (w_devmap w)" "dev_room (w_devmap w)"
  shows "advertise_loop n k m (base @ [c]) (Some i) prio r w =
    (case first_index (\<lambda>j. claimable w (base @ [digit j])) [k..<k + n] of
       None \<Rightarrow> (if n = 0 then r else - EEXIST, Some (if n = 0 then i else int (k + n - 1)), w)
     | Some j \<Rightarrow> (0, Some (int (k + j)), snd (try_node m (base @ [digit (k + j)]) prio w)))"
proof (induction n arbitrary: k c i r)
  case (Suc n)
  have up: "[k..<k + Suc n] = k # [Suc k..<Suc k + n]"
    by (simp add: upt_rec del: upt_Suc)
  let ?t = "try_node m (base @ [digit k]) prio w"
  show ?case
  proof (cases "claimable w (base @ [digit k])")
    case True
    then show ?thesis
      unfolding up using try_node_result(1) [OF assms, where path = "base @ [digit k]"]
      by (simp add: Let_def split_beta del: upt_Suc)
  next
    case False
    then have "?t = (- EEXIST, w)"
      using try_node_result(1,2) [OF assms, where path = "base @ [digit k]"] by (simp add: prod_eq_iff)
    then show ?thesis
      unfolding up using False Suc.IH [of "Suc k" "digit k" "int k" "- EEXIST"]
      by (auto simp: EEXIST_def simp del: upt_Suc split: option.splits)
  qed
qed simp

section \<open>Refused opens\<close>

definition open_writer :: "u64 \<Rightarrow> string \<Rightarrow> orb_world \<Rightarrow> orb_world" where
  "open_writer pid path w = snd (px4_open pid path PX4_F_WRONLY w)"

text \<open>A topic whose publisher is set refuses writers.\<close>

definition busy_topic :: "orb_world \<Rightarrow> string \<Rightarrow> bool" where
  "busy_topic w path \<longleftrightarrow> (case getDev path (w_devmap w) of None \<Rightarrow> False
     | Some d \<Rightarrow> (case topic_at w d of None \<Rightarrow> False | Some n \<Rightarrow> publisher n \<noteq> 0))"

lemma open_busy:
  assumes "busy_topic w path" "taken (w_files w) < length (w_files w)"
  shows "fst (px4_open pid path PX4_F_WRONLY w) = -1" "w_px4_errno (open_writer pid path w) = EBUSY"
    "busy_topic (open_writer pid path w) path"
    "taken (w_files (open_writer pid path w)) = Suc (taken (w_files w))"
    "length (w_files (open_writer pid path w)) = length (w_files w)"
proof -
  obtain d n where d: "getDev path (w_devmap w) = Some d" "topic_at w d = Some n" "publisher n \<noteq> 0"
    using assms(1) by (auto simp: busy_topic_def split: option.splits)
  obtain i where i: "first_free (w_files w) = Some i"
    using assms(2) first_free_full [of "w_files w"] by fastforce
  note slot = first_index_SomeD [OF i]
  let ?w = "open_slot i PX4_F_WRONLY d w"
  have p: "px4_open pid path PX4_F_WRONLY w = (-1, ?w\<lparr>w_px4_errno := EBUSY\<rparr>)"
    using d i topic_dev [OF d(2)]
    by (simp add: px4_open_def find_or_create_def open_slot_def [symmetric] dev_open_def node_open_def
        EBUSY_def Let_def)
  show "fst (px4_open pid path PX4_F_WRONLY w) = -1" "w_px4_errno (open_writer pid path w) = EBUSY"
    "taken (w_files (open_writer pid path w)) = Suc (taken (w_files w))"
    "length (w_files (open_writer pid path w)) = length (w_files w)"
    using slot by (simp_all add: p open_writer_def taken_fill)
  show "busy_topic (open_writer pid path w) path"
    using d by (simp add: p open_writer_def busy_topic_def open_slot_def topic_at_def split: if_splits)
qed

lemma open_busy_many:
  "busy_topic w path \<Longrightarrow> taken (w_files w) + k \<le> length (w_files w) \<Longrightarrow>
   let w' = (open_writer pid path ^^ k) w
   in busy_topic w' path \<and> taken (w_files w') = taken (w_files w) + k \<and> length (w_files w') = length (w_files w)"
proof (induction k)
  case (Suc k)
  then show ?case
    using open_busy(3-5) [of "(open_writer pid path ^^ k) w" path] by (simp add: Let_def)
qed simp

lemma px4_open_full:
  assumes "taken (w_files w) = length (w_files w)"
  shows "fst (px4_open pid path flags w) = -1"
proof -
  obtain fd w' where o: "px4_open pid path flags w = (fd, w')"
    by fastforce
  then show ?thesis
  proof (cases rule: px4_open_cases)
    case (opened d w1 i ret w3)
    have "w_files w1 = w_files w"
      using opened(1) by (auto simp: find_or_create_def createFile_def Let_def split: option.splits if_splits)
    then have "first_free (w_files w1) = None"
      using assms by (simp add: first_free_full)
    then show ?thesis
      using opened(2) by simp
  qed (simp_all add: o)
qed

section \<open>Reachable worlds\<close>

lemma orb_advertise_multi_ok:
  assumes "orb_advertise_multi pid m data inst prio w = Some (h, inst', w')" "world_ok w"
  shows "world_ok w'"
proof -
  obtain fd i1 w1 where 1: "orb_node_open pid PUBSUB (Some m) (Some data) True inst prio w = Some (fd, i1, w1)"
    using assms(1) by (auto simp: orb_advertise_multi_def bind_eq_Some_conv)
  have ok1: "world_ok w1"
    by (rule frame_ok [OF orb_node_open_frame [OF 1 assms(2)] assms(2)])
  show ?thesis
  proof (cases "fd = -1")
    case True
    then show ?thesis
      using assms(1) 1 ok1 by (auto simp: orb_advertise_multi_def)
  next
    case False
    then obtain r out w2 r2 w3 where 2: "px4_ioctl fd Orb_gadvertiser w1 = Some (r, out, w2)"
        "px4_close pid fd w2 = Some (r2, w3)"
      using assms(1) 1 by (auto simp: orb_advertise_multi_def bind_eq_Some_conv)
    have ok2: "world_ok w2"
      by (rule frame_ok [OF px4_ioctl_frame [OF 2(1), of "{}"] ok1]) simp
    have ok3: "world_ok w3"
      by (rule frame_ok [OF px4_close_frame [OF 2(2) ok2] ok2])
    have "w' = w3 \<or> (\<exists>d r3. orb_publish m (Some d) data w3 = Some (r3, w'))"
      using assms(1) 1 2 False
      by (auto simp: orb_advertise_multi_def bind_eq_Some_conv split: if_splits orb_out.splits)
    then show ?thesis
      using ok3 frame_ok [OF node_publish_frame] unfolding orb_publish_def by blast
  qed
qed

text \<open>The worlds that the broker can get into: the start, operations of clients and advertising.\<close>

inductive orb_reachable :: "orb_world \<Rightarrow> bool" where
  reach_start: "orb_reachable (snd (uorb_start empty_world))"
| reach_step: "orb_reachable w \<Longrightarrow> orb_step op w = Some w' \<Longrightarrow> orb_reachable w'"
| reach_advertise: "orb_reachable w \<Longrightarrow>
    orb_advertise_multi pid m data inst prio w = Some (h, inst', w') \<Longrightarrow> orb_reachable w'"

lemma world_ok_start: "world_ok (snd (uorb_start empty_world))"
proof -
  have ok: "world_ok empty_world"
    by (simp add: world_ok_def slots_ok_def names_ok_def empty_world_def empty_devmap_ok)
       (simp add: empty_devmap_def)
  obtain ret v dm where i: "vdev_init 0 (new_vdev (Some TOPIC_MASTER_DEVICE_PATH)) empty_devmap = (ret, v, dm)"
    by (metis prod_cases3)
  note reg = vdev_init_cases [OF i]
  show ?thesis
  proof (cases "ret = 0")
    case True
    have "frame {} {} {} empty_world (snd (uorb_start empty_world))"
      by (rule frame_append [of _ _ "Master v" TOPIC_MASTER_DEVICE_PATH ret])
         (use i reg True in \<open>simp_all add: uorb_start_def empty_world_def\<close>)
    then show ?thesis
      using frame_ok ok by blast
  next
    case False
    then have "snd (uorb_start empty_world) = empty_world"
      using i reg register_driver_failed [OF conjunct1 [OF reg] False] by (simp add: uorb_start_def empty_world_def)
    then show ?thesis
      using ok by simp
  qed
qed

lemma orb_reachable_ok: "orb_reachable w \<Longrightarrow> world_ok w"
  by (induction rule: orb_reachable.induct)
    (auto intro: world_ok_start orb_step_ok orb_advertise_multi_ok)

section \<open>What clients are promised\<close>

text \<open>A world with one topic that has been published and one descriptor subscribed to it.\<close>

definition temperature :: orb_metadata where
  "temperature = \<lparr>o_name = ''t'', o_size = 2\<rparr>"

definition advertised_world :: orb_world where
  "advertised_world = snd (snd (the (orb_advertise_multi 7 temperature [1, 2] None 75 (snd (uorb_start empty_world)))))"

definition subscribed_world :: orb_world where
  "subscribed_world = snd (the (orb_subscribe_multi 8 temperature None advertised_world))"

lemma demo_advertise: "orb_advertise_multi 7 temperature [1, 2] None 75 (snd (uorb_start empty_world)) \<noteq> None"
  by code_simp

lemma demo_subscribe: "orb_subscribe_multi 8 temperature None advertised_world \<noteq> None"
  by code_simp

lemma demo_view:
  "get_vdev 0 subscribed_world = Some 1"
  "map_option meta (topic_at subscribed_world 1) = Some temperature"
  "map_option (\<lambda>n. node_data n = None) (topic_at subscribed_world 1) = Some False"
  "map_option update_interval (get_sub subscribed_world (filp_of 0 subscribed_world)) = Some 0"
  by code_simp+

lemma demo_ok: "world_ok subscribed_world"
proof -
  obtain h i w where 1: "orb_advertise_multi 7 temperature [1, 2] None 75 (snd (uorb_start empty_world)) = Some (h, i, w)"
    using demo_advertise by auto
  then have w: "advertised_world = w"
    by (simp add: advertised_world_def)
  obtain fd w' where 2: "orb_subscribe_multi 8 temperature None advertised_world = Some (fd, w')"
    using demo_subscribe by auto
  then have "orb_step (Subscribe 8 temperature None) w = Some subscribed_world"
    by (simp add: subscribed_world_def w)
  then show ?thesis
    using orb_step_ok orb_advertise_multi_ok [OF 1 world_ok_start] by blast
qed

text \<open>C6: A subscriber whose descriptor stays open reads, after any run of the operations of any
  number of clients in which its topic was published at least once, exactly the data published
  last, and after the read its check for updates reports none.\<close>

theorem orb_copy_latest:
  assumes "world_ok w" "get_vdev fd w = Some d" "topic_at w d = Some n"
    and "get_sub w (filp_of fd w) = Some sd" "orb_run ops w = Some w'"
    and "\<forall>op \<in> set ops. op_closed_fd op \<noteq> Some fd" "publications d (meta n) ops \<noteq> []"
  shows "map_option (\<lambda>(r, bytes, w2). (r, bytes, map_option (fst \<circ> snd) (orb_check fd w2)))
      (orb_copy (meta n) fd True w') =
    Some (0, Some (last (publications d (meta n) ops)), Some False)"
proof -
  note fd = orb_run_fd [OF assms(5,1,2,6,4)]
  then obtain sd' where sd': "get_sub w' (filp_of fd w') = Some sd'"
    by auto
  obtain n' where n': "topic_at w' d = Some n'" "meta n' = meta n"
      "node_data n' = Some (last (publications d (meta n) ops))"
    using orb_run_data [OF assms(5,1,3)] assms(7) by auto
  let ?sd = "sd'\<lparr>sd_generation := generation n', sd_priority := priority n', update_reported := False\<rparr>"
  let ?w = "set_priv (filp_of fd w') (Sub ?sd) w'"
  have c: "orb_copy (meta n) fd True w' = Some (0, Some (last (publications d (meta n) ops)), ?w)"
    using orb_copy_fd [OF _ n'(1) sd' n'(3)] fd n'(2) by simp
  have "orb_check fd ?w = Some (0, False, set_priv (filp_of fd ?w) (Sub ?sd) ?w)"
    using orb_check_fd [of fd ?w d n' ?sd] fd n' get_sub_bound [OF sd']
    by (simp add: get_sub_set_priv appears_updated_def)
  then show ?thesis
    by (simp add: c)
qed

lemma orb_copy_latest_witness:
  "map_option (\<lambda>(r, bytes, w2). (r, bytes, map_option (fst \<circ> snd) (orb_check 0 w2)))
     (orb_copy temperature 0 True (the (orb_run [Publish temperature (Some 1) [3, 4],
        Subscribe 9 temperature None, Publish temperature (Some 1) [5, 6]] subscribed_world))) =
   Some (0, Some [5, 6], Some False)"
proof -
  let ?ops = "[Publish temperature (Some 1) [3, 4], Subscribe 9 temperature None,
    Publish temperature (Some 1) [5, 6]]"
  obtain n sd where n: "topic_at subscribed_world 1 = Some n" "meta n = temperature"
      "get_sub subscribed_world (filp_of 0 subscribed_world) = Some sd"
    using demo_view(2-4) by auto
  have "orb_run ?ops subscribed_world \<noteq> None"
    by code_simp
  then have "orb_run ?ops subscribed_world = Some (the (orb_run ?ops subscribed_world))"
    by simp
  moreover have "publications 1 temperature ?ops = [[3, 4], [5, 6]]"
    by code_simp
  ultimately show ?thesis
    using orb_copy_latest [OF demo_ok demo_view(1) n(1,3), of ?ops] n(2) by simp
qed

lemma closed_fd_used: "op_closed_fd op = Some fd \<Longrightarrow> op_fd op = Some fd"
  by (cases op) auto

text \<open>A subscriber without an interval that reads its topic and then waits is told of new data
  exactly when the number of publications since is not a multiple of 2 to the power of 32, the
  range of the generation counter.\<close>

theorem orb_check_counts:
  assumes "world_ok w" "get_vdev fd w = Some d" "topic_at w d = Some n"
    and "get_sub w (filp_of fd w) = Some sd" "update_interval sd = 0" "node_data n \<noteq> None"
    and "orb_copy (meta n) fd b w = Some (r, bytes, w1)"
    and "orb_run ops w1 = Some w2" "\<forall>op \<in> set ops. op_fd op \<noteq> Some fd"
  shows "map_option (fst \<circ> snd) (orb_check fd w2) =
    Some (\<not> 2 ^ 32 dvd length (publications d (meta n) ops))"
proof -
  obtain bs where bs: "node_data n = Some bs"
    using assms(6) by auto
  let ?sd = "sd\<lparr>sd_generation := generation n, sd_priority := priority n, update_reported := False\<rparr>"
  have w1: "w1 = set_priv (filp_of fd w) (Sub ?sd) w"
    using assms(7) orb_copy_fd [OF assms(2,3,4) bs] by simp
  have "orb_step (Copy (meta n) fd b) w = Some w1"
    using assms(7) by simp
  then have ok: "world_ok w1"
    using orb_step_ok assms(1) by blast
  have v: "get_vdev fd w1 = Some d" "topic_at w1 d = Some n" "get_sub w1 (filp_of fd w1) = Some ?sd"
    using assms(2,3) get_sub_bound [OF assms(4)] by (simp_all add: w1 get_sub_set_priv)
  have nc: "\<forall>op \<in> set ops. op_closed_fd op \<noteq> Some fd"
    using assms(9) closed_fd_used by blast
  note fd = orb_run_fd [OF assms(8) ok v(1) nc v(3)]
  then obtain sd2 where sd2: "get_sub w2 (filp_of fd w2) = Some sd2" "sub_same ?sd sd2"
    using assms(9) by auto
  obtain n2 where n2: "topic_at w2 d = Some n2" "node_data n2 \<noteq> None"
      "generation n2 = generation n + of_nat (length (publications d (meta n) ops))"
    using orb_run_data [OF assms(8) ok v(2)] bs by (auto split: if_splits)
  have "fst (appears_updated (w_now w2) n2 sd2) \<longleftrightarrow>
      (of_nat (length (publications d (meta n) ops)) :: u32) \<noteq> 0"
    using sd2(2) n2(2,3) assms(5) by (simp add: appears_updated_def sub_same_def)
  then show ?thesis
    using orb_check_fd [OF _ n2(1) sd2(1)] fd by (simp add: word_of_nat_eq_0_iff)
qed

lemma orb_check_counts_witness:
  "map_option (fst \<circ> snd) (orb_check 0 (the (orb_run [Publish temperature (Some 1) [3, 4], Stat 0]
     (snd (snd (the (orb_copy temperature 0 True subscribed_world))))))) = Some True"
proof -
  let ?ops = "[Publish temperature (Some 1) [3, 4], Stat 0]"
  let ?c = "orb_copy temperature 0 True subscribed_world"
  obtain n sd where n: "topic_at subscribed_world 1 = Some n" "meta n = temperature"
      "node_data n \<noteq> None" "get_sub subscribed_world (filp_of 0 subscribed_world) = Some sd"
      "update_interval sd = 0"
    using demo_view(2-4) by auto
  have "?c \<noteq> None" "orb_run ?ops (snd (snd (the ?c))) \<noteq> None"
    by code_simp+
  then obtain r bytes w1 w2 where run: "?c = Some (r, bytes, w1)" "orb_run ?ops w1 = Some w2"
    by auto
  have one: "length (publications 1 temperature ?ops) = 1"
    by code_simp
  have "orb_copy (meta n) 0 True subscribed_world = Some (r, bytes, w1)"
    using run(1) n(2) by simp
  then have "map_option (fst \<circ> snd) (orb_check 0 w2) =
      Some (\<not> 2 ^ 32 dvd length (publications 1 (meta n) ?ops))"
    by (rule orb_check_counts [OF demo_ok demo_view(1) n(1,4,5,3) _ run(2)]) simp
  moreover have "orb_run ?ops (snd (snd (the ?c))) = Some w2"
    using run by simp
  ultimately show ?thesis
    unfolding n(2) one by (simp del: orb_run.simps)
qed

lemma unat_u32_u64: "unat (ucast (x :: u32) :: u64) = unat x"
  using unsigned_less [of x, where ?'a = nat] by (simp add: unsigned_ucast_eq take_bit_nat_eq_self)

text \<open>C15: A subscriber with an interval is told of new data at most once in an interval: two checks
  that both report an update, each after the previous update was read, are at least the
  interval apart, whatever is published, read or polled in between.\<close>

theorem orb_rate_limit:
  assumes "world_ok w" "get_vdev fd w = Some d" "topic_at w d = Some n"
    and "get_sub w (filp_of fd w) = Some sd" "\<not> update_reported sd" "update_interval sd \<noteq> 0"
    and "unat (w_now w) + unat (update_interval sd) < 2 ^ 64"
    and "orb_check fd w = Some (r, True, w1)"
    and "orb_run ops w1 = Some w2" "\<forall>op \<in> set ops. op_closed_fd op \<noteq> Some fd"
    and "get_sub w2 (filp_of fd w2) = Some sd2" "\<not> update_reported sd2" "update_interval sd2 \<noteq> 0"
    and "orb_check fd w2 = Some (r', True, w3)"
  shows "unat (w_now w) + unat (update_interval sd) \<le> unat (w_now w2)"
proof -
  let ?t = "w_now w + ucast (update_interval sd)"
  let ?sd = "sd\<lparr>call_deadline := ?t, update_reported := True\<rparr>"
  have t: "unat ?t = unat (w_now w) + unat (update_interval sd)"
    using assms(7) by (simp add: unat_word_ariths unat_u32_u64)
  have "appears_updated (w_now w) n sd = (True, ?sd)"
    using orb_check_fd [OF assms(2,3,4)] assms(5,6,8)
    by (auto simp: appears_updated_def split: if_splits)
  then have w1: "w1 = set_priv (filp_of fd w) (Sub ?sd) w"
    using orb_check_fd [OF assms(2,3,4)] assms(8) by simp
  have "orb_step (Check fd) w = Some w1"
    using assms(8) by simp
  then have ok: "world_ok w1"
    using orb_step_ok assms(1) by blast
  have v: "get_vdev fd w1 = Some d" "topic_at w1 d = Some n" "get_sub w1 (filp_of fd w1) = Some ?sd"
    using assms(2,3) get_sub_bound [OF assms(4)] by (simp_all add: w1 get_sub_set_priv)
  note fd = orb_run_fd [OF assms(9) ok v(1) assms(10) v(3)]
  then have step: "sub_step (w_now w2) ?sd sd2"
    using assms(11) by auto
  obtain n2 where n2: "topic_at w2 d = Some n2"
    using orb_run_data [OF assms(9) ok v(2)] by blast
  have "fst (appears_updated (w_now w2) n2 sd2)"
    using orb_check_fd [OF _ n2 assms(11)] fd assms(14) by simp
  then have "call_deadline sd2 = 0"
    using assms(12,13) by (auto simp: appears_updated_def split: if_splits)
  moreover have "?t \<noteq> 0"
    using t assms(6) by (metis add_is_0 unat_0 unat_eq_0)
  ultimately have "?t \<le> w_now w2"
    using step by (simp add: sub_step_def)
  then show ?thesis
    using t by (simp add: word_le_nat_alt)
qed

text \<open>The world above after its subscriber asked for an interval of 3 milliseconds, and new data.\<close>

definition limited_world :: orb_world where
  "limited_world = the (orb_run [Set_interval 0 3, Publish temperature (Some 1) [3, 4]] subscribed_world)"

definition second_report :: "orb_op list" where
  "second_report = [Copy temperature 0 True, Tick 5000, Timer 2, Publish temperature (Some 1) [5, 6]]"

lemma limited_ok: "world_ok limited_world"
proof -
  have "orb_run [Set_interval 0 3, Publish temperature (Some 1) [3, 4]] subscribed_world \<noteq> None"
    by code_simp
  then have "orb_run [Set_interval 0 3, Publish temperature (Some 1) [3, 4]] subscribed_world = Some limited_world"
    by (auto simp: limited_world_def)
  then show ?thesis
    using orb_run_ok demo_ok by blast
qed

lemma limited_view:
  "get_vdev 0 limited_world = Some 1" "topic_at limited_world 1 \<noteq> None"
  "map_option (\<lambda>sd. (update_reported sd, update_interval sd)) (get_sub limited_world (filp_of 0 limited_world))
     = Some (False, 3000)"
  "w_now limited_world = 0"
  "map_option (fst \<circ> snd) (orb_check 0 limited_world) = Some True"
  by code_simp+

lemma second_view:
  "orb_run second_report (snd (snd (the (orb_check 0 limited_world)))) \<noteq> None"
  "(let w2 = the (orb_run second_report (snd (snd (the (orb_check 0 limited_world)))))
    in map_option (\<lambda>sd. (update_reported sd, update_interval sd)) (get_sub w2 (filp_of 0 w2)) = Some (False, 3000) \<and>
       map_option (fst \<circ> snd) (orb_check 0 w2) = Some True)"
  by code_simp+

lemma orb_rate_limit_witness:
  "3000 \<le> unat (w_now (the (orb_run second_report (snd (snd (the (orb_check 0 limited_world)))))))"
proof -
  obtain n where n: "topic_at limited_world 1 = Some n"
    using limited_view(2) by auto
  obtain sd where sd: "get_sub limited_world (filp_of 0 limited_world) = Some sd"
      "\<not> update_reported sd" "update_interval sd = 3000"
    using limited_view(3) by auto
  obtain r w1 where 1: "orb_check 0 limited_world = Some (r, True, w1)"
    using limited_view(5) by auto
  obtain w2 where 2: "orb_run second_report w1 = Some w2"
    using second_view(1) 1 by auto
  obtain sd2 where sd2: "get_sub w2 (filp_of 0 w2) = Some sd2" "\<not> update_reported sd2"
      "update_interval sd2 = 3000"
    using second_view(2) 1 2 by auto
  obtain r' w3 where 3: "orb_check 0 w2 = Some (r', True, w3)"
    using second_view(2) 1 2 by auto
  have "unat (w_now limited_world) + unat (update_interval sd) \<le> unat (w_now w2)"
    by (rule orb_rate_limit [OF limited_ok limited_view(1) n sd(1,2) _ _ 1 2 _ sd2(1,2) _ 3])
      (use sd(3) sd2(3) limited_view(4) in \<open>simp_all add: second_report_def\<close>)
  then show ?thesis
    using 1 2 sd(3) limited_view(4) by simp
qed

lemma multi_path:
  assumes "length (o_name m) \<le> 57"
  shows "node_mkpath PUBSUB (o_name m) 0 = (0, (''/obj/'' @ o_name m) @ [digit 0])"
proof -
  have "show_int 0 = [digit 0]"
    by code_simp
  then show ?thesis
    using assms by (simp add: node_mkpath_def orb_maxpath_def)
qed

text \<open>C30: Advertising with an instance pointer takes the first of the four instances of the topic
  that has no node or a node nobody has published on, and reports its number; when all four are
  in use it fails, reports the last one, and changes nothing.\<close>

theorem orb_multi_instance:
  assumes "world_ok w" "dev_room (w_devmap w)" "length (o_name m) \<le> 57"
  shows "master_advertise m (Some i) prio w =
    (case first_index (\<lambda>j. claimable w ((''/obj/'' @ o_name m) @ [digit j])) [0..<4] of
       None \<Rightarrow> (- EEXIST, Some 3, w)
     | Some j \<Rightarrow> (0, Some (int j), snd (try_node m ((''/obj/'' @ o_name m) @ [digit j]) prio w)))"
proof -
  have ok: "devmap_ok (w_devmap w)"
    using assms(1) by (simp add: world_ok_def names_ok_def)
  have "master_advertise m (Some i) prio w =
      advertise_loop 4 0 m ((''/obj/'' @ o_name m) @ [digit 0]) (Some 0) prio (-1) w"
    using multi_path [OF assms(3)]
    by (simp add: master_advertise_def instance_index_def ORB_MULTI_MAX_INSTANCES_def
        del: advertise_loop.simps append_assoc append.simps)
  also have "\<dots> = (case first_index (\<lambda>j. claimable w ((''/obj/'' @ o_name m) @ [digit j])) [0..<0 + 4] of
       None \<Rightarrow> (if (4::nat) = 0 then - 1 else - EEXIST, Some (if (4::nat) = 0 then 0 else int (0 + 4 - 1)), w)
     | Some j \<Rightarrow> (0, Some (int (0 + j)), snd (try_node m ((''/obj/'' @ o_name m) @ [digit (0 + j)]) prio w)))"
    by (rule advertise_loop_first [OF ok assms(2)])
  finally show ?thesis
    by (simp cong: option.case_cong del: append_assoc append.simps upt.simps upt_conv_Cons)
qed

lemma orb_multi_instance_witness:
  "fst (snd (master_advertise temperature (Some 0) 75 subscribed_world)) = Some 1"
proof -
  have "dev_room (w_devmap subscribed_world)" "length (o_name temperature) \<le> 57"
    "first_index (\<lambda>j. claimable subscribed_world ((''/obj/'' @ o_name temperature) @ [digit j])) [0..<4] = Some 1"
    by code_simp+
  then show ?thesis
    using orb_multi_instance [OF demo_ok, of temperature 0 75] by simp
qed

text \<open>Every open for writing of a topic that has a publisher fails and leaves its slot of the
  descriptor table taken, so that after as many refused attempts as there were free slots no
  open of anything succeeds any more.\<close>

theorem orb_refused_open_leaks_slot:
  assumes "world_ok w" "busy_topic w path" "k = PX4_MAX_FD - taken (w_files w)"
  shows "fst (px4_open pid' path' flags ((open_writer pid path ^^ k) w)) = -1"
proof -
  have len: "length (w_files w) = PX4_MAX_FD"
    using assms(1) by (simp add: world_ok_def slots_ok_def)
  have "taken (w_files w) \<le> length (w_files w)"
    by (rule taken_le)
  then have "taken (w_files w) + k \<le> length (w_files w)" "taken (w_files w) + k = length (w_files w)"
    using assms(3) len by simp_all
  then show ?thesis
    using open_busy_many [OF assms(2), of k pid] px4_open_full by (simp add: Let_def)
qed

text \<open>A topic held open by a writer, and one attempt after another to open it.\<close>

definition held_world :: orb_world where
  "held_world = open_writer 7 ''/obj/t0'' subscribed_world"

lemma held_ok: "world_ok held_world"
proof -
  obtain fd w' where "px4_open 7 ''/obj/t0'' PX4_F_WRONLY subscribed_world = (fd, w')"
    by fastforce
  then show ?thesis
    using frame_ok [OF px4_open_frame demo_ok] demo_ok by (simp add: held_world_def open_writer_def)
qed

lemma orb_refused_open_leaks_slot_witness:
  "fst (px4_open 9 ''/obj/t0'' PX4_F_RDONLY ((open_writer 8 ''/obj/t0'' ^^ 198) held_world)) = -1"
proof -
  have "busy_topic held_world ''/obj/t0''" "198 = PX4_MAX_FD - taken (w_files held_world)"
    by code_simp+
  then show ?thesis
    by (rule orb_refused_open_leaks_slot [OF held_ok])
qed



end
