(* ===== verification/PosixFiles.thy ===== *)
theory PosixFiles
  imports VDev
begin

text \<open>
  The calls of the C library on files that the flight code uses, as POSIX describes them: paths,
  inodes, descriptors with a position, and \<open>errno\<close>.  Each call takes the next entry of a script
  of outcomes, by which a call can fail with any error number or move fewer bytes than asked;
  without an entry it does what was asked.  Paths are compared as they are written.  Inodes are
  never reused, so their position in a list stands for their identity.
\<close>

section \<open>State\<close>

type_synonym path = "u8 list"

datatype dirent_type = DT_REG | DT_DIR | DT_OTHER

datatype inode = Regular "u8 list" bool | Directory "(path \<times> dirent_type) list" | Special

record open_file =
  of_inode :: nat
  of_pos :: nat
  of_reads :: bool
  of_writes :: bool

datatype outcome = Fails int | Short nat | Done

record os =
  os_inodes :: "inode list"
  os_names :: "(path \<times> nat) list"
  os_fds :: "open_file option list"
  os_errno :: int
  os_script :: "outcome list"

record file_stat =
  st_size :: nat
  st_reg :: bool
  st_writable :: bool

definition EACCES :: int where "EACCES = 13"
definition EISDIR :: int where "EISDIR = 21"
definition ENOTDIR :: int where "ENOTDIR = 20"
definition EROFS :: int where "EROFS = 30"
definition ENOTEMPTY :: int where "ENOTEMPTY = 39"

definition O_RDONLY :: u32 where "O_RDONLY = 0"
definition O_WRONLY :: u32 where "O_WRONLY = 1"
definition O_CREAT :: u32 where "O_CREAT = 0x40"
definition O_EXCL :: u32 where "O_EXCL = 0x80"
definition O_TRUNC :: u32 where "O_TRUNC = 0x200"

lemmas open_flags = O_RDONLY_def O_WRONLY_def O_CREAT_def O_EXCL_def O_TRUNC_def

section \<open>Names\<close>

definition lookup_name :: "path \<Rightarrow> os \<Rightarrow> nat option" where
  "lookup_name path w = map_of (os_names w) path"

definition slash :: u8 where "slash = 47"

definition parent_of :: "path \<Rightarrow> path" where
  "parent_of path = rev (drop 1 (dropWhile (\<lambda>c. c \<noteq> slash) (rev path)))"

definition base_of :: "path \<Rightarrow> path" where
  "base_of path = rev (takeWhile (\<lambda>c. c \<noteq> slash) (rev path))"

definition set_inode :: "nat \<Rightarrow> inode \<Rightarrow> os \<Rightarrow> os" where
  "set_inode i x w = w\<lparr>os_inodes := (os_inodes w)[i := x]\<rparr>"

definition upd_dir :: "((path \<times> dirent_type) list \<Rightarrow> (path \<times> dirent_type) list) \<Rightarrow> path \<Rightarrow> os \<Rightarrow> os option" where
  "upd_dir f path w =
     (case lookup_name path w of
        None \<Rightarrow> None
      | Some i \<Rightarrow> (case os_inodes w ! i of
            Directory es \<Rightarrow> Some (set_inode i (Directory (f es)) w) | _ \<Rightarrow> None))"

text \<open>A new name in an existing directory, and the removal of a name.\<close>

definition link_name :: "path \<Rightarrow> nat \<Rightarrow> dirent_type \<Rightarrow> os \<Rightarrow> os option" where
  "link_name path i ty w =
     map_option (\<lambda>w'. w'\<lparr>os_names := (path, i) # os_names w'\<rparr>)
       (upd_dir (\<lambda>es. es @ [(base_of path, ty)]) (parent_of path) w)"

definition unlink_name :: "path \<Rightarrow> os \<Rightarrow> os" where
  "unlink_name path w =
     (let w1 = w\<lparr>os_names := filter (\<lambda>(p, i). p \<noteq> path) (os_names w)\<rparr>
      in case upd_dir (filter (\<lambda>(n, ty). n \<noteq> base_of path)) (parent_of path) w1 of
           None \<Rightarrow> w1 | Some w2 \<Rightarrow> w2)"

definition create_inode :: "path \<Rightarrow> inode \<Rightarrow> dirent_type \<Rightarrow> os \<Rightarrow> (nat \<times> os) option" where
  "create_inode path x ty w =
     map_option (Pair (length (os_inodes w)))
       (link_name path (length (os_inodes w)) ty (w\<lparr>os_inodes := os_inodes w @ [x]\<rparr>))"

section \<open>Calls\<close>

definition io_next :: "os \<Rightarrow> outcome \<times> os" where
  "io_next w = (case os_script w of [] \<Rightarrow> (Done, w) | x # xs \<Rightarrow> (x, w\<lparr>os_script := xs\<rparr>))"

definition os_fail :: "int \<Rightarrow> os \<Rightarrow> int \<times> os" where
  "os_fail e w = (-1, w\<lparr>os_errno := e\<rparr>)"

definition moved :: "outcome \<Rightarrow> nat \<Rightarrow> nat" where
  "moved x n = (case x of Short k \<Rightarrow> min k n | _ \<Rightarrow> n)"

definition sys_stat :: "path \<Rightarrow> os \<Rightarrow> file_stat option \<times> os" where
  "sys_stat path w =
     (let (x, w1) = io_next w
      in case x of
           Fails e \<Rightarrow> (None, w1\<lparr>os_errno := e\<rparr>)
         | _ \<Rightarrow> (case lookup_name path w1 of
               None \<Rightarrow> (None, w1\<lparr>os_errno := ENOENT\<rparr>)
             | Some i \<Rightarrow> (Some (case os_inodes w1 ! i of
                     Regular bs wr \<Rightarrow> \<lparr>st_size = length bs, st_reg = True, st_writable = wr\<rparr>
                   | _ \<Rightarrow> \<lparr>st_size = 0, st_reg = False, st_writable = True\<rparr>), w1)))"

definition new_fd :: "nat \<Rightarrow> u32 \<Rightarrow> os \<Rightarrow> int \<times> os" where
  "new_fd i flags w =
     (let writes = (flags AND O_WRONLY \<noteq> 0);
          x = Some \<lparr>of_inode = i, of_pos = 0, of_reads = \<not> writes, of_writes = writes\<rparr>
      in case first_free (os_fds w) of
           Some k \<Rightarrow> (int k, w\<lparr>os_fds := (os_fds w)[k := x]\<rparr>)
         | None \<Rightarrow> (int (length (os_fds w)), w\<lparr>os_fds := os_fds w @ [x]\<rparr>))"

definition sys_open :: "path \<Rightarrow> u32 \<Rightarrow> os \<Rightarrow> int \<times> os" where
  "sys_open path flags w =
     (let (x, w1) = io_next w
      in case x of
           Fails e \<Rightarrow> os_fail e w1
         | _ \<Rightarrow> (case lookup_name path w1 of
               None \<Rightarrow>
                 if flags AND O_CREAT = 0 then os_fail ENOENT w1
                 else (case create_inode path (Regular [] True) DT_REG w1 of
                     None \<Rightarrow> os_fail ENOENT w1
                   | Some (i, w2) \<Rightarrow> new_fd i flags w2)
             | Some i \<Rightarrow>
                 if flags AND O_CREAT \<noteq> 0 \<and> flags AND O_EXCL \<noteq> 0 then os_fail EEXIST w1
                 else (case os_inodes w1 ! i of
                     Regular bs wr \<Rightarrow>
                       if flags AND O_WRONLY \<noteq> 0 \<and> \<not> wr then os_fail EACCES w1
                       else new_fd i flags (if flags AND O_TRUNC \<noteq> 0 then set_inode i (Regular [] wr) w1 else w1)
                   | _ \<Rightarrow> if flags AND O_WRONLY \<noteq> 0 then os_fail EISDIR w1 else new_fd i flags w1)))"

definition get_open :: "int \<Rightarrow> os \<Rightarrow> open_file option" where
  "get_open fd w = (if 0 \<le> fd \<and> nat fd < length (os_fds w) then os_fds w ! nat fd else None)"

definition set_pos :: "int \<Rightarrow> open_file \<Rightarrow> nat \<Rightarrow> os \<Rightarrow> os" where
  "set_pos fd f pos w = w\<lparr>os_fds := (os_fds w)[nat fd := Some (f\<lparr>of_pos := pos\<rparr>)]\<rparr>"

definition sys_close :: "int \<Rightarrow> os \<Rightarrow> os" where
  "sys_close fd w =
     (case get_open fd w of
        None \<Rightarrow> w\<lparr>os_errno := EBADF\<rparr>
      | Some f \<Rightarrow> w\<lparr>os_fds := (os_fds w)[nat fd := None]\<rparr>)"

definition sys_lseek :: "int \<Rightarrow> nat \<Rightarrow> os \<Rightarrow> int \<times> os" where
  "sys_lseek fd off w =
     (let (x, w1) = io_next w
      in case x of
           Fails e \<Rightarrow> os_fail e w1
         | _ \<Rightarrow> (case get_open fd w1 of
               None \<Rightarrow> os_fail EBADF w1
             | Some f \<Rightarrow> (int off, set_pos fd f off w1)))"

definition sys_read :: "int \<Rightarrow> nat \<Rightarrow> os \<Rightarrow> int \<times> u8 list \<times> os" where
  "sys_read fd n w =
     (let (x, w1) = io_next w
      in case x of
           Fails e \<Rightarrow> (-1, [], w1\<lparr>os_errno := e\<rparr>)
         | _ \<Rightarrow> (case get_open fd w1 of
               None \<Rightarrow> (-1, [], w1\<lparr>os_errno := EBADF\<rparr>)
             | Some f \<Rightarrow>
                 if \<not> of_reads f then (-1, [], w1\<lparr>os_errno := EBADF\<rparr>)
                 else (case os_inodes w1 ! of_inode f of
                     Regular bs wr \<Rightarrow>
                       (let got = take (moved x n) (drop (of_pos f) bs)
                        in (int (length got), got, set_pos fd f (of_pos f + length got) w1))
                   | _ \<Rightarrow> (-1, [], w1\<lparr>os_errno := EISDIR\<rparr>))))"

definition splice_bytes :: "u8 list \<Rightarrow> nat \<Rightarrow> u8 list \<Rightarrow> u8 list" where
  "splice_bytes f off bs = take off (f @ replicate (off - length f) 0) @ bs @ drop (off + length bs) f"

definition sys_write :: "int \<Rightarrow> u8 list \<Rightarrow> os \<Rightarrow> int \<times> os" where
  "sys_write fd data w =
     (let (x, w1) = io_next w
      in case x of
           Fails e \<Rightarrow> os_fail e w1
         | _ \<Rightarrow> (case get_open fd w1 of
               None \<Rightarrow> os_fail EBADF w1
             | Some f \<Rightarrow>
                 if \<not> of_writes f then os_fail EBADF w1
                 else (case os_inodes w1 ! of_inode f of
                     Regular bs wr \<Rightarrow>
                       (let out = take (moved x (length data)) data
                        in (int (length out), set_pos fd f (of_pos f + length out)
                             (set_inode (of_inode f)
                               (Regular (if out = [] then bs else splice_bytes bs (of_pos f) out) wr) w1)))
                   | _ \<Rightarrow> os_fail EISDIR w1)))"

definition sys_unlink :: "path \<Rightarrow> os \<Rightarrow> int \<times> os" where
  "sys_unlink path w =
     (let (x, w1) = io_next w
      in case x of
           Fails e \<Rightarrow> os_fail e w1
         | _ \<Rightarrow> (case lookup_name path w1 of
               None \<Rightarrow> os_fail ENOENT w1
             | Some i \<Rightarrow> (case os_inodes w1 ! i of
                   Directory es \<Rightarrow> os_fail EISDIR w1
                 | _ \<Rightarrow> (0, unlink_name path w1))))"

definition sys_mkdir :: "path \<Rightarrow> os \<Rightarrow> int \<times> os" where
  "sys_mkdir path w =
     (let (x, w1) = io_next w
      in case x of
           Fails e \<Rightarrow> os_fail e w1
         | _ \<Rightarrow>
             if lookup_name path w1 \<noteq> None then os_fail EEXIST w1
             else (case create_inode path (Directory []) DT_DIR w1 of
                 None \<Rightarrow> os_fail ENOENT w1 | Some (i, w2) \<Rightarrow> (0, w2)))"

definition sys_rmdir :: "path \<Rightarrow> os \<Rightarrow> int \<times> os" where
  "sys_rmdir path w =
     (let (x, w1) = io_next w
      in case x of
           Fails e \<Rightarrow> os_fail e w1
         | _ \<Rightarrow> (case lookup_name path w1 of
               None \<Rightarrow> os_fail ENOENT w1
             | Some i \<Rightarrow> (case os_inodes w1 ! i of
                   Directory es \<Rightarrow> if es = [] then (0, unlink_name path w1) else os_fail ENOTEMPTY w1
                 | _ \<Rightarrow> os_fail ENOTDIR w1)))"

text \<open>Renaming a directory renames what is below it; an existing file of the new name is replaced.\<close>

definition moved_name :: "path \<Rightarrow> path \<Rightarrow> path \<Rightarrow> path" where
  "moved_name old new p = (if take (Suc (length old)) p = old @ [slash] then new @ drop (length old) p else p)"

definition entry_type :: "inode \<Rightarrow> dirent_type" where
  "entry_type x = (case x of Regular bs wr \<Rightarrow> DT_REG | Directory es \<Rightarrow> DT_DIR | Special \<Rightarrow> DT_OTHER)"

definition sys_rename :: "path \<Rightarrow> path \<Rightarrow> os \<Rightarrow> int \<times> os" where
  "sys_rename old new w =
     (let (x, w1) = io_next w
      in case x of
           Fails e \<Rightarrow> os_fail e w1
         | _ \<Rightarrow> (case lookup_name old w1 of
               None \<Rightarrow> os_fail ENOENT w1
             | Some i \<Rightarrow>
                 if old = new then (0, w1)
                 else if (case lookup_name new w1 of None \<Rightarrow> False
                     | Some j \<Rightarrow> entry_type (os_inodes w1 ! j) = DT_DIR \<or> entry_type (os_inodes w1 ! i) = DT_DIR)
                 then os_fail EEXIST w1
                 else (case link_name new i (entry_type (os_inodes w1 ! i)) (unlink_name new (unlink_name old w1)) of
                     None \<Rightarrow> os_fail ENOENT w1
                   | Some w2 \<Rightarrow> (0, w2\<lparr>os_names := map (\<lambda>(p, k). (moved_name old new p, k)) (os_names w2)\<rparr>))))"

text \<open>Directories are read entry by entry from a position; reading an entry can fail.\<close>

definition sys_opendir :: "path \<Rightarrow> os \<Rightarrow> (path \<times> dirent_type) list option \<times> os" where
  "sys_opendir path w =
     (let (x, w1) = io_next w
      in case x of
           Fails e \<Rightarrow> (None, w1\<lparr>os_errno := e\<rparr>)
         | _ \<Rightarrow> (case lookup_name path w1 of
               None \<Rightarrow> (None, w1\<lparr>os_errno := ENOENT\<rparr>)
             | Some i \<Rightarrow> (case os_inodes w1 ! i of
                   Directory es \<Rightarrow> (Some es, w1) | _ \<Rightarrow> (None, w1\<lparr>os_errno := ENOTDIR\<rparr>))))"

definition sys_fsync :: "int \<Rightarrow> os \<Rightarrow> int \<times> os" where
  "sys_fsync fd w =
     (let (x, w1) = io_next w
      in case x of
           Fails e \<Rightarrow> os_fail e w1
         | _ \<Rightarrow> (case get_open fd w1 of None \<Rightarrow> os_fail EBADF w1 | Some f \<Rightarrow> (0, w1)))"

section \<open>Facts about the calls\<close>

text \<open>What can still be read through a descriptor.\<close>

definition unread :: "int \<Rightarrow> os \<Rightarrow> u8 list" where
  "unread fd w =
     (case get_open fd w of
        None \<Rightarrow> []
      | Some f \<Rightarrow> (case os_inodes w ! of_inode f of Regular bs wr \<Rightarrow> drop (of_pos f) bs | _ \<Rightarrow> []))"

lemma io_next_fields [simp]:
  "os_inodes (snd (io_next w)) = os_inodes w" "os_names (snd (io_next w)) = os_names w"
  "os_fds (snd (io_next w)) = os_fds w" "os_errno (snd (io_next w)) = os_errno w"
  by (simp_all add: io_next_def split: list.splits)

lemma get_open_cong: "os_fds w' = os_fds w \<Longrightarrow> get_open fd w' = get_open fd w"
  by (simp add: get_open_def)

lemma get_open_next [simp]: "get_open fd (snd (io_next w)) = get_open fd w"
  by (rule get_open_cong) simp

lemma get_open_errno [simp]: "get_open fd (w\<lparr>os_errno := e\<rparr>) = get_open fd w"
  by (rule get_open_cong) simp

lemma get_open_SomeD: "get_open fd w = Some f \<Longrightarrow> 0 \<le> fd \<and> nat fd < length (os_fds w) \<and> os_fds w ! nat fd = Some f"
  by (simp add: get_open_def split: if_splits)

lemma get_open_set_pos:
  "get_open fd w = Some f \<Longrightarrow> get_open fd' (set_pos fd g pos w)
    = (if fd' = fd then Some (g\<lparr>of_pos := pos\<rparr>) else get_open fd' w)"
  by (auto simp: get_open_def set_pos_def nth_list_update split: if_splits)

lemma set_pos_fields [simp]:
  "os_inodes (set_pos fd f pos w) = os_inodes w" "os_names (set_pos fd f pos w) = os_names w"
  "os_errno (set_pos fd f pos w) = os_errno w" "os_script (set_pos fd f pos w) = os_script w"
  by (simp_all add: set_pos_def)

lemma set_inode_fields [simp]:
  "os_fds (set_inode i x w) = os_fds w" "os_names (set_inode i x w) = os_names w"
  "os_script (set_inode i x w) = os_script w" "os_errno (set_inode i x w) = os_errno w"
  "length (os_inodes (set_inode i x w)) = length (os_inodes w)"
  by (simp_all add: set_inode_def)

text \<open>A read that succeeds delivers the next bytes of what can be read, and moves behind them.\<close>

lemma sys_read_ok:
  assumes "sys_read fd n w = (r, bytes, w')" "0 \<le> r"
  shows "int (length bytes) = r \<and> bytes = take (length bytes) (unread fd w) \<and> length bytes \<le> n \<and>
    unread fd w' = drop (length bytes) (unread fd w) \<and> os_inodes w' = os_inodes w \<and> os_names w' = os_names w"
proof -
  obtain x w1 where x: "io_next w = (x, w1)"
    by fastforce
  have w1: "get_open fd w1 = get_open fd w" "os_inodes w1 = os_inodes w" "os_names w1 = os_names w"
    using io_next_fields(1,2) [of w] get_open_next [of fd w] x by simp_all
  obtain f where f: "get_open fd w = Some f" "of_reads f"
    using assms x w1(1) by (auto simp: sys_read_def split: outcome.splits option.splits if_splits)
  obtain bs wr where bs: "os_inodes w ! of_inode f = Regular bs wr"
    using assms x f w1 by (auto simp: sys_read_def split: outcome.splits inode.splits)
  have nf: "x \<noteq> Fails e" for e
    using assms x by (auto simp: sys_read_def)
  let ?got = "take (moved x n) (drop (of_pos f) bs)"
  have "(r, bytes, w') = (int (length ?got), ?got, set_pos fd f (of_pos f + length ?got) w1)"
    using assms(1) x f bs nf w1 by (cases x) (auto simp: sys_read_def Let_def)
  moreover have "moved x n \<le> n"
    by (simp add: moved_def split: outcome.splits)
  ultimately show ?thesis
    using f bs w1 get_open_set_pos [of fd w1 f fd f]
    by (auto simp: unread_def drop_drop add.commute min_def)
qed

end
