(* ===== verification/MavlinkFTP.thy ===== *)
theory MavlinkFTP
  imports PosixFiles Crc32
begin

text \<open>
  The file transfer server of the MAVLink link (\<open>src/modules/mavlink/mavlink_ftp.cpp\<close>): one
  session with one open file, requests that are answered in place, and downloads that are
  streamed as the transmit buffer has room.  A handler maps the payload of a request and the
  state of the server to an error code, the payload of the reply and the new state;
  \<^term>\<open>None\<close> is an access outside the payload.
\<close>

section \<open>State\<close>

datatype ErrorCode = kErrNone | kErrFail | kErrFailErrno | kErrInvalidDataSize | kErrInvalidSession
  | kErrNoSessionsAvailable | kErrEOF | kErrUnknownCommand

fun error_number :: "ErrorCode \<Rightarrow> u8" where
  "error_number kErrNone = 0"
| "error_number kErrFail = 1"
| "error_number kErrFailErrno = 2"
| "error_number kErrInvalidDataSize = 3"
| "error_number kErrInvalidSession = 4"
| "error_number kErrNoSessionsAvailable = 5"
| "error_number kErrEOF = 6"
| "error_number kErrUnknownCommand = 7"

text \<open>The payload behind its header of 12 bytes holds 251 - 12 bytes of data.\<close>

definition kMaxDataLength :: nat where "kMaxDataLength = 239"

record ftp_payload =
  seq_number :: u16
  session :: u8
  opcode :: u8
  psize :: u8
  req_opcode :: u8
  burst_complete :: u8
  poffset :: u32
  pdata :: "u8 list"

record ftp_msg =
  target_network :: u8
  target_system :: u8
  target_component :: u8
  payload :: ftp_payload

record ftp =
  s_fd :: int
  file_size :: u32
  stream_download :: bool
  stream_offset :: u32
  stream_seq_number :: u16
  stream_target_system_id :: u8
  stream_chunk_transmitted :: u32
  f_os :: os
  ftp_sent :: "ftp_msg list"
  ftp_texts :: "path option list"

definition kRspAck :: u8 where "kRspAck = 128"
definition kRspNak :: u8 where "kRspNak = 129"
definition kCmdBurstReadFile :: u8 where "kCmdBurstReadFile = 15"

definition put_bytes :: "nat \<Rightarrow> u8 list \<Rightarrow> u8 list \<Rightarrow> u8 list" where
  "put_bytes off bs d = take off d @ bs @ drop (off + length bs) d"

definition cstring :: "u8 list \<Rightarrow> u8 list" where
  "cstring bs = takeWhile (\<lambda>c. c \<noteq> 0) bs"

text \<open>The payload with its data terminated, whose string is the data up to the terminator.\<close>

definition data_as_cstring :: "ftp_payload \<Rightarrow> ftp_payload" where
  "data_as_cstring p = p\<lparr>pdata := (pdata p)
     [(if unat (psize p) < kMaxDataLength then unat (psize p) else kMaxDataLength - 1) := 0]\<rparr>"

definition data_string :: "ftp_payload \<Rightarrow> path" where
  "data_string p = cstring (pdata (data_as_cstring p))"

definition with_os :: "os \<Rightarrow> ftp \<Rightarrow> ftp" where
  "with_os w s = s\<lparr>f_os := w\<rparr>"

section \<open>Listing a directory\<close>

definition kDirentFile :: u8 where "kDirentFile = 70"
definition kDirentDir :: u8 where "kDirentDir = 68"
definition kDirentSkip :: u8 where "kDirentSkip = 83"

text \<open>The entry as it is sent: its type and its text, for files with the size.\<close>

definition dirent_text :: "bool \<Rightarrow> path \<Rightarrow> path \<times> dirent_type \<Rightarrow> os \<Rightarrow> u8 \<times> u8 list \<times> os" where
  "dirent_text list_hidden dir e w =
     (let (name, ty) = e
      in case ty of
           DT_REG \<Rightarrow>
             (let (st, w1) = sys_stat (take 255 (dir @ [slash] @ name)) w;
                  fileSize = (case st of None \<Rightarrow> 0 | Some x \<Rightarrow> (of_nat (st_size x) :: u32))
              in (kDirentFile, take 255 (name @ [9] @ ascii (show_int (sint fileSize))), w1))
         | DT_DIR \<Rightarrow>
             if \<not> list_hidden \<and> take 1 name = ascii ''.'' \<or> name = ascii ''.'' \<or> name = ascii ''..''
             then (kDirentSkip, [], w) else (kDirentDir, take 255 name, w)
         | DT_OTHER \<Rightarrow> (kDirentSkip, [], w))"

text \<open>The loop: the error code, the bytes filled, the data and whether reading an entry failed.\<close>

fun list_entries :: "bool \<Rightarrow> path \<Rightarrow> u32 \<Rightarrow> (path \<times> dirent_type) list \<Rightarrow> nat \<Rightarrow> u8 list \<Rightarrow> os
    \<Rightarrow> (ErrorCode \<times> nat \<times> u8 list \<times> bool \<times> os) option" where
  "list_entries list_hidden dir poff es offset d w =
     (let (x, w1) = io_next w
      in case x of
           Fails e \<Rightarrow>
             if offset + 2 > kMaxDataLength then None
             else Some (kErrNone, offset + 2, put_bytes offset [kDirentSkip, 0] d, True, w1)
         | _ \<Rightarrow> (case es of
               [] \<Rightarrow> Some (if poff \<noteq> 0 \<and> offset = 0 then kErrEOF else kErrNone, offset, d, False, w1)
             | e # es' \<Rightarrow>
                 (let (ty, buf, w2) = dirent_text list_hidden dir e w1
                  in if offset + length buf + 2 > kMaxDataLength then Some (kErrNone, offset, d, False, w2)
                     else list_entries list_hidden dir poff es' (offset + length buf + 2)
                            (put_bytes offset ([ty] @ buf @ [0]) d) w2)))"

declare list_entries.simps [simp del]

type_synonym work = "ErrorCode \<times> ftp_payload \<times> ftp"

definition workList :: "bool \<Rightarrow> ftp_payload \<Rightarrow> ftp \<Rightarrow> work option" where
  "workList list_hidden p s =
     (let p1 = data_as_cstring p;
          dirPath = data_string p;
          (dp, w1) = sys_opendir dirPath (f_os s)
      in case dp of
           None \<Rightarrow> Some (kErrEOF, p1, s\<lparr>f_os := w1, ftp_texts := ftp_texts s @ [None, Some dirPath]\<rparr>)
         | Some es \<Rightarrow> do {
             (err, offset, d, failed, w2) \<leftarrow>
               list_entries list_hidden dirPath (poffset p) (drop (unat (poffset p)) es) 0 (pdata p1) w1;
             Some (err, p1\<lparr>psize := of_nat offset, pdata := d\<rparr>,
               s\<lparr>f_os := w2, ftp_texts := ftp_texts s @ (if failed then [None, Some dirPath] else [])\<rparr>)
           })"

section \<open>The session\<close>

definition workOpen :: "ftp_payload \<Rightarrow> u32 \<Rightarrow> ftp \<Rightarrow> work" where
  "workOpen p oflag s =
     (if s_fd s \<ge> 0 then (kErrNoSessionsAvailable, p, s)
      else
        (let p1 = data_as_cstring p;
             filename = data_string p;
             (st, w1) = sys_stat filename (f_os s)
         in if st = None \<and> oflag AND O_RDONLY \<noteq> 0 then (kErrFailErrno, p1, with_os w1 s)
            else
              (let fileSize = (case st of None \<Rightarrow> 0 | Some x \<Rightarrow> (of_nat (st_size x) :: u32));
                   (fd, w2) = sys_open filename oflag w1
               in if fd < 0 then (kErrFailErrno, p1, with_os w2 s)
                  else (kErrNone,
                        p1\<lparr>session := 0, psize := 4, pdata := put_bytes 0 (le_bytes fileSize) (pdata p1)\<rparr>,
                        s\<lparr>f_os := w2, s_fd := fd, file_size := fileSize, stream_download := False\<rparr>))))"

definition workRead :: "ftp_payload \<Rightarrow> ftp \<Rightarrow> work" where
  "workRead p s =
     (if session p \<noteq> 0 \<or> s_fd s < 0 then (kErrInvalidSession, p, s)
      else if poffset p \<ge> file_size s then (kErrEOF, p, s)
      else
        (let (r, w1) = sys_lseek (s_fd s) (unat (poffset p)) (f_os s)
         in if r < 0 then (kErrFailErrno, p, with_os w1 s)
            else
              (let (n, bytes, w2) = sys_read (s_fd s) kMaxDataLength w1
               in if n < 0 then (kErrFailErrno, p, with_os w2 s)
                  else (kErrNone, p\<lparr>psize := word_of_int n, pdata := put_bytes 0 bytes (pdata p)\<rparr>, with_os w2 s))))"

definition workBurst :: "ftp_payload \<Rightarrow> u8 \<Rightarrow> ftp \<Rightarrow> work" where
  "workBurst p target s =
     (if session p \<noteq> 0 \<and> s_fd s < 0 then (kErrInvalidSession, p, s)
      else (kErrNone, p, s\<lparr>stream_download := True, stream_offset := poffset p, stream_chunk_transmitted := 0,
              stream_seq_number := seq_number p + 1, stream_target_system_id := target\<rparr>))"

definition workWrite :: "ftp_payload \<Rightarrow> ftp \<Rightarrow> work" where
  "workWrite p s =
     (if session p \<noteq> 0 \<and> s_fd s < 0 then (kErrInvalidSession, p, s)
      else
        (let (r, w1) = sys_lseek (s_fd s) (unat (poffset p)) (f_os s)
         in if r < 0 then (kErrFailErrno, p, with_os w1 s)
            else
              (let (n, w2) = sys_write (s_fd s) (take (unat (psize p)) (pdata p)) w1
               in if n < 0 then (kErrFailErrno, p, with_os w2 s)
                  else (kErrNone,
                        p\<lparr>psize := 4, pdata := put_bytes 0 (le_bytes (word_of_int n :: u32)) (pdata p)\<rparr>,
                        with_os w2 s))))"

definition workTerminate :: "ftp_payload \<Rightarrow> ftp \<Rightarrow> work" where
  "workTerminate p s =
     (if session p \<noteq> 0 \<or> s_fd s < 0 then (kErrInvalidSession, p, s)
      else (kErrNone, p\<lparr>psize := 0\<rparr>,
            s\<lparr>f_os := sys_close (s_fd s) (f_os s), s_fd := -1, stream_download := False\<rparr>))"

definition workReset :: "ftp_payload \<Rightarrow> ftp \<Rightarrow> work" where
  "workReset p s =
     (kErrNone, p\<lparr>psize := 0\<rparr>,
      if s_fd s \<noteq> -1
      then s\<lparr>f_os := sys_close (s_fd s) (f_os s), s_fd := -1, stream_download := False\<rparr> else s)"

section \<open>Files and directories by name\<close>

definition result_of_call :: "ftp_payload \<Rightarrow> int \<times> os \<Rightarrow> ftp \<Rightarrow> work" where
  "result_of_call p r s =
     (if fst r = 0 then (kErrNone, p\<lparr>psize := 0\<rparr>, with_os (snd r) s)
      else (kErrFailErrno, p, with_os (snd r) s))"

definition workRemoveFile :: "ftp_payload \<Rightarrow> ftp \<Rightarrow> work" where
  "workRemoveFile p s = result_of_call (data_as_cstring p) (sys_unlink (data_string p) (f_os s)) s"

definition workRemoveDirectory :: "ftp_payload \<Rightarrow> ftp \<Rightarrow> work" where
  "workRemoveDirectory p s = result_of_call (data_as_cstring p) (sys_rmdir (data_string p) (f_os s)) s"

definition workCreateDirectory :: "ftp_payload \<Rightarrow> ftp \<Rightarrow> work" where
  "workCreateDirectory p s = result_of_call (data_as_cstring p) (sys_mkdir (data_string p) (f_os s)) s"

text \<open>The second name is read from behind the first; it must end within the payload.\<close>

definition workRename :: "ftp_payload \<Rightarrow> ftp \<Rightarrow> work option" where
  "workRename p s =
     (let p1 = data_as_cstring p;
          oldpath = data_string p;
          rest = drop (length oldpath + 1) (pdata p1)
      in if length oldpath = unat (psize p)
         then Some (kErrFailErrno, p1, s\<lparr>f_os := (f_os s)\<lparr>os_errno := EINVAL\<rparr>\<rparr>)
         else if 0 \<notin> set rest then None
         else Some (result_of_call p1 (sys_rename oldpath (cstring rest) (f_os s)) s))"

section \<open>Copying, truncating and checking files\<close>

text \<open>The copy loop: what is left of the length, the saved error number and the files.\<close>

function copy_loop :: "int \<Rightarrow> int \<Rightarrow> nat \<Rightarrow> os \<Rightarrow> nat \<times> int \<times> os" where
  "copy_loop src dst length_left w =
     (if length_left = 0 then (0, 0, w)
      else
        (let (n, bytes, w1) = sys_read src (min 512 length_left) w
         in if n = 0 then (length_left, 0, w1)
            else if n < 0 then (length_left, os_errno w1, w1)
            else
              (let (m, w2) = sys_write dst bytes w1
               in if m \<noteq> n then (length_left, os_errno w2, w2)
                  else copy_loop src dst (length_left - nat m) w2)))"
  by pat_completeness auto
termination
  by (relation "measure (\<lambda>(src, dst, n, w). n)") auto

declare copy_loop.simps [simp del]

definition copy_file :: "path \<Rightarrow> path \<Rightarrow> nat \<Rightarrow> os \<Rightarrow> int \<times> os" where
  "copy_file src dst n w =
     (let (src_fd, w1) = sys_open src O_RDONLY w
      in if src_fd < 0 then (-1, w1)
         else
           (let (dst_fd, w2) = sys_open dst (O_CREAT OR O_TRUNC OR O_WRONLY) w1
            in if dst_fd < 0 then (-1, (sys_close src_fd w2)\<lparr>os_errno := os_errno w2\<rparr>)
               else
                 (let (left, op_errno, w3) = copy_loop src_fd dst_fd n w2;
                      w4 = sys_close dst_fd (sys_close src_fd w3)
                  in (if left > 0 then -1 else 0, w4\<lparr>os_errno := op_errno\<rparr>))))"

definition temp_file :: path where
  "temp_file = ascii ''rootfs/fs/microsd/.trunc.tmp''"

text \<open>The three ways to truncate: to nothing, by extension, through a temporary file.\<close>

definition truncate_to :: "path \<Rightarrow> nat \<Rightarrow> nat \<Rightarrow> os \<Rightarrow> ErrorCode \<times> os" where
  "truncate_to filename off flen w =
     (if off = flen then (kErrNone, w)
      else if off = 0 then
        (let (fd, w1) = sys_open filename (O_TRUNC OR O_WRONLY) w
         in if fd < 0 then (kErrFailErrno, w1) else (kErrNone, sys_close fd w1))
      else if off > flen then
        (let (fd, w1) = sys_open filename O_WRONLY w
         in if fd < 0 then (kErrFailErrno, w1)
            else
              (let (r, w2) = sys_lseek fd (off - 1) w1
               in if r < 0 then (kErrFailErrno, sys_close fd w2)
                  else
                    (let (n, w3) = sys_write fd [0] w2
                     in (if n = 1 then kErrNone else kErrFailErrno, sys_close fd w3))))
      else
        (let (r1, w1) = copy_file filename temp_file off w
         in if r1 \<noteq> 0 then (kErrFailErrno, w1)
            else
              (let (r2, w2) = copy_file temp_file filename off w1
               in if r2 \<noteq> 0 then (kErrFailErrno, w2)
                  else
                    (let (r3, w3) = sys_unlink temp_file w2
                     in (if r3 \<noteq> 0 then kErrFailErrno else kErrNone, w3)))))"

definition workTruncateFile :: "ftp_payload \<Rightarrow> ftp \<Rightarrow> work" where
  "workTruncateFile p s =
     (let p1 = (data_as_cstring p)\<lparr>psize := 0\<rparr>;
          filename = data_string p;
          (st, w1) = sys_stat filename (f_os s)
      in case st of
           None \<Rightarrow> (kErrFailErrno, p1, with_os w1 s)
         | Some x \<Rightarrow>
             if \<not> st_reg x then (kErrFailErrno, p1, with_os (w1\<lparr>os_errno := EISDIR\<rparr>) s)
             else if \<not> st_writable x then (kErrFailErrno, p1, with_os (w1\<lparr>os_errno := EROFS\<rparr>) s)
             else (let (err, w2) = truncate_to filename (unat (poffset p)) (unat (of_nat (st_size x) :: u32)) w1
                   in (err, p1, with_os w2 s)))"

text \<open>The file is read in blocks of 256 bytes until a block is short.\<close>

function crc_loop :: "int \<Rightarrow> u32 \<Rightarrow> os \<Rightarrow> u32 option \<times> os" where
  "crc_loop fd checksum w =
     (let (n, bytes, w1) = sys_read fd 256 w
      in if n < 0 then (None, w1)
         else if n = 256 then crc_loop fd (crc32part bytes checksum) w1
         else (Some (crc32part bytes checksum), w1))"
  by pat_completeness auto
termination
proof (relation "measure (\<lambda>(fd, c, w). length (unread fd w))", goal_cases)
  case (2 fd c w x n y bytes w1)
  then have "sys_read fd 256 w = (256, bytes, w1)"
    by (metis prod.collapse)
  from sys_read_ok [OF this] have "int (length bytes) = 256" "bytes = take (length bytes) (unread fd w)"
      "unread fd w1 = drop (length bytes) (unread fd w)"
    by auto
  then show ?case
    using length_take [of "length bytes" "unread fd w"] by simp
qed simp

declare crc_loop.simps [simp del]

definition workCalcFileCRC32 :: "ftp_payload \<Rightarrow> ftp \<Rightarrow> work" where
  "workCalcFileCRC32 p s =
     (let p1 = data_as_cstring p;
          (fd, w1) = sys_open (data_string p) O_RDONLY (f_os s)
      in if fd < 0 then (kErrFailErrno, p1, with_os w1 s)
         else
           (let (c, w2) = crc_loop fd 0 w1
            in case c of
                 None \<Rightarrow> (kErrFailErrno, p1, with_os ((sys_close fd w2)\<lparr>os_errno := os_errno w2\<rparr>) s)
               | Some checksum \<Rightarrow>
                   (kErrNone, p1\<lparr>psize := 4, pdata := put_bytes 0 (le_bytes checksum) (pdata p1)\<rparr>,
                    with_os (sys_close fd w2) s)))"

section \<open>Requests\<close>

definition run_request :: "u8 \<Rightarrow> ftp_payload \<Rightarrow> ftp \<Rightarrow> work option" where
  "run_request target p s =
     (if opcode p = 0 then Some (kErrNone, p, s)
      else if opcode p = 1 then Some (workTerminate p s)
      else if opcode p = 2 then Some (workReset p s)
      else if opcode p = 3 then workList False p s
      else if opcode p = 4 then Some (workOpen p O_RDONLY s)
      else if opcode p = 5 then Some (workRead p s)
      else if opcode p = 6 then Some (workOpen p (O_CREAT OR O_EXCL OR O_WRONLY) s)
      else if opcode p = 7 then Some (workWrite p s)
      else if opcode p = 8 then Some (workRemoveFile p s)
      else if opcode p = 9 then Some (workCreateDirectory p s)
      else if opcode p = 10 then Some (workRemoveDirectory p s)
      else if opcode p = 11 then Some (workOpen p (O_CREAT OR O_WRONLY) s)
      else if opcode p = 12 then Some (workTruncateFile p s)
      else if opcode p = 13 then workRename p s
      else if opcode p = 14 then Some (workCalcFileCRC32 p s)
      else if opcode p = kCmdBurstReadFile then Some (workBurst p target s)
      else Some (kErrUnknownCommand, p, s))"

text \<open>The reply to an error carries its number, for a failed call followed by the error number.\<close>

definition error_data :: "ErrorCode \<Rightarrow> int \<Rightarrow> u8 list" where
  "error_data err e = error_number err # (if err = kErrFailErrno then [word_of_int e] else [])"

definition nak_payload :: "ErrorCode \<Rightarrow> int \<Rightarrow> ftp_payload \<Rightarrow> ftp_payload" where
  "nak_payload err e p = p\<lparr>psize := of_nat (length (error_data err e)),
     pdata := put_bytes 0 (error_data err e) (pdata p)\<rparr>"

definition reply :: "ftp_msg \<Rightarrow> ftp \<Rightarrow> ftp" where
  "reply msg s = s\<lparr>ftp_sent := ftp_sent s @ [msg\<lparr>target_network := 0, target_component := 0\<rparr>]\<rparr>"

definition process_request :: "ftp_msg \<Rightarrow> u8 \<Rightarrow> ftp \<Rightarrow> ftp option" where
  "process_request msg target s =
     do {
       let p = payload msg;
       (err, p1, s1) \<leftarrow> (if psize p > of_nat kMaxDataLength then Some (kErrInvalidDataSize, p, s)
                         else run_request target p s);
       let stream_send = (psize p \<le> of_nat kMaxDataLength \<and> opcode p = kCmdBurstReadFile);
       let p2 = p1\<lparr>seq_number := seq_number p1 + 1, req_opcode := opcode p1\<rparr>;
       let p3 = (if err = kErrNone then p2\<lparr>opcode := kRspAck\<rparr>
                 else nak_payload err (os_errno (f_os s1)) (p2\<lparr>opcode := kRspNak\<rparr>));
       Some (if \<not> stream_send \<or> err \<noteq> kErrNone
             then reply (msg\<lparr>target_system := target, payload := p3\<rparr>) s1 else s1)
     }"

definition handle_message :: "u8 \<Rightarrow> ftp_msg \<Rightarrow> u8 \<Rightarrow> ftp \<Rightarrow> ftp option" where
  "handle_message system_id msg sysid s =
     (if target_system msg = system_id then process_request msg sysid s else Some s)"

section \<open>Streaming\<close>

text \<open>The length of a message of the protocol on the wire.\<close>

definition ftp_message_size :: nat where "ftp_message_size = 254 + 8"

definition get_size :: "ftp \<Rightarrow> nat" where
  "get_size s = (if stream_download s then ftp_message_size else 0)"

text \<open>One packet: the message on the stack is not initialised, \<open>junk\<close> is what it holds.\<close>

definition stream_packet :: "ftp_payload \<Rightarrow> ftp \<Rightarrow> ErrorCode \<times> ftp_payload \<times> ftp" where
  "stream_packet junk s =
     (let p = junk\<lparr>seq_number := stream_seq_number s, session := 0, opcode := kRspAck,
                req_opcode := kCmdBurstReadFile, poffset := stream_offset s\<rparr>;
          s1 = s\<lparr>stream_seq_number := stream_seq_number s + 1\<rparr>
      in if stream_offset s \<ge> file_size s then (kErrEOF, p, s1)
         else
           (let (r, w1) = sys_lseek (s_fd s) (unat (poffset p)) (f_os s)
            in if r < 0 then (kErrFailErrno, p, with_os w1 s1)
               else
                 (let (n, bytes, w2) = sys_read (s_fd s) kMaxDataLength w1
                  in if n < 0 then (kErrFailErrno, p, with_os w2 s1)
                     else (kErrNone, p\<lparr>psize := word_of_int n, pdata := put_bytes 0 bytes (pdata p)\<rparr>,
                           s1\<lparr>f_os := w2, stream_offset := stream_offset s1 + word_of_int n,
                              stream_chunk_transmitted := stream_chunk_transmitted s1 + word_of_int n\<rparr>))))"

function send_loop :: "(nat \<Rightarrow> ftp_payload) \<Rightarrow> nat \<Rightarrow> nat \<Rightarrow> ftp \<Rightarrow> ftp" where
  "send_loop junk j max_bytes s =
     (let (err, p, s1) = stream_packet (junk j) s;
          msg = (\<lambda>q. \<lparr>target_network = 0, target_system = stream_target_system_id s1, target_component = 0,
                       payload = q\<rparr>)
      in if err \<noteq> kErrNone
         then reply (msg (nak_payload err (os_errno (f_os s1)) (p\<lparr>opcode := kRspNak\<rparr>)))
                (s1\<lparr>stream_download := False\<rparr>)
         else if max_bytes < ftp_message_size * 2
         then (if stream_chunk_transmitted s1 > 35000
               then reply (msg (p\<lparr>burst_complete := 1\<rparr>))
                      (s1\<lparr>stream_download := False, stream_chunk_transmitted := 0\<rparr>)
               else reply (msg p) s1)
         else send_loop junk (Suc j) (max_bytes - ftp_message_size)
                (reply (msg (p\<lparr>burst_complete := 0\<rparr>)) s1))"
  by pat_completeness auto
termination
  by (relation "measure (\<lambda>(junk, j, n, s). n)") (auto simp: ftp_message_size_def)

declare send_loop.simps [simp del]

definition send_stream :: "(nat \<Rightarrow> ftp_payload) \<Rightarrow> nat \<Rightarrow> ftp \<Rightarrow> ftp" where
  "send_stream junk free_tx_buf s =
     (if \<not> stream_download s \<or> free_tx_buf < get_size s then s else send_loop junk 0 free_tx_buf s)"

definition ftp_init :: "os \<Rightarrow> ftp" where
  "ftp_init w = \<lparr>s_fd = -1, file_size = 0, stream_download = False, stream_offset = 0, stream_seq_number = 0,
     stream_target_system_id = 0, stream_chunk_transmitted = 0, f_os = w, ftp_sent = [], ftp_texts = []\<rparr>"

end
