(* ===== verification/FtpProps.thy ===== *)
theory FtpProps
  imports MavlinkFTP
begin

text \<open>
  Properties of the file server: it never leaks a descriptor, answers every request once, and
  what a client downloads, request by request or as a stream, is the file.
\<close>

section \<open>Descriptors\<close>

definition open_fds :: "os \<Rightarrow> int set" where
  "open_fds w = {fd. get_open fd w \<noteq> None}"

lemma open_fds_cong: "os_fds w' = os_fds w \<Longrightarrow> open_fds w' = open_fds w"
  by (simp add: open_fds_def get_open_def)

text \<open>Calls that leave the table of descriptors alone.\<close>

lemma os_fail_fds [simp]: "os_fds (snd (os_fail e w)) = os_fds w"
  by (simp add: os_fail_def)

lemma upd_dir_fds: "upd_dir f path w = Some w' \<Longrightarrow> os_fds w' = os_fds w"
  by (auto simp: upd_dir_def split: option.splits inode.splits)

lemma link_name_fds: "link_name path i ty w = Some w' \<Longrightarrow> os_fds w' = os_fds w"
  by (auto simp: link_name_def dest: upd_dir_fds)

lemma unlink_name_fds [simp]: "os_fds (unlink_name path w) = os_fds w"
  by (auto simp: unlink_name_def Let_def split: option.splits dest: upd_dir_fds)

lemma create_inode_fds: "create_inode path x ty w = Some (i, w') \<Longrightarrow> os_fds w' = os_fds w"
  by (auto simp: create_inode_def dest: link_name_fds)

lemma named_calls_fds [simp]:
  "os_fds (snd (sys_stat path w)) = os_fds w"
  "os_fds (snd (sys_unlink path w)) = os_fds w"
  "os_fds (snd (sys_rmdir path w)) = os_fds w"
  "os_fds (snd (sys_opendir path w)) = os_fds w"
  by (simp_all add: sys_stat_def sys_unlink_def sys_rmdir_def sys_opendir_def split_beta Let_def
      split: outcome.split option.split inode.split)

lemma sys_mkdir_fds [simp]: "os_fds (snd (sys_mkdir path w)) = os_fds w"
  by (auto simp: sys_mkdir_def split_beta Let_def dest!: create_inode_fds split: outcome.split option.split)

lemma sys_rename_fds [simp]: "os_fds (snd (sys_rename old new w)) = os_fds w"
  by (auto simp: sys_rename_def split_beta Let_def dest!: link_name_fds split: outcome.split option.split)

text \<open>Calls that only move the position of a descriptor.\<close>

lemma open_fds_simps [simp]:
  "open_fds (snd (io_next w)) = open_fds w" "open_fds (w\<lparr>os_errno := e\<rparr>) = open_fds w"
  "open_fds (set_inode i x w) = open_fds w" "open_fds (snd (os_fail e w)) = open_fds w"
  by (rule open_fds_cong, simp)+

lemma get_open_set_inode [simp]: "get_open fd (set_inode i x w) = get_open fd w"
  by (rule get_open_cong) simp

lemma open_fds_set_pos: "get_open fd w = Some f \<Longrightarrow> open_fds (set_pos fd g pos w) = open_fds w"
  by (auto simp: open_fds_def get_open_set_pos)

lemma sys_lseek_fds [simp]: "open_fds (snd (sys_lseek fd off w)) = open_fds w"
  by (simp add: sys_lseek_def split_beta Let_def open_fds_set_pos split: outcome.split option.split)

lemma sys_read_fds [simp]: "open_fds (snd (snd (sys_read fd n w))) = open_fds w"
  by (simp add: sys_read_def split_beta Let_def open_fds_set_pos split: outcome.split option.split inode.split)

lemma sys_write_fds [simp]: "open_fds (snd (sys_write fd bs w)) = open_fds w"
  by (simp add: sys_write_def split_beta Let_def open_fds_set_pos split: outcome.split option.split inode.split)

text \<open>Opening and closing.\<close>

lemma new_fd_fds:
  "new_fd i flags w = (fd, w') \<Longrightarrow> 0 \<le> fd \<and> fd \<notin> open_fds w \<and> open_fds w' = insert fd (open_fds w)"
proof (cases "first_free (os_fds w)")
  case (Some k)
  assume "new_fd i flags w = (fd, w')"
  then show ?thesis
    using Some first_index_SomeD [OF Some]
    by (auto simp: new_fd_def Let_def open_fds_def get_open_def nth_list_update split: if_splits)
next
  case None
  assume "new_fd i flags w = (fd, w')"
  then show ?thesis
    using None
    by (auto simp: new_fd_def Let_def open_fds_def get_open_def nth_append split: if_splits)
qed

text \<open>A call of \<open>open\<close> fails and changes no descriptor, or ends in a new one.\<close>

lemma sys_open_cases:
  assumes "sys_open path flags w = (fd, w')"
  obtains (failed) "fd = -1" "os_fds w' = os_fds w"
  | (opened) i w1 where "new_fd i flags w1 = (fd, w')" "os_fds w1 = os_fds w"
proof -
  let ?w = "snd (io_next w)"
  have "(\<exists>e. os_fail e ?w = (fd, w')) \<or> (\<exists>i w1. new_fd i flags w1 = (fd, w') \<and>
      (w1 = ?w \<or> (\<exists>x. w1 = set_inode i x ?w) \<or> (\<exists>x. create_inode path x DT_REG ?w = Some (i, w1))))"
  proof (cases "lookup_name path ?w")
    case None
    then show ?thesis
      using assms by (cases "fst (io_next w)"; cases "create_inode path (Regular [] True) DT_REG ?w")
        (auto simp: sys_open_def split_beta Let_def split: if_splits)
  next
    case (Some i)
    then show ?thesis
      using assms by (cases "fst (io_next w)"; cases "os_inodes ?w ! i")
        (auto simp: sys_open_def split_beta Let_def split: if_splits)
  qed
  then show ?thesis
  proof (elim disjE exE conjE)
    fix e
    assume "os_fail e ?w = (fd, w')"
    then have "fd = -1" "os_fds w' = os_fds w"
      by (auto simp: os_fail_def)
    then show thesis
      by (rule failed)
  next
    fix i w1
    assume n: "new_fd i flags w1 = (fd, w')" and "w1 = ?w"
    then have "os_fds w1 = os_fds w"
      by simp
    then show thesis
      using opened n by metis
  next
    fix i w1 x
    assume n: "new_fd i flags w1 = (fd, w')" and "w1 = set_inode i x ?w"
    then have "os_fds w1 = os_fds w"
      by simp
    then show thesis
      using opened n by metis
  next
    fix i w1 x
    assume n: "new_fd i flags w1 = (fd, w')" and "create_inode path x DT_REG ?w = Some (i, w1)"
    then have "os_fds w1 = os_fds w"
      using create_inode_fds by fastforce
    then show thesis
      using opened n by metis
  qed
qed

lemma sys_open_fds:
  assumes "sys_open path flags w = (fd, w')"
  shows "if fd < 0 then open_fds w' = open_fds w
    else fd \<notin> open_fds w \<and> open_fds w' = insert fd (open_fds w)"
  using assms
proof (cases rule: sys_open_cases)
  case failed
  then show ?thesis
    using open_fds_cong [OF failed(2)] by simp
next
  case (opened i w1)
  then show ?thesis
    using new_fd_fds [OF opened(1)] open_fds_cong [OF opened(2)] by simp
qed

lemma sys_close_fds [simp]: "open_fds (sys_close fd w) = open_fds w - {fd}"
  by (auto simp: sys_close_def open_fds_def get_open_def nth_list_update split: option.splits if_splits)

section \<open>Requests open and close in pairs\<close>

lemma dirent_text_fds: "dirent_text h dir e w = (ty, buf, w') \<Longrightarrow> open_fds w' = open_fds w"
proof -
  have "open_fds (snd (sys_stat path w)) = open_fds w" for path
    by (rule open_fds_cong) simp
  then show "dirent_text h dir e w = (ty, buf, w') \<Longrightarrow> open_fds w' = open_fds w"
    by (auto simp: dirent_text_def split_beta Let_def split: dirent_type.splits if_splits)
qed

lemma list_entries_fds:
  "list_entries h dir poff es offset d w = Some (err, off', d', failed, w') \<Longrightarrow> open_fds w' = open_fds w"
proof (induction es arbitrary: offset d w)
  case Nil
  then show ?case
    by (subst (asm) list_entries.simps) (auto simp: split_beta Let_def split: outcome.splits if_splits)
next
  case (Cons e es)
  obtain x w1 where x: "io_next w = (x, w1)"
    by fastforce
  obtain ty buf w2 where t: "dirent_text h dir e w1 = (ty, buf, w2)"
    by (metis prod_cases3)
  have w1: "open_fds w1 = open_fds w"
    using x open_fds_simps(1) [of w] by simp
  have w2: "open_fds w2 = open_fds w"
    using dirent_text_fds [OF t] w1 by simp
  show ?case
  proof (cases "\<exists>e. x = Fails e")
    case True
    then show ?thesis
      using Cons.prems x w1 by (subst (asm) list_entries.simps) (auto split: if_splits)
  next
    case False
    then consider "w' = w2" | "list_entries h dir poff es (offset + length buf + 2)
        (put_bytes offset ([ty] @ buf @ [0]) d) w2 = Some (err, off', d', failed, w')"
      using Cons.prems x t by (subst (asm) list_entries.simps) (auto split: outcome.splits if_splits)
    then show ?thesis
      using Cons.IH w2 by cases auto
  qed
qed

lemma copy_loop_fds: "copy_loop src dst n w = (left, e, w') \<Longrightarrow> open_fds w' = open_fds w"
proof (induction src dst n w rule: copy_loop.induct)
  case (1 src dst n w)
  obtain k bytes w1 where r: "sys_read src (min 512 n) w = (k, bytes, w1)"
    by (metis prod_cases3)
  obtain m w2 where w2: "sys_write dst bytes w1 = (m, w2)"
    by fastforce
  have f1: "open_fds w1 = open_fds w"
    using sys_read_fds [of src "min 512 n" w] r by simp
  have f2: "open_fds w2 = open_fds w"
    using sys_write_fds [of dst bytes w1] w2 f1 by simp
  show ?case
  proof (cases "n = 0 \<or> k \<le> 0 \<or> m \<noteq> k")
    case True
    then show ?thesis
      using "1.prems" r w2 f1 f2 by (subst (asm) copy_loop.simps) (auto split: if_splits)
  next
    case False
    then have "copy_loop src dst (n - nat m) w2 = (left, e, w')"
      using "1.prems" r w2 by (subst (asm) copy_loop.simps) auto
    then show ?thesis
      using "1.IH" [OF _ r [symmetric] refl refl _ _ w2 [symmetric] refl] False f2 by simp
  qed
qed

lemma crc_loop_fds: "crc_loop fd c w = (r, w') \<Longrightarrow> open_fds w' = open_fds w"
proof (induction fd c w rule: crc_loop.induct)
  case (1 fd c w)
  obtain k bytes w1 where rd: "sys_read fd 256 w = (k, bytes, w1)"
    by (metis prod_cases3)
  have f1: "open_fds w1 = open_fds w"
    using sys_read_fds [of fd 256 w] rd by simp
  show ?case
  proof (cases "k = 256")
    case False
    then show ?thesis
      using "1.prems" rd f1 by (subst (asm) crc_loop.simps) (auto split: if_splits)
  next
    case True
    then have "crc_loop fd (crc32part bytes c) w1 = (r, w')"
      using "1.prems" rd by (subst (asm) crc_loop.simps) simp
    then show ?thesis
      using "1.IH" [OF rd [symmetric] refl refl] True f1 by simp
  qed
qed

text \<open>A call that opens, works without opening or closing, and closes again.\<close>

lemma open_work_close:
  assumes "sys_open path flags w = (fd, w1)" "\<not> fd < 0" "open_fds w2 = open_fds w1"
  shows "open_fds (sys_close fd w2) = open_fds w"
  using sys_open_fds [OF assms(1)] assms(2,3) by simp

lemma open_failed:
  "sys_open path flags w = (fd, w1) \<Longrightarrow> fd < 0 \<Longrightarrow> open_fds w1 = open_fds w"
  using sys_open_fds by fastforce

lemma copy_file_fds: "open_fds (snd (copy_file src dst n w)) = open_fds w"
proof -
  obtain fd w1 where o1: "sys_open src O_RDONLY w = (fd, w1)"
    by fastforce
  obtain fd2 w2 where o2: "sys_open dst (O_CREAT OR O_TRUNC OR O_WRONLY) w1 = (fd2, w2)"
    by fastforce
  obtain left e w3 where c: "copy_loop fd fd2 n w2 = (left, e, w3)"
    by (metis prod_cases3)
  note c3 = copy_loop_fds [OF c]
  show ?thesis
    using o1 o2 c sys_open_fds [OF o1] sys_open_fds [OF o2] c3
    by (auto simp: copy_file_def Let_def)
qed

lemma truncate_to_fds: "open_fds (snd (truncate_to path off n w)) = open_fds w"
proof -
  obtain fd1 w1 where o1: "sys_open path (O_TRUNC OR O_WRONLY) w = (fd1, w1)"
    by fastforce
  obtain fd2 w2 where o2: "sys_open path O_WRONLY w = (fd2, w2)"
    by fastforce
  have u: "open_fds (snd (sys_unlink p v)) = open_fds v" for p v
    by (rule open_fds_cong) simp
  show ?thesis
    using o1 o2 open_failed [OF o1] open_work_close [OF o1] open_failed [OF o2] open_work_close [OF o2]
    by (simp add: truncate_to_def split_beta Let_def copy_file_fds u)
qed

section \<open>The session and its descriptor\<close>

text \<open>
  The descriptors that are open are those that were open without the server, and that of the
  session when there is one.
\<close>

definition session_fds :: "int set \<Rightarrow> ftp \<Rightarrow> bool" where
  "session_fds base s \<longleftrightarrow> -1 \<notin> base \<and> -1 \<le> s_fd s \<and> s_fd s \<notin> base \<and>
     open_fds (f_os s) = base \<union> (if s_fd s = -1 then {} else {s_fd s})"

lemma with_os_fields [simp]: "f_os (with_os w s) = w" "s_fd (with_os w s) = s_fd s"
  by (simp_all add: with_os_def)

lemma session_fds_same:
  "session_fds base s \<Longrightarrow> s_fd s' = s_fd s \<Longrightarrow> open_fds (f_os s') = open_fds (f_os s) \<Longrightarrow> session_fds base s'"
  by (simp add: session_fds_def)

lemma open_fds_named [simp]:
  "open_fds (snd (sys_stat path w)) = open_fds w" "open_fds (snd (sys_unlink path w)) = open_fds w"
  "open_fds (snd (sys_rmdir path w)) = open_fds w" "open_fds (snd (sys_mkdir path w)) = open_fds w"
  "open_fds (snd (sys_rename old new w)) = open_fds w" "open_fds (snd (sys_opendir path w)) = open_fds w"
  by (rule open_fds_cong, simp)+

text \<open>Handlers that neither open nor close the file of the session.\<close>

definition same_fds :: "ftp \<Rightarrow> ftp \<Rightarrow> bool" where
  "same_fds s s' \<longleftrightarrow> s_fd s' = s_fd s \<and> open_fds (f_os s') = open_fds (f_os s)"

lemma session_same: "session_fds base s \<Longrightarrow> same_fds s s' \<Longrightarrow> session_fds base s'"
  by (simp add: session_fds_def same_fds_def)

lemma result_of_call_same: "open_fds (snd r) = open_fds (f_os s) \<Longrightarrow> same_fds s (snd (snd (result_of_call p r s)))"
  by (simp add: result_of_call_def same_fds_def)

lemma named_same:
  "same_fds s (snd (snd (workRemoveFile p s)))" "same_fds s (snd (snd (workRemoveDirectory p s)))"
  "same_fds s (snd (snd (workCreateDirectory p s)))"
  by (simp_all add: workRemoveFile_def workRemoveDirectory_def workCreateDirectory_def result_of_call_same)

lemma workRename_same: "workRename p s = Some r \<Longrightarrow> same_fds s (snd (snd r))"
  by (auto simp: workRename_def Let_def result_of_call_same split: if_splits) (simp add: same_fds_def)

lemma moving_same:
  "same_fds s (snd (snd (workRead p s)))" "same_fds s (snd (snd (workWrite p s)))"
  "same_fds s (snd (snd (workBurst p t s)))" "same_fds s (snd (snd (workTruncateFile p s)))"
  by (simp_all add: workRead_def workWrite_def workBurst_def workTruncateFile_def split_beta Let_def
      same_fds_def truncate_to_fds split: option.split)

lemma workCRC_same: "same_fds s (snd (snd (workCalcFileCRC32 p s)))"
proof -
  obtain fd w1 where o: "sys_open (data_string p) O_RDONLY (f_os s) = (fd, w1)"
    by fastforce
  obtain c w2 where l: "crc_loop fd 0 w1 = (c, w2)"
    by fastforce
  show ?thesis
  proof (cases "fd < 0")
    case True
    then show ?thesis
      using o open_failed [OF o] by (simp add: workCalcFileCRC32_def same_fds_def)
  next
    case False
    then show ?thesis
      using o l open_work_close [OF o _ crc_loop_fds [OF l]]
      by (simp add: workCalcFileCRC32_def same_fds_def Let_def split: option.split)
  qed
qed

lemma workList_same:
  assumes "workList h p s = Some r"
  shows "same_fds s (snd (snd r))"
proof (cases "fst (sys_opendir (data_string p) (f_os s))")
  case None
  then show ?thesis
    using assms by (auto simp: workList_def split_beta Let_def same_fds_def)
next
  case (Some es)
  then obtain err off d failed w2 where l: "list_entries h (data_string p) (poffset p) (drop (unat (poffset p)) es) 0
        (pdata (data_as_cstring p)) (snd (sys_opendir (data_string p) (f_os s))) = Some (err, off, d, failed, w2)"
      "s_fd (snd (snd r)) = s_fd s" "f_os (snd (snd r)) = w2"
    using assms(1) by (auto simp: workList_def split_beta Let_def bind_eq_Some_conv)
  then show ?thesis
    using list_entries_fds [OF l(1)] by (simp add: same_fds_def)
qed

lemma workOpen_session:
  assumes "session_fds base s"
  shows "session_fds base (snd (snd (workOpen p flags s)))"
proof -
  let ?st = "sys_stat (data_string p) (f_os s)"
  obtain fd w2 where o: "sys_open (data_string p) flags (snd ?st) = (fd, w2)"
    by fastforce
  show ?thesis
  proof (cases "0 \<le> s_fd s \<or> fst ?st = None \<and> flags AND O_RDONLY \<noteq> 0 \<or> fd < 0")
    case True
    then have "same_fds s (snd (snd (workOpen p flags s)))"
      using o open_failed [OF o] by (auto simp: workOpen_def split_beta Let_def same_fds_def)
    then show ?thesis
      using assms session_same by blast
  next
    case False
    then have none: "s_fd s = -1"
      using assms by (auto simp: session_fds_def)
    have "fd \<notin> open_fds (f_os s)" "open_fds w2 = insert fd (open_fds (f_os s))"
      using sys_open_fds [OF o] False by auto
    then show ?thesis
      using assms o False none by (auto simp: workOpen_def split_beta Let_def session_fds_def)
  qed
qed

lemma closing_session:
  assumes "session_fds base s"
  shows "session_fds base (snd (snd (workTerminate p s)))" "session_fds base (snd (snd (workReset p s)))"
  using assms by (auto simp: workTerminate_def workReset_def session_fds_def)

lemma run_request_session:
  assumes "run_request t p s = Some r" "session_fds base s"
  shows "session_fds base (snd (snd r))"
proof -
  note keep = session_same [OF assms(2)]
  note ok = moving_same [THEN keep] named_same [THEN keep] workCRC_same [THEN keep]
    workOpen_session [OF assms(2)] closing_session [OF assms(2)]
  have named: "session_fds base (snd (snd r'))" if "workList False p s = Some r' \<or> workRename p s = Some r'" for r'
    using that workList_same workRename_same keep by blast
  show ?thesis
    using assms(1) unfolding run_request_def
    by (simp only: option.inject split: if_split_asm) (use ok named assms(2) in auto)
qed

lemma process_request_cases:
  assumes "process_request msg t s = Some s'"
  obtains err p1 s1 where
    "(if psize (payload msg) > of_nat kMaxDataLength then Some (kErrInvalidDataSize, payload msg, s)
      else run_request t (payload msg) s) = Some (err, p1, s1)"
    "s' = (if (psize (payload msg) \<le> of_nat kMaxDataLength \<and> opcode (payload msg) = kCmdBurstReadFile) \<and> err = kErrNone
      then s1
      else reply (msg\<lparr>target_system := t, payload :=
        (if err = kErrNone then p1\<lparr>seq_number := seq_number p1 + 1, req_opcode := opcode p1, opcode := kRspAck\<rparr>
         else nak_payload err (os_errno (f_os s1))
           (p1\<lparr>seq_number := seq_number p1 + 1, req_opcode := opcode p1, opcode := kRspNak\<rparr>))\<rparr>) s1)"
proof -
  obtain err p1 s1 where r: "(if psize (payload msg) > of_nat kMaxDataLength then Some (kErrInvalidDataSize, payload msg, s)
      else run_request t (payload msg) s) = Some (err, p1, s1)"
    using assms by (auto simp: process_request_def Let_def bind_eq_Some_conv)
  show thesis
    by (rule that [OF r])
      (use assms r in \<open>auto simp: process_request_def Let_def bind_eq_Some_conv\<close>)
qed

lemma reply_fields [simp]:
  "s_fd (reply m s) = s_fd s" "f_os (reply m s) = f_os s" "file_size (reply m s) = file_size s"
  "stream_offset (reply m s) = stream_offset s" "stream_download (reply m s) = stream_download s"
  "ftp_sent (reply m s) = ftp_sent s @ [m\<lparr>target_network := 0, target_component := 0\<rparr>]"
  by (simp_all add: reply_def)

lemma process_request_session:
  assumes "process_request msg t s = Some s'" "session_fds base s"
  shows "session_fds base s'"
  using assms(1)
proof (cases rule: process_request_cases)
  case (1 err p1 s1)
  have "session_fds base s1"
    using 1(1) run_request_session [of t "payload msg" s "(err, p1, s1)"] assms(2) by (auto split: if_splits)
  then show ?thesis
    unfolding 1(2) by (simp add: session_fds_def)
qed

lemma stream_packet_same: "same_fds s (snd (snd (stream_packet junk s)))"
  by (simp add: stream_packet_def split_beta Let_def same_fds_def)

lemma send_loop_session: "session_fds base s \<Longrightarrow> session_fds base (send_loop junk j n s)"
proof (induction junk j n s rule: send_loop.induct)
  case (1 junk j n s)
  obtain err p s1 where k: "stream_packet (junk j) s = (err, p, s1)"
    by (metis prod_cases3)
  have s1: "session_fds base s1"
    using session_same [OF 1(2) stream_packet_same [of s "junk j"]] k by simp
  have r: "session_fds base (reply m s2)" if "s_fd s2 = s_fd s1" "f_os s2 = f_os s1" for m s2
    using s1 that by (simp add: session_fds_def)
  show ?case
  proof (cases "err \<noteq> kErrNone \<or> n < ftp_message_size * 2")
    case True
    then show ?thesis
      using k by (subst send_loop.simps) (auto simp: Let_def r)
  next
    case False
    then show ?thesis
      using 1(1) [OF k [symmetric] refl refl] k by (subst send_loop.simps) (simp add: Let_def r)
  qed
qed

section \<open>Runs of the server\<close>

datatype ftp_event = Message u8 ftp_msg u8 | Send "nat \<Rightarrow> ftp_payload" nat

fun ftp_step :: "ftp_event \<Rightarrow> ftp \<Rightarrow> ftp option" where
  "ftp_step (Message system_id msg sysid) s = handle_message system_id msg sysid s"
| "ftp_step (Send junk free) s = Some (send_stream junk free s)"

fun ftp_run :: "ftp_event list \<Rightarrow> ftp \<Rightarrow> ftp option" where
  "ftp_run [] s = Some s"
| "ftp_run (e # es) s = do { s' \<leftarrow> ftp_step e s; ftp_run es s' }"

lemma ftp_run_session: "ftp_run es s = Some s' \<Longrightarrow> session_fds base s \<Longrightarrow> session_fds base s'"
proof (induction es arbitrary: s)
  case (Cons e es)
  obtain s1 where s1: "ftp_step e s = Some s1" "ftp_run es s1 = Some s'"
    using Cons.prems(1) by (auto simp: bind_eq_Some_conv)
  then have "session_fds base s1"
    using Cons.prems(2) process_request_session send_loop_session
    by (cases e) (auto simp: handle_message_def send_stream_def split: if_splits)
  then show ?case
    using Cons.IH s1(2) by blast
qed simp

text \<open>A file system with one directory that holds one file of five bytes.\<close>

definition small_disk :: os where
  "small_disk = \<lparr>os_inodes = [Directory [([102], DT_REG)], Regular [1, 2, 3, 4, 5] True],
     os_names = [([], 0), ([47, 102], 1)], os_fds = [], os_errno = 0, os_script = []\<rparr>"

definition request :: "u8 \<Rightarrow> u8 list \<Rightarrow> u32 \<Rightarrow> ftp_msg" where
  "request op bytes off = \<lparr>target_network = 0, target_system = 1, target_component = 0,
     payload = \<lparr>seq_number = 0, session = 0, opcode = op, psize = of_nat (length bytes), req_opcode = 0,
       burst_complete = 0, poffset = off, pdata = bytes @ replicate (kMaxDataLength - length bytes) 0\<rparr>\<rparr>"



section \<open>Replies\<close>

text \<open>What every handler leaves alone: the sequence number, the opcode and the messages sent.\<close>

definition same_head :: "ftp_payload \<Rightarrow> ftp \<Rightarrow> work \<Rightarrow> bool" where
  "same_head p s r \<longleftrightarrow> seq_number (fst (snd r)) = seq_number p \<and> opcode (fst (snd r)) = opcode p \<and>
     ftp_sent (snd (snd r)) = ftp_sent s"

lemma data_as_cstring_head [simp]:
  "seq_number (data_as_cstring p) = seq_number p" "opcode (data_as_cstring p) = opcode p"
  by (simp_all add: data_as_cstring_def)

lemma with_os_sent [simp]: "ftp_sent (with_os w s) = ftp_sent s"
  by (simp add: with_os_def)

lemma heads:
  "same_head p s (workOpen p fl s)" "same_head p s (workRead p s)" "same_head p s (workBurst p t s)"
  "same_head p s (workWrite p s)" "same_head p s (workTerminate p s)" "same_head p s (workReset p s)"
  "same_head p s (workRemoveFile p s)" "same_head p s (workRemoveDirectory p s)"
  "same_head p s (workCreateDirectory p s)" "same_head p s (workTruncateFile p s)"
  "same_head p s (workCalcFileCRC32 p s)"
  by (simp_all add: same_head_def workOpen_def workRead_def workBurst_def workWrite_def workTerminate_def
      workReset_def workRemoveFile_def workRemoveDirectory_def workCreateDirectory_def workTruncateFile_def
      workCalcFileCRC32_def result_of_call_def split_beta Let_def split: option.split)

lemma heads_option:
  "workList h p s = Some r \<Longrightarrow> same_head p s r" "workRename p s = Some r \<Longrightarrow> same_head p s r"
  by (auto simp: same_head_def workList_def workRename_def result_of_call_def split_beta Let_def
      bind_eq_Some_conv split: option.splits if_splits)

lemma run_request_head: "run_request t p s = Some r \<Longrightarrow> same_head p s r"
  unfolding run_request_def
  by (simp only: option.inject split: if_split_asm) (use heads heads_option in \<open>auto simp: same_head_def\<close>)

text \<open>A request for a burst that is accepted.\<close>

definition burst_accepted :: "ftp_msg \<Rightarrow> ftp \<Rightarrow> bool" where
  "burst_accepted msg s \<longleftrightarrow> psize (payload msg) \<le> of_nat kMaxDataLength \<and>
     opcode (payload msg) = kCmdBurstReadFile \<and> (session (payload msg) = 0 \<or> 0 \<le> s_fd s)"

lemma run_burst: "opcode p = kCmdBurstReadFile \<Longrightarrow> run_request t p s = Some (workBurst p t s)"
  by (simp add: run_request_def kCmdBurstReadFile_def)

text \<open>A request is answered by exactly one message to its sender, with the next sequence number
  and the opcode of the request, that is an Ack or a Nak with an error number; only a burst that
  is accepted is not answered.\<close>

theorem ftp_one_reply:
  assumes "process_request msg t s = Some s'"
  shows "if burst_accepted msg s then ftp_sent s' = ftp_sent s
    else \<exists>r. ftp_sent s' = ftp_sent s @ [r] \<and> target_system r = t \<and>
      seq_number (payload r) = seq_number (payload msg) + 1 \<and> req_opcode (payload r) = opcode (payload msg) \<and>
      (opcode (payload r) = kRspAck \<or>
       opcode (payload r) = kRspNak \<and> (\<exists>err e. err \<noteq> kErrNone \<and>
         take (unat (psize (payload r))) (pdata (payload r)) = error_data err e))"
  using assms
proof (cases rule: process_request_cases)
  case (1 err p1 s1)
  have head: "same_head (payload msg) s (err, p1, s1)"
    using 1(1) run_request_head by (auto simp: same_head_def split: if_splits)
  have burst: "burst_accepted msg s \<longleftrightarrow> (psize (payload msg) \<le> of_nat kMaxDataLength \<and>
      opcode (payload msg) = kCmdBurstReadFile) \<and> err = kErrNone"
    using 1(1) run_burst [of "payload msg" t s]
    by (auto simp: burst_accepted_def workBurst_def split: if_splits)
  have nak: "take (unat (psize (nak_payload e2 n q))) (pdata (nak_payload e2 n q)) = error_data e2 n" for e2 n q
    by (cases e2) (simp_all add: nak_payload_def error_data_def put_bytes_def)
  show ?thesis
  proof (cases "burst_accepted msg s")
    case True
    then show ?thesis
      using head burst unfolding 1(2) by (simp add: same_head_def)
  next
    case False
    let ?q = "p1\<lparr>seq_number := seq_number p1 + 1, req_opcode := opcode p1, opcode := kRspNak\<rparr>"
    have "err = kErrNone \<or> take (unat (psize (nak_payload err (os_errno (f_os s1)) ?q)))
        (pdata (nak_payload err (os_errno (f_os s1)) ?q)) = error_data err (os_errno (f_os s1))"
      using nak by blast
    then show ?thesis
      using head False unfolding 1(2) burst
      by (auto simp: same_head_def nak_payload_def)
  qed
qed

lemma ftp_one_reply_witness:
  "\<exists>r. ftp_sent (the (process_request (request 5 [] 0) 9 (ftp_init small_disk))) = [r] \<and> target_system r = 9"
proof -
  have p: "process_request (request 5 [] 0) 9 (ftp_init small_disk) \<noteq> None"
    "\<not> burst_accepted (request 5 [] 0) (ftp_init small_disk)" "ftp_sent (ftp_init small_disk) = []"
    by code_simp+
  then obtain s' where s': "process_request (request 5 [] 0) 9 (ftp_init small_disk) = Some s'"
    by auto
  show ?thesis
    using ftp_one_reply [OF s'] p(2,3) s' by auto
qed

section \<open>Reading the file of the session\<close>

text \<open>The session has a file open for reading whose contents are \<open>bs\<close>.\<close>

definition reads :: "u8 list \<Rightarrow> int \<Rightarrow> os \<Rightarrow> bool" where
  "reads bs fd w \<longleftrightarrow> (case get_open fd w of
     None \<Rightarrow> False
   | Some f \<Rightarrow> of_reads f \<and> (case os_inodes w ! of_inode f of Regular x wr \<Rightarrow> x = bs | _ \<Rightarrow> False))"

definition reading :: "u8 list \<Rightarrow> ftp \<Rightarrow> bool" where
  "reading bs s \<longleftrightarrow> reads bs (s_fd s) (f_os s) \<and> length bs < 2 ^ 32 \<and> file_size s = of_nat (length bs)"

lemma readsD:
  "reads bs fd w \<Longrightarrow> \<exists>f wr. get_open fd w = Some f \<and> of_reads f \<and> os_inodes w ! of_inode f = Regular bs wr"
  by (auto simp: reads_def split: option.splits inode.splits)

lemma reads_frame:
  "reads bs fd w \<Longrightarrow> get_open fd w' = map_option (\<lambda>f. f\<lparr>of_pos := pos\<rparr>) (get_open fd w) \<Longrightarrow>
   os_inodes w' = os_inodes w \<Longrightarrow> reads bs fd w'"
  by (auto simp: reads_def split: option.splits)

lemma reads_same: "reads bs fd w \<Longrightarrow> get_open fd w' = get_open fd w \<Longrightarrow> os_inodes w' = os_inodes w \<Longrightarrow> reads bs fd w'"
  by (auto simp: reads_def split: option.splits)

lemma sys_lseek_reads:
  assumes "sys_lseek fd off w = (r, w')" "reads bs fd w"
  shows "reads bs fd w' \<and> (0 \<le> r \<longrightarrow> unread fd w' = drop off bs)"
proof -
  obtain f wr where f: "get_open fd w = Some f" "of_reads f" "os_inodes w ! of_inode f = Regular bs wr"
    using readsD [OF assms(2)] by blast
  consider e where "os_fail e (snd (io_next w)) = (r, w')"
    | "r = int off" "w' = set_pos fd f off (snd (io_next w))"
    using assms(1) f by (auto simp: sys_lseek_def split_beta Let_def split: outcome.splits)
  then show ?thesis
  proof cases
    case 1
    then show ?thesis
      using assms(2) by (auto simp: os_fail_def intro: reads_same)
  next
    case 2
    then show ?thesis
      using f get_open_set_pos [of fd "snd (io_next w)" f fd f off] by (auto simp: reads_def unread_def)
  qed
qed

lemma sys_read_reads:
  assumes "sys_read fd n w = (r, bytes, w')" "reads bs fd w"
  shows "reads bs fd w'"
proof -
  obtain f wr where f: "get_open fd w = Some f" "of_reads f" "os_inodes w ! of_inode f = Regular bs wr"
    using readsD [OF assms(2)] by blast
  consider e where "w' = (snd (io_next w))\<lparr>os_errno := e\<rparr>" | pos where "w' = set_pos fd f pos (snd (io_next w))"
    using assms(1) f by (auto simp: sys_read_def split_beta Let_def split: outcome.splits)
  then show ?thesis
  proof cases
    case 1
    then show ?thesis
      using assms(2) by (auto intro: reads_same)
  next
    case (2 pos)
    then show ?thesis
      using f get_open_set_pos [of fd "snd (io_next w)" f fd f pos] by (auto simp: reads_def)
  qed
qed

text \<open>The data of a message, and the data of the acknowledgements among messages.\<close>

definition msg_data :: "ftp_msg \<Rightarrow> u8 list" where
  "msg_data m = take (unat (psize (payload m))) (pdata (payload m))"

definition acked_data :: "ftp_msg list \<Rightarrow> u8 list" where
  "acked_data ms = concat (map msg_data (filter (\<lambda>m. opcode (payload m) = kRspAck) ms))"

lemma acked_data_simps [simp]:
  "acked_data [] = []" "acked_data (ms @ ms') = acked_data ms @ acked_data ms'"
  by (simp_all add: acked_data_def)

lemma take_put_bytes: "length bs \<le> 239 \<Longrightarrow> take (unat (word_of_int (int (length bs)) :: u8)) (put_bytes 0 bs d) = bs"
  by (simp add: put_bytes_def unat_of_nat)

text \<open>One packet carries the slice of the file at the offset, or is a refusal; the end of the file is
  reported only there.\<close>

lemma stream_packet_slice:
  assumes "stream_packet junk s = (err, p, s1)" "reading bs s"
  shows "reading bs s1 \<and> ftp_sent s1 = ftp_sent s \<and> stream_offset s \<le> stream_offset s1 \<and>
    (if err = kErrNone
     then opcode p = kRspAck \<and> take (unat (psize p)) (pdata p) =
         take (unat (stream_offset s1) - unat (stream_offset s)) (drop (unat (stream_offset s)) bs) \<and>
       unat (stream_offset s1) \<le> length bs
     else stream_offset s1 = stream_offset s) \<and>
    (err = kErrEOF \<longrightarrow> length bs \<le> unat (stream_offset s1))"
proof -
  have size: "unat (file_size s) = length bs"
    using assms(2) by (simp add: reading_def unat_of_nat)
  show ?thesis
  proof (cases "stream_offset s \<ge> file_size s")
    case True
    then show ?thesis
      using assms size by (auto simp: stream_packet_def Let_def reading_def word_le_nat_alt)
  next
    case False
    let ?off = "unat (stream_offset s)"
    have off: "?off < length bs"
      using False size by (simp add: word_le_nat_alt)
    obtain r w1 where l: "sys_lseek (s_fd s) ?off (f_os s) = (r, w1)"
      by fastforce
    obtain n bytes w2 where rd: "sys_read (s_fd s) kMaxDataLength w1 = (n, bytes, w2)"
      by (metis prod_cases3)
    have 1: "reads bs (s_fd s) w1" "0 \<le> r \<longrightarrow> unread (s_fd s) w1 = drop ?off bs"
      using sys_lseek_reads [OF l] assms(2) by (auto simp: reading_def)
    have 2: "reads bs (s_fd s) w2"
      by (rule sys_read_reads [OF rd 1(1)])
    let ?err = "(kErrFailErrno, junk\<lparr>seq_number := stream_seq_number s, session := 0, opcode := kRspAck,
        req_opcode := kCmdBurstReadFile, poffset := stream_offset s\<rparr>,
        with_os (if r < 0 then w1 else w2) (s\<lparr>stream_seq_number := stream_seq_number s + 1\<rparr>))"
    show ?thesis
    proof (cases "r < 0 \<or> n < 0")
      case True
      then have "stream_packet junk s = ?err"
        using False l rd by (auto simp: stream_packet_def Let_def)
      then have "err = kErrFailErrno" "ftp_sent s1 = ftp_sent s" "stream_offset s1 = stream_offset s"
          "s_fd s1 = s_fd s" "file_size s1 = file_size s" "f_os s1 = (if r < 0 then w1 else w2)"
        using assms(1) by (auto simp: with_os_def)
      then show ?thesis
        using assms(2) 1(1) 2 by (simp add: reading_def)
    next
      case ok: False
      have got: "int (length bytes) = n" "bytes = take (length bytes) (drop ?off bs)" "length bytes \<le> 239"
        using sys_read_ok [OF rd] 1(2) ok by (auto simp: kMaxDataLength_def)
      have "length bytes \<le> length (drop ?off bs)"
        using got(2) by (metis length_take min.cobounded1)
      then have le: "?off + length bytes \<le> length bs"
        using off by simp
      have n: "n = int (length bytes)"
        using got(1) by simp
      have "length bs < 2 ^ 32"
        using assms(2) by (simp add: reading_def)
      then have un: "unat (stream_offset s + word_of_int n) = ?off + length bytes"
        using le unfolding n by (simp add: unat_word_ariths unat_of_nat)
      then have "stream_offset s \<le> stream_offset s + word_of_int n"
        by (simp add: word_le_nat_alt)
      moreover have "err = kErrNone" "stream_offset s1 = stream_offset s + word_of_int n"
          "p = junk\<lparr>seq_number := stream_seq_number s, session := 0, opcode := kRspAck,
             req_opcode := kCmdBurstReadFile, poffset := stream_offset s, psize := word_of_int n,
             pdata := put_bytes 0 bytes (pdata junk)\<rparr>"
          "ftp_sent s1 = ftp_sent s" "f_os s1 = w2" "s_fd s1 = s_fd s" "file_size s1 = file_size s"
        using assms(1) False l rd ok by (auto simp: stream_packet_def Let_def)
      ultimately show ?thesis
        using assms(2) 2 un le got(2) take_put_bytes [OF got(3), of "pdata junk"] n
        by (simp add: reading_def)
    qed
  qed
qed

text \<open>The slices of consecutive packets are one slice.\<close>

lemma take_drop_append:
  "a \<le> b \<Longrightarrow> b \<le> c \<Longrightarrow> take (b - a) (drop a bs) @ take (c - b) (drop b bs) = take (c - a) (drop a bs)"
proof -
  assume "a \<le> b" "b \<le> c"
  then have "take (c - a) (drop a bs) = take ((b - a) + (c - b)) (drop a bs)" "drop b bs = drop (b - a) (drop a bs)"
    by simp_all
  then show ?thesis
    by (simp add: take_add)
qed

definition streamed :: "u8 list \<Rightarrow> ftp \<Rightarrow> ftp \<Rightarrow> bool" where
  "streamed bs s s' \<longleftrightarrow> reading bs s' \<and> stream_offset s \<le> stream_offset s' \<and>
     (\<exists>ms. ftp_sent s' = ftp_sent s @ ms \<and>
       acked_data ms = take (unat (stream_offset s') - unat (stream_offset s)) (drop (unat (stream_offset s)) bs) \<and>
       (\<forall>m \<in> set ms. opcode (payload m) = kRspNak \<and> msg_data m = [error_number kErrEOF] \<longrightarrow>
          length bs \<le> unat (stream_offset s')))"

lemma streamed_trans:
  assumes "streamed bs s s'" "streamed bs s' s''"
  shows "streamed bs s s''"
proof -
  obtain ms where ms: "ftp_sent s' = ftp_sent s @ ms"
      "acked_data ms = take (unat (stream_offset s') - unat (stream_offset s)) (drop (unat (stream_offset s)) bs)"
      "\<forall>m \<in> set ms. opcode (payload m) = kRspNak \<and> msg_data m = [error_number kErrEOF] \<longrightarrow>
         length bs \<le> unat (stream_offset s')"
    using assms(1) by (auto simp: streamed_def)
  obtain ms' where ms': "ftp_sent s'' = ftp_sent s' @ ms'"
      "acked_data ms' = take (unat (stream_offset s'') - unat (stream_offset s')) (drop (unat (stream_offset s')) bs)"
      "\<forall>m \<in> set ms'. opcode (payload m) = kRspNak \<and> msg_data m = [error_number kErrEOF] \<longrightarrow>
         length bs \<le> unat (stream_offset s'')"
    using assms(2) by (auto simp: streamed_def)
  have le: "unat (stream_offset s) \<le> unat (stream_offset s')" "unat (stream_offset s') \<le> unat (stream_offset s'')"
    using assms by (auto simp: streamed_def word_le_nat_alt)
  have "reading bs s''" "stream_offset s \<le> stream_offset s''"
    using assms le by (auto simp: streamed_def word_le_nat_alt)
  moreover have "acked_data (ms @ ms') =
      take (unat (stream_offset s'') - unat (stream_offset s)) (drop (unat (stream_offset s)) bs)"
    using ms(2) ms'(2) take_drop_append [OF le, of bs] by simp
  moreover have "\<forall>m \<in> set (ms @ ms'). opcode (payload m) = kRspNak \<and> msg_data m = [error_number kErrEOF] \<longrightarrow>
      length bs \<le> unat (stream_offset s'')"
    using ms(3) ms'(3) le(2) by fastforce
  moreover have "ftp_sent s'' = ftp_sent s @ (ms @ ms')"
    using ms(1) ms'(1) by simp
  ultimately show ?thesis
    unfolding streamed_def by blast
qed

lemma nak_data: "msg_data (m\<lparr>payload := nak_payload err e q\<rparr>) = error_data err e"
  by (cases err) (simp_all add: msg_data_def nak_payload_def error_data_def put_bytes_def)

lemma send_loop_streamed: "reading bs s \<Longrightarrow> streamed bs s (send_loop junk j n s)"
proof (induction junk j n s rule: send_loop.induct)
  case (1 junk j n s)
  obtain err p s1 where k: "stream_packet (junk j) s = (err, p, s1)"
    by (metis prod_cases3)
  note pk = stream_packet_slice [OF k 1(2)]
  let ?msg = "\<lambda>q. \<lparr>target_network = 0, target_system = stream_target_system_id s1, target_component = 0,
    payload = q\<rparr>"
  let ?nak = "nak_payload err (os_errno (f_os s1)) (p\<lparr>opcode := kRspNak\<rparr>)"
  show ?case
  proof (cases "err = kErrNone")
    case False
    let ?s = "reply (?msg ?nak) (s1\<lparr>stream_download := False\<rparr>)"
    have "send_loop junk j n s = ?s"
      using False k by (subst send_loop.simps) (simp add: Let_def)
    moreover have "opcode ?nak = kRspNak"
      by (simp add: nak_payload_def)
    moreover have "msg_data (?msg ?nak) = error_data err (os_errno (f_os s1))"
      using nak_data [where m = "?msg p"] by simp
    ultimately show ?thesis
      using pk False
      by (auto simp: streamed_def reading_def acked_data_def kRspAck_def kRspNak_def error_data_def
          split: if_splits) (cases err; simp)+
  next
    case True
    have one: "streamed bs s (reply (?msg q) s2)"
      if "opcode q = opcode p" "psize q = psize p" "pdata q = pdata p" "reading bs s2"
        "stream_offset s2 = stream_offset s1" "ftp_sent s2 = ftp_sent s1" for q s2
      using pk True that
      by (auto simp: streamed_def reading_def acked_data_def msg_data_def kRspAck_def kRspNak_def)
    show ?thesis
    proof (cases "n < ftp_message_size * 2")
      case last: True
      have "reading bs (s1\<lparr>stream_download := False, stream_chunk_transmitted := 0\<rparr>)" "reading bs s1"
        using pk by (simp_all add: reading_def)
      then show ?thesis
        using True last k one by (subst send_loop.simps) (simp add: Let_def)
    next
      case more: False
      let ?s = "reply (?msg (p\<lparr>burst_complete := 0\<rparr>)) s1"
      have first: "streamed bs s ?s"
        by (rule one) (use pk in simp_all)
      moreover have "send_loop junk j n s = send_loop junk (Suc j) (n - ftp_message_size) ?s"
        using True more k by (subst send_loop.simps) (simp add: Let_def)
      moreover have "streamed bs ?s (send_loop junk (Suc j) (n - ftp_message_size) ?s)"
        using 1(1) [OF k [symmetric] refl refl] True more first by (simp add: streamed_def)
      ultimately show ?thesis
        using streamed_trans by metis
    qed
  qed
qed

text \<open>Any number of turns of the stream, each with the room there is in the transmit buffer.\<close>

fun send_all :: "((nat \<Rightarrow> ftp_payload) \<times> nat) list \<Rightarrow> ftp \<Rightarrow> ftp" where
  "send_all [] s = s"
| "send_all ((junk, free) # xs) s = send_all xs (send_stream junk free s)"

lemma send_all_streamed: "reading bs s \<Longrightarrow> streamed bs s (send_all xs s)"
proof (induction xs arbitrary: s)
  case Nil
  then show ?case
    by (auto simp: streamed_def)
next
  case (Cons x xs)
  obtain junk free where x: "x = (junk, free)"
    by fastforce
  have "streamed bs s (send_stream junk free s)"
    using send_loop_streamed [OF Cons.prems] Cons.prems by (auto simp: send_stream_def streamed_def)
  moreover then have "streamed bs (send_stream junk free s) (send_all xs (send_stream junk free s))"
    using Cons.IH by (auto simp: streamed_def)
  ultimately show ?case
    using streamed_trans x by auto
qed

text \<open>C31: After a burst is accepted, whatever room the transmit buffer has in each turn and whatever
  call fails, the data acknowledged so far is the slice of the open file from the requested
  offset to the offset reached, and the end of the file is reported only when it was reached.\<close>

theorem ftp_stream_slice:
  assumes "reading bs s" "burst_accepted msg s" "process_request msg t s = Some s1" "s2 = send_all xs s1"
    and "off = unat (poffset (payload msg))"
  shows "\<exists>ms. ftp_sent s2 = ftp_sent s @ ms \<and>
    acked_data ms = take (unat (stream_offset s2) - off) (drop off bs) \<and>
    (\<forall>m \<in> set ms. opcode (payload m) = kRspNak \<and> msg_data m = [error_number kErrEOF] \<longrightarrow>
       length bs \<le> unat (stream_offset s2))"
proof -
  have s1: "s1 = snd (snd (workBurst (payload msg) t s))"
    using assms(2,3) by (auto simp: process_request_def burst_accepted_def run_burst workBurst_def Let_def
        split: if_splits)
  have "reading bs s1" "ftp_sent s1 = ftp_sent s" "stream_offset s1 = poffset (payload msg)"
    using assms(1,2) unfolding s1 by (auto simp: workBurst_def burst_accepted_def reading_def)
  then show ?thesis
    using send_all_streamed [of bs s1 xs] assms(4,5) by (auto simp: streamed_def)
qed

definition open_session :: ftp where
  "open_session = the (process_request (request 4 [47, 102] 0) 9 (ftp_init small_disk))"

lemma open_session_reading: "reading [1, 2, 3, 4, 5] open_session"
proof -
  have "reads [1, 2, 3, 4, 5] (s_fd open_session) (f_os open_session)" "file_size open_session = 5"
    by code_simp+
  then show ?thesis
    by (simp add: reading_def)
qed

lemma ftp_stream_slice_witness:
  "\<exists>s1 ms. process_request (request 15 [] 1) 9 open_session = Some s1 \<and>
     ftp_sent (send_all [(\<lambda>_. payload (request 0 [] 0), 600)] s1) = ftp_sent open_session @ ms \<and>
     acked_data ms = take (unat (stream_offset (send_all [(\<lambda>_. payload (request 0 [] 0), 600)] s1)) - 1) [2, 3, 4, 5]"
proof -
  have "process_request (request 15 [] 1) 9 open_session \<noteq> None" "burst_accepted (request 15 [] 1) open_session"
    by code_simp+
  then obtain s1 where s1: "process_request (request 15 [] 1) 9 open_session = Some s1"
    by auto
  have "1 = unat (poffset (payload (request 15 [] 1)))"
    by code_simp
  from ftp_stream_slice [OF open_session_reading \<open>burst_accepted _ _\<close> s1 refl this,
      where xs = "[(\<lambda>_. payload (request 0 [] 0), 600)]"]
  show ?thesis
    using s1 by (auto simp del: send_all.simps)
qed

section \<open>Downloading request by request\<close>

text \<open>A client that asks for the file piece by piece until the server reports its end.\<close>

fun download :: "nat \<Rightarrow> ftp_msg \<Rightarrow> u32 \<Rightarrow> ftp \<Rightarrow> u8 list option" where
  "download 0 m off s = None"
| "download (Suc k) m off s =
     do {
       s' \<leftarrow> process_request (m\<lparr>payload := (payload m)\<lparr>opcode := 5, session := 0, poffset := off\<rparr>\<rparr>) 9 s;
       let r = last (ftp_sent s');
       if opcode (payload r) = kRspAck
       then map_option (append (msg_data r)) (download k m (off + ucast (psize (payload r))) s')
       else if msg_data r = [error_number kErrEOF] then Some [] else None
     }"

text \<open>Calls may be short but do not fail.\<close>

definition fine :: "outcome \<Rightarrow> bool" where
  "fine x = (case x of Fails e \<Rightarrow> False | Short k \<Rightarrow> 0 < k | Done \<Rightarrow> True)"

definition all_fine :: "os \<Rightarrow> bool" where
  "all_fine w = list_all fine (os_script w)"

lemma io_next_fine: "io_next w = (x, w') \<Longrightarrow> all_fine w \<Longrightarrow> fine x \<and> all_fine w'"
  by (auto simp: io_next_def all_fine_def fine_def split: list.splits)

lemma sys_lseek_fine:
  assumes "all_fine w" "reads bs fd w" "sys_lseek fd off w = (r, w')"
  shows "r = int off \<and> all_fine w'"
proof -
  obtain x w1 where x: "io_next w = (x, w1)"
    by fastforce
  obtain f wr where "get_open fd w = Some f"
    using readsD [OF assms(2)] by blast
  then have f: "get_open fd w1 = Some f"
    using get_open_next [of fd w] x by simp
  have "fine x" "all_fine w1"
    using io_next_fine [OF x assms(1)] by auto
  then show ?thesis
    using assms(3) x f by (cases x) (auto simp: sys_lseek_def fine_def all_fine_def)
qed

lemma sys_read_fine:
  assumes "all_fine w" "reads bs fd w" "sys_read fd n w = (r, bytes, w')" "0 < n"
  shows "0 \<le> r \<and> all_fine w' \<and> (unread fd w \<noteq> [] \<longrightarrow> bytes \<noteq> [])"
proof -
  obtain x w1 where x: "io_next w = (x, w1)"
    by fastforce
  obtain f wr where f: "get_open fd w = Some f" "of_reads f" "os_inodes w ! of_inode f = Regular bs wr"
    using readsD [OF assms(2)] by blast
  then have f1: "get_open fd w1 = Some f" "os_inodes w1 ! of_inode f = Regular bs wr"
    using get_open_next [of fd w] io_next_fields(1) [of w] x by simp_all
  have "fine x" "all_fine w1"
    using io_next_fine [OF x assms(1)] by auto
  then show ?thesis
    using assms(3,4) x f f1
    by (cases x) (auto simp: sys_read_def fine_def all_fine_def Let_def unread_def moved_def)
qed

definition read_request :: "ftp_msg \<Rightarrow> u32 \<Rightarrow> ftp_msg" where
  "read_request m off = m\<lparr>payload := (payload m)\<lparr>opcode := 5, session := 0, poffset := off\<rparr>\<rparr>"

lemma read_request_payload:
  "payload (read_request m off) = (payload m)\<lparr>opcode := 5, session := 0, poffset := off\<rparr>"
  by (simp add: read_request_def)

lemma process_read:
  assumes "psize (payload m) \<le> of_nat kMaxDataLength"
  shows "process_request (read_request m off) t s =
    (let p = payload (read_request m off); (err, p1, s1) = workRead p s
     in Some (reply ((read_request m off)\<lparr>target_system := t, payload :=
        (if err = kErrNone then p1\<lparr>seq_number := seq_number p1 + 1, req_opcode := opcode p1, opcode := kRspAck\<rparr>
         else nak_payload err (os_errno (f_os s1))
           (p1\<lparr>seq_number := seq_number p1 + 1, req_opcode := opcode p1, opcode := kRspNak\<rparr>))\<rparr>) s1))"
proof -
  have "run_request t (payload (read_request m off)) s = Some (workRead (payload (read_request m off)) s)"
    by (simp add: run_request_def read_request_payload)
  moreover have "psize (payload (read_request m off)) = psize (payload m)"
    "opcode (payload (read_request m off)) \<noteq> kCmdBurstReadFile"
    by (simp_all add: read_request_payload kCmdBurstReadFile_def)
  ultimately show ?thesis
    using assms by (simp add: process_request_def Let_def split_beta)
qed

lemma read_step:
  assumes "reading bs s" "all_fine (f_os s)" "off < length bs" "psize (payload m) \<le> of_nat kMaxDataLength"
  shows "\<exists>s' r. process_request (read_request m (of_nat off)) t s = Some s' \<and> ftp_sent s' = ftp_sent s @ [r] \<and>
    opcode (payload r) = kRspAck \<and> reading bs s' \<and> all_fine (f_os s') \<and>
    0 < unat (psize (payload r)) \<and> off + unat (psize (payload r)) \<le> length bs \<and>
    msg_data r = take (unat (psize (payload r))) (drop off bs)"
proof -
  have len: "length bs < 2 ^ 32" "reads bs (s_fd s) (f_os s)" "file_size s = of_nat (length bs)"
    using assms(1) by (auto simp: reading_def)
  then have off: "unat (of_nat off :: u32) = off" "\<not> file_size s \<le> of_nat off"
    using assms(3) by (simp_all add: unat_of_nat word_le_nat_alt)
  have fd: "0 \<le> s_fd s"
    using readsD [OF len(2)] get_open_SomeD by blast
  obtain r w1 where l: "sys_lseek (s_fd s) off (f_os s) = (r, w1)"
    by fastforce
  obtain n bytes w2 where rd: "sys_read (s_fd s) kMaxDataLength w1 = (n, bytes, w2)"
    by (metis prod_cases3)
  have 1: "r = int off" "all_fine w1" "reads bs (s_fd s) w1" "unread (s_fd s) w1 = drop off bs"
    using sys_lseek_fine [OF assms(2) len(2) l] sys_lseek_reads [OF l len(2)] by auto
  have 2: "0 \<le> n" "all_fine w2" "bytes \<noteq> []"
    using sys_read_fine [OF 1(2,3) rd] 1(4) assms(3) by (auto simp: kMaxDataLength_def)
  have 3: "n = int (length bytes)" "bytes = take (length bytes) (drop off bs)" "length bytes \<le> 239"
    using sys_read_ok [OF rd] 2(1) 1(4) by (auto simp: kMaxDataLength_def)
  have "length bytes \<le> length (drop off bs)"
    using 3(2) by (metis length_take min.cobounded1)
  then have le: "off + length bytes \<le> length bs"
    using assms(3) by simp
  let ?p = "payload (read_request m (of_nat off))"
  have "workRead ?p s = (kErrNone, ?p\<lparr>psize := word_of_int n, pdata := put_bytes 0 bytes (pdata ?p)\<rparr>, with_os w2 s)"
    using off fd l rd 1(1) 2(1) by (simp add: workRead_def read_request_payload Let_def)
  then have "process_request (read_request m (of_nat off)) t s = Some (reply ((read_request m (of_nat off))
      \<lparr>target_system := t, payload := ?p\<lparr>psize := word_of_int n, pdata := put_bytes 0 bytes (pdata ?p),
         seq_number := seq_number ?p + 1, req_opcode := opcode ?p, opcode := kRspAck\<rparr>\<rparr>) (with_os w2 s))"
    by (simp add: process_read [OF assms(4)] Let_def)
  moreover have "reading bs (with_os w2 s)"
    using sys_read_reads [OF rd 1(3)] len by (simp add: reading_def with_os_def)
  moreover have "unat (word_of_int n :: u8) = length bytes"
    using 3(3) unfolding 3(1) by (simp add: unat_of_nat)
  ultimately show ?thesis
    using 2 3 le take_put_bytes [OF 3(3), of "pdata ?p"]
    by (auto simp: msg_data_def reading_def)
qed

lemma read_end:
  assumes "reading bs s" "psize (payload m) \<le> of_nat kMaxDataLength"
  shows "\<exists>s' r. process_request (read_request m (of_nat (length bs))) t s = Some s' \<and> ftp_sent s' = ftp_sent s @ [r] \<and>
    opcode (payload r) = kRspNak \<and> msg_data r = [error_number kErrEOF]"
proof -
  have "0 \<le> s_fd s" "file_size s = of_nat (length bs)"
    using assms(1) readsD get_open_SomeD by (fastforce simp: reading_def)+
  then have "workRead (payload (read_request m (of_nat (length bs)))) s
      = (kErrEOF, payload (read_request m (of_nat (length bs))), s)"
    by (simp add: workRead_def read_request_payload)
  then show ?thesis
    using nak_data [where err = kErrEOF]
    by (simp add: process_read [OF assms(2)] Let_def nak_payload_def error_data_def msg_data_def put_bytes_def)
qed

lemma download_from:
  "reading bs s \<Longrightarrow> all_fine (f_os s) \<Longrightarrow> off \<le> length bs \<Longrightarrow> length bs - off < k \<Longrightarrow>
   psize (payload m) \<le> of_nat kMaxDataLength \<Longrightarrow> download k m (of_nat off) s = Some (drop off bs)"
proof (induction k arbitrary: off s)
  case (Suc k)
  show ?case
  proof (cases "off = length bs")
    case True
    then show ?thesis
      using read_end [OF Suc.prems(1,5), of 9] by (auto simp: read_request_def kRspAck_def kRspNak_def)
  next
    case False
    then have lt: "off < length bs"
      using Suc.prems(3) by simp
    then obtain s' r where r: "process_request (read_request m (of_nat off)) 9 s = Some s'"
        "ftp_sent s' = ftp_sent s @ [r]" "opcode (payload r) = kRspAck" "reading bs s'" "all_fine (f_os s')"
        "0 < unat (psize (payload r))" "off + unat (psize (payload r)) \<le> length bs"
        "msg_data r = take (unat (psize (payload r))) (drop off bs)"
      using read_step [OF Suc.prems(1,2) _ Suc.prems(5), of off 9] by blast
    let ?n = "unat (psize (payload r))"
    have "(of_nat off :: u32) + ucast (psize (payload r)) = of_nat (off + ?n)"
      by simp
    moreover have "length bs - (off + ?n) < k"
      using r(6) Suc.prems(4) lt by linarith
    then have "download k m (of_nat (off + ?n)) s' = Some (drop (off + ?n) bs)"
      using Suc.IH [OF r(4,5,7)] Suc.prems(5) by simp
    moreover have "take ?n (drop off bs) @ drop (off + ?n) bs = drop off bs"
      by (metis add.commute append_take_drop_id drop_drop)
    ultimately show ?thesis
      using r(1,2,3,8) by (simp add: read_request_def del: of_nat_add)
  qed
qed simp

text \<open>C13: A client that reads an open file piece by piece, each request at the offset reached so far,
  gets exactly the file, when no call fails but reads may be short, in at most one request more
  than the file has bytes.\<close>

theorem ftp_download:
  assumes "reading bs s" "all_fine (f_os s)" "length bs < k" "psize (payload m) \<le> of_nat kMaxDataLength"
  shows "download k m 0 s = Some bs"
  using download_from [OF assms(1,2), of 0 k m] assms(3,4) by simp

lemma ftp_download_witness: "download 6 (request 0 [] 0) 0 open_session = Some [1, 2, 3, 4, 5]"
proof -
  have "all_fine (f_os open_session)" "psize (payload (request 0 [] 0)) \<le> of_nat kMaxDataLength"
    by code_simp+
  then show ?thesis
    using ftp_download [OF open_session_reading] by simp
qed

end
