(* ===== verification/Muorb.thy ===== *)
theory Muorb
  imports UOrbManager
begin

text \<open>
  The bridge between the brokers of the two processors of the QURT build.  The DSP side queues what
  it publishes (\<open>src/modules/muorb/adsp/uORBFastRpcChannel.cpp\<close>, \<open>px4muorb.cpp\<close>); the application
  side fetches the queue in bulk, takes the packets apart and hands them to its own broker
  (\<open>src/modules/muorb/krait/uORBKraitFastRpcChannel.cpp\<close>).  The statistics of the channels, which
  are never read, are left out.
\<close>

section \<open>The channel of the DSP\<close>

definition MAX_MSG_QUEUE_SIZE :: nat where "MAX_MSG_QUEUE_SIZE = 100"
definition PACKET_HEADER_SIZE :: nat where "PACKET_HEADER_SIZE = 2 + 2"

record data_msg =
  max_buffer :: nat
  msg_length :: nat
  msg_buffer :: "u8 list"
  msg_name :: string

record fastrpc =
  data_queue :: "data_msg list"
  q_in :: nat
  q_out :: nat
  subscribers :: "string list"
  remote_subscribers :: "string set"
  data_available :: nat
  dropped_pkts :: nat
  rx_handler :: bool

definition fastrpc_init :: fastrpc where
  "fastrpc_init = \<lparr>data_queue = replicate MAX_MSG_QUEUE_SIZE
       \<lparr>max_buffer = 0, msg_length = 0, msg_buffer = [], msg_name = []\<rparr>,
     q_in = 0, q_out = 0, subscribers = [], remote_subscribers = {}, data_available = 0,
     dropped_pkts = 0, rx_handler = False\<rparr>"

definition next_index :: "nat \<Rightarrow> nat" where
  "next_index i = (if i + 1 = MAX_MSG_QUEUE_SIZE then 0 else i + 1)"

definition DataQSize :: "fastrpc \<Rightarrow> nat" where
  "DataQSize c = (q_in c + MAX_MSG_QUEUE_SIZE - q_out c) mod MAX_MSG_QUEUE_SIZE"

definition IsDataQFull :: "fastrpc \<Rightarrow> bool" where
  "IsDataQFull c \<longleftrightarrow> DataQSize c = MAX_MSG_QUEUE_SIZE - 1"

definition chan_add_subscription :: "string \<Rightarrow> fastrpc \<Rightarrow> int \<times> fastrpc" where
  "chan_add_subscription name c = (0, c\<lparr>subscribers := subscribers c @ [name]\<rparr>)"

definition chan_remove_subscription :: "string \<Rightarrow> fastrpc \<Rightarrow> int \<times> fastrpc" where
  "chan_remove_subscription name c = (0, c\<lparr>subscribers := filter (\<lambda>n. n \<noteq> name) (subscribers c)\<rparr>)"

definition is_subscriber_present :: "string \<Rightarrow> fastrpc \<Rightarrow> int \<times> int" where
  "is_subscriber_present name c = (0, if name \<in> set (subscribers c) then 1 else 0)"

definition register_handler :: "fastrpc \<Rightarrow> fastrpc" where
  "register_handler c = c\<lparr>rx_handler := True\<rparr>"

definition AddRemoteSubscriber :: "string \<Rightarrow> fastrpc \<Rightarrow> fastrpc" where
  "AddRemoteSubscriber name c = c\<lparr>remote_subscribers := insert name (remote_subscribers c)\<rparr>"

definition RemoveRemoteSubscriber :: "string \<Rightarrow> fastrpc \<Rightarrow> fastrpc" where
  "RemoveRemoteSubscriber name c = c\<lparr>remote_subscribers := remote_subscribers c - {name}\<rparr>"

definition unblock_get_data :: "fastrpc \<Rightarrow> fastrpc" where
  "unblock_get_data c = c\<lparr>data_available := data_available c + 1\<rparr>"

text \<open>A buffer that is too small is replaced by one of the length asked for.\<close>

definition check_and_expand :: "nat \<Rightarrow> data_msg \<Rightarrow> data_msg" where
  "check_and_expand len m =
     (if max_buffer m < len then m\<lparr>msg_buffer := replicate len 0, max_buffer := len\<rparr> else m)"

definition send_message :: "string \<Rightarrow> nat \<Rightarrow> u8 list \<Rightarrow> fastrpc \<Rightarrow> (int \<times> fastrpc) option" where
  "send_message name len data c =
     (if name \<notin> remote_subscribers c then Some (0, c)
      else do {
        let c1 = (if IsDataQFull c
                  then c\<lparr>q_out := next_index (q_out c), dropped_pkts := dropped_pkts c + 1\<rparr> else c);
        let m = check_and_expand len (data_queue c1 ! q_in c1);
        bytes \<leftarrow> mem_read data 0 len;
        buf \<leftarrow> mem_write (msg_buffer m) 0 bytes;
        let m' = m\<lparr>msg_buffer := buf, msg_length := len, msg_name := name\<rparr>;
        let c2 = c1\<lparr>data_queue := (data_queue c1)[q_in c1 := m'], q_in := next_index (q_in c1)\<rparr>;
        Some (0, if DataQSize c2 = 1 then c2\<lparr>data_available := data_available c2 + 1\<rparr> else c2)
      })"

section \<open>Packing\<close>

definition get_data_msg_size :: "data_msg \<Rightarrow> nat" where
  "get_data_msg_size m = msg_length m + (length (msg_name m) + 1) + PACKET_HEADER_SIZE"

definition bulk_header :: "data_msg \<Rightarrow> u8 list" where
  "bulk_header m = le_bytes (of_nat (length (msg_name m) + 1) :: u16) @ le_bytes (of_nat (msg_length m) :: u16)"

definition copy_data_to_buffer :: "data_msg \<Rightarrow> u8 list \<Rightarrow> nat \<Rightarrow> nat \<Rightarrow> (int \<times> u8 list) option" where
  "copy_data_to_buffer m dst offset dst_len =
     (let name_offset = offset + PACKET_HEADER_SIZE;
          data_offset = name_offset + length (msg_name m) + 1
      in if data_offset + msg_length m < dst_len
         then do {
           d1 \<leftarrow> mem_write dst offset (bulk_header m);
           d2 \<leftarrow> mem_write d1 name_offset (ascii (msg_name m));
           d3 \<leftarrow> mem_write d2 (name_offset + length (msg_name m)) [0];
           bytes \<leftarrow> mem_read (msg_buffer m) 0 (msg_length m);
           d4 \<leftarrow> mem_write d3 data_offset bytes;
           Some (int (data_offset + msg_length m - offset), d4)
         }
         else Some (-1, dst))"

text \<open>
  The loop of a bulk transfer, with the bytes copied, the topics counted and the return code.  The
  queue holds less than 100 messages and each round takes one, so that 100 rounds are enough.
\<close>

fun bulk_loop :: "nat \<Rightarrow> u8 list \<Rightarrow> nat \<Rightarrow> nat \<Rightarrow> nat \<Rightarrow> fastrpc \<Rightarrow> (int \<times> u8 list \<times> nat \<times> nat \<times> fastrpc) option" where
  "bulk_loop 0 buf max_bytes copied count c = None"
| "bulk_loop (Suc k) buf max_bytes copied count c =
     (if DataQSize c = 0 then Some (0, buf, copied, count, c)
      else
        (let m = data_queue c ! q_out c
         in if int (get_data_msg_size m) < int max_bytes - int copied
            then do {
              (r, buf') \<leftarrow> copy_data_to_buffer m buf copied max_bytes;
              if r = -1 then Some (if copied = 0 then -1 else 0, buf', copied, count, c)
              else bulk_loop k buf' max_bytes (copied + nat r) (count + 1) (c\<lparr>q_out := next_index (q_out c)\<rparr>)
            }
            else Some (if copied = 0 then -1 else 0, buf, copied, count, c)))"

text \<open>The result code, the buffer, the bytes and the topics returned; it blocks without a post.\<close>

definition get_bulk_data :: "u8 list \<Rightarrow> nat \<Rightarrow> fastrpc \<Rightarrow> (int \<times> u8 list \<times> nat \<times> nat \<times> fastrpc) option" where
  "get_bulk_data buf max_bytes c =
     (if data_available c = 0 then None
      else
        (let c1 = c\<lparr>data_available := data_available c - 1\<rparr>
         in if DataQSize c1 = 0 then Some (-1, buf, 0, 0, c1)
            else bulk_loop MAX_MSG_QUEUE_SIZE buf max_bytes 0 0 c1))"

section \<open>Calls from the other processor\<close>

type_synonym adsp = "fastrpc \<times> orb_world"

definition px4muorb_add_subscriber :: "string \<Rightarrow> adsp \<Rightarrow> (int \<times> adsp) option" where
  "px4muorb_add_subscriber name a =
     (let (c, w) = a; c1 = AddRemoteSubscriber name c
      in if rx_handler c
         then do {
           (rc, w') \<leftarrow> process_add_subscription name w;
           Some (rc, if rc \<noteq> 0 then RemoveRemoteSubscriber name c1 else c1, w')
         }
         else Some (-1, c1, w))"

definition px4muorb_remove_subscriber :: "string \<Rightarrow> adsp \<Rightarrow> int \<times> adsp" where
  "px4muorb_remove_subscriber name a =
     (let (c, w) = a; c1 = RemoveRemoteSubscriber name c
      in if rx_handler c
         then (let (rc, w') = process_remove_subscription name w in (rc, c1, w'))
         else (-1, c1, w))"

definition px4muorb_send_topic_data :: "string \<Rightarrow> int \<Rightarrow> u8 list \<Rightarrow> adsp \<Rightarrow> (int \<times> adsp) option" where
  "px4muorb_send_topic_data name len data a =
     (let (c, w) = a
      in if rx_handler c
         then do { (rc, w') \<leftarrow> process_received_message name len data w; Some (rc, c, w') }
         else Some (-1, c, w))"

definition px4muorb_is_subscriber_present :: "string \<Rightarrow> adsp \<Rightarrow> int \<times> int" where
  "px4muorb_is_subscriber_present name a = is_subscriber_present name (fst a)"

definition px4muorb_receive_bulk_data :: "u8 list \<Rightarrow> nat \<Rightarrow> adsp \<Rightarrow> (int \<times> u8 list \<times> nat \<times> nat \<times> adsp) option" where
  "px4muorb_receive_bulk_data buf max_bytes a =
     do {
       (rc, buf', n, count, c) \<leftarrow> get_bulk_data buf max_bytes (fst a);
       Some (rc, buf', n, count, c, snd a)
     }"

section \<open>The application processor\<close>

text \<open>
  Taking a bulk apart: the messages handed to the broker, each with its name, its length and its
  data.  A packet whose name does not have the length of its header ends the loop.
\<close>

definition cstring_at :: "u8 list \<Rightarrow> nat \<Rightarrow> u8 list option" where
  "cstring_at data off =
     (let rest = drop off data in if 0 \<in> set rest then Some (takeWhile (\<lambda>b. b \<noteq> 0) rest) else None)"

fun unpack_bulk :: "nat \<Rightarrow> u8 list \<Rightarrow> nat \<Rightarrow> (string \<times> u16 \<times> u8 list) list option" where
  "unpack_bulk 0 data processed = Some []"
| "unpack_bulk (Suc n) data processed =
     do {
       h \<leftarrow> mem_read data processed PACKET_HEADER_SIZE;
       name \<leftarrow> cstring_at data (processed + PACKET_HEADER_SIZE);
       let name_len = (of_le_bytes (take 2 h) :: u16);
       let data_len = (of_le_bytes (drop 2 h) :: u16);
       if int (unat name_len) \<noteq> int (unat (of_nat (length name) :: u16)) + 1 then Some []
       else do {
         bytes \<leftarrow> mem_read data (processed + PACKET_HEADER_SIZE + length name + 1) (unat data_len);
         rest \<leftarrow> unpack_bulk n data (processed + unat name_len + unat data_len + PACKET_HEADER_SIZE);
         Some ((chars name, data_len, bytes) # rest)
       }
     }"

fun deliver :: "(string \<times> u16 \<times> u8 list) list \<Rightarrow> orb_world \<Rightarrow> orb_world option" where
  "deliver [] w = Some w"
| "deliver ((name, len, data) # ms) w =
     do { (rc, w') \<leftarrow> process_received_message name (int (unat len)) data w; deliver ms w' }"

text \<open>One round of the receive thread, given what the transfer returned.\<close>

definition recv_round :: "int \<Rightarrow> u8 list \<Rightarrow> nat \<Rightarrow> orb_world \<Rightarrow> (bool \<times> orb_world) option" where
  "recv_round rc data num_topics w =
     (if rc = 0
      then do { ms \<leftarrow> unpack_bulk num_topics data 0; w' \<leftarrow> deliver ms w; Some (True, w') }
      else Some (False, w))"

text \<open>
  Sending to the DSP goes through a cache of which topics have subscribers there.  The calls to the
  DSP, \<open>IsSubscriberPresent\<close> and \<open>SendData\<close>, are parameters, and so are the readings of the clock:
  the first for the age of the entry, the second for its new time stamp.  The result is the code
  returned, whether the message was sent, and the cache.
\<close>

record krait =
  sub_cache :: "string \<Rightarrow> int option"
  sample_time :: "string \<Rightarrow> u64"

definition krait_refresh :: "string \<Rightarrow> int \<times> int \<Rightarrow> u64 \<Rightarrow> krait \<Rightarrow> krait" where
  "krait_refresh name answer now k =
     (if fst answer = 0
      then k\<lparr>sub_cache := (sub_cache k)(name \<mapsto> snd answer), sample_time := (sample_time k)(name := now)\<rparr> else k)"

definition SubCacheRefreshRate :: u64 where "SubCacheRefreshRate = 1000000"

definition krait_send_message :: "u64 \<Rightarrow> u64 \<Rightarrow> (string \<Rightarrow> int \<times> int) \<Rightarrow> (string \<Rightarrow> int) \<Rightarrow> string \<Rightarrow> krait
    \<Rightarrow> int \<times> bool \<times> krait" where
  "krait_send_message now later present send name k =
     (let k1 = (case sub_cache k name of
            None \<Rightarrow> krait_refresh name (present name) later k
          | Some s \<Rightarrow> if now - sample_time k name > SubCacheRefreshRate
                      then krait_refresh name (present name) later k else k);
          k2 = (if sub_cache k1 name = None then k1\<lparr>sub_cache := (sub_cache k1)(name \<mapsto> 0)\<rparr> else k1);
          sent = (the (sub_cache k2 name) > 0)
      in (if sent then send name else 0, sent, k2))"

end
