(* ===== verification/MuorbProps.thy ===== *)
theory MuorbProps
  imports Muorb
begin

text \<open>
  The bridge as its two ends see it.  \<open>contents\<close> abstracts the circular queue of the DSP to a list of
  messages; a bulk transfer is shown to move a prefix of it, through the packed bytes, to the
  receiver unchanged; any run of the channel is then a run of a bounded queue that drops its
  oldest message when it is full.
\<close>

section \<open>The queue as a list\<close>

definition msg_ok :: "data_msg \<Rightarrow> bool" where
  "msg_ok m \<longleftrightarrow> msg_length m \<le> max_buffer m \<and> length (msg_buffer m) = max_buffer m"

definition fastrpc_ok :: "fastrpc \<Rightarrow> bool" where
  "fastrpc_ok c \<longleftrightarrow> length (data_queue c) = 100 \<and> q_in c < 100 \<and> q_out c < 100 \<and>
     (\<forall>m \<in> set (data_queue c). msg_ok m)"

definition payload :: "data_msg \<Rightarrow> string \<times> u8 list" where
  "payload m = (msg_name m, take (msg_length m) (msg_buffer m))"

definition contents :: "fastrpc \<Rightarrow> (string \<times> u8 list) list" where
  "contents c = map (\<lambda>k. payload (data_queue c ! ((q_out c + k) mod 100))) [0..<DataQSize c]"

lemma fastrpc_init_ok: "fastrpc_ok fastrpc_init" "contents fastrpc_init = []"
  by (simp_all add: fastrpc_ok_def fastrpc_init_def MAX_MSG_QUEUE_SIZE_def msg_ok_def contents_def
      DataQSize_def)

lemma next_index_mod: "i < 100 \<Longrightarrow> next_index i = Suc i mod 100"
  by (auto simp: next_index_def MAX_MSG_QUEUE_SIZE_def)

lemma next_index_less [simp]: "i < 100 \<Longrightarrow> next_index i < 100"
  by (simp add: next_index_mod)

lemma length_contents [simp]: "length (contents c) = DataQSize c"
  by (simp add: contents_def)

lemma contents_empty: "contents c = [] \<longleftrightarrow> DataQSize c = 0"
  by (simp add: contents_def)

lemma DataQSize_less: "DataQSize c < 100"
  by (simp add: DataQSize_def MAX_MSG_QUEUE_SIZE_def)

lemma DataQSize_in:
  "fastrpc_ok c \<Longrightarrow> q_in c = (q_out c + DataQSize c) mod 100"
  by (auto simp: fastrpc_ok_def DataQSize_def MAX_MSG_QUEUE_SIZE_def mod_if split: if_splits)

lemma DataQSize_push:
  assumes "fastrpc_ok c" "DataQSize c < 99" "q_in d = next_index (q_in c)" "q_out d = q_out c"
  shows "DataQSize d = Suc (DataQSize c)"
  using assms
  by (auto simp: fastrpc_ok_def DataQSize_def MAX_MSG_QUEUE_SIZE_def next_index_def mod_if split: if_splits)

lemma DataQSize_pop:
  assumes "fastrpc_ok c" "0 < DataQSize c" "q_in d = q_in c" "q_out d = next_index (q_out c)"
  shows "Suc (DataQSize d) = DataQSize c"
  using assms
  by (auto simp: fastrpc_ok_def DataQSize_def MAX_MSG_QUEUE_SIZE_def next_index_def mod_if split: if_splits)

lemma contents_pop:
  assumes "fastrpc_ok c" "0 < DataQSize c" "q_in d = q_in c" "q_out d = next_index (q_out c)"
    and "data_queue d = data_queue c"
  shows "contents d = tl (contents c)" "fastrpc_ok d"
proof -
  have size: "DataQSize c = Suc (DataQSize d)"
    using DataQSize_pop [OF assms(1-4)] by simp
  have "q_out d = Suc (q_out c) mod 100"
    using assms(1,4) by (simp add: fastrpc_ok_def next_index_mod)
  then have "(q_out d + k) mod 100 = (q_out c + Suc k) mod 100" for k
    by (simp add: mod_simps)
  then show "contents d = tl (contents c)"
    by (simp add: contents_def size assms(5) upt_conv_Cons map_Suc_upt [symmetric] comp_def
        del: upt_Suc)
  show "fastrpc_ok d"
    using assms by (simp add: fastrpc_ok_def)
qed

lemma contents_hd:
  "fastrpc_ok c \<Longrightarrow> 0 < DataQSize c \<Longrightarrow> hd (contents c) = payload (data_queue c ! q_out c)"
  by (simp add: contents_def upt_conv_Cons fastrpc_ok_def del: upt_Suc)

lemma contents_push:
  assumes "fastrpc_ok c" "DataQSize c < 99" "q_in d = next_index (q_in c)" "q_out d = q_out c"
    and "data_queue d = (data_queue c)[q_in c := m]" "msg_ok m"
  shows "contents d = contents c @ [payload m]" "fastrpc_ok d"
proof -
  have len: "length (data_queue c) = 100" "q_in c < 100"
    using assms(1) by (simp_all add: fastrpc_ok_def)
  have new: "data_queue d ! ((q_out c + DataQSize c) mod 100) = m"
    using len assms(5) by (simp add: DataQSize_in [OF assms(1), symmetric])
  have old: "data_queue d ! ((q_out c + k) mod 100) = data_queue c ! ((q_out c + k) mod 100)"
    if "k < DataQSize c" for k
  proof -
    have "(q_out c + k) mod 100 \<noteq> (q_out c + DataQSize c) mod 100"
      using that assms(1,2) by (auto simp: fastrpc_ok_def mod_if split: if_splits)
    then show ?thesis
      using assms(5) by (simp add: DataQSize_in [OF assms(1), symmetric])
  qed
  show "contents d = contents c @ [payload m]"
    using old new assms(4) by (simp add: contents_def DataQSize_push [OF assms(1-4)])
  show "fastrpc_ok d"
    using assms len by (auto simp: fastrpc_ok_def dest: set_update_subset_insert [THEN subsetD])
qed

lemma in_set_tl: "x \<in> set (tl xs) \<Longrightarrow> x \<in> set xs"
  by (cases xs) simp_all

section \<open>Sending\<close>

lemma check_and_expand_ok:
  assumes "msg_ok m" "len \<le> length data"
  shows "\<exists>buf. mem_write (msg_buffer (check_and_expand len m)) 0 (take len data) = Some buf \<and>
    length buf = max_buffer (check_and_expand len m) \<and> take len buf = take len data \<and>
    len \<le> max_buffer (check_and_expand len m)"
  using assms by (auto simp: check_and_expand_def msg_ok_def mem_write_def)

lemma send_message_subscribed:
  assumes ok: "fastrpc_ok c" and sub: "name \<in> remote_subscribers c" and len: "len \<le> length data"
  shows "\<exists>c'. send_message name len data c = Some (0, c') \<and> fastrpc_ok c' \<and>
    contents c' = (if DataQSize c = 99 then tl (contents c) else contents c) @ [(name, take len data)] \<and>
    data_available c' = data_available c + (if contents c = [] then 1 else 0) \<and>
    remote_subscribers c' = remote_subscribers c"
proof -
  define c1 where "c1 = (if IsDataQFull c
    then c\<lparr>q_out := next_index (q_out c), dropped_pkts := dropped_pkts c + 1\<rparr> else c)"
  have full: "IsDataQFull c = (DataQSize c = 99)"
    by (simp add: IsDataQFull_def MAX_MSG_QUEUE_SIZE_def)
  have fields: "q_in c1 = q_in c" "data_queue c1 = data_queue c" "data_available c1 = data_available c"
    "remote_subscribers c1 = remote_subscribers c"
    by (simp_all add: c1_def)
  have c1: "contents c1 = (if DataQSize c = 99 then tl (contents c) else contents c)" "fastrpc_ok c1"
    "DataQSize c1 < 99" "DataQSize c1 = (if DataQSize c = 99 then 98 else DataQSize c)"
  proof -
    show con: "contents c1 = (if DataQSize c = 99 then tl (contents c) else contents c)"
      using contents_pop(1) [OF ok, of c1] by (cases "DataQSize c = 99") (simp_all add: c1_def full)
    show "fastrpc_ok c1"
      using contents_pop(2) [OF ok, of c1] ok by (cases "DataQSize c = 99") (simp_all add: c1_def full)
    show size: "DataQSize c1 = (if DataQSize c = 99 then 98 else DataQSize c)"
      using arg_cong [where f = length, OF con] by auto
    show "DataQSize c1 < 99"
      using size DataQSize_less [of c] by auto
  qed
  let ?m = "check_and_expand len (data_queue c1 ! q_in c1)"
  have "msg_ok (data_queue c1 ! q_in c1)"
    using c1(2) by (simp add: fastrpc_ok_def)
  then obtain buf where buf: "mem_write (msg_buffer ?m) 0 (take len data) = Some buf"
    "length buf = max_buffer ?m" "take len buf = take len data" "len \<le> max_buffer ?m"
    using check_and_expand_ok len by blast
  define m' where "m' = ?m\<lparr>msg_buffer := buf, msg_length := len, msg_name := name\<rparr>"
  define c2 where "c2 = c1\<lparr>data_queue := (data_queue c1)[q_in c1 := m'], q_in := next_index (q_in c1)\<rparr>"
  have m': "msg_ok m'" "payload m' = (name, take len data)"
    using buf by (simp_all add: m'_def msg_ok_def payload_def)
  have c2: "contents c2 = contents c1 @ [(name, take len data)]" "fastrpc_ok c2"
    using contents_push [OF c1(2,3), of c2 m'] m' by (simp_all add: c2_def)
  have "DataQSize c2 = Suc (DataQSize c1)"
    using DataQSize_push [OF c1(2,3), of c2] by (simp add: c2_def)
  then have one: "DataQSize c2 = 1 \<longleftrightarrow> contents c = []"
    using c1(4) by (auto simp: contents_empty)
  let ?c' = "if DataQSize c2 = 1 then c2\<lparr>data_available := data_available c2 + 1\<rparr> else c2"
  have "send_message name len data c = Some (0, ?c')"
    using sub len buf(1)
    by (simp add: send_message_def c1_def [symmetric] Let_def mem_read_ok m'_def c2_def)
  moreover have "fastrpc_ok ?c'" "contents ?c' = contents c2" "data_available c2 = data_available c"
    "remote_subscribers c2 = remote_subscribers c"
    using c2(2) by (simp_all add: fastrpc_ok_def contents_def DataQSize_def c2_def fields)
  ultimately show ?thesis
    using c1(1) c2(1) one by auto
qed

section \<open>Packets\<close>

definition packet :: "string \<times> u8 list \<Rightarrow> u8 list" where
  "packet x = le_bytes (of_nat (length (fst x) + 1) :: u16) @ le_bytes (of_nat (length (snd x)) :: u16) @
     ascii (fst x) @ [0] @ snd x"

definition packet_size :: "string \<times> u8 list \<Rightarrow> nat" where
  "packet_size x = length (fst x) + length (snd x) + 5"

text \<open>How many messages of a queue fit into the room left, the room never being filled to the last byte.\<close>

fun fitting :: "nat \<Rightarrow> (string \<times> u8 list) list \<Rightarrow> nat" where
  "fitting room [] = 0"
| "fitting room (x # xs) = (if packet_size x < room then Suc (fitting (room - packet_size x) xs) else 0)"

lemma length_packet [simp]: "length (packet x) = packet_size x"
  by (simp add: packet_def packet_size_def)

lemma size_payload: "msg_ok m \<Longrightarrow> packet_size (payload m) = get_data_msg_size m"
  by (simp add: packet_size_def payload_def get_data_msg_size_def PACKET_HEADER_SIZE_def msg_ok_def)

lemma copy_data_to_buffer_ok:
  assumes ok: "msg_ok m" and room: "offset + get_data_msg_size m < dst_len" "dst_len \<le> length dst"
  shows "copy_data_to_buffer m dst offset dst_len = Some (int (get_data_msg_size m),
    take offset dst @ packet (payload m) @ drop (offset + get_data_msg_size m) dst)"
proof -
  let ?n = "length (msg_name m)"
  have sz: "get_data_msg_size m = ?n + msg_length m + 5"
    by (simp add: get_data_msg_size_def PACKET_HEADER_SIZE_def)
  have h: "length (bulk_header m) = 4"
    by (simp add: bulk_header_def)
  have bytes: "mem_read (msg_buffer m) 0 (msg_length m) = Some (take (msg_length m) (msg_buffer m))"
    "length (take (msg_length m) (msg_buffer m)) = msg_length m"
    using ok by (simp_all add: msg_ok_def mem_read_def)
  have p: "packet (payload m) = bulk_header m @ ascii (msg_name m) @ [0] @ take (msg_length m) (msg_buffer m)"
    using bytes(2) by (simp add: packet_def bulk_header_def payload_def)
  let ?d1 = "take offset dst @ bulk_header m @ drop (offset + 4) dst"
  let ?d2 = "take offset dst @ bulk_header m @ ascii (msg_name m) @ drop (offset + 4 + ?n) dst"
  let ?d3 = "take offset dst @ bulk_header m @ ascii (msg_name m) @ [0] @ drop (offset + 5 + ?n) dst"
  have "mem_write dst offset (bulk_header m) = Some ?d1"
    using room sz h by (simp add: mem_write_def)
  moreover have "mem_write ?d1 (offset + 4) (ascii (msg_name m)) = Some ?d2"
    using room sz h by (simp add: mem_write_def ac_simps)
  moreover have "mem_write ?d2 (offset + 4 + ?n) [0] = Some ?d3"
    using room sz h by (simp add: mem_write_def ac_simps)
  moreover have "mem_write ?d3 (offset + 4 + ?n + 1) (take (msg_length m) (msg_buffer m)) =
      Some (take offset dst @ packet (payload m) @ drop (offset + get_data_msg_size m) dst)"
    using room sz h bytes(2) p by (simp add: mem_write_def ac_simps)
  ultimately show ?thesis
    using room sz bytes(1) by (simp add: copy_data_to_buffer_def PACKET_HEADER_SIZE_def Let_def)
qed

lemma fitting_le: "fitting room xs \<le> length xs"
  by (induction xs arbitrary: room) auto

definition packets :: "(string \<times> u8 list) list \<Rightarrow> u8 list" where
  "packets xs = concat (map packet xs)"

lemma packets_simps [simp]: "packets [] = []" "packets (x # xs) = packet x @ packets xs"
  by (simp_all add: packets_def)

text \<open>
  The loop copies the messages that fit, in order, behind what it has copied before, and takes them
  off the queue.
\<close>

lemma bulk_loop_copies:
  assumes "fastrpc_ok c" "DataQSize c < fuel" "copied \<le> max_bytes" "max_bytes \<le> length buf"
    and "k = fitting (max_bytes - copied) (contents c)"
  shows "\<exists>buf' c'. bulk_loop fuel buf max_bytes copied count c =
      Some (if copied = 0 \<and> k = 0 \<and> contents c \<noteq> [] then -1 else 0, buf',
        copied + length (packets (take k (contents c))), count + k, c') \<and>
    take (copied + length (packets (take k (contents c)))) buf' = take copied buf @ packets (take k (contents c)) \<and>
    length buf' = length buf \<and> fastrpc_ok c' \<and> contents c' = drop k (contents c) \<and>
    data_available c' = data_available c \<and> remote_subscribers c' = remote_subscribers c"
  using assms
proof (induction fuel arbitrary: c k buf copied count)
  case (Suc fuel)
  let ?m = "data_queue c ! q_out c"
  let ?c = "c\<lparr>q_out := next_index (q_out c)\<rparr>"
  show ?case
  proof (cases "contents c")
    case Nil
    then have "DataQSize c = 0"
      using length_contents [of c] by simp
    then show ?thesis
      using Nil Suc.prems by simp
  next
    case (Cons x xs)
    then have pos: "0 < DataQSize c"
      using length_contents [of c] by (cases "DataQSize c") auto
    have m: "msg_ok ?m" "payload ?m = x"
      using contents_hd [OF Suc.prems(1) pos] Suc.prems(1) Cons by (simp_all add: fastrpc_ok_def)
    have size: "get_data_msg_size ?m = packet_size x"
      using size_payload [OF m(1)] m(2) by simp
    have pop: "contents ?c = xs" "fastrpc_ok ?c"
      using contents_pop [OF Suc.prems(1) pos, of ?c] Cons by simp_all
    show ?thesis
    proof (cases "packet_size x < max_bytes - copied")
      case False
      then have "\<not> int (get_data_msg_size ?m) < int max_bytes - int copied" "k = 0"
        using Suc.prems(3,5) size Cons by simp_all
      then show ?thesis
        using pos Suc.prems(1) Cons by simp
    next
      case True
      let ?b = "take copied buf @ packet x @ drop (copied + packet_size x) buf"
      let ?k = "fitting (max_bytes - (copied + packet_size x)) xs"
      have k: "k = Suc ?k"
        using Suc.prems(5) Cons True by simp
      have room: "int (get_data_msg_size ?m) < int max_bytes - int copied"
        using True size by simp
      have copy: "copy_data_to_buffer ?m buf copied max_bytes = Some (int (packet_size x), ?b)"
        using copy_data_to_buffer_ok [OF m(1), of copied max_bytes buf] True Suc.prems(4) size m(2) by simp
      have len: "length ?b = length buf"
        using True Suc.prems(4) by simp
      have "DataQSize ?c < fuel"
        using DataQSize_pop [OF Suc.prems(1) pos, of ?c] Suc.prems(2) by simp
      note IH = Suc.IH [OF pop(2) this, of "copied + packet_size x" ?b ?k "count + 1", unfolded pop(1) len]
      have "copied + packet_size x \<le> max_bytes" "packet_size x \<noteq> 0"
        using True by (simp_all add: packet_size_def)
      then obtain buf' c' where rec: "bulk_loop fuel ?b max_bytes (copied + packet_size x) (count + 1) ?c =
          Some (0, buf', copied + packet_size x + length (packets (take ?k xs)), count + 1 + ?k, c')"
        "take (copied + packet_size x + length (packets (take ?k xs))) buf' =
          take (copied + packet_size x) ?b @ packets (take ?k xs)"
        "length buf' = length buf" "fastrpc_ok c'" "contents c' = drop ?k xs"
        "data_available c' = data_available c" "remote_subscribers c' = remote_subscribers c"
        using IH Suc.prems(4) by auto
      have "bulk_loop (Suc fuel) buf max_bytes copied count c =
          Some (0, buf', copied + packet_size x + length (packets (take ?k xs)), count + 1 + ?k, c')"
        using pos room copy rec(1) by simp
      moreover have "take (copied + packet_size x) ?b = take copied buf @ packet x"
        using True Suc.prems(4) by simp
      ultimately show ?thesis
        using rec(2-) Cons k by (simp add: add.assoc)
    qed
  qed
qed simp

section \<open>Unpacking\<close>

text \<open>What a header can carry: names without a zero character, and lengths of 16 bits.\<close>

definition sendable :: "string \<times> u8 list \<Rightarrow> bool" where
  "sendable x \<longleftrightarrow> CHR 0x00 \<notin> set (fst x) \<and> length (fst x) + 1 < 2 ^ 16 \<and> length (snd x) < 2 ^ 16"

definition wire :: "string \<times> u8 list \<Rightarrow> string \<times> u16 \<times> u8 list" where
  "wire x = (fst x, of_nat (length (snd x)), snd x)"

lemma ascii_no_zero: "CHR 0x00 \<notin> set s \<Longrightarrow> 0 \<notin> set (ascii s)"
proof
  assume "CHR 0x00 \<notin> set s" "0 \<in> set (ascii s)"
  then obtain c where c: "c \<in> set s" "(of_nat (of_char c) :: u8) = 0"
    by (auto simp: ascii_def)
  then have "of_char c = (0 :: nat)"
    using unat_of_char [of c] by simp
  then have "c = CHR 0x00"
    by (cases c) (simp add: of_char_Char)
  then show False
    using c(1) \<open>CHR 0x00 \<notin> set s\<close> by simp
qed

lemma cstring_at_name:
  assumes "0 \<notin> set name" "drop off data = name @ 0 # rest"
  shows "cstring_at data off = Some name"
proof -
  have "takeWhile (\<lambda>b. b \<noteq> 0) (name @ 0 # rest) = name"
    using assms(1) by (induction name) auto
  then show ?thesis
    using assms(2) by (simp add: cstring_at_def)
qed

lemma unpack_packets:
  assumes "drop processed data = packets xs @ rest" "\<forall>x \<in> set xs. sendable x" "processed \<le> length data"
  shows "unpack_bulk (length xs) data processed = Some (map wire xs)"
  using assms
proof (induction xs arbitrary: processed)
  case (Cons x xs)
  let ?n = "length (fst x)" and ?l = "length (snd x)"
  let ?tail = "packets xs @ rest"
  have x: "CHR 0x00 \<notin> set (fst x)" "?n + 1 < 65536" "?l < 65536"
    using Cons.prems(2) by (simp_all add: sendable_def)
  have d: "drop processed data = le_bytes (of_nat (?n + 1) :: u16) @ le_bytes (of_nat ?l :: u16) @
      ascii (fst x) @ [0] @ snd x @ ?tail"
    using Cons.prems(1) by (simp add: packet_def)
  have total: "length data = processed + (?n + ?l + 5 + length ?tail)"
    using arg_cong [where f = length, OF d] Cons.prems(3) by simp
  have drops: "drop (processed + i) data = drop i (drop processed data)" for i
    by (simp add: add.commute)
  have h: "mem_read data processed PACKET_HEADER_SIZE =
      Some (le_bytes (of_nat (?n + 1) :: u16) @ le_bytes (of_nat ?l :: u16))"
    using total by (simp add: mem_read_def d PACKET_HEADER_SIZE_def)
  have name: "cstring_at data (processed + PACKET_HEADER_SIZE) = Some (ascii (fst x))"
    by (rule cstring_at_name [where rest = "snd x @ ?tail"])
      (simp_all add: ascii_no_zero x(1) drops d PACKET_HEADER_SIZE_def)
  have bytes: "mem_read data (processed + PACKET_HEADER_SIZE + ?n + 1) ?l = Some (snd x)"
    using total drops [of "?n + 5"] by (simp add: mem_read_def d PACKET_HEADER_SIZE_def ac_simps)
  have u16: "unat (of_nat n :: u16) = n" if "n < 65536" for n
    using that by (simp add: unat_of_nat)
  have lens: "unat (of_nat (?n + 1) :: u16) = ?n + 1" "unat (of_nat ?l :: u16) = ?l"
    "unat (of_nat ?n :: u16) = ?n"
    by (rule u16, use x in simp)+
  have check: "uint (of_nat (Suc ?n) :: u16) = uint (of_nat ?n :: u16) + 1"
    unfolding uint_nat Suc_eq_plus1 lens by simp
  have "drop (processed + (?n + 1) + ?l + PACKET_HEADER_SIZE) data = ?tail"
    using drops [of "?n + ?l + 5"] by (simp add: d PACKET_HEADER_SIZE_def ac_simps)
  then have rec: "unpack_bulk (length xs) data (processed + (?n + 1) + ?l + PACKET_HEADER_SIZE) = Some (map wire xs)"
    using Cons.prems(2) total by (intro Cons.IH) (simp_all add: PACKET_HEADER_SIZE_def)
  show ?case
    using h name bytes rec lens check
    by (simp add: of_le_bytes_le_bytes wire_def Let_def del: of_nat_add of_nat_Suc of_nat_1)
qed (simp add: wire_def)

section \<open>Runs\<close>

datatype chan_op = Send string "u8 list" | Fetch | Remote_add string | Remote_remove string
datatype chan_out = Done | Blocked | Failed | Received "(string \<times> u16 \<times> u8 list) list"

text \<open>
  One call on the channel.  A fetch is the bulk transfer into a buffer followed by the unpacking of
  the receive thread; it blocks when the semaphore has not been posted.
\<close>

fun chan_step :: "u8 list \<Rightarrow> nat \<Rightarrow> chan_op \<Rightarrow> fastrpc \<Rightarrow> (chan_out \<times> fastrpc) option" where
  "chan_step buf max_bytes (Send name data) c =
     do { (rc, c') \<leftarrow> send_message name (length data) data c; Some (Done, c') }"
| "chan_step buf max_bytes (Remote_add name) c = Some (Done, AddRemoteSubscriber name c)"
| "chan_step buf max_bytes (Remote_remove name) c = Some (Done, RemoveRemoteSubscriber name c)"
| "chan_step buf max_bytes Fetch c =
     (if data_available c = 0 then Some (Blocked, c)
      else do {
        (rc, buf', n, count, c') \<leftarrow> get_bulk_data buf max_bytes c;
        if rc = 0 then do { ms \<leftarrow> unpack_bulk count buf' 0; Some (Received ms, c') }
        else Some (Failed, c')
      })"

fun chan_run :: "u8 list \<Rightarrow> nat \<Rightarrow> chan_op list \<Rightarrow> fastrpc \<Rightarrow> (chan_out list \<times> fastrpc) option" where
  "chan_run buf max_bytes [] c = Some ([], c)"
| "chan_run buf max_bytes (op # ops) c =
     do {
       (out, c') \<leftarrow> chan_step buf max_bytes op c;
       (outs, c'') \<leftarrow> chan_run buf max_bytes ops c';
       Some (out # outs, c'')
     }"

text \<open>The specification: a list of messages, the posts outstanding, and the topics subscribed to.\<close>

type_synonym queue_state = "(string \<times> u8 list) list \<times> nat \<times> string set"

fun queue_step :: "nat \<Rightarrow> chan_op \<Rightarrow> queue_state \<Rightarrow> chan_out \<times> queue_state" where
  "queue_step room (Send name data) (q, avail, subs) =
     (Done, if name \<in> subs
       then ((if length q = 99 then tl q else q) @ [(name, data)], avail + (if q = [] then 1 else 0), subs)
       else (q, avail, subs))"
| "queue_step room (Remote_add name) (q, avail, subs) = (Done, q, avail, insert name subs)"
| "queue_step room (Remote_remove name) (q, avail, subs) = (Done, q, avail, subs - {name})"
| "queue_step room Fetch (q, avail, subs) =
     (if avail = 0 then (Blocked, q, avail, subs)
      else if fitting room q = 0 then (Failed, q, avail - 1, subs)
      else (Received (map wire (take (fitting room q) q)), drop (fitting room q) q, avail - 1, subs))"

fun queue_run :: "nat \<Rightarrow> chan_op list \<Rightarrow> queue_state \<Rightarrow> chan_out list \<times> queue_state" where
  "queue_run room [] s = ([], s)"
| "queue_run room (op # ops) s =
     (let (out, s') = queue_step room op s; (outs, s'') = queue_run room ops s' in (out # outs, s''))"

definition queue_of :: "fastrpc \<Rightarrow> queue_state" where
  "queue_of c = (contents c, data_available c, remote_subscribers c)"

fun op_sendable :: "chan_op \<Rightarrow> bool" where
  "op_sendable (Send name data) = sendable (name, data)"
| "op_sendable _ = True"

lemma subscriber_ops:
  "fastrpc_ok c \<Longrightarrow> fastrpc_ok (AddRemoteSubscriber name c)"
  "fastrpc_ok c \<Longrightarrow> fastrpc_ok (RemoveRemoteSubscriber name c)"
  "queue_of (AddRemoteSubscriber name c) = (contents c, data_available c, insert name (remote_subscribers c))"
  "queue_of (RemoveRemoteSubscriber name c) = (contents c, data_available c, remote_subscribers c - {name})"
  by (simp_all add: fastrpc_ok_def AddRemoteSubscriber_def RemoveRemoteSubscriber_def queue_of_def
      contents_def DataQSize_def)

lemma get_bulk_data_unpack:
  assumes ok: "fastrpc_ok c" and avail: "data_available c \<noteq> 0" and max: "max_bytes \<le> length buf"
    and send: "\<forall>x \<in> set (contents c). sendable x" and k: "k = fitting max_bytes (contents c)"
  shows "\<exists>buf' c'. get_bulk_data buf max_bytes c =
      Some (if k = 0 then -1 else 0, buf', length (packets (take k (contents c))), k, c') \<and>
    unpack_bulk k buf' 0 = Some (map wire (take k (contents c))) \<and>
    fastrpc_ok c' \<and> queue_of c' = (drop k (contents c), data_available c - 1, remote_subscribers c)"
proof -
  define c1 where "c1 = c\<lparr>data_available := data_available c - 1\<rparr>"
  have c1: "fastrpc_ok c1" "contents c1 = contents c" "DataQSize c1 = DataQSize c"
    "data_available c1 = data_available c - 1" "remote_subscribers c1 = remote_subscribers c"
    using ok by (simp_all add: c1_def fastrpc_ok_def contents_def DataQSize_def)
  show ?thesis
  proof (cases "DataQSize c = 0")
    case True
    then have "contents c = []"
      by (simp add: contents_empty)
    moreover have "get_bulk_data buf max_bytes c = Some (-1, buf, 0, 0, c1)"
      using avail c1(3) True unfolding get_bulk_data_def Let_def c1_def [symmetric] by simp
    ultimately show ?thesis
      using k c1 by (simp add: queue_of_def)
  next
    case False
    then have ne: "contents c \<noteq> []"
      by (simp add: contents_empty)
    obtain buf' c' where loop: "bulk_loop MAX_MSG_QUEUE_SIZE buf max_bytes 0 0 c1 =
        Some (if k = 0 then -1 else 0, buf', length (packets (take k (contents c))), k, c')"
      "take (length (packets (take k (contents c)))) buf' = packets (take k (contents c))"
      "fastrpc_ok c'" "contents c' = drop k (contents c)"
      "data_available c' = data_available c1" "remote_subscribers c' = remote_subscribers c1"
      using bulk_loop_copies [of c1 MAX_MSG_QUEUE_SIZE 0 max_bytes buf k 0] c1(1,2) max k ne
        DataQSize_less [of c1] by (auto simp: MAX_MSG_QUEUE_SIZE_def)
    have "drop 0 buf' = packets (take k (contents c)) @ drop (length (packets (take k (contents c)))) buf'"
      using append_take_drop_id [of "length (packets (take k (contents c)))" buf'] loop(2) by simp
    moreover have "\<forall>x \<in> set (take k (contents c)). sendable x"
      using send by (meson in_set_takeD)
    ultimately have "unpack_bulk (length (take k (contents c))) buf' 0 = Some (map wire (take k (contents c)))"
      by (rule unpack_packets) simp
    moreover have "length (take k (contents c)) = k"
      using fitting_le [of max_bytes "contents c"] k by (simp add: min_absorb2)
    moreover have "get_bulk_data buf max_bytes c = bulk_loop MAX_MSG_QUEUE_SIZE buf max_bytes 0 0 c1"
      using avail c1(3) False unfolding get_bulk_data_def Let_def c1_def [symmetric] by simp
    ultimately show ?thesis
      using loop c1 by (simp add: queue_of_def)
  qed
qed

lemma chan_step_refines:
  assumes "fastrpc_ok c" "max_bytes \<le> length buf" "\<forall>x \<in> set (contents c). sendable x" "op_sendable op"
  shows "\<exists>c'. chan_step buf max_bytes op c = Some (fst (queue_step max_bytes op (queue_of c)), c') \<and>
    queue_of c' = snd (queue_step max_bytes op (queue_of c)) \<and> fastrpc_ok c' \<and>
    (\<forall>x \<in> set (contents c'). sendable x)"
proof (cases op)
  case (Send name data)
  show ?thesis
  proof (cases "name \<in> remote_subscribers c")
    case True
    obtain c' where c': "send_message name (length data) data c = Some (0, c')" "fastrpc_ok c'"
      "contents c' = (if DataQSize c = 99 then tl (contents c) else contents c) @ [(name, data)]"
      "data_available c' = data_available c + (if contents c = [] then 1 else 0)"
      "remote_subscribers c' = remote_subscribers c"
      using send_message_subscribed [OF assms(1) True order_refl [of "length data"]] by auto
    have "\<forall>x \<in> set (contents c'). sendable x"
      using assms(3,4) c'(3) Send by (auto dest: in_set_tl split: if_splits)
    then show ?thesis
      using c' True by (simp add: Send queue_of_def)
  next
    case False
    then show ?thesis
      using assms Send by (simp add: send_message_def queue_of_def)
  qed
next
  case Fetch
  show ?thesis
  proof (cases "data_available c = 0")
    case True
    then show ?thesis
      using assms Fetch by (simp add: queue_of_def)
  next
    case False
    let ?k = "fitting max_bytes (contents c)"
    obtain buf' c' where get: "get_bulk_data buf max_bytes c =
        Some (if ?k = 0 then -1 else 0, buf', length (packets (take ?k (contents c))), ?k, c')"
      "unpack_bulk ?k buf' 0 = Some (map wire (take ?k (contents c)))" "fastrpc_ok c'"
      "queue_of c' = (drop ?k (contents c), data_available c - 1, remote_subscribers c)"
      using get_bulk_data_unpack [OF assms(1) False assms(2,3) refl] by blast
    have "\<forall>x \<in> set (contents c'). sendable x"
      using get(4) assms(3) by (auto simp: queue_of_def dest: in_set_dropD)
    moreover have "chan_step buf max_bytes op c =
        Some (if ?k = 0 then Failed else Received (map wire (take ?k (contents c))), c')"
      using get(1,2) False Fetch by simp
    moreover have "queue_step max_bytes op (queue_of c) =
        (if ?k = 0 then Failed else Received (map wire (take ?k (contents c))), queue_of c')"
      using False Fetch get(4) by (simp add: queue_of_def)
    ultimately show ?thesis
      using get(3) by simp
  qed
qed (use assms in \<open>simp_all add: subscriber_ops, simp_all add: queue_of_def AddRemoteSubscriber_def
       RemoveRemoteSubscriber_def contents_def DataQSize_def\<close>)

lemma chan_run_refines:
  assumes "fastrpc_ok c" "max_bytes \<le> length buf" "\<forall>x \<in> set (contents c). sendable x" "\<forall>op \<in> set ops. op_sendable op"
  shows "\<exists>c'. chan_run buf max_bytes ops c = Some (fst (queue_run max_bytes ops (queue_of c)), c') \<and>
    queue_of c' = snd (queue_run max_bytes ops (queue_of c)) \<and> fastrpc_ok c' \<and>
    (\<forall>x \<in> set (contents c'). sendable x)"
  using assms
proof (induction ops arbitrary: c)
  case (Cons op ops)
  then have "op_sendable op" "\<forall>op \<in> set ops. op_sendable op"
    by simp_all
  then obtain c1 where c1: "chan_step buf max_bytes op c = Some (fst (queue_step max_bytes op (queue_of c)), c1)"
    "queue_of c1 = snd (queue_step max_bytes op (queue_of c))" "fastrpc_ok c1" "\<forall>x \<in> set (contents c1). sendable x"
    using chan_step_refines [OF Cons.prems(1-3)] by blast
  obtain c2 where c2: "chan_run buf max_bytes ops c1 = Some (fst (queue_run max_bytes ops (queue_of c1)), c2)"
    "queue_of c2 = snd (queue_run max_bytes ops (queue_of c1))" "fastrpc_ok c2" "\<forall>x \<in> set (contents c2). sendable x"
    using Cons.IH [OF c1(3) Cons.prems(2) c1(4)] \<open>\<forall>op \<in> set ops. op_sendable op\<close> by blast
  then show ?case
    using c1(1,2) by (simp add: split_beta Let_def)
qed simp

lemma queue_of_init: "queue_of fastrpc_init = ([], 0, {})"
  using fastrpc_init_ok(2) by (simp add: queue_of_def) (simp add: fastrpc_init_def)

lemma chan_run_init:
  assumes "max_bytes \<le> length buf" "\<forall>op \<in> set ops. op_sendable op"
  shows "\<exists>c. chan_run buf max_bytes ops fastrpc_init = Some (fst (queue_run max_bytes ops ([], 0, {})), c) \<and>
    queue_of c = snd (queue_run max_bytes ops ([], 0, {})) \<and> fastrpc_ok c \<and>
    (\<forall>x \<in> set (contents c). sendable x)"
  using chan_run_refines [OF fastrpc_init_ok(1) assms(1) _ assms(2)] fastrpc_init_ok(2) queue_of_init
  by simp

section \<open>Properties\<close>

text \<open>
  C25: Whatever is called on the channel, and in whatever order, it behaves as a list of at most 99
  messages that drops its oldest one when it is full: the results of all calls are those of the
  list, what a fetch hands to the receiver after packing and unpacking is the longest prefix that
  fits, unchanged and in order, and the indices and buffers stay consistent.
\<close>

theorem muorb_refines_queue:
  assumes "max_bytes \<le> length buf" "\<forall>op \<in> set ops. op_sendable op"
  shows "\<exists>c. chan_run buf max_bytes ops fastrpc_init = Some (fst (queue_run max_bytes ops ([], 0, {})), c) \<and>
    queue_of c = snd (queue_run max_bytes ops ([], 0, {})) \<and> fastrpc_ok c"
  using chan_run_init [OF assms] by blast

theorem muorb_refines_queue_witness:
  "\<exists>c. chan_run (replicate 30 0) 30
      [Remote_add ''a'', Send ''a'' [1, 2], Send ''b'' [9], Send ''a'' [3], Fetch, Fetch] fastrpc_init =
      Some ([Done, Done, Done, Done, Received [(''a'', 2, [1, 2]), (''a'', 1, [3])], Blocked], c) \<and>
    queue_of c = ([], 0, {''a''}) \<and> fastrpc_ok c"
  using muorb_refines_queue [of 30 "replicate 30 0"
      "[Remote_add ''a'', Send ''a'' [1, 2], Send ''b'' [9], Send ''a'' [3], Fetch, Fetch]"]
  by (simp add: sendable_def packet_size_def wire_def)

text \<open>A queue that the posts have left behind stays unread.\<close>

lemma queue_run_stalled:
  "q \<noteq> [] \<Longrightarrow> \<exists>q' subs'. queue_run room ops (q, 0, subs) =
     (map (\<lambda>op. if op = Fetch then Blocked else Done) ops, q', 0, subs') \<and> q' \<noteq> []"
proof (induction ops arbitrary: q subs)
  case (Cons op ops)
  have "\<exists>q1 subs1. queue_step room op (q, 0, subs) = (if op = Fetch then Blocked else Done, q1, 0, subs1) \<and> q1 \<noteq> []"
    using Cons.prems by (cases op) auto
  then obtain q1 subs1 where step: "queue_step room op (q, 0, subs) = (if op = Fetch then Blocked else Done, q1, 0, subs1)"
    "q1 \<noteq> []"
    by blast
  with Cons.IH [OF step(2), of subs1] show ?case
    by auto
qed simp

text \<open>
  Once messages are queued with no post outstanding, as a transfer that had no room for all of them
  leaves it, no call of any client wakes the receiver again: every later fetch blocks, although
  messages are waiting and more are sent.
\<close>

theorem muorb_lost_wakeup:
  assumes "max_bytes \<le> length buf" "\<forall>op \<in> set (ops @ later). op_sendable op"
    and "chan_run buf max_bytes ops fastrpc_init = Some (outs, c)" "data_available c = 0" "contents c \<noteq> []"
  shows "\<exists>c'. chan_run buf max_bytes later c = Some (map (\<lambda>op. if op = Fetch then Blocked else Done) later, c') \<and>
    data_available c' = 0 \<and> contents c' \<noteq> []"
proof -
  have c: "fastrpc_ok c" "\<forall>x \<in> set (contents c). sendable x"
    using chan_run_init [OF assms(1), of ops] assms(2,3) by auto
  obtain c' where c': "chan_run buf max_bytes later c = Some (fst (queue_run max_bytes later (queue_of c)), c')"
    "queue_of c' = snd (queue_run max_bytes later (queue_of c))"
    using chan_run_refines [OF c(1) assms(1) c(2), of later] assms(2) by auto
  have "queue_of c = (contents c, 0, remote_subscribers c)"
    using assms(4) by (simp add: queue_of_def)
  then show ?thesis
    using c' queue_run_stalled [OF assms(5), of max_bytes later "remote_subscribers c"]
    by (auto simp: queue_of_def)
qed

theorem muorb_lost_wakeup_witness:
  "\<exists>c c'. chan_run (replicate 9 0) 9 [Remote_add ''a'', Send ''a'' [1], Send ''a'' [2], Fetch] fastrpc_init =
      Some ([Done, Done, Done, Received [(''a'', 1, [1])]], c) \<and>
    chan_run (replicate 9 0) 9 [Fetch, Send ''a'' [3], Fetch] c = Some ([Blocked, Done, Blocked], c') \<and>
    contents c' \<noteq> []"
proof -
  let ?ops = "[Remote_add ''a'', Send ''a'' [1], Send ''a'' [2], Fetch]"
  obtain c where c: "chan_run (replicate 9 0) 9 ?ops fastrpc_init = Some ([Done, Done, Done, Received [(''a'', 1, [1])]], c)"
    "queue_of c = ([(''a'', [2])], 0, {''a''})"
    using chan_run_init [of 9 "replicate 9 0" ?ops] by (auto simp: sendable_def packet_size_def wire_def)
  then show ?thesis
    using muorb_lost_wakeup [OF _ _ c(1), of "[Fetch, Send ''a'' [3], Fetch]"]
    by (auto simp: queue_of_def sendable_def)
qed

text \<open>With room for a full queue the posts and the messages stay in step.\<close>

fun op_small :: "nat \<Rightarrow> chan_op \<Rightarrow> bool" where
  "op_small b (Send name data) \<longleftrightarrow> packet_size (name, data) \<le> b"
| "op_small b _ \<longleftrightarrow> True"

definition in_step :: "nat \<Rightarrow> queue_state \<Rightarrow> bool" where
  "in_step b s = (case s of (q, avail, subs) \<Rightarrow>
     length q \<le> 99 \<and> (\<forall>x \<in> set q. packet_size x \<le> b) \<and> avail = (if q = [] then 0 else 1))"

lemma fitting_all:
  "\<forall>x \<in> set q. packet_size x \<le> b \<Longrightarrow> length q * b < room \<Longrightarrow> fitting room q = length q"
proof (induction q arbitrary: room)
  case (Cons x q)
  have "packet_size x \<le> b" "length q * b + b < room"
    using Cons.prems by simp_all
  then have "length q * b < room - packet_size x" "packet_size x < room"
    by linarith+
  then show ?case
    using Cons by simp
qed simp

lemma fitting_queue:
  assumes "99 * b < room" "length q \<le> 99" "\<forall>x \<in> set q. packet_size x \<le> b"
  shows "fitting room q = length q"
proof (rule fitting_all [OF assms(3)])
  have "length q * b \<le> 99 * b"
    by (rule mult_right_mono [OF assms(2)]) simp
  then show "length q * b < room"
    using assms(1) by linarith
qed

lemma in_step_step:
  assumes "99 * b < room" "op_small b op" "in_step b s"
  shows "in_step b (snd (queue_step room op s))"
proof -
  obtain q avail subs where s: "s = (q, avail, subs)"
    by (cases s)
  have "fitting room q = length q"
    using assms(3) by (intro fitting_queue [OF assms(1)]) (simp_all add: in_step_def s)
  then show ?thesis
    using assms(2,3) by (cases op) (auto simp: in_step_def s dest: in_set_tl)
qed

lemma in_step_run:
  assumes "99 * b < room"
  shows "\<forall>op \<in> set ops. op_small b op \<Longrightarrow> in_step b s \<Longrightarrow> in_step b (snd (queue_run room ops s))"
proof (induction ops arbitrary: s)
  case (Cons op ops)
  then show ?case
    using in_step_step [OF assms, of op s] by (simp add: split_beta Let_def)
qed simp

text \<open>
  If a transfer has room for 99 messages of the largest size sent, the receiver is never left
  waiting: after any calls the next fetch blocks only if the queue is empty, and otherwise
  receives all of it and leaves it empty.
\<close>

theorem muorb_fetch_complete:
  assumes "max_bytes \<le> length buf" "99 * b < max_bytes"
    and "\<forall>op \<in> set ops. op_sendable op \<and> op_small b op"
    and "chan_run buf max_bytes ops fastrpc_init = Some (outs, c)"
  shows "\<exists>c'. chan_step buf max_bytes Fetch c =
      Some (if contents c = [] then Blocked else Received (map wire (contents c)), c') \<and> contents c' = []"
proof -
  have c: "fastrpc_ok c" "\<forall>x \<in> set (contents c). sendable x"
    "queue_of c = snd (queue_run max_bytes ops ([], 0, {}))"
    using chan_run_init [OF assms(1), of ops] assms(3,4) by auto
  have ops: "\<forall>op \<in> set ops. op_small b op"
    using assms(3) by blast
  have "in_step b ([], 0, {})"
    by (simp add: in_step_def)
  then have "in_step b (queue_of c)"
    unfolding c(3) by (rule in_step_run [OF assms(2) ops])
  then have step: "length (contents c) \<le> 99" "\<forall>x \<in> set (contents c). packet_size x \<le> b"
    "data_available c = (if contents c = [] then 0 else 1)"
    by (simp_all add: in_step_def queue_of_def)
  have "fitting max_bytes (contents c) = length (contents c)"
    by (rule fitting_queue [OF assms(2) step(1,2)])
  then have "queue_step max_bytes Fetch (queue_of c) =
      (if contents c = [] then Blocked else Received (map wire (contents c)), [], 0, remote_subscribers c)"
    using step(3) by (auto simp: queue_of_def contents_empty)
  then show ?thesis
    using chan_step_refines [OF c(1) assms(1) c(2), of Fetch] by (auto simp: queue_of_def simp del: chan_step.simps queue_step.simps)
qed

theorem muorb_fetch_complete_witness:
  "\<exists>c c'. chan_run (replicate 800 0) 800 [Remote_add ''a'', Send ''a'' [1], Send ''a'' [2]] fastrpc_init =
      Some ([Done, Done, Done], c) \<and>
    chan_step (replicate 800 0) 800 Fetch c = Some (Received [(''a'', 1, [1]), (''a'', 1, [2])], c') \<and> contents c' = []"
proof -
  let ?ops = "[Remote_add ''a'', Send ''a'' [1], Send ''a'' [2]]"
  obtain c where c: "chan_run (replicate 800 0) 800 ?ops fastrpc_init = Some ([Done, Done, Done], c)"
    "queue_of c = ([(''a'', [1]), (''a'', [2])], 1, {''a''})"
    using chan_run_init [of 800 "replicate 800 0" ?ops] by (auto simp: sendable_def)
  have len: "(800 :: nat) \<le> length (replicate 800 (0 :: u8))"
    by (simp only: length_replicate)
  show ?thesis
    using muorb_fetch_complete [OF len _ _ c(1), of 8] c
    by (auto simp: queue_of_def sendable_def packet_size_def wire_def simp del: chan_step.simps)
qed

end
