(* ===== verification/Gps.thy ===== *)
theory Gps
  imports Float32
begin

text \<open>
  What the GPS parsers share: the position report (\<open>msg/vehicle_gps_position.msg\<close>), the fields of a
  packed payload, the running checksum, the serial port with its log of writes, and the update
  rates of \<open>src/drivers/gps/gps_helper.cpp\<close>.  Time passes only in calls that wait, so that all
  readings of the clock between two of them agree.
\<close>

section \<open>The report\<close>

record gps_position =
  timestamp_position :: u64
  lat :: int
  lon :: int
  alt :: int
  alt_ellipsoid :: int
  timestamp_variance :: u64
  s_variance_m_s :: f32
  c_variance_rad :: f32
  fix_type :: u8
  eph :: f32
  epv :: f32
  noise_per_ms :: int
  jamming_indicator :: int
  timestamp_velocity :: u64
  vel_m_s :: f32
  vel_n_m_s :: f32
  vel_e_m_s :: f32
  vel_d_m_s :: f32
  cog_rad :: f32
  vel_ned_valid :: bool
  timestamp_time :: u64
  time_utc_usec :: u64
  satellites_used :: u8

definition empty_position :: gps_position where
  "empty_position = \<lparr>timestamp_position = 0, lat = 0, lon = 0, alt = 0, alt_ellipsoid = 0,
     timestamp_variance = 0, s_variance_m_s = 0, c_variance_rad = 0, fix_type = 0, eph = 0, epv = 0,
     noise_per_ms = 0, jamming_indicator = 0, timestamp_velocity = 0, vel_m_s = 0, vel_n_m_s = 0,
     vel_e_m_s = 0, vel_d_m_s = 0, cog_rad = 0, vel_ned_valid = False, timestamp_time = 0,
     time_utc_usec = 0, satellites_used = 0\<rparr>"

section \<open>Fields of a packed payload\<close>

definition u8_at :: "nat \<Rightarrow> u8 list \<Rightarrow> u8" where "u8_at i b = b ! i"
definition u16_at :: "nat \<Rightarrow> u8 list \<Rightarrow> u16" where "u16_at i b = of_le_bytes (take 2 (drop i b))"
definition u32_at :: "nat \<Rightarrow> u8 list \<Rightarrow> u32" where "u32_at i b = of_le_bytes (take 4 (drop i b))"
definition s32_at :: "nat \<Rightarrow> u8 list \<Rightarrow> int" where "s32_at i b = sint (u32_at i b)"

text \<open>The decimal constants of the source as the nearest single precision numbers.\<close>

definition f32_1e_3 :: f32 where "f32_1e_3 = 0x3A83126F"
definition f32_1e_2 :: f32 where "f32_1e_2 = 0x3C23D70A"
definition f32_1e_5 :: f32 where "f32_1e_5 = 0x3727C5AC"
definition f32_100 :: f32 where "f32_100 = 0x42C80000"
definition f32_1000 :: f32 where "f32_1000 = 0x447A0000"
definition f32_1e6 :: f32 where "f32_1e6 = 0x49742400"
definition M_DEG_TO_RAD_F :: f32 where "M_DEG_TO_RAD_F = 0x3C8EFA35"

definition scaled :: "int \<Rightarrow> f32 \<Rightarrow> f32" where
  "scaled x k = f32_mul (f32_of_int x) k"

section \<open>The checksum\<close>

definition ck_add :: "u8 \<Rightarrow> u8 \<times> u8 \<Rightarrow> u8 \<times> u8" where
  "ck_add b ck = (let a = fst ck + b in (a, snd ck + a))"

definition ck_run :: "u8 list \<Rightarrow> u8 \<times> u8 \<Rightarrow> u8 \<times> u8" where
  "ck_run bs ck = fold ck_add bs ck"

lemma ck_run_simps [simp]:
  "ck_run [] ck = ck" "ck_run (b # bs) ck = ck_run bs (ck_add b ck)"
  "ck_run (bs @ cs) ck = ck_run cs (ck_run bs ck)"
  by (simp_all add: ck_run_def)

text \<open>The first half is a plain sum, so that changing one byte always changes it.\<close>

lemma fst_ck_run: "fst (ck_run bs ck) = fst ck + sum_list bs"
  by (induction bs arbitrary: ck) (simp_all add: ck_add_def Let_def add.assoc)

lemma ck_run_changed_byte:
  assumes "a \<noteq> b"
  shows "ck_run (xs @ a # ys) ck \<noteq> ck_run (xs @ b # ys) ck"
proof
  assume "ck_run (xs @ a # ys) ck = ck_run (xs @ b # ys) ck"
  then have "fst (ck_run (xs @ a # ys) ck) = fst (ck_run (xs @ b # ys) ck)"
    by (rule arg_cong)
  then show False
    using assms by (simp only: fst_ck_run sum_list_append sum_list.Cons) simp
qed

section \<open>The calendar and the clock of the system\<close>

text \<open>
  \<open>mktime\<close> belongs to the C library and is a parameter of the parsers.  What it gives is compared
  as an unsigned number, so that its error value -1 counts as a very late time.
\<close>

record tm =
  tm_year :: int
  tm_mon :: int
  tm_mday :: int
  tm_hour :: int
  tm_min :: int
  tm_sec :: int

definition GPS_EPOCH_SECS :: u64 where "GPS_EPOCH_SECS = 1234567890"

definition epoch_sane :: "int \<Rightarrow> bool" where
  "epoch_sane epoch \<longleftrightarrow> GPS_EPOCH_SECS < of_int epoch"

section \<open>Update rates\<close>

record rates =
  rate_count_lat_lon :: u8
  rate_count_vel :: u8
  rate_lat_lon :: f32
  rate_vel :: f32
  interval_rate_start :: u64

definition reset_update_rates :: "u64 \<Rightarrow> rates \<Rightarrow> rates" where
  "reset_update_rates now r = r\<lparr>rate_count_vel := 0, rate_count_lat_lon := 0, interval_rate_start := now\<rparr>"

definition update_rate :: "u8 \<Rightarrow> u64 \<Rightarrow> f32" where
  "update_rate n elapsed = f32_div (f32_of_int (uint n)) (f32_div (f32_of_int (uint elapsed)) f32_1e6)"

definition store_update_rates :: "u64 \<Rightarrow> rates \<Rightarrow> rates" where
  "store_update_rates now r =
     r\<lparr>rate_vel := update_rate (rate_count_vel r) (now - interval_rate_start r),
       rate_lat_lon := update_rate (rate_count_lat_lon r) (now - interval_rate_start r)\<rparr>"

definition get_position_update_rate :: "rates \<Rightarrow> f32" where "get_position_update_rate r = rate_lat_lon r"
definition get_velocity_update_rate :: "rates \<Rightarrow> f32" where "get_velocity_update_rate r = rate_vel r"

section \<open>The serial port\<close>

text \<open>
  What waiting for input can bring, in the order it happens: the result of \<open>poll\<close>, whether there is
  input, the bytes then read, and the time that passed.  When the list is used up, the line is
  silent.  Writes are logged; their results are another list, a write succeeding when it is used up.
\<close>

record poll_event =
  ev_ret :: int
  ev_in :: bool
  ev_bytes :: "u8 list"
  ev_dt :: u64

record port =
  p_now :: u64
  p_events :: "poll_event list"
  p_written :: "u8 list list"
  p_write_fails :: "bool list"
  p_baud :: nat
  p_baud_fails :: "bool list"
  p_clock :: "(int \<times> int) list"

definition port_poll :: "u64 \<Rightarrow> port \<Rightarrow> poll_event \<times> port" where
  "port_poll timeout_ms p =
     (case p_events p of
        [] \<Rightarrow> (\<lparr>ev_ret = 0, ev_in = False, ev_bytes = [], ev_dt = timeout_ms * 1000\<rparr>,
               p\<lparr>p_now := p_now p + timeout_ms * 1000\<rparr>)
      | e # es \<Rightarrow> (e, p\<lparr>p_events := es, p_now := p_now p + ev_dt e\<rparr>))"

definition port_write :: "u8 list \<Rightarrow> port \<Rightarrow> bool \<times> port" where
  "port_write bs p =
     (case p_write_fails p of
        [] \<Rightarrow> (True, p\<lparr>p_written := p_written p @ [bs]\<rparr>)
      | f # fs \<Rightarrow> (\<not> f, p\<lparr>p_write_fails := fs, p_written := (if f then p_written p else p_written p @ [bs])\<rparr>))"

definition set_baudrate :: "nat \<Rightarrow> port \<Rightarrow> int \<times> port" where
  "set_baudrate baud p =
     (if baud \<notin> {9600, 19200, 38400, 57600, 115200} then (- 22, p)
      else case p_baud_fails p of
          [] \<Rightarrow> (0, p\<lparr>p_baud := baud\<rparr>)
        | f # fs \<Rightarrow> if f then (- 1, p\<lparr>p_baud_fails := fs\<rparr>) else (0, p\<lparr>p_baud_fails := fs, p_baud := baud\<rparr>))"

definition clock_settime :: "int \<Rightarrow> int \<Rightarrow> port \<Rightarrow> port" where
  "clock_settime sec nsec p = p\<lparr>p_clock := p_clock p @ [(sec, nsec)]\<rparr>"

end
