(* ===== verification/Ubx.thy ===== *)
theory Ubx
  imports Gps "HOL-Library.Signed_Division"
begin

text \<open>
  The driver protocol of u-blox receivers (\<open>src/drivers/gps/ubx.cpp\<close>): the byte-wise decoder, the
  messages it handles, and the configuration dialogue.  The payload buffer is the union of all
  payload structures, 92 bytes long; a payload is read at the offsets of its packed structure.
\<close>

section \<open>Messages\<close>

definition UBX_SYNC1 :: u8 where "UBX_SYNC1 = 0xB5"
definition UBX_SYNC2 :: u8 where "UBX_SYNC2 = 0x62"

definition ubx_msg :: "u16 \<Rightarrow> u16 \<Rightarrow> u16" where
  "ubx_msg cls ident = cls OR push_bit 8 ident"

definition UBX_MSG_NAV_POSLLH :: u16 where "UBX_MSG_NAV_POSLLH = ubx_msg 0x01 0x02"
definition UBX_MSG_NAV_SOL :: u16 where "UBX_MSG_NAV_SOL = ubx_msg 0x01 0x06"
definition UBX_MSG_NAV_PVT :: u16 where "UBX_MSG_NAV_PVT = ubx_msg 0x01 0x07"
definition UBX_MSG_NAV_VELNED :: u16 where "UBX_MSG_NAV_VELNED = ubx_msg 0x01 0x12"
definition UBX_MSG_NAV_TIMEUTC :: u16 where "UBX_MSG_NAV_TIMEUTC = ubx_msg 0x01 0x21"
definition UBX_MSG_NAV_SVINFO :: u16 where "UBX_MSG_NAV_SVINFO = ubx_msg 0x01 0x30"
definition UBX_MSG_ACK_NAK :: u16 where "UBX_MSG_ACK_NAK = ubx_msg 0x05 0x00"
definition UBX_MSG_ACK_ACK :: u16 where "UBX_MSG_ACK_ACK = ubx_msg 0x05 0x01"
definition UBX_MSG_CFG_PRT :: u16 where "UBX_MSG_CFG_PRT = ubx_msg 0x06 0x00"
definition UBX_MSG_CFG_MSG :: u16 where "UBX_MSG_CFG_MSG = ubx_msg 0x06 0x01"
definition UBX_MSG_CFG_RATE :: u16 where "UBX_MSG_CFG_RATE = ubx_msg 0x06 0x08"
definition UBX_MSG_CFG_NAV5 :: u16 where "UBX_MSG_CFG_NAV5 = ubx_msg 0x06 0x24"
definition UBX_MSG_MON_HW :: u16 where "UBX_MSG_MON_HW = ubx_msg 0x0A 0x09"
definition UBX_MSG_MON_VER :: u16 where "UBX_MSG_MON_VER = ubx_msg 0x0A 0x04"

lemmas ubx_msgs = UBX_MSG_NAV_POSLLH_def UBX_MSG_NAV_SOL_def UBX_MSG_NAV_PVT_def UBX_MSG_NAV_VELNED_def
  UBX_MSG_NAV_TIMEUTC_def UBX_MSG_NAV_SVINFO_def UBX_MSG_ACK_NAK_def UBX_MSG_ACK_ACK_def
  UBX_MSG_CFG_PRT_def UBX_MSG_CFG_MSG_def UBX_MSG_CFG_RATE_def UBX_MSG_CFG_NAV5_def
  UBX_MSG_MON_HW_def UBX_MSG_MON_VER_def ubx_msg_def

definition ubx_buf_size :: nat where "ubx_buf_size = 92"

datatype ubx_decode_state = UBX_DECODE_SYNC1 | UBX_DECODE_SYNC2 | UBX_DECODE_CLASS | UBX_DECODE_ID
  | UBX_DECODE_LENGTH1 | UBX_DECODE_LENGTH2 | UBX_DECODE_PAYLOAD | UBX_DECODE_CHKSUM1 | UBX_DECODE_CHKSUM2

datatype ubx_rxmsg_state = UBX_RXMSG_IGNORE | UBX_RXMSG_HANDLE | UBX_RXMSG_DISABLE | UBX_RXMSG_ERROR_LENGTH

datatype ubx_ack_state = UBX_ACK_IDLE | UBX_ACK_WAITING | UBX_ACK_GOT_ACK | UBX_ACK_GOT_NAK

section \<open>State\<close>

definition SAT_INFO_MAX_SATELLITES :: nat where "SAT_INFO_MAX_SATELLITES = 20"

record satellite_info =
  sat_timestamp :: u64
  sat_count :: u8
  sat_svid :: "u8 list"
  sat_used :: "u8 list"
  sat_elevation :: "u8 list"
  sat_azimuth :: "u8 list"
  sat_snr :: "u8 list"

definition empty_sat_info :: satellite_info where
  "empty_sat_info = \<lparr>sat_timestamp = 0, sat_count = 0, sat_svid = replicate 20 0, sat_used = replicate 20 0,
     sat_elevation = replicate 20 0, sat_azimuth = replicate 20 0, sat_snr = replicate 20 0\<rparr>"

record ubx =
  u_gps :: gps_position
  u_sat :: "satellite_info option"
  u_rates :: rates
  u_port :: port
  configured :: bool
  ack_state :: ubx_ack_state
  got_posllh :: bool
  got_velned :: bool
  decode_state :: ubx_decode_state
  rx_msg :: u16
  rx_state :: ubx_rxmsg_state
  rx_payload_length :: u16
  rx_payload_index :: u16
  rx_ck :: "u8 \<times> u8"
  disable_cmd_last :: u64
  ack_waiting_msg :: u16
  u_buf :: "u8 list"
  ubx_version :: u32
  use_nav_pvt :: bool

definition ubx_decode_init :: "ubx \<Rightarrow> ubx" where
  "ubx_decode_init u = u\<lparr>decode_state := UBX_DECODE_SYNC1, rx_ck := (0, 0), rx_payload_length := 0,
     rx_payload_index := 0\<rparr>"

definition ubx_create :: "satellite_info option \<Rightarrow> gps_position \<Rightarrow> rates \<Rightarrow> port \<Rightarrow> u8 list \<Rightarrow> ubx" where
  "ubx_create sat gps r p buf = ubx_decode_init
     \<lparr>u_gps = gps, u_sat = sat, u_rates = r, u_port = p, configured = False, ack_state = UBX_ACK_IDLE,
      got_posllh = False, got_velned = False, decode_state = UBX_DECODE_SYNC1, rx_msg = 0,
      rx_state = UBX_RXMSG_IGNORE, rx_payload_length = 0, rx_payload_index = 0, rx_ck = (0, 0),
      disable_cmd_last = 0, ack_waiting_msg = 0, u_buf = buf, ubx_version = 0, use_nav_pvt = False\<rparr>"

definition add_byte_to_checksum :: "u8 \<Rightarrow> ubx \<Rightarrow> ubx" where
  "add_byte_to_checksum b u = u\<lparr>rx_ck := ck_add b (rx_ck u)\<rparr>"

section \<open>Sending\<close>

definition calc_checksum :: "u8 list \<Rightarrow> u8 \<times> u8 \<Rightarrow> u8 \<times> u8" where
  "calc_checksum bs ck = ck_run bs ck"

definition ubx_header :: "u16 \<Rightarrow> u16 \<Rightarrow> u8 list" where
  "ubx_header msg len = [UBX_SYNC1, UBX_SYNC2] @ le_bytes msg @ le_bytes len"

definition ubx_checksum :: "u16 \<Rightarrow> u16 \<Rightarrow> u8 list option \<Rightarrow> u8 list" where
  "ubx_checksum msg len payload =
     (let ck = calc_checksum (drop 2 (ubx_header msg len)) (0, 0);
          ck' = (case payload of None \<Rightarrow> ck | Some bs \<Rightarrow> calc_checksum (take (unat len) bs) ck)
      in [fst ck', snd ck'])"

text \<open>Three writes, whose results the driver does not look at.\<close>

definition ubx_send_message :: "u16 \<Rightarrow> u8 list option \<Rightarrow> u16 \<Rightarrow> ubx \<Rightarrow> ubx" where
  "ubx_send_message msg payload len u =
     (let p1 = snd (port_write (ubx_header msg len) (u_port u));
          p2 = (case payload of None \<Rightarrow> p1 | Some bs \<Rightarrow> snd (port_write (take (unat len) bs) p1))
      in u\<lparr>u_port := snd (port_write (ubx_checksum msg len payload) p2)\<rparr>)"

definition configure_message_rate :: "u16 \<Rightarrow> u8 \<Rightarrow> ubx \<Rightarrow> ubx" where
  "configure_message_rate msg rate u = ubx_send_message UBX_MSG_CFG_MSG (Some (le_bytes msg @ [rate])) 3 u"

section \<open>Receiving a payload\<close>

definition DISABLE_MSG_INTERVAL :: u64 where "DISABLE_MSG_INTERVAL = 1000000"

text \<open>A navigation message of one fixed length, used with or without NAV-PVT.\<close>

definition nav_rx_state :: "u16 list \<Rightarrow> bool \<Rightarrow> ubx \<Rightarrow> ubx_rxmsg_state" where
  "nav_rx_state lens pvt u =
     (if rx_payload_length u \<notin> set lens then UBX_RXMSG_ERROR_LENGTH
      else if \<not> configured u then UBX_RXMSG_IGNORE
      else if use_nav_pvt u \<noteq> pvt then UBX_RXMSG_DISABLE
      else UBX_RXMSG_HANDLE)"

definition ack_rx_state :: "ubx \<Rightarrow> ubx_rxmsg_state" where
  "ack_rx_state u =
     (if rx_payload_length u \<noteq> 2 then UBX_RXMSG_ERROR_LENGTH
      else if configured u then UBX_RXMSG_IGNORE else UBX_RXMSG_HANDLE)"

definition rx_state_for :: "ubx \<Rightarrow> ubx_rxmsg_state" where
  "rx_state_for u =
     (let m = rx_msg u
      in if m = UBX_MSG_NAV_PVT then nav_rx_state [84, 92] True u
         else if m = UBX_MSG_NAV_POSLLH then nav_rx_state [28] False u
         else if m = UBX_MSG_NAV_SOL then nav_rx_state [52] False u
         else if m = UBX_MSG_NAV_TIMEUTC then nav_rx_state [20] False u
         else if m = UBX_MSG_NAV_SVINFO
         then (if u_sat u = None then UBX_RXMSG_DISABLE
               else if \<not> configured u then UBX_RXMSG_IGNORE else UBX_RXMSG_HANDLE)
         else if m = UBX_MSG_NAV_VELNED then nav_rx_state [36] False u
         else if m = UBX_MSG_MON_VER then UBX_RXMSG_HANDLE
         else if m = UBX_MSG_MON_HW
         then (if rx_payload_length u \<notin> {68, 60} then UBX_RXMSG_ERROR_LENGTH
               else if \<not> configured u then UBX_RXMSG_IGNORE else UBX_RXMSG_HANDLE)
         else if m = UBX_MSG_ACK_ACK \<or> m = UBX_MSG_ACK_NAK then ack_rx_state u
         else UBX_RXMSG_DISABLE)"

definition payload_rx_init :: "ubx \<Rightarrow> int \<times> ubx" where
  "payload_rx_init u =
     (let st = rx_state_for u;
          u1 = u\<lparr>rx_state := st, u_sat := (if rx_msg u = UBX_MSG_NAV_SVINFO \<and> st = UBX_RXMSG_HANDLE
                                           then Some empty_sat_info else u_sat u)\<rparr>
      in case st of
           UBX_RXMSG_HANDLE \<Rightarrow> (0, u1)
         | UBX_RXMSG_IGNORE \<Rightarrow> (0, u1)
         | UBX_RXMSG_DISABLE \<Rightarrow>
             (let t = p_now (u_port u1)
              in (-1, if t > disable_cmd_last u1 + DISABLE_MSG_INTERVAL
                      then configure_message_rate (rx_msg u1) 0 (u1\<lparr>disable_cmd_last := t\<rparr>) else u1))
         | UBX_RXMSG_ERROR_LENGTH \<Rightarrow> (-1, u1))"

definition buf_put :: "nat \<Rightarrow> u8 \<Rightarrow> ubx \<Rightarrow> ubx option" where
  "buf_put i b u = (if i < length (u_buf u) then Some (u\<lparr>u_buf := (u_buf u)[i := b]\<rparr>) else None)"

definition next_rx_index :: "ubx \<Rightarrow> int \<times> ubx" where
  "next_rx_index u =
     (let i = rx_payload_index u + 1
      in (if i \<ge> rx_payload_length u then 1 else 0, u\<lparr>rx_payload_index := i\<rparr>))"

definition payload_rx_add :: "u8 \<Rightarrow> ubx \<Rightarrow> (int \<times> ubx) option" where
  "payload_rx_add b u = do { u1 \<leftarrow> buf_put (unat (rx_payload_index u)) b u; Some (next_rx_index u1) }"

definition store_satellite :: "nat \<Rightarrow> u8 list \<Rightarrow> satellite_info \<Rightarrow> satellite_info option" where
  "store_satellite i buf s =
     (if i < SAT_INFO_MAX_SATELLITES
      then do {
        azim \<leftarrow> f32_to_u8 (f32_div (scaled (sint (u16_at 6 buf)) 0x437F0000) 0x43B40000);
        Some (s\<lparr>sat_used := (sat_used s)[i := u8_at 2 buf AND 1], sat_snr := (sat_snr s)[i := u8_at 4 buf],
               sat_elevation := (sat_elevation s)[i := u8_at 5 buf], sat_azimuth := (sat_azimuth s)[i := azim],
               sat_svid := (sat_svid s)[i := u8_at 1 buf]\<rparr>)
      }
      else None)"

definition payload_rx_add_nav_svinfo :: "u8 \<Rightarrow> ubx \<Rightarrow> (int \<times> ubx) option" where
  "payload_rx_add_nav_svinfo b u =
     (let i = unat (rx_payload_index u)
      in if i < 8 then payload_rx_add b u
         else do {
           s0 \<leftarrow> u_sat u;
           let s = (if i = 8 then s0\<lparr>sat_count := min (u8_at 4 (u_buf u)) (of_nat SAT_INFO_MAX_SATELLITES)\<rparr> else s0);
           let u1 = u\<lparr>u_sat := Some s\<rparr>;
           if i < 8 + unat (sat_count s) * 12
           then do {
             u2 \<leftarrow> buf_put ((i - 8) mod 12) b u1;
             s' \<leftarrow> (if (i - 8) mod 12 = 11 then store_satellite ((i - 8) div 12) (u_buf u2) s else Some s);
             Some (next_rx_index (u2\<lparr>u_sat := Some s'\<rparr>))
           }
           else Some (next_rx_index u1)
         })"

definition FNV1_32_INIT :: u32 where "FNV1_32_INIT = 0x811c9dc5"

text \<open>The hash of a string; without a terminator it runs out of the buffer.\<close>

fun fnv1_32_str :: "u8 list \<Rightarrow> u32 \<Rightarrow> u32 option" where
  "fnv1_32_str [] hval = None"
| "fnv1_32_str (c # cs) hval =
     (if c = 0 then Some hval
      else fnv1_32_str cs ((hval + (push_bit 1 hval + push_bit 4 hval + push_bit 7 hval + push_bit 8 hval + push_bit 24 hval))
             XOR ucast c))"

definition payload_rx_add_mon_ver :: "u8 \<Rightarrow> ubx \<Rightarrow> (int \<times> ubx) option" where
  "payload_rx_add_mon_ver b u =
     (let i = unat (rx_payload_index u)
      in if i < 40 then payload_rx_add b u
         else do {
           u1 \<leftarrow> (if i = 40
             then do {
               sw \<leftarrow> fnv1_32_str (u_buf u) FNV1_32_INIT;
               hw \<leftarrow> fnv1_32_str (drop 30 (u_buf u)) sw;
               Some (u\<lparr>ubx_version := hw\<rparr>)
             }
             else Some u);
           u2 \<leftarrow> buf_put ((i - 40) mod 30) b u1;
           Some (next_rx_index u2)
         })"


section \<open>Handling a message\<close>

text \<open>A date and time of the receiver as a time of the system clock.\<close>

definition set_utc :: "(tm \<Rightarrow> int) \<Rightarrow> tm \<Rightarrow> int \<Rightarrow> int \<Rightarrow> ubx \<Rightarrow> ubx" where
  "set_utc mk t nsec nano u =
     (let epoch = mk t
      in if epoch_sane epoch
         then u\<lparr>u_port := clock_settime epoch nsec (u_port u),
                u_gps := (u_gps u)\<lparr>time_utc_usec := of_int epoch * 1000000 + of_int (nano sdiv 1000)\<rparr>\<rparr>
         else u\<lparr>u_gps := (u_gps u)\<lparr>time_utc_usec := 0\<rparr>\<rparr>)"

definition tm_at :: "nat \<Rightarrow> u8 list \<Rightarrow> tm" where
  "tm_at i b = \<lparr>tm_year = uint (u16_at i b) - 1900, tm_mon = uint (u8_at (i + 2) b) - 1,
     tm_mday = uint (u8_at (i + 3) b), tm_hour = uint (u8_at (i + 4) b), tm_min = uint (u8_at (i + 5) b),
     tm_sec = uint (u8_at (i + 6) b)\<rparr>"

definition count_vel :: "ubx \<Rightarrow> ubx" where
  "count_vel u = u\<lparr>u_rates := (u_rates u)\<lparr>rate_count_vel := rate_count_vel (u_rates u) + 1\<rparr>, got_velned := True\<rparr>"

definition count_pos :: "ubx \<Rightarrow> ubx" where
  "count_pos u = u\<lparr>u_rates := (u_rates u)\<lparr>rate_count_lat_lon := rate_count_lat_lon (u_rates u) + 1\<rparr>,
     got_posllh := True\<rparr>"

definition nav_pvt :: "(tm \<Rightarrow> int) \<Rightarrow> ubx \<Rightarrow> ubx" where
  "nav_pvt mk u =
     (let b = u_buf u; g = u_gps u; now = p_now (u_port u);
          fix_ok = (u8_at 21 b AND 0x01 = 1);
          g1 = g\<lparr>fix_type := (if fix_ok then u8_at 20 b else 0), vel_ned_valid := fix_ok,
                 satellites_used := u8_at 23 b,
                 lat := s32_at 28 b, lon := s32_at 24 b, alt := s32_at 36 b,
                 eph := scaled (uint (u32_at 40 b)) f32_1e_3, epv := scaled (uint (u32_at 44 b)) f32_1e_3,
                 s_variance_m_s := scaled (uint (u32_at 68 b)) f32_1e_3,
                 vel_m_s := scaled (s32_at 60 b) f32_1e_3,
                 vel_n_m_s := scaled (s32_at 48 b) f32_1e_3, vel_e_m_s := scaled (s32_at 52 b) f32_1e_3,
                 vel_d_m_s := scaled (s32_at 56 b) f32_1e_3,
                 cog_rad := f32_mul (scaled (s32_at 64 b) M_DEG_TO_RAD_F) f32_1e_5,
                 c_variance_rad := f32_mul (scaled (uint (u32_at 72 b)) M_DEG_TO_RAD_F) f32_1e_5\<rparr>;
          u1 = u\<lparr>u_gps := g1\<rparr>;
          valid = u8_at 11 b;
          u2 = (if valid AND 0x01 \<noteq> 0 \<and> valid AND 0x02 \<noteq> 0 \<and> valid AND 0x04 \<noteq> 0
                then set_utc mk (tm_at 4 b) (s32_at 16 b) (s32_at 8 b) u1 else u1);
          u3 = u2\<lparr>u_gps := (u_gps u2)\<lparr>timestamp_time := now, timestamp_velocity := now,
                                      timestamp_variance := now, timestamp_position := now\<rparr>\<rparr>
      in count_pos (count_vel u3))"

definition nav_posllh :: "ubx \<Rightarrow> ubx" where
  "nav_posllh u =
     (let b = u_buf u
      in count_pos (u\<lparr>u_gps := (u_gps u)\<lparr>lat := s32_at 8 b, lon := s32_at 4 b, alt := s32_at 16 b,
           eph := scaled (uint (u32_at 20 b)) f32_1e_3, epv := scaled (uint (u32_at 24 b)) f32_1e_3,
           alt_ellipsoid := s32_at 12 b, timestamp_position := p_now (u_port u)\<rparr>\<rparr>))"

definition nav_sol :: "ubx \<Rightarrow> ubx" where
  "nav_sol u =
     (let b = u_buf u
      in u\<lparr>u_gps := (u_gps u)\<lparr>fix_type := u8_at 10 b, s_variance_m_s := scaled (uint (u32_at 40 b)) f32_1e_2,
           satellites_used := u8_at 47 b, timestamp_variance := p_now (u_port u)\<rparr>\<rparr>)"

definition nav_timeutc :: "(tm \<Rightarrow> int) \<Rightarrow> ubx \<Rightarrow> ubx" where
  "nav_timeutc mk u =
     (let b = u_buf u;
          u1 = (if u8_at 19 b AND 0x04 \<noteq> 0 then set_utc mk (tm_at 12 b) (s32_at 8 b) (s32_at 8 b) u else u)
      in u1\<lparr>u_gps := (u_gps u1)\<lparr>timestamp_time := p_now (u_port u)\<rparr>\<rparr>)"

definition nav_velned :: "ubx \<Rightarrow> ubx" where
  "nav_velned u =
     (let b = u_buf u
      in count_vel (u\<lparr>u_gps := (u_gps u)\<lparr>vel_m_s := scaled (uint (u32_at 16 b)) f32_1e_2,
           vel_n_m_s := scaled (s32_at 4 b) f32_1e_2, vel_e_m_s := scaled (s32_at 8 b) f32_1e_2,
           vel_d_m_s := scaled (s32_at 12 b) f32_1e_2,
           cog_rad := f32_mul (scaled (s32_at 24 b) M_DEG_TO_RAD_F) f32_1e_5,
           c_variance_rad := f32_mul (scaled (uint (u32_at 32 b)) M_DEG_TO_RAD_F) f32_1e_5,
           vel_ned_valid := True, timestamp_velocity := p_now (u_port u)\<rparr>\<rparr>))"

definition mon_hw :: "ubx \<Rightarrow> int \<times> ubx" where
  "mon_hw u =
     (let b = u_buf u; noise = uint (u16_at 16 b);
          put = (\<lambda>i. u\<lparr>u_gps := (u_gps u)\<lparr>noise_per_ms := noise, jamming_indicator := uint (u8_at i b)\<rparr>\<rparr>)
      in if rx_payload_length u = 68 then (1, put 53)
         else if rx_payload_length u = 60 then (1, put 45) else (0, u))"

definition ack_received :: "ubx_ack_state \<Rightarrow> ubx \<Rightarrow> ubx" where
  "ack_received st u =
     (if ack_state u = UBX_ACK_WAITING \<and> u16_at 0 (u_buf u) = ack_waiting_msg u then u\<lparr>ack_state := st\<rparr> else u)"

definition payload_rx_done :: "(tm \<Rightarrow> int) \<Rightarrow> ubx \<Rightarrow> int \<times> ubx" where
  "payload_rx_done mk u =
     (let m = rx_msg u
      in if rx_state u \<noteq> UBX_RXMSG_HANDLE then (0, u)
         else if m = UBX_MSG_NAV_PVT then (1, nav_pvt mk u)
         else if m = UBX_MSG_NAV_POSLLH then (1, nav_posllh u)
         else if m = UBX_MSG_NAV_SOL then (1, nav_sol u)
         else if m = UBX_MSG_NAV_TIMEUTC then (1, nav_timeutc mk u)
         else if m = UBX_MSG_NAV_SVINFO
         then (2, u\<lparr>u_sat := map_option (\<lambda>s. s\<lparr>sat_timestamp := p_now (u_port u)\<rparr>) (u_sat u)\<rparr>)
         else if m = UBX_MSG_NAV_VELNED then (1, nav_velned u)
         else if m = UBX_MSG_MON_VER then (1, u)
         else if m = UBX_MSG_MON_HW then mon_hw u
         else if m = UBX_MSG_ACK_ACK then (1, ack_received UBX_ACK_GOT_ACK u)
         else if m = UBX_MSG_ACK_NAK then (1, ack_received UBX_ACK_GOT_NAK u)
         else (0, u))"

section \<open>The decoder\<close>

definition payload_byte :: "u8 \<Rightarrow> ubx \<Rightarrow> (int \<times> ubx) option" where
  "payload_byte b u =
     (if rx_msg u = UBX_MSG_NAV_SVINFO then payload_rx_add_nav_svinfo b u
      else if rx_msg u = UBX_MSG_MON_VER then payload_rx_add_mon_ver b u
      else payload_rx_add b u)"

definition ubx_parse_char :: "(tm \<Rightarrow> int) \<Rightarrow> u8 \<Rightarrow> ubx \<Rightarrow> (int \<times> ubx) option" where
  "ubx_parse_char mk b u =
     (case decode_state u of
        UBX_DECODE_SYNC1 \<Rightarrow> Some (0, if b = UBX_SYNC1 then u\<lparr>decode_state := UBX_DECODE_SYNC2\<rparr> else u)
      | UBX_DECODE_SYNC2 \<Rightarrow> Some (0, if b = UBX_SYNC2 then u\<lparr>decode_state := UBX_DECODE_CLASS\<rparr> else ubx_decode_init u)
      | UBX_DECODE_CLASS \<Rightarrow> Some (0, (add_byte_to_checksum b u)\<lparr>rx_msg := ucast b, decode_state := UBX_DECODE_ID\<rparr>)
      | UBX_DECODE_ID \<Rightarrow> Some (0, (add_byte_to_checksum b u)\<lparr>rx_msg := rx_msg u OR push_bit 8 (ucast b),
            decode_state := UBX_DECODE_LENGTH1\<rparr>)
      | UBX_DECODE_LENGTH1 \<Rightarrow> Some (0, (add_byte_to_checksum b u)\<lparr>rx_payload_length := ucast b,
            decode_state := UBX_DECODE_LENGTH2\<rparr>)
      | UBX_DECODE_LENGTH2 \<Rightarrow>
          (let (r, u1) = payload_rx_init ((add_byte_to_checksum b u)
                 \<lparr>rx_payload_length := rx_payload_length u OR push_bit 8 (ucast b)\<rparr>)
           in Some (0, if r \<noteq> 0 then ubx_decode_init u1
                       else u1\<lparr>decode_state := (if rx_payload_length u1 > 0 then UBX_DECODE_PAYLOAD
                                                else UBX_DECODE_CHKSUM1)\<rparr>))
      | UBX_DECODE_PAYLOAD \<Rightarrow> do {
          (r, u1) \<leftarrow> payload_byte b (add_byte_to_checksum b u);
          Some (0, if r < 0 then ubx_decode_init u1
                   else if r > 0 then u1\<lparr>decode_state := UBX_DECODE_CHKSUM1\<rparr> else u1)
        }
      | UBX_DECODE_CHKSUM1 \<Rightarrow>
          Some (0, if fst (rx_ck u) \<noteq> b then ubx_decode_init u else u\<lparr>decode_state := UBX_DECODE_CHKSUM2\<rparr>)
      | UBX_DECODE_CHKSUM2 \<Rightarrow>
          (let (r, u1) = (if snd (rx_ck u) \<noteq> b then (0, u) else payload_rx_done mk u)
           in Some (r, ubx_decode_init u1)))"

text \<open>The bytes of one read, with the results combined.\<close>

fun ubx_parse :: "(tm \<Rightarrow> int) \<Rightarrow> u8 list \<Rightarrow> int \<Rightarrow> ubx \<Rightarrow> (int \<times> ubx) option" where
  "ubx_parse mk [] handled u = Some (handled, u)"
| "ubx_parse mk (b # bs) handled u =
     do { (r, u1) \<leftarrow> ubx_parse_char mk b u; ubx_parse mk bs (handled OR r) u1 }"

section \<open>Receiving and the configuration dialogue\<close>

definition UBX_CONFIG_TIMEOUT :: u64 where "UBX_CONFIG_TIMEOUT = 200"
definition UBX_PACKET_TIMEOUT :: u64 where "UBX_PACKET_TIMEOUT = 2"

definition ready_to_return :: "int \<Rightarrow> ubx \<Rightarrow> bool" where
  "ready_to_return handled u = (if configured u then got_posllh u \<and> got_velned u else handled \<noteq> 0)"

text \<open>
  The loop of \<open>receive\<close>: each round takes one event of the line.  When they are used up \<open>poll\<close>
  times out, which ends the loop, so that one round more than there are events is enough.
\<close>

fun ubx_receive_loop :: "nat \<Rightarrow> (tm \<Rightarrow> int) \<Rightarrow> u64 \<Rightarrow> u64 \<Rightarrow> int \<Rightarrow> ubx \<Rightarrow> (int \<times> ubx) option" where
  "ubx_receive_loop 0 mk timeout started handled u = None"
| "ubx_receive_loop (Suc n) mk timeout started handled u =
     (let ready = ready_to_return handled u;
          (e, p) = port_poll (if ready then UBX_PACKET_TIMEOUT else timeout) (u_port u);
          u1 = u\<lparr>u_port := p\<rparr>
      in if ev_ret e < 0 then Some (-1, u1)
         else if ev_ret e = 0
         then Some (if ready then (handled, u1\<lparr>got_posllh := False, got_velned := False\<rparr>) else (-1, u1))
         else do {
           (handled', u2) \<leftarrow> (if ev_in e then ubx_parse mk (take 128 (ev_bytes e)) handled u1 else Some (handled, u1));
           if started + timeout * 1000 < p_now (u_port u2) then Some (-1, u2)
           else ubx_receive_loop n mk timeout started handled' u2
         })"

definition ubx_receive :: "(tm \<Rightarrow> int) \<Rightarrow> u64 \<Rightarrow> ubx \<Rightarrow> (int \<times> ubx) option" where
  "ubx_receive mk timeout u =
     ubx_receive_loop (Suc (length (p_events (u_port u)))) mk timeout (p_now (u_port u)) 0 u"

fun wait_loop :: "nat \<Rightarrow> (tm \<Rightarrow> int) \<Rightarrow> u64 \<Rightarrow> u64 \<Rightarrow> ubx \<Rightarrow> ubx option" where
  "wait_loop 0 mk timeout started u = None"
| "wait_loop (Suc n) mk timeout started u =
     (if ack_state u = UBX_ACK_WAITING \<and> p_now (u_port u) < started + timeout * 1000
      then do { (r, u1) \<leftarrow> ubx_receive mk timeout u; wait_loop n mk timeout started u1 }
      else Some u)"

definition wait_for_ack :: "(tm \<Rightarrow> int) \<Rightarrow> u16 \<Rightarrow> u64 \<Rightarrow> ubx \<Rightarrow> (int \<times> ubx) option" where
  "wait_for_ack mk msg timeout u =
     do {
       let u0 = u\<lparr>ack_state := UBX_ACK_WAITING, ack_waiting_msg := msg\<rparr>;
       u1 \<leftarrow> wait_loop (length (p_events (u_port u0)) + 2) mk timeout (p_now (u_port u0)) u0;
       Some (if ack_state u1 = UBX_ACK_GOT_ACK then 0 else -1, u1\<lparr>ack_state := UBX_ACK_IDLE\<rparr>)
     }"

text \<open>The payloads of the configuration, in the transmit side of the buffer.\<close>

definition ubx_send_buf :: "u16 \<Rightarrow> u8 list \<Rightarrow> ubx \<Rightarrow> ubx" where
  "ubx_send_buf msg payload u =
     ubx_send_message msg (Some payload) (of_nat (length payload))
       (u\<lparr>u_buf := payload @ drop (length payload) (u_buf u)\<rparr>)"

definition UBX_TX_CFG_PRT_BAUDRATE :: nat where "UBX_TX_CFG_PRT_BAUDRATE = 38400"

definition payload_tx_cfg_prt :: "nat \<Rightarrow> u8 list" where
  "payload_tx_cfg_prt baud = [0x01, 0] @ le_bytes (0 :: u16) @ le_bytes (0x000008D0 :: u32) @
     le_bytes (of_nat baud :: u32) @ le_bytes (0x01 :: u16) @ le_bytes (0x01 :: u16) @ le_bytes (0 :: u16) @
     le_bytes (0 :: u16)"

definition payload_tx_cfg_rate :: "u8 list" where
  "payload_tx_cfg_rate = le_bytes (200 :: u16) @ le_bytes (1 :: u16) @ le_bytes (0 :: u16)"

definition payload_tx_cfg_nav5 :: "u8 list" where
  "payload_tx_cfg_nav5 = le_bytes (0x0005 :: u16) @ [7, 2] @ replicate 32 0"

definition ubx_try_baud :: "(tm \<Rightarrow> int) \<Rightarrow> nat \<Rightarrow> ubx \<Rightarrow> (bool \<times> nat \<times> ubx) option" where
  "ubx_try_baud mk baud u =
     do {
       let u1 = ubx_decode_init (u\<lparr>u_port := snd (set_baudrate baud (u_port u))\<rparr>);
       (r, u2) \<leftarrow> ubx_receive mk 20 u1;
       (a, u3) \<leftarrow> wait_for_ack mk UBX_MSG_CFG_PRT UBX_CONFIG_TIMEOUT
         (ubx_send_buf UBX_MSG_CFG_PRT (payload_tx_cfg_prt baud) (ubx_decode_init u2));
       if a < 0 then Some (False, baud, u3)
       else do {
         (b, u4) \<leftarrow> wait_for_ack mk UBX_MSG_CFG_PRT UBX_CONFIG_TIMEOUT
           (ubx_send_buf UBX_MSG_CFG_PRT (payload_tx_cfg_prt UBX_TX_CFG_PRT_BAUDRATE) u3);
         Some (True, UBX_TX_CFG_PRT_BAUDRATE,
               if UBX_TX_CFG_PRT_BAUDRATE \<noteq> baud
               then u4\<lparr>u_port := snd (set_baudrate UBX_TX_CFG_PRT_BAUDRATE (u_port u4))\<rparr> else u4)
       }
     }"

fun ubx_find_baud :: "(tm \<Rightarrow> int) \<Rightarrow> nat list \<Rightarrow> nat \<Rightarrow> ubx \<Rightarrow> (bool \<times> nat \<times> ubx) option" where
  "ubx_find_baud mk [] baud u = Some (False, baud, u)"
| "ubx_find_baud mk (b # bs) baud u =
     do { (ok, baud', u1) \<leftarrow> ubx_try_baud mk b u; if ok then Some (True, baud', u1) else ubx_find_baud mk bs baud' u1 }"

text \<open>A list of settings, each of which must be acknowledged.\<close>

fun configure_steps :: "(tm \<Rightarrow> int) \<Rightarrow> (u16 \<times> (ubx \<Rightarrow> ubx)) list \<Rightarrow> ubx \<Rightarrow> (bool \<times> ubx) option" where
  "configure_steps mk [] u = Some (True, u)"
| "configure_steps mk ((msg, send) # steps) u =
     do {
       (a, u1) \<leftarrow> wait_for_ack mk msg UBX_CONFIG_TIMEOUT (send u);
       if a < 0 then Some (False, u1) else configure_steps mk steps u1
     }"

definition rate_step :: "u16 \<Rightarrow> u8 \<Rightarrow> u16 \<times> (ubx \<Rightarrow> ubx)" where
  "rate_step msg rate = (UBX_MSG_CFG_MSG, configure_message_rate msg rate)"

definition ubx_configure :: "(tm \<Rightarrow> int) \<Rightarrow> nat \<Rightarrow> ubx \<Rightarrow> (int \<times> nat \<times> ubx) option" where
  "ubx_configure mk baud u =
     do {
       (ok, baud', u1) \<leftarrow> ubx_find_baud mk [9600, 38400, 19200, 57600, 115200] baud (u\<lparr>configured := False\<rparr>);
       if \<not> ok then Some (1, baud', u1)
       else do {
         (ok, u2) \<leftarrow> configure_steps mk [(UBX_MSG_CFG_RATE, ubx_send_buf UBX_MSG_CFG_RATE payload_tx_cfg_rate),
           (UBX_MSG_CFG_NAV5, ubx_send_buf UBX_MSG_CFG_NAV5 payload_tx_cfg_nav5)] u1;
         if \<not> ok then Some (1, baud', u2)
         else do {
           (a, u3) \<leftarrow> wait_for_ack mk UBX_MSG_CFG_MSG UBX_CONFIG_TIMEOUT (configure_message_rate UBX_MSG_NAV_PVT 1 u2);
           let pvt = (\<not> a < 0);
           let u4 = u3\<lparr>use_nav_pvt := pvt\<rparr>;
           (ok, u5) \<leftarrow> configure_steps mk
             ((if pvt then [] else [rate_step UBX_MSG_NAV_TIMEUTC 5, rate_step UBX_MSG_NAV_POSLLH 1,
                 rate_step UBX_MSG_NAV_SOL 1, rate_step UBX_MSG_NAV_VELNED 1]) @
              [rate_step UBX_MSG_NAV_SVINFO (if u_sat u4 \<noteq> None then 5 else 0), rate_step UBX_MSG_MON_HW 1]) u4;
           if \<not> ok then Some (1, baud', u5)
           else Some (0, baud', (ubx_send_message UBX_MSG_MON_VER None 0 u5)\<lparr>configured := True\<rparr>)
         }
       }
     }"

end
