(* ===== verification/UbxProps.thy ===== *)
theory UbxProps
  imports Ubx
begin

text \<open>
  The decoder of the u-blox protocol: a frame as it is sent is received as the message it
  carries, a damaged one changes nothing, no input makes it leave its buffers apart from two
  message contents that are named, and waiting for an answer ends.
\<close>

section \<open>Frames\<close>

definition ubx_frame :: "u16 \<Rightarrow> u8 list \<Rightarrow> u8 list" where
  "ubx_frame msg payload =
     (let len = of_nat (length payload) :: u16
      in ubx_header msg len @ payload @ ubx_checksum msg len (Some payload))"

lemma ubx_send_message_writes:
  assumes "p_write_fails (u_port u) = []" "length payload < 2 ^ 16"
  shows "concat (p_written (u_port (ubx_send_message msg (Some payload) (of_nat (length payload)) u))) =
    concat (p_written (u_port u)) @ ubx_frame msg payload"
  using assms by (simp add: ubx_send_message_def port_write_def ubx_frame_def Let_def unat_of_nat)

text \<open>The decoder before the first byte of a frame.\<close>

definition ubx_idle :: "ubx \<Rightarrow> bool" where
  "ubx_idle u \<longleftrightarrow> decode_state u = UBX_DECODE_SYNC1 \<and> rx_ck u = (0, 0) \<and> rx_payload_length u = 0 \<and>
     rx_payload_index u = 0"

lemma ubx_idle_decode_init [simp]: "ubx_idle (ubx_decode_init u)"
  by (simp add: ubx_idle_def ubx_decode_init_def)

lemma le_bytes_u16:
  "le_bytes (w :: u16) = [ucast w, ucast (drop_bit 8 w)]"
proof -
  have "le_bytes w = [of_nat (unat w mod 256), of_nat (unat w div 256 mod 256)]"
    by (simp add: le_bytes_def numeral_2_eq_2)
  moreover have "(of_nat (unat w mod 256) :: u8) = ucast w"
    by (rule unsigned_word_eqI [where ?'a = nat]) (simp add: unsigned_of_nat unsigned_ucast_eq take_bit_eq_mod)
  moreover have "(of_nat (unat w div 256 mod 256) :: u8) = ucast (drop_bit 8 w)"
    by (rule unsigned_word_eqI [where ?'a = nat])
      (simp add: unsigned_of_nat unsigned_ucast_eq take_bit_eq_mod unat_div drop_bit_eq_div)
  ultimately show ?thesis
    by simp
qed

lemma u16_of_bytes: "ucast (ucast w :: u8) OR push_bit 8 (ucast (ucast (drop_bit 8 w) :: u8)) = (w :: u16)"
  by (rule bit_word_eqI) (auto simp: bit_simps)

lemma ubx_parse_append:
  "ubx_parse mk (xs @ ys) h u = do { (h1, u1) \<leftarrow> ubx_parse mk xs h u; ubx_parse mk ys h1 u1 }"
  by (induction xs arbitrary: h u) (auto simp: Option.bind_split split: prod.splits)

text \<open>After the six bytes of the header the decoder knows the message and its length.\<close>

definition header_state :: "u16 \<Rightarrow> u16 \<Rightarrow> ubx \<Rightarrow> ubx" where
  "header_state msg len u = u\<lparr>rx_msg := msg, decode_state := UBX_DECODE_LENGTH2,
     rx_ck := ck_run (drop 2 (ubx_header msg len)) (0, 0), rx_payload_length := len\<rparr>"

definition accepted :: "u16 \<Rightarrow> u16 \<Rightarrow> ubx \<Rightarrow> bool" where
  "accepted msg len u \<longleftrightarrow> rx_state_for (header_state msg len u) \<in> {UBX_RXMSG_HANDLE, UBX_RXMSG_IGNORE} \<and>
     msg \<noteq> UBX_MSG_NAV_SVINFO \<and> msg \<noteq> UBX_MSG_MON_VER"

lemma parse_header:
  assumes "ubx_idle u" "accepted msg len u"
  shows "ubx_parse mk (ubx_header msg len) h u =
    Some (h, (header_state msg len u)\<lparr>rx_state := rx_state_for (header_state msg len u),
      decode_state := (if len > 0 then UBX_DECODE_PAYLOAD else UBX_DECODE_CHKSUM1)\<rparr>)"
  using assms
  by (auto simp: ubx_header_def le_bytes_u16 ubx_parse_char_def ubx_idle_def add_byte_to_checksum_def
      header_state_def payload_rx_init_def u16_of_bytes accepted_def Let_def)


text \<open>Filling the payload buffer byte by byte.\<close>

lemma list_update_append_take:
  "length xs < length buf \<Longrightarrow> (xs @ drop (length xs) buf)[length xs := b] = (xs @ [b]) @ drop (Suc (length xs)) buf"
  by (simp add: list_update_append) (metis Cons_nth_drop_Suc list_update_code(2))

definition payload_state :: "ubx \<Rightarrow> u8 list \<Rightarrow> u8 list \<Rightarrow> ubx" where
  "payload_state u buf xs = u\<lparr>u_buf := xs @ drop (length xs) buf, rx_payload_index := of_nat (length xs),
     rx_ck := ck_run xs (rx_ck u)\<rparr>"

lemma parse_payload_byte:
  assumes u: "decode_state u = UBX_DECODE_PAYLOAD" "rx_msg u \<noteq> UBX_MSG_NAV_SVINFO" "rx_msg u \<noteq> UBX_MSG_MON_VER"
    and n: "rx_payload_length u = of_nat n" "length xs < n" "n < 2 ^ 16" "n \<le> length buf"
  shows "ubx_parse_char mk b (payload_state u buf xs) =
    Some (0, (payload_state u buf (xs @ [b]))\<lparr>decode_state :=
      (if Suc (length xs) = n then UBX_DECODE_CHKSUM1 else UBX_DECODE_PAYLOAD)\<rparr>)"
proof -
  have idx: "unat (of_nat (length xs) :: u16) = length xs"
    using n by (simp add: unat_of_nat)
  have step: "(of_nat (length xs) + 1 :: u16) \<ge> of_nat n \<longleftrightarrow> Suc (length xs) = n"
  proof -
    have "(of_nat (Suc (length xs)) :: u16) \<ge> of_nat n \<longleftrightarrow> Suc (length xs) \<ge> n"
      using n by (simp add: word_le_nat_alt unat_of_nat del: of_nat_Suc)
    then show ?thesis
      using n(2) by (auto simp: add.commute)
  qed
  have put: "length xs < length buf"
    using n by simp
  show ?thesis
    using u n(1) idx step put list_update_append_take [OF put, of b]
    by (simp add: ubx_parse_char_def payload_state_def payload_byte_def payload_rx_add_def buf_put_def
        next_rx_index_def add_byte_to_checksum_def Let_def add.commute)
qed

lemma parse_payload:
  assumes u: "decode_state u = UBX_DECODE_PAYLOAD" "rx_msg u \<noteq> UBX_MSG_NAV_SVINFO" "rx_msg u \<noteq> UBX_MSG_MON_VER"
    and n: "rx_payload_length u = of_nat n" "n < 2 ^ 16" "n \<le> length buf"
  shows "length xs + length ys = n \<Longrightarrow> ys \<noteq> [] \<Longrightarrow>
    ubx_parse mk ys h (payload_state u buf xs) =
      Some (h, (payload_state u buf (xs @ ys))\<lparr>decode_state := UBX_DECODE_CHKSUM1\<rparr>)"
proof (induction ys arbitrary: xs)
  case (Cons b ys)
  have step: "ubx_parse_char mk b (payload_state u buf xs) =
    Some (0, (payload_state u buf (xs @ [b]))\<lparr>decode_state :=
      (if Suc (length xs) = n then UBX_DECODE_CHKSUM1 else UBX_DECODE_PAYLOAD)\<rparr>)"
    using Cons.prems by (intro parse_payload_byte [OF u n(1) _ n(2,3)]) simp
  show ?case
  proof (cases ys)
    case Nil
    then show ?thesis
      using step Cons.prems by simp
  next
    case (Cons c cs)
    have "(payload_state u buf (xs @ [b]))\<lparr>decode_state := UBX_DECODE_PAYLOAD\<rparr> = payload_state u buf (xs @ [b])"
      using u(1) by (simp add: payload_state_def)
    moreover have "Suc (length xs) \<noteq> n" "length (xs @ [b]) + length ys = n"
      using Cons.prems Cons by auto
    ultimately show ?thesis
      using step Cons.IH [of "xs @ [b]"] Cons by simp
  qed
qed simp

text \<open>The state in which a received message is handled.\<close>

definition received :: "u16 \<Rightarrow> u8 list \<Rightarrow> ubx \<Rightarrow> ubx" where
  "received msg payload u =
     (let h = header_state msg (of_nat (length payload)) u
      in h\<lparr>rx_state := rx_state_for h, decode_state := UBX_DECODE_CHKSUM2,
           u_buf := payload @ drop (length payload) (u_buf u),
           rx_payload_index := of_nat (length payload), rx_ck := ck_run payload (rx_ck h)\<rparr>)"

lemma rx_ck_received: "ubx_checksum msg (of_nat (length payload)) (Some payload) =
    [fst (rx_ck (received msg payload u)), snd (rx_ck (received msg payload u))]"
  if "length payload < 2 ^ 16"
  using that by (simp add: ubx_checksum_def received_def header_state_def Let_def calc_checksum_def unat_of_nat)

lemma parse_body:
  assumes "ubx_idle u" "accepted msg (of_nat (length payload)) u" "length payload < 2 ^ 16"
    "length payload \<le> length (u_buf u)"
  shows "ubx_parse mk (ubx_header msg (of_nat (length payload)) @ payload) h u =
    Some (h, (received msg payload u)\<lparr>decode_state := UBX_DECODE_CHKSUM1\<rparr>)"
proof -
  let ?len = "of_nat (length payload) :: u16"
  let ?h = "header_state msg ?len u"
  let ?u = "?h\<lparr>rx_state := rx_state_for ?h,
    decode_state := (if ?len > 0 then UBX_DECODE_PAYLOAD else UBX_DECODE_CHKSUM1)\<rparr>"
  have head: "ubx_parse mk (ubx_header msg ?len) h u = Some (h, ?u)"
    by (rule parse_header [OF assms(1,2)])
  have idx: "rx_payload_index u = 0"
    using assms(1) by (simp add: ubx_idle_def)
  have pos: "?len > 0 \<longleftrightarrow> payload \<noteq> []"
    using assms(3) by (auto simp: word_less_nat_alt unat_of_nat)
  show ?thesis
  proof (cases "payload = []")
    case True
    then show ?thesis
      using head pos idx by (simp add: received_def Let_def header_state_def)
  next
    case False
    have u: "?u = payload_state ?u (u_buf u) []"
      using idx by (simp add: payload_state_def header_state_def)
    have "ubx_parse mk payload h (payload_state ?u (u_buf u) []) =
        Some (h, (payload_state ?u (u_buf u) ([] @ payload))\<lparr>decode_state := UBX_DECODE_CHKSUM1\<rparr>)"
      using assms(2-) False pos
      by (intro parse_payload [where n = "length payload"]) (simp_all add: accepted_def header_state_def)
    then show ?thesis
      using head u by (simp add: ubx_parse_append received_def payload_state_def Let_def header_state_def)
  qed
qed


lemma parse_two:
  "ubx_parse mk [a, b] h u = do { (r, u1) \<leftarrow> ubx_parse_char mk a u; (s, u2) \<leftarrow> ubx_parse_char mk b u1; Some (h OR r OR s, u2) }"
  by (auto simp: Option.bind_split or.assoc split: prod.splits)

lemma parse_checksum:
  assumes "decode_state u = UBX_DECODE_CHKSUM1"
  shows "ubx_parse mk [fst (rx_ck u), snd (rx_ck u)] h u =
    (let (r, u1) = payload_rx_done mk (u\<lparr>decode_state := UBX_DECODE_CHKSUM2\<rparr>) in Some (h OR r, ubx_decode_init u1))"
  using assms by (simp add: ubx_parse_char_def split: prod.split)

lemma parse_frame:
  assumes "ubx_idle u" "accepted msg (of_nat (length payload)) u" "length payload < 2 ^ 16"
    "length payload \<le> length (u_buf u)"
  shows "ubx_parse mk (ubx_frame msg payload) h u =
    (let (r, u1) = payload_rx_done mk (received msg payload u) in Some (h OR r, ubx_decode_init u1))"
proof -
  let ?r = "received msg payload u"
  have "?r\<lparr>decode_state := UBX_DECODE_CHKSUM2\<rparr> = ?r"
    by (simp add: received_def Let_def)
  then have "ubx_parse mk [fst (rx_ck ?r), snd (rx_ck ?r)] h (?r\<lparr>decode_state := UBX_DECODE_CHKSUM1\<rparr>) =
      (let (r, u1) = payload_rx_done mk ?r in Some (h OR r, ubx_decode_init u1))"
    using parse_checksum [of "?r\<lparr>decode_state := UBX_DECODE_CHKSUM1\<rparr>" mk h] by simp
  moreover have "ubx_frame msg payload = (ubx_header msg (of_nat (length payload)) @ payload) @
      [fst (rx_ck ?r), snd (rx_ck ?r)]"
    using rx_ck_received [OF assms(3), of msg u] by (simp add: ubx_frame_def Let_def)
  ultimately show ?thesis
    using parse_body [OF assms, of mk h] by (simp only: ubx_parse_append) simp
qed

section \<open>Damaged frames\<close>

lemma parse_checksum_mismatch:
  assumes "decode_state u = UBX_DECODE_CHKSUM1" "(a, b) \<noteq> rx_ck u"
  shows "\<exists>u'. ubx_parse mk [a, b] h u = Some (h, u') \<and> u_gps u' = u_gps u \<and> ack_state u' = ack_state u \<and>
    u_port u' = u_port u \<and> u_sat u' = u_sat u"
proof (cases "a = fst (rx_ck u)")
  case True
  then have "b \<noteq> snd (rx_ck u)"
    using assms(2) by (auto simp: prod_eq_iff)
  then show ?thesis
    using True assms(1) by (auto simp: parse_two ubx_parse_char_def ubx_decode_init_def)
next
  case False
  then show ?thesis
    using assms(1) by (auto simp: parse_two ubx_parse_char_def ubx_decode_init_def)
qed

section \<open>The buffers\<close>

definition sat_ok :: "satellite_info \<Rightarrow> bool" where
  "sat_ok s \<longleftrightarrow> length (sat_svid s) = 20 \<and> length (sat_used s) = 20 \<and> length (sat_elevation s) = 20 \<and>
     length (sat_azimuth s) = 20 \<and> length (sat_snr s) = 20"

definition ubx_ok :: "ubx \<Rightarrow> bool" where
  "ubx_ok u \<longleftrightarrow> length (u_buf u) = ubx_buf_size \<and> (\<forall>s. u_sat u = Some s \<longrightarrow> sat_ok s) \<and>
     (decode_state u = UBX_DECODE_PAYLOAD \<longrightarrow>
        rx_payload_index u < rx_payload_length u \<and>
        (rx_msg u \<noteq> UBX_MSG_NAV_SVINFO \<and> rx_msg u \<noteq> UBX_MSG_MON_VER \<longrightarrow> rx_payload_length u \<le> 92) \<and>
        (rx_msg u = UBX_MSG_NAV_SVINFO \<longrightarrow>
           (\<exists>s. u_sat u = Some s \<and> (8 < rx_payload_index u \<longrightarrow> sat_count s \<le> 20)))) \<and>
     (decode_state u \<in> {UBX_DECODE_SYNC1, UBX_DECODE_SYNC2, UBX_DECODE_CLASS, UBX_DECODE_ID, UBX_DECODE_LENGTH1,
        UBX_DECODE_LENGTH2} \<longrightarrow> rx_payload_index u = 0)"

text \<open>
  The two messages whose contents are not bounded: a version string without terminator in the
  buffer, and a satellite whose azimuth does not fit into eight bits after scaling.
\<close>

definition unterminated_version :: "ubx \<Rightarrow> bool" where
  "unterminated_version u \<longleftrightarrow> rx_msg u = UBX_MSG_MON_VER \<and> rx_payload_index u = 40 \<and>
     (0 \<notin> set (u_buf u) \<or> 0 \<notin> set (drop 30 (u_buf u)))"

definition azimuth_out_of_range :: "u8 \<Rightarrow> ubx \<Rightarrow> bool" where
  "azimuth_out_of_range b u \<longleftrightarrow> rx_msg u = UBX_MSG_NAV_SVINFO \<and> unat (rx_payload_index u) \<ge> 8 \<and> (unat (rx_payload_index u) - 8) mod 12 = 11 \<and>
     f32_to_u8 (f32_div (scaled (sint (u16_at 6 ((u_buf u)[11 := b]))) 0x437F0000) 0x43B40000) = None"

lemma fnv1_32_str_terminated: "0 \<in> set s \<Longrightarrow> \<exists>h. fnv1_32_str s hval = Some h"
  by (induction s arbitrary: hval) auto

lemma next_rx_index_eq:
  "next_rx_index u = (if rx_payload_index u + 1 \<ge> rx_payload_length u then 1 else 0,
     u\<lparr>rx_payload_index := rx_payload_index u + 1\<rparr>)"
  by (simp add: next_rx_index_def Let_def)


definition bufs_ok :: "ubx \<Rightarrow> bool" where
  "bufs_ok u \<longleftrightarrow> length (u_buf u) = ubx_buf_size \<and> (\<forall>s. u_sat u = Some s \<longrightarrow> sat_ok s)"

lemma bufs_ok_frame:
  "u_buf v = u_buf u \<Longrightarrow> u_sat v = u_sat u \<Longrightarrow> bufs_ok u \<Longrightarrow> bufs_ok v"
  by (simp add: bufs_ok_def)

lemma ubx_ok_decode_init: "bufs_ok u \<Longrightarrow> ubx_ok (ubx_decode_init u)"
  by (simp add: ubx_ok_def bufs_ok_def ubx_decode_init_def)

lemma ubx_ok_bufs: "ubx_ok u \<Longrightarrow> bufs_ok u"
  by (simp add: ubx_ok_def bufs_ok_def)

lemma word_succ_less: "i < n \<Longrightarrow> \<not> n \<le> i + 1 \<Longrightarrow> i + 1 < (n :: u16)"
  by simp

lemma unat_succ: "i < n \<Longrightarrow> unat (i + 1 :: u16) = unat i + 1"
  using unsigned_less [of n, where ?'a = nat] by (simp add: word_less_nat_alt unat_word_ariths(1))

lemma rx_state_for_length:
  assumes "rx_state_for u \<in> {UBX_RXMSG_HANDLE, UBX_RXMSG_IGNORE}"
  shows "rx_msg u \<noteq> UBX_MSG_NAV_SVINFO \<and> rx_msg u \<noteq> UBX_MSG_MON_VER \<Longrightarrow> rx_payload_length u \<le> 92"
    and "rx_msg u = UBX_MSG_NAV_SVINFO \<Longrightarrow> u_sat u \<noteq> None"
  using assms by (auto simp: rx_state_for_def nav_rx_state_def ack_rx_state_def Let_def ubx_msgs split: if_splits)

lemma payload_rx_add_ok:
  assumes "bufs_ok u" "unat (rx_payload_index u) < 92"
  shows "\<exists>u1. payload_rx_add b u = Some (next_rx_index u1) \<and> u1 = u\<lparr>u_buf := (u_buf u)[unat (rx_payload_index u) := b]\<rparr> \<and>
    bufs_ok u1"
  using assms by (simp add: payload_rx_add_def buf_put_def bufs_ok_def ubx_buf_size_def)

lemma store_satellite_ok:
  assumes "sat_ok s" "i < 20"
    and "f32_to_u8 (f32_div (scaled (sint (u16_at 6 buf)) 0x437F0000) 0x43B40000) \<noteq> None"
  shows "\<exists>s'. store_satellite i buf s = Some s' \<and> sat_ok s' \<and> sat_count s' = sat_count s"
  using assms by (auto simp: store_satellite_def SAT_INFO_MAX_SATELLITES_def sat_ok_def)

lemma payload_svinfo_ok:
  assumes ok: "bufs_ok u" and msg: "rx_msg u = UBX_MSG_NAV_SVINFO" and s: "u_sat u = Some s0" "8 < rx_payload_index u \<longrightarrow> sat_count s0 \<le> 20"
    and az: "\<not> azimuth_out_of_range b u"
  shows "\<exists>u1 s1. payload_rx_add_nav_svinfo b u = Some (next_rx_index u1) \<and> bufs_ok u1 \<and>
    u_sat u1 = Some s1 \<and> (8 \<le> rx_payload_index u \<longrightarrow> sat_count s1 \<le> 20) \<and>
    rx_payload_index u1 = rx_payload_index u \<and> rx_payload_length u1 = rx_payload_length u \<and>
    rx_msg u1 = rx_msg u \<and> decode_state u1 = decode_state u"
proof (cases "unat (rx_payload_index u) < 8")
  case True
  then have "payload_rx_add_nav_svinfo b u = payload_rx_add b u" "\<not> 8 \<le> rx_payload_index u"
    by (simp_all add: payload_rx_add_nav_svinfo_def word_le_nat_alt Let_def)
  then show ?thesis
    using payload_rx_add_ok [OF ok, of b] True s(1) by auto
next
  case False
  let ?i = "unat (rx_payload_index u)"
  let ?s = "if ?i = 8 then s0\<lparr>sat_count := min (u8_at 4 (u_buf u)) (of_nat SAT_INFO_MAX_SATELLITES)\<rparr> else s0"
  have count: "sat_count ?s \<le> 20"
    using False s(2) by (auto simp: SAT_INFO_MAX_SATELLITES_def word_less_nat_alt)
  then have count': "unat (sat_count ?s) \<le> 20"
    by (simp add: word_le_nat_alt)
  have sat: "sat_ok ?s"
    using ok s(1) by (auto simp: bufs_ok_def sat_ok_def)
  let ?u1 = "u\<lparr>u_sat := Some ?s\<rparr>"
  have def: "payload_rx_add_nav_svinfo b u =
     (if ?i < 8 + unat (sat_count ?s) * 12
      then do {
        u2 \<leftarrow> buf_put ((?i - 8) mod 12) b ?u1;
        s' \<leftarrow> (if (?i - 8) mod 12 = 11 then store_satellite ((?i - 8) div 12) (u_buf u2) ?s else Some ?s);
        Some (next_rx_index (u2\<lparr>u_sat := Some s'\<rparr>))
      }
      else Some (next_rx_index ?u1))"
    using False s(1) by (simp add: payload_rx_add_nav_svinfo_def Let_def)
  show ?thesis
  proof (cases "?i < 8 + unat (sat_count ?s) * 12")
    case False
    then have "payload_rx_add_nav_svinfo b u = Some (next_rx_index ?u1)"
      unfolding def by simp
    moreover have "bufs_ok ?u1"
      using ok sat by (simp add: bufs_ok_def)
    ultimately show ?thesis
      using count by (intro exI [of _ ?u1] exI [of _ ?s]) simp
  next
    case True
    let ?j = "(?i - 8) mod 12"
    let ?u2 = "?u1\<lparr>u_buf := (u_buf u)[?j := b]\<rparr>"
    have j: "?j < 12"
      by simp
    have put: "buf_put ?j b ?u1 = Some ?u2"
      using ok j by (simp add: buf_put_def bufs_ok_def ubx_buf_size_def)
    have sat_index: "(?i - 8) div 12 < 20"
      using True count' False \<open>\<not> ?i < 8\<close> by (simp add: less_mult_imp_div_less)
    obtain s' where s': "(if ?j = 11 then store_satellite ((?i - 8) div 12) (u_buf ?u2) ?s else Some ?s) = Some s'"
      "sat_ok s'" "sat_count s' = sat_count ?s"
    proof (cases "?j = 11")
      case True
      then have "f32_to_u8 (f32_div (scaled (sint (u16_at 6 (u_buf ?u2))) 0x437F0000) 0x43B40000) \<noteq> None"
        using az msg \<open>\<not> ?i < 8\<close> by (simp add: azimuth_out_of_range_def)
      then show ?thesis
        using store_satellite_ok [OF sat sat_index] True that by auto
    qed (use sat in simp)
    have "payload_rx_add_nav_svinfo b u = Some (next_rx_index (?u2\<lparr>u_sat := Some s'\<rparr>))"
      unfolding def using True put s'(1) by simp
    moreover have "bufs_ok (?u2\<lparr>u_sat := Some s'\<rparr>)"
      using ok s'(2) by (simp add: bufs_ok_def)
    ultimately show ?thesis
      using count s'(3) by (intro exI [of _ "?u2\<lparr>u_sat := Some s'\<rparr>"] exI [of _ s']) simp
  qed
qed


lemma payload_mon_ver_ok:
  assumes ok: "bufs_ok u" and "rx_msg u = UBX_MSG_MON_VER" "\<not> unterminated_version u"
  shows "\<exists>u1. payload_rx_add_mon_ver b u = Some (next_rx_index u1) \<and> bufs_ok u1 \<and>
    rx_payload_index u1 = rx_payload_index u \<and> rx_payload_length u1 = rx_payload_length u \<and>
    rx_msg u1 = rx_msg u \<and> decode_state u1 = decode_state u"
proof (cases "unat (rx_payload_index u) < 40")
  case True
  then show ?thesis
    using payload_rx_add_ok [OF ok, of b] by (auto simp: payload_rx_add_mon_ver_def Let_def)
next
  case False
  let ?i = "unat (rx_payload_index u)"
  obtain v where v: "(if ?i = 40
      then do {
        sw \<leftarrow> fnv1_32_str (u_buf u) FNV1_32_INIT;
        hw \<leftarrow> fnv1_32_str (drop 30 (u_buf u)) sw;
        Some (u\<lparr>ubx_version := hw\<rparr>)
      }
      else Some u) = Some (u\<lparr>ubx_version := v\<rparr>)"
  proof (cases "?i = 40")
    case True
    then have "rx_payload_index u = 40"
      by (intro unsigned_word_eqI [where ?'a = nat]) simp
    then have "0 \<in> set (u_buf u)" "0 \<in> set (drop 30 (u_buf u))"
      using assms(2,3) by (simp_all add: unterminated_version_def)
    then obtain sw hw where "fnv1_32_str (u_buf u) FNV1_32_INIT = Some sw" "fnv1_32_str (drop 30 (u_buf u)) sw = Some hw"
      using fnv1_32_str_terminated by metis
    then show ?thesis
      using True that [of hw] by simp
  next
    case False
    then show ?thesis
      using that [of "ubx_version u"] by simp
  qed
  let ?u1 = "u\<lparr>ubx_version := v\<rparr>"
  let ?u2 = "?u1\<lparr>u_buf := (u_buf u)[(?i - 40) mod 30 := b]\<rparr>"
  have "(?i - 40) mod 30 < 30"
    by simp
  then have "buf_put ((?i - 40) mod 30) b ?u1 = Some ?u2"
    using ok by (simp add: buf_put_def bufs_ok_def ubx_buf_size_def)
  then have "payload_rx_add_mon_ver b u = Some (next_rx_index ?u2)"
    using False unfolding payload_rx_add_mon_ver_def Let_def v by simp
  moreover have "bufs_ok ?u2"
    using ok by (simp add: bufs_ok_def)
  ultimately show ?thesis
    by (intro exI [of _ ?u2]) simp
qed

definition hazard :: "u8 \<Rightarrow> ubx \<Rightarrow> bool" where
  "hazard b u \<longleftrightarrow> decode_state u = UBX_DECODE_PAYLOAD \<and> (unterminated_version u \<or> azimuth_out_of_range b u)"

lemma payload_byte_ok:
  assumes "ubx_ok u" "decode_state u = UBX_DECODE_PAYLOAD" "\<not> hazard b u"
  shows "\<exists>u1. payload_byte b u = Some (next_rx_index u1) \<and> bufs_ok u1 \<and>
    (rx_msg u = UBX_MSG_NAV_SVINFO \<longrightarrow>
       (\<exists>s1. u_sat u1 = Some s1 \<and> (8 \<le> rx_payload_index u \<longrightarrow> sat_count s1 \<le> 20))) \<and>
    rx_payload_index u1 = rx_payload_index u \<and> rx_payload_length u1 = rx_payload_length u \<and>
    rx_msg u1 = rx_msg u \<and> decode_state u1 = decode_state u"
proof -
  have bufs: "bufs_ok u" and less: "rx_payload_index u < rx_payload_length u"
    using assms(1,2) ubx_ok_bufs by (simp_all add: ubx_ok_def)
  consider (sv) "rx_msg u = UBX_MSG_NAV_SVINFO" | (ver) "rx_msg u = UBX_MSG_MON_VER" "rx_msg u \<noteq> UBX_MSG_NAV_SVINFO"
    | (other) "rx_msg u \<noteq> UBX_MSG_NAV_SVINFO" "rx_msg u \<noteq> UBX_MSG_MON_VER"
    by blast
  then show ?thesis
  proof cases
    case sv
    obtain s0 where "u_sat u = Some s0" "8 < rx_payload_index u \<longrightarrow> sat_count s0 \<le> 20"
      using assms(1,2) sv by (auto simp: ubx_ok_def)
    from payload_svinfo_ok [OF bufs sv this, of b] assms(2,3) sv show ?thesis
      by (auto simp: payload_byte_def hazard_def)
  next
    case ver
    from payload_mon_ver_ok [OF bufs ver(1), of b] assms(2,3) ver show ?thesis
      by (auto simp: payload_byte_def hazard_def)
  next
    case other
    then have "rx_payload_length u \<le> 92"
      using assms(1,2) by (simp add: ubx_ok_def)
    then have "unat (rx_payload_index u) < 92"
      using less by (simp add: word_less_nat_alt word_le_nat_alt)
    from payload_rx_add_ok [OF bufs this, of b] other show ?thesis
      by (auto simp: payload_byte_def)
  qed
qed


lemma configure_message_rate_fields:
  "u_buf (configure_message_rate msg rate u) = u_buf u" "u_sat (configure_message_rate msg rate u) = u_sat u"
  by (simp_all add: configure_message_rate_def ubx_send_message_def Let_def)

lemma payload_rx_init_fields:
  "u_buf (snd (payload_rx_init u)) = u_buf u"
  "bufs_ok u \<Longrightarrow> bufs_ok (snd (payload_rx_init u))"
  by (auto simp: payload_rx_init_def Let_def configure_message_rate_fields bufs_ok_def empty_sat_info_def sat_ok_def
      split: ubx_rxmsg_state.split)

lemma payload_rx_init_accept:
  assumes "fst (payload_rx_init u) = 0"
  shows "rx_state_for u \<in> {UBX_RXMSG_HANDLE, UBX_RXMSG_IGNORE}"
    "snd (payload_rx_init u) = u\<lparr>rx_state := rx_state_for u, u_sat := (if rx_msg u = UBX_MSG_NAV_SVINFO \<and>
       rx_state_for u = UBX_RXMSG_HANDLE then Some empty_sat_info else u_sat u)\<rparr>"
  using assms by (auto simp: payload_rx_init_def Let_def split: ubx_rxmsg_state.split_asm)

text \<open>Handling a message leaves the buffer alone and does not touch the satellites' arrays.\<close>

named_theorems ubx_frames

lemma set_utc_fields [ubx_frames]:
  "u_buf (set_utc mk t s n u) = u_buf u" "u_sat (set_utc mk t s n u) = u_sat u"
  "ack_state (set_utc mk t s n u) = ack_state u" "p_events (u_port (set_utc mk t s n u)) = p_events (u_port u)"
  "p_now (u_port (set_utc mk t s n u)) = p_now (u_port u)" "configured (set_utc mk t s n u) = configured u"
  by (simp_all add: set_utc_def clock_settime_def Let_def)

lemma count_fields [ubx_frames]:
  "u_buf (count_pos u) = u_buf u" "u_sat (count_pos u) = u_sat u" "ack_state (count_pos u) = ack_state u"
  "u_port (count_pos u) = u_port u" "u_buf (count_vel u) = u_buf u" "u_sat (count_vel u) = u_sat u"
  "ack_state (count_vel u) = ack_state u" "u_port (count_vel u) = u_port u"
  "configured (count_pos u) = configured u" "configured (count_vel u) = configured u"
  by (simp_all add: count_pos_def count_vel_def)

lemma nav_pvt_fields [ubx_frames]:
  "u_buf (nav_pvt mk u) = u_buf u" "u_sat (nav_pvt mk u) = u_sat u" "ack_state (nav_pvt mk u) = ack_state u"
  "p_events (u_port (nav_pvt mk u)) = p_events (u_port u)" "p_now (u_port (nav_pvt mk u)) = p_now (u_port u)"
  "configured (nav_pvt mk u) = configured u"
  unfolding nav_pvt_def Let_def by (simp_all add: ubx_frames)

lemma nav_fields [ubx_frames]:
  "u_buf (nav_posllh u) = u_buf u" "u_sat (nav_posllh u) = u_sat u" "ack_state (nav_posllh u) = ack_state u"
  "u_port (nav_posllh u) = u_port u" "u_buf (nav_sol u) = u_buf u" "u_sat (nav_sol u) = u_sat u"
  "ack_state (nav_sol u) = ack_state u" "u_port (nav_sol u) = u_port u" "u_buf (nav_velned u) = u_buf u"
  "u_sat (nav_velned u) = u_sat u" "ack_state (nav_velned u) = ack_state u" "u_port (nav_velned u) = u_port u"
  "u_buf (snd (mon_hw u)) = u_buf u" "u_sat (snd (mon_hw u)) = u_sat u" "ack_state (snd (mon_hw u)) = ack_state u"
  "u_port (snd (mon_hw u)) = u_port u" "u_buf (ack_received st u) = u_buf u" "u_sat (ack_received st u) = u_sat u"
  "u_port (ack_received st u) = u_port u"
  "configured (nav_posllh u) = configured u" "configured (nav_sol u) = configured u"
  "configured (nav_velned u) = configured u" "configured (snd (mon_hw u)) = configured u"
  "configured (ack_received st u) = configured u"
  by (simp_all add: nav_posllh_def nav_sol_def nav_velned_def mon_hw_def ack_received_def Let_def ubx_frames)

lemma nav_timeutc_fields [ubx_frames]:
  "u_buf (nav_timeutc mk u) = u_buf u" "u_sat (nav_timeutc mk u) = u_sat u"
  "ack_state (nav_timeutc mk u) = ack_state u" "p_events (u_port (nav_timeutc mk u)) = p_events (u_port u)"
  "p_now (u_port (nav_timeutc mk u)) = p_now (u_port u)" "configured (nav_timeutc mk u) = configured u"
  unfolding nav_timeutc_def Let_def by (simp_all add: ubx_frames)

lemma payload_rx_done_bufs:
  assumes "bufs_ok u"
  shows "bufs_ok (snd (payload_rx_done mk u))"
proof -
  have "sat_ok (s\<lparr>sat_timestamp := t\<rparr>) = sat_ok s" for s t
    by (simp add: sat_ok_def)
  then show ?thesis
    using assms unfolding payload_rx_done_def Let_def
    by (simp add: bufs_ok_def ubx_frames) force
qed

lemma ubx_parse_char_ok:
  assumes ok: "ubx_ok u" and "\<not> hazard b u"
  shows "\<exists>r u'. ubx_parse_char mk b u = Some (r, u') \<and> ubx_ok u'"
proof (cases "decode_state u")
  case UBX_DECODE_LENGTH2
  let ?u = "(add_byte_to_checksum b u)\<lparr>rx_payload_length := rx_payload_length u OR push_bit 8 (ucast b)\<rparr>"
  have bufs: "bufs_ok ?u"
    using ubx_ok_bufs [OF ok] by (simp add: bufs_ok_def add_byte_to_checksum_def)
  have idx: "rx_payload_index ?u = 0"
    using ok UBX_DECODE_LENGTH2 by (simp add: ubx_ok_def add_byte_to_checksum_def)
  obtain r u1 where r: "payload_rx_init ?u = (r, u1)"
    by (cases "payload_rx_init ?u")
  have u1: "bufs_ok u1"
    using payload_rx_init_fields(2) [OF bufs] r by simp
  show ?thesis
  proof (cases "r = 0")
    case False
    then show ?thesis
      using UBX_DECODE_LENGTH2 r ubx_ok_decode_init [OF u1] by (simp add: ubx_parse_char_def)
  next
    case True
    note acc = payload_rx_init_accept [of ?u, unfolded r fst_conv snd_conv, OF True]
    let ?u2 = "u1\<lparr>decode_state := (if rx_payload_length u1 > 0 then UBX_DECODE_PAYLOAD else UBX_DECODE_CHKSUM1)\<rparr>"
    have fields: "rx_payload_index u1 = 0" "rx_msg u1 = rx_msg ?u" "rx_payload_length u1 = rx_payload_length ?u"
      "rx_msg u1 = UBX_MSG_NAV_SVINFO \<longrightarrow> u_sat u1 \<noteq> None"
      using acc idx rx_state_for_length(2) [OF acc(1)] by auto
    have "ubx_ok ?u2"
      using u1 fields rx_state_for_length(1) [OF acc(1)] by (auto simp: ubx_ok_def bufs_ok_def)
    then show ?thesis
      using UBX_DECODE_LENGTH2 r True by (simp add: ubx_parse_char_def)
  qed
next
  case UBX_DECODE_PAYLOAD
  let ?u = "add_byte_to_checksum b u"
  have u: "ubx_ok ?u" "decode_state ?u = UBX_DECODE_PAYLOAD" "\<not> hazard b ?u"
    using assms UBX_DECODE_PAYLOAD
    by (simp_all add: ubx_ok_def add_byte_to_checksum_def hazard_def unterminated_version_def azimuth_out_of_range_def)
  obtain u1 where u1: "payload_byte b ?u = Some (next_rx_index u1)" "bufs_ok u1"
    "rx_msg ?u = UBX_MSG_NAV_SVINFO \<longrightarrow> (\<exists>s1. u_sat u1 = Some s1 \<and> (8 \<le> rx_payload_index ?u \<longrightarrow> sat_count s1 \<le> 20))"
    "rx_payload_index u1 = rx_payload_index ?u" "rx_payload_length u1 = rx_payload_length ?u"
    "rx_msg u1 = rx_msg ?u" "decode_state u1 = decode_state ?u"
    using payload_byte_ok [OF u] by blast
  let ?u2 = "u1\<lparr>rx_payload_index := rx_payload_index u1 + 1\<rparr>"
  have less: "rx_payload_index ?u < rx_payload_length ?u" and len: "rx_msg ?u \<noteq> UBX_MSG_NAV_SVINFO \<and>
      rx_msg ?u \<noteq> UBX_MSG_MON_VER \<longrightarrow> rx_payload_length ?u \<le> 92"
    using u(1,2) by (simp_all add: ubx_ok_def)
  show ?thesis
  proof (cases "rx_payload_index u1 + 1 \<ge> rx_payload_length u1")
    case True
    have "ubx_ok (?u2\<lparr>decode_state := UBX_DECODE_CHKSUM1\<rparr>)"
      using u1(2) by (simp add: ubx_ok_def bufs_ok_def)
    then show ?thesis
      using UBX_DECODE_PAYLOAD u1(1) True by (simp add: ubx_parse_char_def next_rx_index_eq)
  next
    case False
    have step: "8 < rx_payload_index u1 + 1 \<longrightarrow> 8 \<le> rx_payload_index ?u"
      using unat_succ [OF less] u1(4) by (simp add: word_less_nat_alt word_le_nat_alt)
    have "ubx_ok ?u2"
      using u1 u(2) len False step by (auto simp: ubx_ok_def bufs_ok_def)
    then show ?thesis
      using UBX_DECODE_PAYLOAD u1(1) False by (simp add: ubx_parse_char_def next_rx_index_eq)
  qed
next
  case UBX_DECODE_CHKSUM2
  then show ?thesis
    using ubx_ok_decode_init [OF payload_rx_done_bufs [OF ubx_ok_bufs [OF ok]], of mk]
      ubx_ok_decode_init [OF ubx_ok_bufs [OF ok]]
    by (auto simp: ubx_parse_char_def split: prod.split)
qed (use ok ubx_ok_decode_init [OF ubx_ok_bufs [OF ok]] in
    \<open>auto simp: ubx_parse_char_def add_byte_to_checksum_def ubx_ok_def\<close>)


section \<open>Time and input\<close>

text \<open>The decoder takes nothing from the line and waits for nothing.\<close>

lemma send_fields [ubx_frames]:
  "p_events (u_port (configure_message_rate msg rate u)) = p_events (u_port u)"
  "p_now (u_port (configure_message_rate msg rate u)) = p_now (u_port u)"
  "configured (configure_message_rate msg rate u) = configured u"
  "ack_state (configure_message_rate msg rate u) = ack_state u"
  "ack_waiting_msg (configure_message_rate msg rate u) = ack_waiting_msg u"
  by (simp_all add: configure_message_rate_def ubx_send_message_def Let_def port_write_def split: list.split)

definition same_line :: "ubx \<Rightarrow> ubx \<Rightarrow> bool" where
  "same_line u v \<longleftrightarrow> p_events (u_port v) = p_events (u_port u) \<and> p_now (u_port v) = p_now (u_port u) \<and>
     configured v = configured u"

lemma same_line_payload_rx_init: "same_line u (snd (payload_rx_init u))"
  by (simp add: same_line_def payload_rx_init_def Let_def ubx_frames split: ubx_rxmsg_state.split)

lemma same_line_payload_rx_done: "same_line u (snd (payload_rx_done mk u))"
  unfolding payload_rx_done_def Let_def by (simp add: same_line_def ubx_frames)

lemma same_line_trans: "same_line u v \<Longrightarrow> same_line v w \<Longrightarrow> same_line u w"
  by (simp add: same_line_def)

lemma same_line_buf_put: "buf_put i b u = Some v \<Longrightarrow> same_line u v"
  by (auto simp: buf_put_def same_line_def split: if_split_asm)

lemma same_line_next: "next_rx_index u = (r, v) \<Longrightarrow> same_line u v"
  by (auto simp: next_rx_index_eq same_line_def)

lemma same_line_upd: "same_line u (v\<lparr>u_sat := s\<rparr>) = same_line u v" "same_line (u\<lparr>u_sat := s\<rparr>) v = same_line u v"
  "same_line (u\<lparr>ubx_version := x\<rparr>) v = same_line u v"
  by (simp_all add: same_line_def)

definition keeps :: "ubx \<Rightarrow> (int \<times> ubx) option \<Rightarrow> bool" where
  "keeps u m \<longleftrightarrow> (\<forall>r v. m = Some (r, v) \<longrightarrow> same_line u v)"

lemma keeps_bind: "(\<And>x. m = Some x \<Longrightarrow> keeps u (f x)) \<Longrightarrow> keeps u (Option.bind m f)"
  by (auto simp: keeps_def Option.bind_eq_Some_conv)

lemma keeps_if: "(P \<Longrightarrow> keeps u x) \<Longrightarrow> (\<not> P \<Longrightarrow> keeps u y) \<Longrightarrow> keeps u (if P then x else y)"
  by simp

lemma keeps_next: "same_line u w \<Longrightarrow> keeps u (Some (next_rx_index w))"
  by (simp add: keeps_def next_rx_index_eq same_line_def)

lemma keeps_payload_rx_add: "keeps u (payload_rx_add b u)"
  unfolding payload_rx_add_def by (intro keeps_bind keeps_next) (rule same_line_buf_put)

lemma keeps_svinfo: "keeps u (payload_rx_add_nav_svinfo b u)"
  unfolding payload_rx_add_nav_svinfo_def Let_def
  by (intro keeps_if keeps_payload_rx_add keeps_bind keeps_next)
    (auto simp: same_line_upd same_line_def dest!: same_line_buf_put)

lemma keeps_mon_ver: "keeps u (payload_rx_add_mon_ver b u)"
  unfolding payload_rx_add_mon_ver_def Let_def
  by (intro keeps_if keeps_payload_rx_add keeps_bind keeps_next)
    (auto simp: Option.bind_eq_Some_conv same_line_upd dest!: same_line_buf_put split: if_split_asm)

lemma same_line_payload_byte: "payload_byte b u = Some (r, v) \<Longrightarrow> same_line u v"
  using keeps_svinfo [of u b] keeps_mon_ver [of u b] keeps_payload_rx_add [of u b]
  by (simp add: payload_byte_def keeps_def split: if_split_asm)

lemma same_line_init: "same_line u v \<Longrightarrow> same_line u (ubx_decode_init v)"
  by (simp add: same_line_def ubx_decode_init_def)

lemma same_line_parse_char:
  assumes "ubx_parse_char mk b u = Some (r, v)"
  shows "same_line u v"
proof (cases "decode_state u")
  case UBX_DECODE_LENGTH2
  let ?u = "(add_byte_to_checksum b u)\<lparr>rx_payload_length := rx_payload_length u OR push_bit 8 (ucast b)\<rparr>"
  have "same_line u (snd (payload_rx_init ?u))"
    using same_line_payload_rx_init [of ?u] by (simp add: same_line_def add_byte_to_checksum_def)
  then show ?thesis
    using assms UBX_DECODE_LENGTH2 same_line_init
    by (cases "payload_rx_init ?u") (auto simp: ubx_parse_char_def same_line_def split: if_split_asm)
next
  case UBX_DECODE_PAYLOAD
  then obtain r1 u1 where "payload_byte b (add_byte_to_checksum b u) = Some (r1, u1)"
    "v = (if r1 < 0 then ubx_decode_init u1 else if r1 > 0 then u1\<lparr>decode_state := UBX_DECODE_CHKSUM1\<rparr> else u1)"
    using assms by (auto simp: ubx_parse_char_def Option.bind_eq_Some_conv)
  then show ?thesis
    using same_line_payload_byte [of b "add_byte_to_checksum b u" r1 u1]
    by (simp add: same_line_def add_byte_to_checksum_def ubx_decode_init_def)
next
  case UBX_DECODE_CHKSUM2
  then show ?thesis
    using assms same_line_init [OF same_line_payload_rx_done [of u mk]]
    by (cases "payload_rx_done mk u") (auto simp: ubx_parse_char_def same_line_def ubx_decode_init_def split: if_split_asm)
qed (use assms in \<open>auto simp: ubx_parse_char_def same_line_def add_byte_to_checksum_def ubx_decode_init_def split: if_split_asm\<close>)

lemma same_line_parse: "ubx_parse mk bs h u = Some (r, v) \<Longrightarrow> same_line u v"
proof (induction bs arbitrary: h u)
  case (Cons b bs)
  then obtain r1 u1 where "ubx_parse_char mk b u = Some (r1, u1)" "ubx_parse mk bs (h OR r1) u1 = Some (r, v)"
    by (auto simp: Option.bind_eq_Some_conv)
  from Cons.IH [OF this(2)] same_line_parse_char [OF this(1)] show ?case
    by (simp add: same_line_def)
qed (simp add: same_line_def)

text \<open>
  Enough time: the clock does not wrap while the events of the line pass, each followed by the short
  wait after a message.
\<close>

definition line_time :: "poll_event list \<Rightarrow> nat" where
  "line_time es = sum_list (map (\<lambda>e. unat (ev_dt e) + 2000) es)"

definition in_time :: "nat \<Rightarrow> u64 \<Rightarrow> u64 \<Rightarrow> ubx \<Rightarrow> bool" where
  "in_time slack timeout started u \<longleftrightarrow> \<not> configured u \<and> started \<le> p_now (u_port u) \<and>
     unat (p_now (u_port u)) + line_time (p_events (u_port u)) + slack + unat (timeout * 1000) < 2 ^ 64"

lemma line_time_simps [simp]:
  "line_time [] = 0" "line_time (e # es) = unat (ev_dt e) + 2000 + line_time es"
  by (simp_all add: line_time_def)

lemma unat_plus: "unat (a :: u64) + unat b < 2 ^ 64 \<Longrightarrow> unat (a + b) = unat a + unat b"
  by (simp add: unat_word_ariths(1))

lemma in_time_pass:
  assumes "in_time slack timeout started u" "p_events (u_port u) = e # es"
    and "p_events (u_port v) = es" "p_now (u_port v) = p_now (u_port u) + ev_dt e" "configured v = configured u"
  shows "in_time (slack + 2000) timeout started v"
proof -
  have "unat (p_now (u_port u) + ev_dt e) = unat (p_now (u_port u)) + unat (ev_dt e)"
    using assms(1,2) by (intro unat_plus) (simp add: in_time_def)
  then show ?thesis
    using assms by (simp add: in_time_def word_le_nat_alt)
qed

lemma in_time_slack: "in_time (s + t) timeout started u \<Longrightarrow> in_time s timeout started u"
  by (simp add: in_time_def)

text \<open>A receive uses up an event of the line, or it has waited for the whole timeout.\<close>

definition progress :: "nat \<Rightarrow> int \<Rightarrow> u64 \<Rightarrow> u64 \<Rightarrow> poll_event list \<Rightarrow> ubx \<Rightarrow> bool" where
  "progress slack h timeout started es v \<longleftrightarrow>
     (in_time 0 timeout started v \<and>
        (length (p_events (u_port v)) < length es \<or> (es = [] \<and> p_events (u_port v) = [] \<and> h \<noteq> 0)))
     \<or> started + timeout * 1000 \<le> p_now (u_port v)"

lemma receive_loop_Cons:
  assumes "p_events (u_port u) = e # es"
  shows "ubx_receive_loop (Suc n) mk timeout t0 h u =
    (let u1 = u\<lparr>u_port := (u_port u)\<lparr>p_events := es, p_now := p_now (u_port u) + ev_dt e\<rparr>\<rparr>;
         ready = ready_to_return h u
     in if ev_ret e < 0 then Some (-1, u1)
        else if ev_ret e = 0
        then Some (if ready then (h, u1\<lparr>got_posllh := False, got_velned := False\<rparr>) else (-1, u1))
        else do {
          (h', u2) \<leftarrow> (if ev_in e then ubx_parse mk (take 128 (ev_bytes e)) h u1 else Some (h, u1));
          if t0 + timeout * 1000 < p_now (u_port u2) then Some (-1, u2)
          else ubx_receive_loop n mk timeout t0 h' u2
        })"
  using assms by (simp add: port_poll_def Let_def)

lemma receive_loop_Cons_cases:
  assumes "ubx_receive_loop (Suc n) mk timeout t0 h u = Some (r, v)" "p_events (u_port u) = e # es"
    and u1: "u1 = u\<lparr>u_port := (u_port u)\<lparr>p_events := es, p_now := p_now (u_port u) + ev_dt e\<rparr>\<rparr>"
  shows "same_line u1 v \<or> (\<exists>h' u2. same_line u1 u2 \<and> ubx_receive_loop n mk timeout t0 h' u2 = Some (r, v))"
proof (cases "ev_ret e \<le> 0")
  case True
  then show ?thesis
    using assms(1) unfolding receive_loop_Cons [OF assms(2)] Let_def u1 [symmetric]
    by (auto simp: same_line_def split: if_split_asm)
next
  case False
  then have "(do {
        (h', u2) \<leftarrow> (if ev_in e then ubx_parse mk (take 128 (ev_bytes e)) h u1 else Some (h, u1));
        if t0 + timeout * 1000 < p_now (u_port u2) then Some (-1, u2)
        else ubx_receive_loop n mk timeout t0 h' u2
      }) = Some (r, v)"
    using assms(1) unfolding receive_loop_Cons [OF assms(2)] Let_def u1 [symmetric] by simp
  then obtain h' u2 where u2: "(if ev_in e then ubx_parse mk (take 128 (ev_bytes e)) h u1 else Some (h, u1)) = Some (h', u2)"
    "(if t0 + timeout * 1000 < p_now (u_port u2) then Some (-1, u2) else ubx_receive_loop n mk timeout t0 h' u2) = Some (r, v)"
    unfolding Option.bind_eq_Some_conv by (elim exE conjE) (simp split: prod.split_asm)
  have "same_line u1 u2"
    using u2(1) same_line_parse [of mk "take 128 (ev_bytes e)" h u1 h' u2]
    by (cases "ev_in e") (simp_all add: same_line_def)
  then show ?thesis
    using u2(2) by (auto split: if_split_asm)
qed

lemma receive_loop_progress:
  "ubx_receive_loop n mk timeout t0 h u = Some (r, v) \<Longrightarrow> in_time slack timeout started u \<Longrightarrow>
   (h \<noteq> 0 \<longrightarrow> 2000 \<le> slack) \<Longrightarrow> progress slack h timeout started (p_events (u_port u)) v"
proof (induction n arbitrary: h u slack)
  case (Suc n)
  have cfg: "\<not> configured u"
    using Suc.prems(2) by (simp add: in_time_def)
  show ?case
  proof (cases "p_events (u_port u)")
    case Nil
    have T: "unat (p_now (u_port u) + timeout * 1000) = unat (p_now (u_port u)) + unat (timeout * 1000)"
      using Suc.prems(2) by (intro unat_plus) (simp add: in_time_def)
    show ?thesis
    proof (cases "h = 0")
      case True
      then have "p_now (u_port v) = p_now (u_port u) + timeout * 1000"
        using Suc.prems(1) Nil cfg by (auto simp: port_poll_def ready_to_return_def Let_def)
      moreover have "started + timeout * 1000 \<le> p_now (u_port u) + timeout * 1000"
        using Suc.prems(2) T unat_plus [of started "timeout * 1000"]
        by (simp add: in_time_def word_le_nat_alt)
      ultimately show ?thesis
        by (simp add: progress_def)
    next
      case False
      then have v: "p_now (u_port v) = p_now (u_port u) + 2000" "p_events (u_port v) = []" "configured v = configured u"
        using Suc.prems(1) Nil cfg by (auto simp: port_poll_def ready_to_return_def Let_def UBX_PACKET_TIMEOUT_def)
      have "unat (p_now (u_port u) + 2000) = unat (p_now (u_port u)) + 2000"
        using Suc.prems(2,3) False unat_plus [of "p_now (u_port u)" 2000] by (simp add: in_time_def)
      then have "in_time 0 timeout started v"
        using Suc.prems(2,3) False v Nil by (simp add: in_time_def word_le_nat_alt)
      then show ?thesis
        using v(2) False Nil by (simp add: progress_def)
    qed
  next
    case (Cons e es)
    let ?u1 = "u\<lparr>u_port := (u_port u)\<lparr>p_events := es, p_now := p_now (u_port u) + ev_dt e\<rparr>\<rparr>"
    have pass: "in_time (slack + 2000) timeout started w"
      if "p_events (u_port w) = es" "p_now (u_port w) = p_now (u_port u) + ev_dt e" "configured w = configured u" for w
      by (rule in_time_pass [OF Suc.prems(2) Cons that])
    have ends: "progress slack h timeout started (p_events (u_port u)) w"
      if "p_events (u_port w) = es" "p_now (u_port w) = p_now (u_port u) + ev_dt e" "configured w = configured u" for w
      using pass [OF that] that(1) Cons in_time_slack [of 0 "slack + 2000" timeout started w] by (simp add: progress_def)
    consider (stop) "same_line ?u1 v"
      | (go) h' u2 where "same_line ?u1 u2" "ubx_receive_loop n mk timeout t0 h' u2 = Some (r, v)"
      using receive_loop_Cons_cases [OF Suc.prems(1) Cons refl] by blast
    then show ?thesis
    proof cases
      case stop
      then show ?thesis
        by (intro ends) (simp_all add: same_line_def)
    next
      case go
      have "in_time (slack + 2000) timeout started u2"
        using go(1) by (intro pass) (simp_all add: same_line_def)
      from Suc.IH [OF go(2) this] go(1) have "progress (slack + 2000) h' timeout started es v"
        by (simp add: same_line_def)
      then show ?thesis
        using Cons by (auto simp: progress_def)
    qed
  qed
qed simp


text \<open>More fuel than events of the line changes nothing.\<close>

lemma receive_loop_enough:
  "length (p_events (u_port u)) < n \<Longrightarrow> length (p_events (u_port u)) < m \<Longrightarrow>
   ubx_receive_loop n mk timeout t0 h u = ubx_receive_loop m mk timeout t0 h u"
proof (induction "p_events (u_port u)" arbitrary: n m h u)
  case Nil
  from Nil.prems obtain n' m' where nm: "n = Suc n'" "m = Suc m'"
    by (cases n; cases m) auto
  show ?case
    unfolding nm using Nil.hyps [symmetric] by (simp add: port_poll_def)
next
  case (Cons e es)
  obtain n' m' where nm: "n = Suc n'" "m = Suc m'" "length es < n'" "length es < m'"
    using Cons.prems Cons.hyps(2) [symmetric] by (cases n; cases m) auto
  let ?u1 = "u\<lparr>u_port := (u_port u)\<lparr>p_events := es, p_now := p_now (u_port u) + ev_dt e\<rparr>\<rparr>"
  have rec: "ubx_receive_loop n' mk timeout t0 h' u2 = ubx_receive_loop m' mk timeout t0 h' u2"
    if "same_line ?u1 u2" for h' u2
    using that nm(3,4) Cons.hyps(1) [of u2 n' m' h'] by (simp add: same_line_def)
  have "Option.bind (if ev_in e then ubx_parse mk (take 128 (ev_bytes e)) h ?u1 else Some (h, ?u1))
      (\<lambda>(h', u2). if t0 + timeout * 1000 < p_now (u_port u2) then Some (-1, u2)
                  else ubx_receive_loop n' mk timeout t0 h' u2) =
    Option.bind (if ev_in e then ubx_parse mk (take 128 (ev_bytes e)) h ?u1 else Some (h, ?u1))
      (\<lambda>(h', u2). if t0 + timeout * 1000 < p_now (u_port u2) then Some (-1, u2)
                  else ubx_receive_loop m' mk timeout t0 h' u2)"
  proof (rule Option.bind_cong [OF refl])
    fix x
    assume x: "(if ev_in e then ubx_parse mk (take 128 (ev_bytes e)) h ?u1 else Some (h, ?u1)) = Some x"
    obtain h' u2 where x': "x = (h', u2)"
      by (cases x)
    have "same_line ?u1 u2"
      using x x' same_line_parse [of mk "take 128 (ev_bytes e)" h ?u1 h' u2]
      by (cases "ev_in e") (simp_all add: same_line_def)
    then show "(case x of (h', u2) \<Rightarrow> if t0 + timeout * 1000 < p_now (u_port u2) then Some (-1, u2)
                  else ubx_receive_loop n' mk timeout t0 h' u2) =
      (case x of (h', u2) \<Rightarrow> if t0 + timeout * 1000 < p_now (u_port u2) then Some (-1, u2)
                  else ubx_receive_loop m' mk timeout t0 h' u2)"
      using rec x' by simp
  qed
  then show ?case
    unfolding nm(1,2) receive_loop_Cons [OF Cons.hyps(2) [symmetric]] Let_def by presburger
qed

lemma wait_loop_done:
  "started + timeout * 1000 \<le> p_now (u_port u) \<Longrightarrow> 0 < n \<Longrightarrow> wait_loop n mk timeout started u = Some u"
  by (cases n) auto

lemma wait_loop_enough:
  "length (p_events (u_port u)) + 2 \<le> n \<Longrightarrow> length (p_events (u_port u)) + 2 \<le> m \<Longrightarrow> in_time 0 timeout started u \<Longrightarrow>
   wait_loop n mk timeout started u = wait_loop m mk timeout started u"
proof (induction "length (p_events (u_port u))" arbitrary: u n m rule: less_induct)
  case less
  obtain n' m' where nm: "n = Suc n'" "m = Suc m'" "length (p_events (u_port u)) < n'" "length (p_events (u_port u)) < m'"
    using less.prems(1,2) by (cases n; cases m) auto
  show ?case
  proof (cases "ubx_receive mk timeout u")
    case None
    then show ?thesis
      by (simp add: nm(1,2))
  next
    case (Some x)
    obtain r v where x: "x = (r, v)"
      by (cases x)
    have "progress 0 0 timeout started (p_events (u_port u)) v"
      using receive_loop_progress [OF Some [unfolded ubx_receive_def x] less.prems(3)] by simp
    then consider (i) "in_time 0 timeout started v" "length (p_events (u_port v)) < length (p_events (u_port u))"
      | (ii) "started + timeout * 1000 \<le> p_now (u_port v)"
      by (auto simp: progress_def)
    then have "wait_loop n' mk timeout started v = wait_loop m' mk timeout started v"
    proof cases
      case i
      then show ?thesis
        using nm(3,4) by (intro less.hyps) simp_all
    next
      case ii
      then show ?thesis
        using nm(3,4) by (simp add: wait_loop_done)
    qed
    then show ?thesis
      by (simp add: nm(1,2) Some x)
  qed
qed

section \<open>Properties\<close>

lemma accepted_length: "accepted msg len u \<Longrightarrow> len \<le> 92"
  using rx_state_for_length(1) [of "header_state msg len u"] by (simp add: accepted_def header_state_def)

lemma accepted_fits:
  assumes "ubx_ok u" "accepted msg (of_nat (length payload)) u" "length payload < 2 ^ 16"
  shows "length payload \<le> length (u_buf u)"
  using accepted_length [OF assms(2)] assms(1,3)
  by (simp add: ubx_ok_def ubx_buf_size_def word_le_nat_alt unat_of_nat)


definition demo_port :: port where
  "demo_port = \<lparr>p_now = 0, p_events = [], p_written = [], p_write_fails = [], p_baud = 9600, p_baud_fails = [],
     p_clock = []\<rparr>"

definition demo_ubx :: ubx where
  "demo_ubx = ubx_create None empty_position
     \<lparr>rate_count_lat_lon = 0, rate_count_vel = 0, rate_lat_lon = 0, rate_vel = 0, interval_rate_start = 0\<rparr>
     demo_port (replicate 92 0)"

lemma demo_ubx_ok: "ubx_ok demo_ubx" "ubx_idle demo_ubx"
  by (simp_all add: demo_ubx_def ubx_create_def ubx_decode_init_def ubx_ok_def ubx_idle_def ubx_buf_size_def)




text \<open>
  C24: Whatever bytes arrive, the decoder stays within the 92 bytes of its payload buffer and the 20
  entries of the satellite report, and its indices stay consistent; the only exceptions are a
  version message whose text has no terminator in the buffer, and a satellite whose azimuth does
  not fit a byte.
\<close>

theorem ubx_decoder_bounds:
  assumes "ubx_ok u"
  shows "(\<exists>r u'. ubx_parse mk bs h u = Some (r, u') \<and> ubx_ok u') \<or>
    (\<exists>xs b ys h' v. bs = xs @ b # ys \<and> ubx_parse mk xs h u = Some (h', v) \<and> ubx_ok v \<and> hazard b v)"
  using assms
proof (induction bs arbitrary: h u)
  case (Cons b bs)
  show ?case
  proof (cases "hazard b u")
    case True
    then have "b # bs = [] @ b # bs \<and> ubx_parse mk [] h u = Some (h, u) \<and> ubx_ok u \<and> hazard b u"
      using Cons.prems by simp
    then show ?thesis
      by blast
  next
    case False
    obtain r u1 where u1: "ubx_parse_char mk b u = Some (r, u1)" "ubx_ok u1"
      using ubx_parse_char_ok [OF Cons.prems False] by blast
    from Cons.IH [OF u1(2), of "h OR r"] show ?thesis
    proof (elim disjE exE conjE)
      fix xs c ys h' v
      assume "bs = xs @ c # ys" "ubx_parse mk xs (h OR r) u1 = Some (h', v)" "ubx_ok v" "hazard c v"
      then have "b # bs = (b # xs) @ c # ys \<and> ubx_parse mk (b # xs) h u = Some (h', v) \<and> ubx_ok v \<and> hazard c v"
        using u1(1) by simp
      then show ?thesis
        by blast
    qed (use u1(1) in simp)
  qed
qed simp

theorem ubx_decoder_bounds_witness:
  "(\<exists>r u'. ubx_parse (\<lambda>_. 0) [0xB5, 0x62, 0x05] 0 demo_ubx = Some (r, u') \<and> ubx_ok u') \<or>
   (\<exists>xs b ys h' v. [0xB5, 0x62, 0x05] = xs @ b # ys \<and> ubx_parse (\<lambda>_. 0) xs 0 demo_ubx = Some (h', v) \<and>
      ubx_ok v \<and> hazard b v)"
  by (rule ubx_decoder_bounds [OF demo_ubx_ok(1)])

text \<open>
  C1: Waiting for an acknowledge ends whatever the line brings: with one round more than the events of
  the line and one for the silence after them the loop is over, and more rounds change nothing, as
  long as the clock does not wrap meanwhile.
\<close>

theorem ubx_wait_terminates:
  assumes "\<not> configured u" "unat (p_now (u_port u)) + line_time (p_events (u_port u)) + unat (timeout * 1000) < 2 ^ 64"
    and "length (p_events (u_port u)) + 2 \<le> n"
  shows "wait_for_ack mk msg timeout u =
    do {
      u1 \<leftarrow> wait_loop n mk timeout (p_now (u_port u)) (u\<lparr>ack_state := UBX_ACK_WAITING, ack_waiting_msg := msg\<rparr>);
      Some (if ack_state u1 = UBX_ACK_GOT_ACK then 0 else -1, u1\<lparr>ack_state := UBX_ACK_IDLE\<rparr>)
    }"
  using wait_loop_enough [of "u\<lparr>ack_state := UBX_ACK_WAITING, ack_waiting_msg := msg\<rparr>"
      "length (p_events (u_port u)) + 2" n timeout "p_now (u_port u)" mk] assms
  by (simp add: wait_for_ack_def in_time_def Let_def del: wait_loop.simps)


text \<open>The bytes of a payload outside four positions.\<close>

definition same_but :: "nat \<Rightarrow> u8 list \<Rightarrow> u8 list \<Rightarrow> bool" where
  "same_but k b c \<longleftrightarrow> length b = 92 \<and> length c = 92 \<and> (\<forall>i < 92. \<not> (k \<le> i \<and> i < k + 4) \<longrightarrow> b ! i = c ! i)"

lemma same_but_take:
  assumes "same_but k b c" "i + n \<le> k \<or> k + 4 \<le> i" "i + n \<le> 92"
  shows "take n (drop i b) = take n (drop i c)"
  using assms by (intro nth_equalityI) (auto simp: same_but_def)

lemma same_but_at:
  assumes "same_but k b c"
  shows "i < k \<or> k + 4 \<le> i \<Longrightarrow> i < 92 \<Longrightarrow> u8_at i b = u8_at i c"
    and "i + 2 \<le> k \<or> k + 4 \<le> i \<Longrightarrow> i + 2 \<le> 92 \<Longrightarrow> u16_at i b = u16_at i c"
    and "i + 4 \<le> k \<or> k + 4 \<le> i \<Longrightarrow> i + 4 \<le> 92 \<Longrightarrow> u32_at i b = u32_at i c"
    and "i + 4 \<le> k \<or> k + 4 \<le> i \<Longrightarrow> i + 4 \<le> 92 \<Longrightarrow> s32_at i b = s32_at i c"
  using assms same_but_take [OF assms, of i 2] same_but_take [OF assms, of i 4]
  by (auto simp: u8_at_def u16_at_def u32_at_def s32_at_def same_but_def)

text \<open>
  The time that a NAV-PVT message reports does not contain the fraction of the second of the
  message: two messages that differ in that field only (bytes 16 to 19) give the same report.
\<close>

theorem ubx_pvt_ignores_fraction:
  assumes "same_but 16 b c"
  shows "u_gps (nav_pvt mk (u\<lparr>u_buf := b\<rparr>)) = u_gps (nav_pvt mk (u\<lparr>u_buf := c\<rparr>))"
proof -
  note at = same_but_at [OF assms]
  have tm: "tm_at 4 b = tm_at 4 c"
    by (simp add: tm_at_def at)
  show ?thesis
    unfolding nav_pvt_def Let_def set_utc_def count_pos_def count_vel_def clock_settime_def
    by (simp add: tm at)
qed

theorem ubx_pvt_ignores_fraction_witness:
  "u_gps (nav_pvt mk (demo_ubx\<lparr>u_buf := replicate 92 0\<rparr>)) =
   u_gps (nav_pvt mk (demo_ubx\<lparr>u_buf := (replicate 92 0)[17 := 5]\<rparr>))"
  by (rule ubx_pvt_ignores_fraction) (simp add: same_but_def nth_list_update)

end
