(* ===== verification/Mtk.thy ===== *)
theory Mtk
  imports Gps "HOL-Library.Signed_Division"
begin

text \<open>
  The custom binary protocol of MediaTek receivers (\<open>src/drivers/gps/mtk.cpp\<close>): a packet of 35 bytes
  after two sync bytes, the last two bytes being its checksum.  The packet is a local variable of
  \<open>receive\<close>, so that what it holds when a receive begins is an argument.
\<close>

definition MTK_SYNC1_V16 :: u8 where "MTK_SYNC1_V16 = 0xd0"
definition MTK_SYNC1_V19 :: u8 where "MTK_SYNC1_V19 = 0xd1"
definition MTK_SYNC2 :: u8 where "MTK_SYNC2 = 0xdd"
definition MTK_BAUDRATE :: nat where "MTK_BAUDRATE = 38400"

definition mtk_config :: "string list" where
  "mtk_config = [''$PMTK220,200*2C'' @ [CHR 0x0D, CHR 0x0A], ''$PGCMD,16,0,0,0,0,0*6A'' @ [CHR 0x0D, CHR 0x0A],
     ''$PMTK313,1*2E'' @ [CHR 0x0D, CHR 0x0A], ''$PMTK301,2*2E'' @ [CHR 0x0D, CHR 0x0A],
     ''$PMTK397,0*23'' @ [CHR 0x0D, CHR 0x0A]]"

datatype mtk_decode_state = MTK_DECODE_UNINIT | MTK_DECODE_GOT_CK_A | MTK_DECODE_GOT_CK_B

record mtk =
  m_gps :: gps_position
  m_rates :: rates
  m_port :: port
  m_state :: mtk_decode_state
  m_revision :: u8
  m_rx_count :: nat
  m_ck :: "u8 \<times> u8"

definition mtk_packet_size :: nat where "mtk_packet_size = 35"

definition mtk_decode_init :: "mtk \<Rightarrow> mtk" where
  "mtk_decode_init m = m\<lparr>m_ck := (0, 0), m_rx_count := 0, m_state := MTK_DECODE_UNINIT\<rparr>"

definition mtk_create :: "gps_position \<Rightarrow> rates \<Rightarrow> port \<Rightarrow> mtk" where
  "mtk_create gps r p = mtk_decode_init \<lparr>m_gps = gps, m_rates = r, m_port = p, m_state = MTK_DECODE_UNINIT,
     m_revision = 0, m_rx_count = 0, m_ck = (0, 0)\<rparr>"

fun mtk_write_all :: "string list \<Rightarrow> port \<Rightarrow> int \<times> port" where
  "mtk_write_all [] p = (0, p)"
| "mtk_write_all (s # ss) p =
     (let (ok, p1) = port_write (ascii s) p
      in if ok then mtk_write_all ss (p1\<lparr>p_now := p_now p1 + (if ss = [] then 0 else 10000)\<rparr>) else (-1, p1))"

definition mtk_configure :: "nat \<Rightarrow> mtk \<Rightarrow> int \<times> nat \<times> mtk" where
  "mtk_configure baud m =
     (let (r, p) = set_baudrate MTK_BAUDRATE (m_port m)
      in if r \<noteq> 0 then (-1, baud, m\<lparr>m_port := p\<rparr>)
         else (let (r, p1) = mtk_write_all mtk_config p in (r, MTK_BAUDRATE, m\<lparr>m_port := p1\<rparr>)))"

definition mtk_add_byte_to_checksum :: "u8 \<Rightarrow> mtk \<Rightarrow> mtk" where
  "mtk_add_byte_to_checksum b m = m\<lparr>m_ck := ck_add b (m_ck m)\<rparr>"

definition mtk_parse_char :: "u8 \<Rightarrow> u8 list \<Rightarrow> mtk \<Rightarrow> (int \<times> u8 list \<times> mtk) option" where
  "mtk_parse_char b pkt m =
     (case m_state m of
        MTK_DECODE_UNINIT \<Rightarrow>
          Some (0, pkt, if b = MTK_SYNC1_V16 then m\<lparr>m_state := MTK_DECODE_GOT_CK_A, m_revision := 16\<rparr>
                        else if b = MTK_SYNC1_V19 then m\<lparr>m_state := MTK_DECODE_GOT_CK_A, m_revision := 19\<rparr>
                        else m)
      | MTK_DECODE_GOT_CK_A \<Rightarrow>
          Some (0, pkt, if b = MTK_SYNC2 then m\<lparr>m_state := MTK_DECODE_GOT_CK_B\<rparr> else mtk_decode_init m)
      | MTK_DECODE_GOT_CK_B \<Rightarrow>
          (let m1 = (if m_rx_count m < 33 then mtk_add_byte_to_checksum b m else m)
           in do {
             pkt' \<leftarrow> mem_write pkt (m_rx_count m) [b];
             let m2 = m1\<lparr>m_rx_count := m_rx_count m + 1\<rparr>;
             Some (if m_rx_count m2 \<ge> mtk_packet_size
                   then (if m_ck m2 = (u8_at 33 pkt', u8_at 34 pkt') then 1 else -1, pkt', mtk_decode_init m2)
                   else (0, pkt', m2))
           }))"

text \<open>Multiplying a coordinate by ten can leave the range of the target, which is undefined.\<close>

definition times_ten :: "int \<Rightarrow> int option" where
  "times_ten x = (if - (2 ^ 31) \<le> x * 10 \<and> x * 10 < 2 ^ 31 then Some (x * 10) else None)"

definition mtk_tm :: "u32 \<Rightarrow> u32 \<Rightarrow> tm" where
  "mtk_tm date utc =
     (let mday = date div 10000; t = date - mday * 10000; mon = uint (t div 100) - 1;
          hour = utc div 10000000; s = utc - hour * 10000000; m = s div 100000; s' = s - m * 100000
      in \<lparr>tm_year = uint (t - of_int ((mon + 1) * 100)) + 100, tm_mon = mon, tm_mday = uint mday,
          tm_hour = uint hour, tm_min = uint m, tm_sec = uint (s' div 1000)\<rparr>)"

definition mtk_msec :: "u32 \<Rightarrow> u32" where
  "mtk_msec utc =
     (let s = utc - utc div 10000000 * 10000000; s' = s - s div 100000 * 100000 in s' - s' div 1000 * 1000)"

definition mtk_position :: "u8 \<Rightarrow> u8 list \<Rightarrow> (int \<times> int) option" where
  "mtk_position rv b =
     (if rv = 16 then do { x \<leftarrow> times_ten (s32_at 1 b); y \<leftarrow> times_ten (s32_at 5 b); Some (x, y) }
      else Some (s32_at 1 b, s32_at 5 b))"

definition mtk_handle_message :: "(tm \<Rightarrow> int) \<Rightarrow> u8 list \<Rightarrow> mtk \<Rightarrow> mtk option" where
  "mtk_handle_message mk b m =
     (if m_revision m \<noteq> 16 \<and> m_revision m \<noteq> 19
      then Some (m\<lparr>m_gps := (m_gps m)\<lparr>lat := 0, lon := 0, eph := f32_1000, epv := f32_1000, fix_type := 0\<rparr>\<rparr>)
      else do {
        (y, x) \<leftarrow> mtk_position (m_revision m) b;
        let hdop = f32_div (f32_of_int (uint (u16_at 31 b))) f32_100;
        let g = (m_gps m)\<lparr>lat := y, lon := x, alt := sint (u32_at 9 b * 10), fix_type := u8_at 22 b,
                          eph := hdop, epv := hdop,
                          vel_m_s := f32_div (f32_of_int (uint (u32_at 13 b))) f32_100,
                          cog_rad := f32_mul (scaled (s32_at 17 b) M_DEG_TO_RAD_F) f32_1e_2,
                          satellites_used := u8_at 21 b\<rparr>;
        let epoch = mk (mtk_tm (u32_at 23 b) (u32_at 27 b));
        let msec = uint (mtk_msec (u32_at 27 b));
        let now = p_now (m_port m);
        let g1 = g\<lparr>time_utc_usec := (if epoch_sane epoch then of_int epoch * 1000000 + of_int (msec * 1000) else 0),
                   timestamp_position := now, timestamp_time := now\<rparr>;
        Some (m\<lparr>m_gps := g1,
                m_port := (if epoch_sane epoch then clock_settime epoch (msec * 1000000) (m_port m) else m_port m),
                m_rates := (m_rates m)\<lparr>rate_count_vel := rate_count_vel (m_rates m) + 1,
                                       rate_count_lat_lon := rate_count_lat_lon (m_rates m) + 1\<rparr>\<rparr>)
      })"

text \<open>
  The bytes of one read: the first complete packet ends the receive, and what was read after it is
  lost.  The results are the code of the receive when it ended, and the packet.
\<close>

fun mtk_feed :: "(tm \<Rightarrow> int) \<Rightarrow> u64 \<Rightarrow> u8 list \<Rightarrow> u8 list \<Rightarrow> mtk \<Rightarrow> (int option \<times> u8 list \<times> mtk) option" where
  "mtk_feed mk deadline [] pkt m = Some (None, pkt, m)"
| "mtk_feed mk deadline (b # bs) pkt m =
     do {
       (r, pkt1, m1) \<leftarrow> mtk_parse_char b pkt m;
       if r > 0 then do { m2 \<leftarrow> mtk_handle_message mk pkt1 m1; Some (Some 1, pkt1, m2) }
       else if deadline < p_now (m_port m1) then Some (Some (-1), pkt1, m1)
       else mtk_feed mk deadline bs pkt1 m1
     }"

fun mtk_receive_loop :: "nat \<Rightarrow> (tm \<Rightarrow> int) \<Rightarrow> u64 \<Rightarrow> u64 \<Rightarrow> u8 list \<Rightarrow> mtk \<Rightarrow> (int \<times> mtk) option" where
  "mtk_receive_loop 0 mk timeout started pkt m = None"
| "mtk_receive_loop (Suc n) mk timeout started pkt m =
     (let (e, p) = port_poll timeout (m_port m); m1 = m\<lparr>m_port := p\<rparr>
      in if ev_ret e \<le> 0 then Some (-1, m1)
         else do {
           (r, pkt1, m2) \<leftarrow> mtk_feed mk (started + timeout * 1000) (if ev_in e then take 32 (ev_bytes e) else []) pkt m1;
           (case r of Some c \<Rightarrow> Some (c, m2) | None \<Rightarrow> mtk_receive_loop n mk timeout started pkt1 m2)
         })"

definition mtk_receive :: "(tm \<Rightarrow> int) \<Rightarrow> u64 \<Rightarrow> u8 list \<Rightarrow> mtk \<Rightarrow> (int \<times> mtk) option" where
  "mtk_receive mk timeout pkt m =
     mtk_receive_loop (Suc (length (p_events (m_port m)))) mk timeout (p_now (m_port m)) pkt m"

text \<open>More rounds than events of the line change nothing.\<close>

lemma mtk_handle_message_port: "mtk_handle_message mk b m = Some m' \<Longrightarrow> p_events (m_port m') = p_events (m_port m)"
  by (auto simp: mtk_handle_message_def clock_settime_def Option.bind_eq_Some_conv Let_def split: if_split_asm)

lemma mtk_parse_char_port: "mtk_parse_char b pkt m = Some (r, pkt', m') \<Longrightarrow> m_port m' = m_port m"
  by (auto simp: mtk_parse_char_def mtk_add_byte_to_checksum_def mtk_decode_init_def Option.bind_eq_Some_conv Let_def
      split: mtk_decode_state.split_asm if_split_asm)

lemma mtk_feed_port: "mtk_feed mk d bs pkt m = Some (r, pkt', m') \<Longrightarrow> p_events (m_port m') = p_events (m_port m)"
proof (induction bs arbitrary: pkt m)
  case (Cons b bs)
  from Cons.prems obtain r1 pkt1 m1 where m1: "mtk_parse_char b pkt m = Some (r1, pkt1, m1)"
    "(if r1 > 0 then do { m2 \<leftarrow> mtk_handle_message mk pkt1 m1; Some (Some 1, pkt1, m2) }
      else if d < p_now (m_port m1) then Some (Some (-1), pkt1, m1) else mtk_feed mk d bs pkt1 m1) = Some (r, pkt', m')"
    by (auto simp: Option.bind_eq_Some_conv)
  have "p_events (m_port m') = p_events (m_port m1)"
    using m1(2) Cons.IH [of pkt1 m1] mtk_handle_message_port [of mk pkt1 m1 m']
    by (simp add: Option.bind_eq_Some_conv split: if_split_asm) blast+
  then show ?case
    using mtk_parse_char_port [OF m1(1)] by simp
qed simp

lemma mtk_receive_loop_enough:
  "length (p_events (m_port m)) < n \<Longrightarrow> length (p_events (m_port m)) < k \<Longrightarrow>
   mtk_receive_loop n mk timeout t0 pkt m = mtk_receive_loop k mk timeout t0 pkt m"
proof (induction "p_events (m_port m)" arbitrary: n k pkt m)
  case Nil
  then show ?case
    by (cases n; cases k) (auto simp: port_poll_def)
next
  case (Cons e es)
  obtain n' k' where nk: "n = Suc n'" "k = Suc k'" "length es < n'" "length es < k'"
    using Cons.prems Cons.hyps(2) [symmetric] by (cases n; cases k) auto
  have rec: "mtk_receive_loop n' mk timeout t0 pkt1 m2 = mtk_receive_loop k' mk timeout t0 pkt1 m2"
    if "p_events (m_port m2) = es" for pkt1 m2
    using that nk(3,4) Cons.hyps(1) [of m2 n' k' pkt1] by simp
  let ?m1 = "m\<lparr>m_port := (m_port m)\<lparr>p_events := es, p_now := p_now (m_port m) + ev_dt e\<rparr>\<rparr>"
  have loop: "mtk_receive_loop (Suc j) mk timeout t0 pkt m = (if ev_ret e \<le> 0 then Some (-1, ?m1)
     else Option.bind (mtk_feed mk (t0 + timeout * 1000) (if ev_in e then take 32 (ev_bytes e) else []) pkt ?m1)
       (\<lambda>x. case fst x of Some c \<Rightarrow> Some (c, snd (snd x))
           | None \<Rightarrow> mtk_receive_loop j mk timeout t0 (fst (snd x)) (snd (snd x))))" for j
    using Cons.hyps(2) [symmetric] by (simp add: port_poll_def split_def)
  show ?case
    unfolding nk(1,2) loop
  proof (rule if_cong [OF refl refl], rule Option.bind_cong [OF refl])
    fix x
    assume x: "mtk_feed mk (t0 + timeout * 1000) (if ev_in e then take 32 (ev_bytes e) else []) pkt ?m1 = Some x"
    have "p_events (m_port (snd (snd x))) = es"
      using mtk_feed_port [of mk "t0 + timeout * 1000" _ pkt ?m1 "fst x" "fst (snd x)" "snd (snd x)"] x by simp
    then show "(case fst x of Some c \<Rightarrow> Some (c, snd (snd x))
           | None \<Rightarrow> mtk_receive_loop n' mk timeout t0 (fst (snd x)) (snd (snd x))) =
        (case fst x of Some c \<Rightarrow> Some (c, snd (snd x))
           | None \<Rightarrow> mtk_receive_loop k' mk timeout t0 (fst (snd x)) (snd (snd x)))"
      using rec by (simp split: option.split)
  qed
qed

section \<open>Packets\<close>

definition mtk_ok :: "mtk \<Rightarrow> bool" where
  "mtk_ok m \<longleftrightarrow> m_rx_count m < mtk_packet_size"

text \<open>The decoder stays inside the packet, whatever arrives.\<close>

lemma mtk_parse_char_ok:
  assumes "mtk_ok m" "length pkt = mtk_packet_size"
  shows "\<exists>r pkt' m'. mtk_parse_char b pkt m = Some (r, pkt', m') \<and> mtk_ok m' \<and> length pkt' = mtk_packet_size"
  using assms
  by (auto simp: mtk_parse_char_def mtk_ok_def mtk_packet_size_def mem_write_def mtk_decode_init_def
      mtk_add_byte_to_checksum_def Let_def split: mtk_decode_state.split)

fun mtk_parse :: "u8 list \<Rightarrow> u8 list \<Rightarrow> mtk \<Rightarrow> (int list \<times> u8 list \<times> mtk) option" where
  "mtk_parse [] pkt m = Some ([], pkt, m)"
| "mtk_parse (b # bs) pkt m =
     do {
       (r, pkt1, m1) \<leftarrow> mtk_parse_char b pkt m;
       (rs, pkt2, m2) \<leftarrow> mtk_parse bs pkt1 m1;
       Some (r # rs, pkt2, m2)
     }"

text \<open>The decoder inside a packet of which it has read \<open>xs\<close>.\<close>

definition in_packet :: "u8 list \<Rightarrow> mtk \<Rightarrow> mtk" where
  "in_packet xs m = m\<lparr>m_rx_count := length xs, m_ck := ck_run (take 33 xs) (0, 0)\<rparr>"

lemma mtk_parse_byte:
  assumes "m_state m = MTK_DECODE_GOT_CK_B" "Suc (length xs) < mtk_packet_size" "length pkt = mtk_packet_size"
  shows "mtk_parse_char b (xs @ drop (length xs) pkt) (in_packet xs m) =
    Some (0, (xs @ [b]) @ drop (length (xs @ [b])) pkt, in_packet (xs @ [b]) m)"
proof -
  have "ck_run (take 33 (xs @ [b])) (0, 0) =
      (if length xs < 33 then ck_add b (ck_run (take 33 xs) (0, 0)) else ck_run (take 33 xs) (0, 0))"
    by simp
  then show ?thesis
    using assms
    by (simp add: mtk_parse_char_def in_packet_def mem_write_def mtk_packet_size_def mtk_add_byte_to_checksum_def Let_def)
qed

lemma mtk_parse_bytes:
  assumes "m_state m = MTK_DECODE_GOT_CK_B" "length pkt = mtk_packet_size"
  shows "length xs + length ys < mtk_packet_size \<Longrightarrow>
    mtk_parse ys (xs @ drop (length xs) pkt) (in_packet xs m) =
      Some (replicate (length ys) 0, (xs @ ys) @ drop (length (xs @ ys)) pkt, in_packet (xs @ ys) m)"
proof (induction ys arbitrary: xs)
  case (Cons b ys)
  have "mtk_parse_char b (xs @ drop (length xs) pkt) (in_packet xs m) =
    Some (0, (xs @ [b]) @ drop (length (xs @ [b])) pkt, in_packet (xs @ [b]) m)"
    using Cons.prems by (intro mtk_parse_byte assms) simp
  then show ?case
    using Cons.IH [of "xs @ [b]"] Cons.prems by simp
qed simp

lemma mtk_parse_append:
  "mtk_parse (xs @ ys) pkt m = do {
     (rs, pkt1, m1) \<leftarrow> mtk_parse xs pkt m; (ss, pkt2, m2) \<leftarrow> mtk_parse ys pkt1 m1; Some (rs @ ss, pkt2, m2) }"
proof (induction xs arbitrary: pkt m)
  case Nil
  then show ?case
    by (cases "mtk_parse ys pkt m") auto
next
  case (Cons x xs)
  show ?case
    by (simp add: Cons.IH split_def Option.bind_assoc)
qed

text \<open>
  A packet is accepted exactly when its checksum is right: after the sync bytes, the first 34 bytes
  give no result, the last one gives 1 if the two checksum bytes are those of the 33 bytes before
  and -1 otherwise, the packet then holds the bytes received, and the decoder waits for the next
  sync byte.
\<close>

theorem mtk_packet_checked:
  assumes "m_state m = MTK_DECODE_GOT_CK_B" "m_rx_count m = 0" "m_ck m = (0, 0)"
    and "length body = 33" "length pkt = mtk_packet_size"
  shows "mtk_parse (body @ [a, b]) pkt m =
    Some (replicate 34 0 @ [if ck_run body (0, 0) = (a, b) then 1 else -1], body @ [a, b],
      mtk_decode_init (m\<lparr>m_ck := ck_run body (0, 0)\<rparr>))"
proof -
  have m: "m = in_packet [] m"
    using assms(2,3) by (simp add: in_packet_def)
  have "mtk_parse (body @ [a]) ([] @ drop (length ([] :: u8 list)) pkt) (in_packet [] m) =
      Some (replicate 34 0, (body @ [a]) @ drop 34 pkt, in_packet (body @ [a]) m)"
    using assms(4) mtk_parse_bytes [OF assms(1,5), of "[]" "body @ [a]"] by (simp add: mtk_packet_size_def)
  then have first: "mtk_parse (body @ [a]) pkt m = Some (replicate 34 0, (body @ [a]) @ drop 34 pkt, in_packet (body @ [a]) m)"
    using m by simp
  have second: "mtk_parse [b] ((body @ [a]) @ drop 34 pkt) (in_packet (body @ [a]) m) =
      Some ([if ck_run body (0, 0) = (a, b) then 1 else -1], body @ [a, b], mtk_decode_init (m\<lparr>m_ck := ck_run body (0, 0)\<rparr>))"
    using assms(1,4,5)
    by (simp add: mtk_parse_char_def in_packet_def mem_write_def mtk_packet_size_def mtk_decode_init_def u8_at_def
        nth_append Let_def)
  have "mtk_parse ((body @ [a]) @ [b]) pkt m =
      Some (replicate 34 0 @ [if ck_run body (0, 0) = (a, b) then 1 else -1], body @ [a, b],
        mtk_decode_init (m\<lparr>m_ck := ck_run body (0, 0)\<rparr>))"
    unfolding mtk_parse_append [of "body @ [a]" "[b]"] first Option.bind_lunit prod.case second by (rule refl)
  then show ?thesis
    by simp
qed

theorem mtk_packet_checked_witness:
  "\<forall>r p. mtk_parse (replicate 33 1 @ [33, 49]) (replicate 35 0)
     ((mtk_create empty_position r p)\<lparr>m_state := MTK_DECODE_GOT_CK_B\<rparr>) =
   Some (replicate 34 0 @ [1], replicate 33 1 @ [33, 49],
     mtk_decode_init ((mtk_create empty_position r p)\<lparr>m_state := MTK_DECODE_GOT_CK_B, m_ck := (33, 49)\<rparr>))"
proof (intro allI)
  fix r p
  have "ck_run (replicate 33 1) (0, 0) = (33, 49)"
    by code_simp
  then show "mtk_parse (replicate 33 1 @ [33, 49]) (replicate 35 0)
      ((mtk_create empty_position r p)\<lparr>m_state := MTK_DECODE_GOT_CK_B\<rparr>) =
    Some (replicate 34 0 @ [1], replicate 33 1 @ [33, 49],
      mtk_decode_init ((mtk_create empty_position r p)\<lparr>m_state := MTK_DECODE_GOT_CK_B, m_ck := (33, 49)\<rparr>))"
    using mtk_packet_checked [of "(mtk_create empty_position r p)\<lparr>m_state := MTK_DECODE_GOT_CK_B\<rparr>"
        "replicate 33 1" "replicate 35 0" 33 49]
    by (simp add: mtk_create_def mtk_decode_init_def mtk_packet_size_def)
qed

end
