(* ===== verification/PwmLimit.thy ===== *)
theory PwmLimit
  imports Float32
begin

text \<open>
  The output limiter that stands between a mixer and the servo pulses
  (\<open>src/modules/systemlib/pwm_limit/pwm_limit.c\<close>): the state machine that ramps the
  pulses up after arming, and the scaling of one normalised output to a pulse width.  The
  readings of the clock are the function \<open>clk\<close>: reading 0 sets the arming time, reading 1
  decides a transition, reading 2 gives the progress of the ramp.  Converting a float that
  does not fit the target integer is undefined in C; \<open>undef\<close> is whatever the target yields
  there, and the bounds below hold for every choice of it.
\<close>

section \<open>Conversions\<close>

type_synonym clock = "nat \<Rightarrow> u64"

definition cvt_u16 :: "(f32 \<Rightarrow> u16) \<Rightarrow> f32 \<Rightarrow> u16" where
  "cvt_u16 undef x = (case f32_to_int 0 65535 x of Some i \<Rightarrow> of_int i | None \<Rightarrow> undef x)"

definition cvt_i16 :: "(f32 \<Rightarrow> u16) \<Rightarrow> f32 \<Rightarrow> u16" where
  "cvt_i16 undef x = (case f32_to_int (- 32768) 32767 x of Some i \<Rightarrow> of_int i | None \<Rightarrow> undef x)"

section \<open>State machine\<close>

datatype pwm_limit_state =
    PWM_LIMIT_STATE_OFF | PWM_LIMIT_STATE_INIT | PWM_LIMIT_STATE_RAMP | PWM_LIMIT_STATE_ON

record pwm_limit_t =
  pl_state :: pwm_limit_state
  pl_time_armed :: u64

definition INIT_TIME_US :: u64 where "INIT_TIME_US = 500000"
definition RAMP_TIME_US :: u64 where "RAMP_TIME_US = 2500000"
definition PROGRESS_INT_SCALING :: u64 where "PROGRESS_INT_SCALING = 10000"

definition pwm_limit_init :: "pwm_limit_t \<Rightarrow> pwm_limit_t" where
  "pwm_limit_init limit = limit\<lparr>pl_state := PWM_LIMIT_STATE_INIT, pl_time_armed := 0\<rparr>"

definition pwm_limit_transition :: "bool \<Rightarrow> clock \<Rightarrow> pwm_limit_t \<Rightarrow> pwm_limit_t" where
  "pwm_limit_transition armed clk limit =
     (case pl_state limit of
        PWM_LIMIT_STATE_INIT \<Rightarrow>
          (if armed then
             (let limit = (if pl_time_armed limit = 0 then limit\<lparr>pl_time_armed := clk 0\<rparr> else limit)
              in if clk 1 - pl_time_armed limit \<ge> INIT_TIME_US
                 then limit\<lparr>pl_state := PWM_LIMIT_STATE_OFF\<rparr> else limit)
           else limit)
      | PWM_LIMIT_STATE_OFF \<Rightarrow>
          (if armed then limit\<lparr>pl_state := PWM_LIMIT_STATE_RAMP, pl_time_armed := clk 0\<rparr> else limit)
      | PWM_LIMIT_STATE_RAMP \<Rightarrow>
          (if \<not> armed then limit\<lparr>pl_state := PWM_LIMIT_STATE_OFF\<rparr>
           else if clk 1 - pl_time_armed limit \<ge> RAMP_TIME_US
           then limit\<lparr>pl_state := PWM_LIMIT_STATE_ON\<rparr> else limit)
      | PWM_LIMIT_STATE_ON \<Rightarrow>
          (if \<not> armed then limit\<lparr>pl_state := PWM_LIMIT_STATE_OFF\<rparr> else limit))"

section \<open>Pulse widths\<close>

definition pwm_clamp :: "u16 \<Rightarrow> u16 \<Rightarrow> u16 \<Rightarrow> u16" where
  "pwm_clamp lo hi v = (if v < lo then lo else if v > hi then hi else v)"

definition pwm_scale :: "(f32 \<Rightarrow> u16) \<Rightarrow> f32 \<Rightarrow> u16 \<Rightarrow> u16 \<Rightarrow> u16" where
  "pwm_scale undef control_value lo hi =
     cvt_u16 undef
       (f32_add (f32_div (f32_mul control_value (f32_of_int (uint hi - uint lo))) 0x40000000)
          (f32_of_int ((uint hi + uint lo) div 2)))"

definition pwm_reverse :: "u16 \<Rightarrow> nat \<Rightarrow> f32 \<Rightarrow> f32" where
  "pwm_reverse reverse_mask i control_value =
     (if bit reverse_mask i then f32_mul 0xBF800000 control_value else control_value)"

definition pwm_progress :: "clock \<Rightarrow> pwm_limit_t \<Rightarrow> u32" where
  "pwm_progress clk limit =
     (let progress = ucast ((clk 2 - pl_time_armed limit) * PROGRESS_INT_SCALING div RAMP_TIME_US) :: u32
      in if progress > 10000 then 10000 else progress)"

definition ramp_min_pwm :: "u32 \<Rightarrow> u16 \<Rightarrow> u16 \<Rightarrow> u16" where
  "ramp_min_pwm progress disarmed_pwm min_pwm =
     (if disarmed_pwm > 0 then
        (let disarmed = (if disarmed_pwm > min_pwm then ucast min_pwm else ucast disarmed_pwm) :: u32;
             disarmed_min_diff = ucast min_pwm - disarmed
         in ucast (disarmed + disarmed_min_diff * progress div 10000))
      else min_pwm)"

definition pwm_channel :: "(f32 \<Rightarrow> u16) \<Rightarrow> u16 \<Rightarrow> nat \<Rightarrow> u16 \<Rightarrow> u16 \<Rightarrow> u16 \<Rightarrow> f32 \<Rightarrow> u16" where
  "pwm_channel undef reverse_mask i disarmed lo hi output =
     (if \<not> f32_is_finite output then disarmed
      else pwm_clamp lo hi (pwm_scale undef (pwm_reverse reverse_mask i output) lo hi))"

definition pwm_limit_calc ::
    "(f32 \<Rightarrow> u16) \<Rightarrow> bool \<Rightarrow> bool \<Rightarrow> nat \<Rightarrow> u16 \<Rightarrow> u16 list \<Rightarrow> u16 list \<Rightarrow> u16 list \<Rightarrow> f32 list \<Rightarrow>
     clock \<Rightarrow> u16 list \<Rightarrow> pwm_limit_t \<Rightarrow> u16 list \<times> pwm_limit_t" where
  "pwm_limit_calc undef armed pre_armed num_channels reverse_mask disarmed_pwm min_pwm max_pwm
     outputs clk effective_pwm limit =
     (let limit = pwm_limit_transition armed clk limit;
          local_limit_state = (if pre_armed then PWM_LIMIT_STATE_ON else pl_state limit);
          channel = (case local_limit_state of
              PWM_LIMIT_STATE_OFF \<Rightarrow> (\<lambda>i. disarmed_pwm ! i)
            | PWM_LIMIT_STATE_INIT \<Rightarrow> (\<lambda>i. disarmed_pwm ! i)
            | PWM_LIMIT_STATE_RAMP \<Rightarrow>
                (let progress = pwm_progress clk limit
                 in (\<lambda>i. pwm_channel undef reverse_mask i (disarmed_pwm ! i)
                           (ramp_min_pwm progress (disarmed_pwm ! i) (min_pwm ! i))
                           (max_pwm ! i) (outputs ! i)))
            | PWM_LIMIT_STATE_ON \<Rightarrow>
                (\<lambda>i. pwm_channel undef reverse_mask i (disarmed_pwm ! i) (min_pwm ! i)
                       (max_pwm ! i) (outputs ! i)))
      in (map channel [0..<num_channels] @ drop num_channels effective_pwm, limit))"

section \<open>Bounds of the pulses\<close>

lemma pwm_clamp_between: "lo \<le> hi \<Longrightarrow> lo \<le> pwm_clamp lo hi v \<and> pwm_clamp lo hi v \<le> hi"
  by (auto simp: pwm_clamp_def)

lemma pwm_clamp_ends: "hi < lo \<Longrightarrow> pwm_clamp lo hi v \<in> {lo, hi}"
  by (auto simp: pwm_clamp_def)

lemma pwm_progress_le: "pwm_progress clk limit \<le> 10000"
  by (auto simp: pwm_progress_def Let_def)

text \<open>The blend between the disarmed and the minimum pulse, without the wrap-around of the code.\<close>

lemma ramp_blend:
  fixes d m :: u16 and p :: u32
  assumes "d \<le> m" "p \<le> 10000"
  shows "unat (ucast (ucast d + (ucast m - ucast d) * p div 10000 :: u32) :: u16) =
    unat d + (unat m - unat d) * unat p div 10000"
proof -
  have d: "unat d \<le> unat m" and p: "unat p \<le> 10000"
    using assms by (simp_all add: word_le_nat_alt)
  have m: "unat m < 2 ^ 16"
    using unsigned_less [of m] by simp
  have diff: "unat (ucast m - ucast d :: u32) = unat m - unat d"
    using d by (simp add: unat_sub_if' unat_ucast_16_32)
  have "(unat m - unat d) * unat p \<le> 65535 * 10000"
    using m p by (intro mult_le_mono) auto
  then have prod: "unat ((ucast m - ucast d) * p :: u32) = (unat m - unat d) * unat p"
    by (simp add: unat_word_ariths diff)
  have "(unat m - unat d) * unat p div 10000 \<le> (unat m - unat d) * 10000 div 10000"
    using p by (intro div_le_mono mult_le_mono) auto
  then have le: "unat d + (unat m - unat d) * unat p div 10000 \<le> unat m"
    using d by simp
  then have "unat (ucast d + (ucast m - ucast d) * p div 10000 :: u32) =
      unat d + (unat m - unat d) * unat p div 10000"
    using m by (simp add: unat_word_ariths(1) unat_div prod unat_ucast_16_32)
  then show ?thesis
    using le m by (simp add: unsigned_ucast_eq take_bit_eq_mod)
qed

definition ramp_floor :: "u16 \<Rightarrow> u16 \<Rightarrow> u16" where
  "ramp_floor disarmed_pwm min_pwm =
     (if disarmed_pwm > 0 \<and> disarmed_pwm < min_pwm then disarmed_pwm else min_pwm)"

lemma ramp_min_nat:
  "p \<le> 10000 \<Longrightarrow> unat (ramp_min_pwm p d m) =
     unat (ramp_floor d m) + (unat m - unat (ramp_floor d m)) * unat p div 10000"
  using ramp_blend [of d m p] ramp_blend [of m m p]
  by (cases "d = m") (auto simp: ramp_min_pwm_def ramp_floor_def Let_def not_less)

lemma ramp_min_between:
  assumes "p \<le> 10000"
  shows "ramp_floor d m \<le> ramp_min_pwm p d m \<and> ramp_min_pwm p d m \<le> m"
proof -
  have "unat p \<le> 10000"
    using assms by (simp add: word_le_nat_alt)
  then have "(unat m - unat (ramp_floor d m)) * unat p div 10000
      \<le> (unat m - unat (ramp_floor d m)) * 10000 div 10000"
    by (intro div_le_mono mult_le_mono) auto
  moreover have "unat (ramp_floor d m) \<le> unat m"
    by (simp add: ramp_floor_def word_le_nat_alt word_less_nat_alt)
  ultimately show ?thesis
    using ramp_min_nat [OF assms, of d m] by (simp add: word_le_nat_alt)
qed

lemma ramp_min_mono:
  assumes "p \<le> q" "q \<le> 10000"
  shows "ramp_min_pwm p d m \<le> ramp_min_pwm q d m"
proof -
  have "p \<le> 10000" "unat p \<le> unat q"
    using assms by (auto simp: word_le_nat_alt)
  then show ?thesis
    using assms(2) by (auto simp: word_le_nat_alt ramp_min_nat intro!: div_le_mono mult_le_mono)
qed

lemma pwm_channel_between:
  assumes "lo \<le> hi"
  shows "pwm_channel undef r i d lo hi x = d \<or>
    (lo \<le> pwm_channel undef r i d lo hi x \<and> pwm_channel undef r i d lo hi x \<le> hi)"
  using pwm_clamp_between [OF assms] by (simp add: pwm_channel_def)

lemma length_pwm_limit_calc [simp]:
  "n \<le> length eff \<Longrightarrow>
   length (fst (pwm_limit_calc undef a pre n r d lo hi out clk eff limit)) = length eff"
  by (simp add: pwm_limit_calc_def Let_def)

lemma pwm_limit_calc_state [simp]:
  "snd (pwm_limit_calc undef a pre n r d lo hi out clk eff limit) = pwm_limit_transition a clk limit"
  by (simp add: pwm_limit_calc_def Let_def)

lemma pwm_limit_calc_nth:
  assumes "i < n"
  shows "fst (pwm_limit_calc undef a pre n r d lo hi out clk eff limit) ! i =
    (let limit' = pwm_limit_transition a clk limit in
     if pre \<or> pl_state limit' = PWM_LIMIT_STATE_ON
     then pwm_channel undef r i (d ! i) (lo ! i) (hi ! i) (out ! i)
     else if pl_state limit' = PWM_LIMIT_STATE_RAMP
     then pwm_channel undef r i (d ! i)
            (ramp_min_pwm (pwm_progress clk limit') (d ! i) (lo ! i)) (hi ! i) (out ! i)
     else d ! i)"
  using assms
  by (cases "pl_state (pwm_limit_transition a clk limit)")
     (simp_all add: pwm_limit_calc_def Let_def nth_append)

lemma pwm_limit_calc_nth_rest:
  assumes "n \<le> i" "i < length eff"
  shows "fst (pwm_limit_calc undef a pre n r d lo hi out clk eff limit) ! i = eff ! i"
  using assms by (simp add: pwm_limit_calc_def Let_def nth_append)

section \<open>Runs of the limiter\<close>

definition limit_run :: "(bool \<times> clock) list \<Rightarrow> pwm_limit_t \<Rightarrow> pwm_limit_t" where
  "limit_run calls limit = foldl (\<lambda>l (armed, clk). pwm_limit_transition armed clk l) limit calls"

lemma limit_run_snoc [simp]:
  "limit_run (calls @ [(armed, clk)]) limit = pwm_limit_transition armed clk (limit_run calls limit)"
  by (simp add: limit_run_def)

lemma limit_run_Nil [simp]: "limit_run [] limit = limit"
  by (simp add: limit_run_def)

text \<open>The calls from the \<open>i\<close>-th on were all made armed, and the ramp started at the \<open>i\<close>-th.\<close>

definition armed_since :: "(bool \<times> clock) list \<Rightarrow> nat \<Rightarrow> bool" where
  "armed_since calls i \<longleftrightarrow> i < length calls \<and> (\<forall>k. i \<le> k \<and> k < length calls \<longrightarrow> fst (calls ! k))"

definition ramp_done :: "(bool \<times> clock) list \<Rightarrow> nat \<Rightarrow> nat \<Rightarrow> bool" where
  "ramp_done calls i j \<longleftrightarrow> i < j \<and> j < length calls \<and>
     snd (calls ! j) 1 - snd (calls ! i) 0 \<ge> RAMP_TIME_US"

lemma armed_since_snoc:
  "armed_since calls i \<Longrightarrow> armed_since (calls @ [(True, clk)]) i"
  by (auto simp: armed_since_def nth_append less_Suc_eq)

lemma ramp_done_snoc: "ramp_done calls i j \<Longrightarrow> ramp_done (calls @ [c]) i j"
  by (auto simp: ramp_done_def nth_append)

definition ramp_history :: "(bool \<times> clock) list \<Rightarrow> pwm_limit_t \<Rightarrow> bool" where
  "ramp_history calls limit \<longleftrightarrow>
     (pl_state limit = PWM_LIMIT_STATE_RAMP \<longrightarrow>
        (\<exists>i. armed_since calls i \<and> pl_time_armed limit = snd (calls ! i) 0)) \<and>
     (pl_state limit = PWM_LIMIT_STATE_ON \<longrightarrow>
        (\<exists>i j. armed_since calls i \<and> ramp_done calls i j))"

lemma ramp_history_step:
  assumes "ramp_history calls limit"
  shows "ramp_history (calls @ [(armed, clk)]) (pwm_limit_transition armed clk limit)"
proof (cases "pl_state limit")
  case PWM_LIMIT_STATE_OFF
  have "armed \<Longrightarrow> armed_since (calls @ [(armed, clk)]) (length calls)"
    by (auto simp: armed_since_def nth_append less_Suc_eq)
  then show ?thesis
    using PWM_LIMIT_STATE_OFF
    by (auto simp: ramp_history_def pwm_limit_transition_def intro!: exI [of _ "length calls"])
next
  case PWM_LIMIT_STATE_INIT
  then show ?thesis
    by (simp add: ramp_history_def pwm_limit_transition_def Let_def)
next
  case PWM_LIMIT_STATE_RAMP
  then obtain i where i: "armed_since calls i" "pl_time_armed limit = snd (calls ! i) 0"
    using assms by (auto simp: ramp_history_def)
  have at: "(calls @ [(armed, clk)]) ! i = calls ! i" "i < length calls"
    using i by (auto simp: armed_since_def nth_append)
  have fin: "ramp_done (calls @ [(armed, clk)]) i (length calls)"
    if "RAMP_TIME_US \<le> clk 1 - pl_time_armed limit"
    using that at i(2) by (simp add: ramp_done_def)
  have since: "armed_since (calls @ [(armed, clk)]) i" if armed
    using that armed_since_snoc [OF i(1)] by simp
  have "pl_time_armed limit = snd ((calls @ [(armed, clk)]) ! i) 0"
    using at i(2) by simp
  with fin since show ?thesis
    using PWM_LIMIT_STATE_RAMP
    by (auto simp: ramp_history_def pwm_limit_transition_def) blast
next
  case PWM_LIMIT_STATE_ON
  then obtain i j where "armed_since calls i" "ramp_done calls i j"
    using assms by (auto simp: ramp_history_def)
  then show ?thesis
    using PWM_LIMIT_STATE_ON armed_since_snoc [of calls i clk] ramp_done_snoc [of calls i j]
    by (auto simp: ramp_history_def pwm_limit_transition_def)
qed

lemma ramp_history_run:
  assumes "pl_state limit \<in> {PWM_LIMIT_STATE_OFF, PWM_LIMIT_STATE_INIT}"
  shows "ramp_history calls (limit_run calls limit)"
proof (induction calls rule: rev_induct)
  case Nil
  then show ?case
    using assms by (auto simp: ramp_history_def)
next
  case (snoc c calls)
  then show ?case
    by (cases c) (simp add: ramp_history_step)
qed

section \<open>Properties\<close>

text \<open>
  Whatever the mixer asks for, and whatever the target makes of a float that does not fit,
  each of the \<open>num_channels\<close> pulses that \<open>pwm_limit_calc\<close> writes is the disarmed value of its channel
  or lies between the channel's floor and its maximum, as long as the minimum does not exceed
  the maximum.  The floor is the minimum, lowered during the ramp at most to a configured
  disarmed value below it; outside the ramp it is the minimum itself.  A limiter that is neither ramping nor on
  and is not overridden by the pre-armed flag writes nothing but disarmed values, and the pulses of other
  channels are left alone.
\<close>

theorem pwm_limit_bounds:
  fixes disarmed lo hi :: "u16 list"
  assumes "n \<le> length eff"
    and res: "pwm_limit_calc undef armed pre n rmask disarmed lo hi out clk eff limit = (pwm, limit')"
  shows "length pwm = length eff \<and>
    (\<forall>i. n \<le> i \<and> i < length eff \<longrightarrow> pwm ! i = eff ! i) \<and>
    (\<forall>i < n. lo ! i \<le> hi ! i \<longrightarrow>
       pwm ! i = disarmed ! i \<or> ramp_floor (disarmed ! i) (lo ! i) \<le> pwm ! i \<and> pwm ! i \<le> hi ! i) \<and>
    (\<forall>i < n. lo ! i \<le> hi ! i \<and> (pre \<or> pl_state limit' \<noteq> PWM_LIMIT_STATE_RAMP) \<longrightarrow>
       pwm ! i = disarmed ! i \<or> lo ! i \<le> pwm ! i \<and> pwm ! i \<le> hi ! i) \<and>
    (\<not> pre \<and> pl_state limit' \<notin> {PWM_LIMIT_STATE_RAMP, PWM_LIMIT_STATE_ON} \<longrightarrow>
       (\<forall>i < n. pwm ! i = disarmed ! i))"
proof -
  have pwm: "pwm = fst (pwm_limit_calc undef armed pre n rmask disarmed lo hi out clk eff limit)"
    and limit': "limit' = pwm_limit_transition armed clk limit"
    using res pwm_limit_calc_state [of undef armed pre n rmask disarmed lo hi out clk eff limit] by simp_all
  have floor: "ramp_floor d m \<le> m" for d m
    by (auto simp: ramp_floor_def)
  have on: "pwm_channel undef rmask i d l h x = d \<or>
      ramp_floor d l \<le> pwm_channel undef rmask i d l h x \<and> pwm_channel undef rmask i d l h x \<le> h"
    if "l \<le> h" for i d l h x
    using pwm_channel_between [OF that, of undef rmask i d x] floor [of d l] by auto
  have ramp: "pwm_channel undef rmask i d (ramp_min_pwm (pwm_progress clk limit') d l) h x = d \<or>
      ramp_floor d l \<le> pwm_channel undef rmask i d (ramp_min_pwm (pwm_progress clk limit') d l) h x \<and>
      pwm_channel undef rmask i d (ramp_min_pwm (pwm_progress clk limit') d l) h x \<le> h"
    if "l \<le> h" for i d l h x
    using pwm_channel_between [of "ramp_min_pwm (pwm_progress clk limit') d l" h undef rmask i d x]
      ramp_min_between [OF pwm_progress_le, of d l clk limit'] that by (meson order_trans)
  show ?thesis
    using assms(1) on ramp pwm_channel_between
    by (auto simp: pwm limit' pwm_limit_calc_nth pwm_limit_calc_nth_rest Let_def)
qed

theorem pwm_limit_bounds_witness:
  "\<forall>pwm limit'. pwm_limit_calc (\<lambda>_. 0) True False 1 0 [900] [1000] [2000] [0x3F800000] (\<lambda>_. 1000000) [0, 7]
       \<lparr>pl_state = PWM_LIMIT_STATE_RAMP, pl_time_armed = 500000\<rparr> = (pwm, limit') \<longrightarrow>
     pwm ! 0 = 900 \<or> 900 \<le> pwm ! 0 \<and> pwm ! 0 \<le> 2000"
  using pwm_limit_bounds [of 1 "[0, 7]" "\<lambda>_. 0" True False 0 "[900]" "[1000]" "[2000]" "[0x3F800000]"
      "\<lambda>_. 1000000" "\<lparr>pl_state = PWM_LIMIT_STATE_RAMP, pl_time_armed = 500000\<rparr>"]
  by (fastforce simp: ramp_floor_def)


definition ramp_demo :: "(bool \<times> clock) list" where
  "ramp_demo = [(True, \<lambda>_. 1000000), (True, \<lambda>_. 1500000), (True, \<lambda>_. 1600000), (True, \<lambda>_. 4200000)]"


end
