(* ===== verification/Mixer.thy ===== *)
theory Mixer
  imports Float32
begin

text \<open>
  The mixer library (\<open>src/modules/systemlib/mixer\<close>): null, simple and multirotor mixers and
  the group that runs them one after the other.  A mixer fetches its inputs through a callback
  with an in/out argument; the library ignores the callback's return value, so an input the
  callback refuses is whatever the uninitialised variable held.  That garbage is the parameter
  \<open>junk\<close>, one value per fetch.  The rotor tables are generated during the build and are part of
  the mixer's data.
\<close>

section \<open>Data\<close>

abbreviation f32_one :: f32 where "f32_one \<equiv> 0x3F800000"
abbreviation f32_minus_one :: f32 where "f32_minus_one \<equiv> 0xBF800000"
abbreviation f32_two :: f32 where "f32_two \<equiv> 0x40000000"
abbreviation FLT_EPSILON :: f32 where "FLT_EPSILON \<equiv> 0x34000000"

record mixer_scaler =
  negative_scale :: f32
  positive_scale :: f32
  scaler_offset :: f32
  min_output :: f32
  max_output :: f32

record mixer_control =
  control_group :: u8
  control_index :: u8
  control_scaler :: mixer_scaler

record mixer_simple =
  output_scaler :: mixer_scaler
  simple_controls :: "mixer_control list"

record rotor =
  rot_roll :: f32
  rot_pitch :: f32
  rot_yaw :: f32
  rot_out :: f32

record multirotor =
  mr_roll_scale :: f32
  mr_pitch_scale :: f32
  mr_yaw_scale :: f32
  mr_idle_speed :: f32
  mr_rotors :: "rotor list"

datatype mixer = NullMixer | SimpleMixer mixer_simple | MultirotorMixer multirotor

text \<open>The callback: group, index, the caller's variable; the return code and the variable's new value.\<close>

type_synonym control_cb = "u8 \<Rightarrow> u8 \<Rightarrow> f32 \<Rightarrow> int \<times> f32"

section \<open>Scaling\<close>

definition scale :: "mixer_scaler \<Rightarrow> f32 \<Rightarrow> f32" where
  "scale scaler x =
     (let y = (if f32_lt x 0 then f32_add (f32_mul x (negative_scale scaler)) (scaler_offset scaler)
               else f32_add (f32_mul x (positive_scale scaler)) (scaler_offset scaler))
      in if f32_gt y (max_output scaler) then max_output scaler
         else if f32_lt y (min_output scaler) then min_output scaler else y)"

definition scale_check :: "mixer_scaler \<Rightarrow> nat" where
  "scale_check scaler =
     (if f32_gt (scaler_offset scaler) 0x3F8020C5 then 1
      else if f32_lt (scaler_offset scaler) 0xBF8020C5 then 2
      else if f32_gt (min_output scaler) (max_output scaler) then 3
      else if f32_lt (min_output scaler) 0xBF8020C5 then 4
      else if f32_gt (max_output scaler) 0x3F8020C5 then 5
      else 0)"

definition constrain :: "f32 \<Rightarrow> f32 \<Rightarrow> f32 \<Rightarrow> f32" where
  "constrain val lo hi = (if f32_lt val lo then lo else if f32_gt val hi then hi else val)"

definition fminf :: "f32 \<Rightarrow> f32 \<Rightarrow> f32" where
  "fminf a b = (if f32_is_nan a then b else if f32_is_nan b then a else if f32_lt b a then b else a)"

definition get_control :: "control_cb \<Rightarrow> f32 \<Rightarrow> u8 \<Rightarrow> u8 \<Rightarrow> f32" where
  "get_control cb junk grp idx = snd (cb grp idx junk)"

section \<open>Null and simple mixers\<close>

definition null_mix :: "nat \<Rightarrow> f32 list" where
  "null_mix space = (if space > 0 then [0] else [])"

definition simple_sum :: "control_cb \<Rightarrow> (nat \<Rightarrow> f32) \<Rightarrow> mixer_control list \<Rightarrow> f32" where
  "simple_sum cb junk controls =
     fold (\<lambda>(i, c) sum. f32_add sum
             (scale (control_scaler c) (snd (cb (control_group c) (control_index c) (junk i)))))
       (enumerate 0 controls) 0"

definition simple_mix :: "control_cb \<Rightarrow> (nat \<Rightarrow> f32) \<Rightarrow> nat \<Rightarrow> mixer_simple \<Rightarrow> f32 list" where
  "simple_mix cb junk space info =
     (if space < 1 then []
      else [scale (output_scaler info) (simple_sum cb junk (simple_controls info))])"

fun check_controls :: "control_cb \<Rightarrow> (nat \<Rightarrow> f32) \<Rightarrow> nat \<Rightarrow> mixer_control list \<Rightarrow> int" where
  "check_controls cb junk i [] = 0"
| "check_controls cb junk i (c # cs) =
     (if fst (cb (control_group c) (control_index c) (junk i)) \<noteq> 0 then -3
      else if scale_check (control_scaler c) \<noteq> 0
      then 10 * int i + int (scale_check (control_scaler c))
      else check_controls cb junk (Suc i) cs)"

definition simple_check :: "control_cb \<Rightarrow> (nat \<Rightarrow> f32) \<Rightarrow> mixer_simple \<Rightarrow> int" where
  "simple_check cb junk info =
     (if length (simple_controls info) > 32 then -2
      else if scale_check (output_scaler info) \<noteq> 0 then int (scale_check (output_scaler info))
      else check_controls cb junk 0 (simple_controls info))"

text \<open>\<open>pwm_input\<close>: a mixer that normalises one pulse-width input; the differences are computed as integers.\<close>

definition pwm_input :: "u32 \<Rightarrow> u16 \<Rightarrow> u16 \<Rightarrow> u16 \<Rightarrow> mixer_simple" where
  "pwm_input chan lo mid hi =
     \<lparr>output_scaler =
        \<lparr>negative_scale = f32_div 0x43FA0000 (f32_of_int (uint mid - uint lo)),
         positive_scale = f32_div 0x43FA0000 (f32_of_int (uint hi - uint mid)),
         scaler_offset = 0, min_output = f32_minus_one, max_output = f32_one\<rparr>,
      simple_controls =
        [\<lparr>control_group = 0, control_index = ucast chan,
          control_scaler =
            \<lparr>negative_scale = f32_one, positive_scale = f32_one, scaler_offset = f32_of_int (- uint mid),
             min_output = f32_of_int (- (uint mid - uint lo)), max_output = f32_of_int (uint hi - uint mid)\<rparr>\<rparr>]\<rparr>"

section \<open>Multirotor mixer\<close>

text \<open>
  The outputs before the limits are applied, in the association the code's expressions have:
  roll and pitch contribution of a rotor; the first pass; and the value of the two later passes.
\<close>

definition rp_sum :: "f32 \<Rightarrow> f32 \<Rightarrow> rotor \<Rightarrow> f32" where
  "rp_sum roll pitch r = f32_add (f32_mul roll (rot_roll r)) (f32_mul pitch (rot_pitch r))"

definition first_pass_out :: "f32 \<Rightarrow> f32 \<Rightarrow> f32 \<Rightarrow> rotor \<Rightarrow> f32" where
  "first_pass_out roll pitch thrust r =
     f32_mul (f32_add (rp_sum roll pitch r) thrust) (rot_out r)"

fun first_pass :: "f32 \<Rightarrow> f32 \<Rightarrow> f32 \<Rightarrow> rotor list \<Rightarrow> f32 \<times> f32 \<Rightarrow> f32 \<times> f32" where
  "first_pass roll pitch thrust [] (lo, hi) = (lo, hi)"
| "first_pass roll pitch thrust (r # rs) (lo, hi) =
     (let out = first_pass_out roll pitch thrust r
      in first_pass roll pitch thrust rs
           (if f32_lt out lo then out else lo, if f32_gt out hi then out else hi))"

text \<open>\<open>thrust_boost\<close> is the thrust added and the factor applied to roll and pitch.\<close>

definition thrust_boost :: "f32 \<Rightarrow> f32 \<Rightarrow> f32 \<Rightarrow> f32 \<times> f32" where
  "thrust_boost thrust min_out max_out =
     (let increase = f32_sub (f32_mul thrust 0x3FC00000) thrust;
          decrease = f32_sub thrust (f32_mul 0x3F19999A thrust);
          neg_min = f32_neg min_out;
          over = f32_sub max_out f32_one;
          room = f32_sub f32_one max_out;
          grow = (\<lambda>boost. f32_div (f32_add thrust boost) (f32_sub thrust min_out));
          shrink = (\<lambda>boost. f32_div (f32_sub f32_one (f32_add thrust boost)) (f32_sub max_out thrust))
      in if f32_lt min_out 0 \<and> f32_lt max_out f32_one \<and> f32_le neg_min room
         then (if f32_le neg_min increase then (neg_min, f32_one) else (increase, grow increase))
         else if f32_gt max_out f32_one \<and> f32_gt min_out 0 \<and> f32_le over min_out
         then (if f32_le over decrease then (f32_neg over, f32_one)
               else (f32_neg decrease, shrink (f32_neg decrease)))
         else if f32_lt min_out 0 \<and> f32_lt max_out f32_one \<and> f32_gt neg_min room
         then (let boost = constrain (f32_sub neg_min (f32_div room f32_two)) 0 increase
               in (boost, grow boost))
         else if f32_gt max_out f32_one \<and> f32_gt min_out 0 \<and> f32_lt min_out over
         then (let boost = constrain (f32_div (f32_neg (f32_sub over min_out)) f32_two) (f32_neg decrease) 0
               in (boost, shrink boost))
         else if f32_lt min_out 0 \<and> f32_gt max_out f32_one
         then (let boost = constrain (f32_div (f32_neg (f32_add over min_out)) f32_two)
                             (f32_sub (f32_mul 0x3F19999A thrust) thrust) increase
               in (boost, grow boost))
         else (0, f32_one))"

definition rp_boosted :: "f32 \<Rightarrow> f32 \<Rightarrow> f32 \<Rightarrow> rotor \<Rightarrow> f32" where
  "rp_boosted roll pitch rp_scale r = f32_mul (rp_sum roll pitch r) rp_scale"

definition rotor_out :: "f32 \<Rightarrow> f32 \<Rightarrow> f32 \<Rightarrow> f32 \<Rightarrow> f32 \<Rightarrow> f32 \<Rightarrow> rotor \<Rightarrow> f32" where
  "rotor_out roll pitch rp_scale yaw thrust boost r =
     f32_add (f32_add (f32_add (rp_boosted roll pitch rp_scale r) (f32_mul yaw (rot_yaw r))) thrust) boost"

definition rotor_level :: "f32 \<Rightarrow> f32 \<Rightarrow> f32 \<Rightarrow> f32 \<Rightarrow> f32 \<Rightarrow> rotor \<Rightarrow> f32" where
  "rotor_level roll pitch rp_scale thrust boost r =
     f32_add (f32_add (rp_boosted roll pitch rp_scale r) thrust) boost"

text \<open>
  The second pass walks over the rotors and reduces yaw, and above the upper limit the thrust,
  for all the rotors that follow it; the flag says that a yaw limit was reached.
\<close>

fun yaw_pass :: "f32 \<Rightarrow> f32 \<Rightarrow> f32 \<Rightarrow> f32 \<Rightarrow> rotor list \<Rightarrow> f32 \<times> f32 \<times> bool \<Rightarrow> f32 \<times> f32 \<times> bool" where
  "yaw_pass roll pitch rp_scale boost [] (yaw, thrust, limited) = (yaw, thrust, limited)"
| "yaw_pass roll pitch rp_scale boost (r # rs) (yaw, thrust, limited) =
     (let out = f32_mul (rotor_out roll pitch rp_scale yaw thrust boost r) (rot_out r);
          no_yaw = f32_le (f32_abs (rot_yaw r)) FLT_EPSILON
      in yaw_pass roll pitch rp_scale boost rs
           (if f32_lt out 0
            then (if no_yaw then 0
                  else f32_div (f32_neg (rotor_level roll pitch rp_scale thrust boost r)) (rot_yaw r),
                  thrust, True)
            else if f32_gt out f32_one
            then (let thrust = f32_sub thrust (fminf 0x3E19999A (f32_sub out f32_one))
                  in (if no_yaw then 0
                      else f32_div (f32_sub f32_one (rotor_level roll pitch rp_scale thrust boost r)) (rot_yaw r),
                      thrust, True))
            else (yaw, thrust, limited)))"

definition multirotor_init :: "f32 \<Rightarrow> f32 \<Rightarrow> f32 \<Rightarrow> f32 \<Rightarrow> rotor list \<Rightarrow> multirotor" where
  "multirotor_init roll_scale pitch_scale yaw_scale idle_speed rotors =
     \<lparr>mr_roll_scale = roll_scale, mr_pitch_scale = pitch_scale, mr_yaw_scale = yaw_scale,
      mr_idle_speed = f32_add f32_minus_one (f32_mul idle_speed f32_two), mr_rotors = rotors\<rparr>"

abbreviation (input) "MIXER_LOWER_LIMIT \<equiv> 0 :: nat"
abbreviation (input) "MIXER_UPPER_LIMIT \<equiv> 1 :: nat"
abbreviation (input) "MIXER_YAW_LIMIT \<equiv> 2 :: nat"

definition multirotor_mix :: "control_cb \<Rightarrow> (nat \<Rightarrow> f32) \<Rightarrow> multirotor \<Rightarrow> f32 list \<times> u16" where
  "multirotor_mix cb junk m =
     (let roll = constrain (f32_mul (get_control cb (junk 0) 0 0) (mr_roll_scale m)) f32_minus_one f32_one;
          pitch = constrain (f32_mul (get_control cb (junk 1) 0 1) (mr_pitch_scale m)) f32_minus_one f32_one;
          yaw = constrain (f32_mul (get_control cb (junk 2) 0 2) (mr_yaw_scale m)) f32_minus_one f32_one;
          thrust = constrain (get_control cb (junk 3) 0 3) 0 f32_one;
          (min_out, max_out) = first_pass roll pitch thrust (mr_rotors m) (0, 0);
          (boost, rp_scale) = thrust_boost thrust min_out max_out;
          status = (if f32_lt min_out 0 then set_bit MIXER_LOWER_LIMIT 0 else 0);
          status = (if f32_gt max_out 0 then set_bit MIXER_UPPER_LIMIT status else status);
          (yaw, thrust, limited) = yaw_pass roll pitch rp_scale boost (mr_rotors m) (yaw, thrust, False);
          status = (if limited then set_bit MIXER_YAW_LIMIT status else status);
          idle = mr_idle_speed m
      in (map (\<lambda>r. constrain (f32_add idle (f32_mul (rotor_out roll pitch rp_scale yaw thrust boost r)
                                               (f32_sub f32_one idle))) idle f32_one) (mr_rotors m),
          status))"

section \<open>Groups\<close>

text \<open>
  A group stops once the outputs reach the space it was given; the multirotor mixer does not look at the
  space, so a group may deliver more.
\<close>

fun mixer_mix :: "control_cb \<Rightarrow> (nat \<Rightarrow> f32) \<Rightarrow> nat \<Rightarrow> u16 \<Rightarrow> mixer \<Rightarrow> f32 list \<times> u16" where
  "mixer_mix cb junk space status NullMixer = (null_mix space, status)"
| "mixer_mix cb junk space status (SimpleMixer info) = (simple_mix cb junk space info, status)"
| "mixer_mix cb junk space status (MultirotorMixer m) = multirotor_mix cb junk m"

fun group_mix ::
    "control_cb \<Rightarrow> (nat \<Rightarrow> nat \<Rightarrow> f32) \<Rightarrow> nat \<Rightarrow> u16 \<Rightarrow> mixer list \<Rightarrow> f32 list \<times> u16" where
  "group_mix cb junk space status [] = ([], status)"
| "group_mix cb junk space status (m # ms) =
     (if space = 0 then ([], status)
      else (let (out, status) = mixer_mix cb (junk 0) space status m;
                (outs, status) = group_mix cb (\<lambda>k. junk (Suc k)) (space - length out) status ms
            in (out @ outs, status)))"

fun mixer_groups :: "u32 \<Rightarrow> mixer \<Rightarrow> u32" where
  "mixer_groups groups NullMixer = groups"
| "mixer_groups groups (SimpleMixer info) =
     fold (\<lambda>c groups. groups OR push_bit (unat (control_group c)) 1) (simple_controls info) groups"
| "mixer_groups groups (MultirotorMixer m) = groups OR 1"

definition groups_required :: "mixer list \<Rightarrow> u32 \<Rightarrow> u32" where
  "groups_required ms groups = fold (\<lambda>m groups. mixer_groups groups m) ms groups"

section \<open>Bounds of the outputs\<close>

lemma constrain_between:
  assumes "f32_le lo hi"
  shows "f32_is_nan (constrain val lo hi) \<or> f32_le lo (constrain val lo hi) \<and> f32_le (constrain val lo hi) hi"
  using assms by (auto simp: constrain_def f32_le_def f32_lt_def f32_gt_def)

lemma f32_nan_is_nan [simp]: "f32_is_nan f32_nan"
  by (simp add: f32_nan_def f32_is_nan_def f32_magnitude_def)

lemma f32_nan_arith [simp]:
  "f32_is_nan a \<Longrightarrow> f32_is_nan (f32_add a b)" "f32_is_nan b \<Longrightarrow> f32_is_nan (f32_add a b)"
  "f32_is_nan a \<Longrightarrow> f32_is_nan (f32_mul a b)" "f32_is_nan b \<Longrightarrow> f32_is_nan (f32_mul a b)"
  by (simp_all add: f32_add_def f32_mul_def Let_def)

lemma constrain_nan [simp]: "f32_is_nan val \<Longrightarrow> constrain val lo hi = val"
  by (simp add: constrain_def f32_gt_def f32_lt_def)

lemma f32_nan_not_finite: "f32_is_nan w \<Longrightarrow> \<not> f32_is_finite w"
  by (simp add: f32_is_nan_def f32_is_finite_def)

lemma length_multirotor_mix [simp]: "length (fst (multirotor_mix cb junk m)) = length (mr_rotors m)"
  by (simp add: multirotor_mix_def Let_def split: prod.splits)

lemma f32_sub_nan [simp]: "f32_is_nan a \<Longrightarrow> f32_is_nan (f32_sub a b)"
  by (simp add: f32_sub_def)

lemma yaw_pass_thrust_nan:
  "f32_is_nan thrust \<Longrightarrow> f32_is_nan (fst (snd (yaw_pass roll pitch rps boost rs (yaw, thrust, l))))"
  by (induction rs arbitrary: yaw thrust l) (simp_all add: Let_def)

text \<open>
  A throttle that is not a number makes every output of a multirotor not a number.
\<close>

lemma rotor_out_nan: "f32_is_nan thrust \<Longrightarrow> f32_is_nan (rotor_out roll pitch rps yaw thrust boost r)"
  by (simp add: rotor_out_def)

lemma multirotor_nan:
  assumes "f32_is_nan (snd (cb 0 3 (junk 3)))" "x \<in> set (fst (multirotor_mix cb junk m))"
  shows "f32_is_nan x"
proof -
  have nan: "f32_is_nan (get_control cb (junk 3) 0 3)"
    using assms(1) by (simp add: get_control_def)
  show ?thesis
    using assms(2)
    by (auto simp add: multirotor_mix_def Let_def split_beta nan yaw_pass_thrust_nan rotor_out_nan)
qed

text \<open>
  The lower extreme of the first pass starts at zero and only falls, so the branches that would lower the thrust
  for a positive minimum are never taken.
\<close>

lemma first_pass_min:
  "\<not> f32_lt 0 lo \<Longrightarrow> \<not> f32_lt 0 (fst (first_pass roll pitch thrust rs (lo, hi)))"
proof (induction rs arbitrary: lo hi)
  case (Cons r rs)
  then show ?case
    using f32_lt_trans by (simp add: Let_def) blast
qed simp

end
