(* ===== verification/MixerText.thy ===== *)
theory MixerText
  imports Mixer
begin

text \<open>
  The text form of mixers: the \<open>from_text\<close> factories and \<open>MixerGroup::load_from_buf\<close>.  A buffer
  is the list \<open>mem\<close> of the characters in memory from its start on, holding the text and the NUL
  after it; a position in it is the number \<open>buflen\<close> of characters left before the \<open>end\<close>, as in the
  code.  \<open>sscanf\<close> reads on to the NUL whatever \<open>buflen\<close> says.  A decimal number that does not fit
  32 bits wraps.  \<^term>\<open>None\<close> is a write past the name buffer of eight characters.
\<close>

section \<open>sscanf\<close>

abbreviation NUL :: char where "NUL \<equiv> CHR 0x00"
abbreviation LF :: char where "LF \<equiv> CHR 0x0A"
abbreviation CR :: char where "CR \<equiv> CHR 0x0D"

definition is_space :: "char \<Rightarrow> bool" where
  "is_space c \<longleftrightarrow> c = CHR '' '' \<or> (9 \<le> (of_char c :: nat) \<and> (of_char c :: nat) \<le> 13)"

definition is_digit :: "char \<Rightarrow> bool" where
  "is_digit c \<longleftrightarrow> 48 \<le> (of_char c :: nat) \<and> (of_char c :: nat) \<le> 57"

definition digit_value :: "char \<Rightarrow> int" where
  "digit_value c = int (of_char c) - 48"

definition skip_space :: "string \<Rightarrow> string" where
  "skip_space s = dropWhile is_space s"

definition decimal :: "string \<Rightarrow> int" where
  "decimal ds = foldl (\<lambda>n c. 10 * n + digit_value c) 0 ds"

text \<open>\<open>%d\<close> and \<open>%u\<close>: optional white space, an optional sign and at least one digit.\<close>

definition scan_number :: "string \<Rightarrow> (int \<times> string) option" where
  "scan_number s =
     (let s = skip_space s;
          neg = (s \<noteq> [] \<and> hd s = CHR ''-'');
          s = (if s \<noteq> [] \<and> (hd s = CHR ''-'' \<or> hd s = CHR ''+'') then tl s else s);
          ds = takeWhile is_digit s
      in if ds = [] then None
         else Some (if neg then - decimal ds else decimal ds, dropWhile is_digit s))"

fun scan_numbers :: "nat \<Rightarrow> string \<Rightarrow> (int list \<times> string) option" where
  "scan_numbers 0 s = Some ([], s)"
| "scan_numbers (Suc n) s =
     (case scan_number s of None \<Rightarrow> None
      | Some (v, s) \<Rightarrow> (case scan_numbers n s of None \<Rightarrow> None | Some (vs, s) \<Rightarrow> Some (v # vs, s)))"

definition scan_tag :: "char \<Rightarrow> string \<Rightarrow> string option" where
  "scan_tag c s = (if take 2 s = [c, CHR '':''] then Some (skip_space (drop 2 s)) else None)"

definition scan_word :: "string \<Rightarrow> (string \<times> string) option" where
  "scan_word s =
     (let s = skip_space s; w = takeWhile (\<lambda>c. \<not> is_space c) s
      in if w = [] then None else Some (w, dropWhile (\<lambda>c. \<not> is_space c) s))"

definition c_string :: "string \<Rightarrow> string" where
  "c_string mem = takeWhile (\<lambda>c. c \<noteq> NUL) mem"

section \<open>Helpers\<close>

definition rest_of :: "string \<Rightarrow> nat \<Rightarrow> nat \<Rightarrow> string" where
  "rest_of mem len buflen = drop (len - buflen) mem"

text \<open>\<open>findtag\<close>: the position of a letter followed by a colon.\<close>

fun findtag :: "string \<Rightarrow> nat \<Rightarrow> nat \<Rightarrow> char \<Rightarrow> nat option" where
  "findtag mem len 0 t = None"
| "findtag mem len (Suc n) t =
     (if n = 0 then None
      else if take 2 (rest_of mem len (Suc n)) = [t, CHR '':''] then Some (Suc n)
      else findtag mem len n t)"

definition skipline :: "string \<Rightarrow> nat \<Rightarrow> nat \<Rightarrow> nat option" where
  "skipline mem len buflen =
     (let s = take buflen (rest_of mem len buflen)
      in case first_index (\<lambda>c. c = CR) s of Some i \<Rightarrow> Some (buflen - (i + 1))
         | None \<Rightarrow> (case first_index (\<lambda>c. c = LF) s of Some i \<Rightarrow> Some (buflen - (i + 1)) | None \<Rightarrow> None))"

definition ends_with_space :: "string \<Rightarrow> nat \<Rightarrow> nat \<Rightarrow> bool" where
  "ends_with_space mem len buflen =
     (case dropWhile (\<lambda>c. c = NUL) (rev (take buflen (rest_of mem len buflen))) of
        [] \<Rightarrow> True
      | c # cs \<Rightarrow> c = CHR '' '' \<or> c = LF \<or> c = CR)"

definition scaled10000 :: "int \<Rightarrow> f32" where
  "scaled10000 i = f32_div (f32_of_int (sint (of_int i :: 32 word))) 0x461C4000"

definition scaler_of :: "int list \<Rightarrow> mixer_scaler" where
  "scaler_of s =
     \<lparr>negative_scale = scaled10000 (s ! 0), positive_scale = scaled10000 (s ! 1),
      scaler_offset = scaled10000 (s ! 2), min_output = scaled10000 (s ! 3),
      max_output = scaled10000 (s ! 4)\<rparr>"

section \<open>Factories\<close>

definition null_from_text :: "string \<Rightarrow> nat \<Rightarrow> nat \<Rightarrow> (mixer \<times> nat) option" where
  "null_from_text mem len buflen =
     (if \<not> ends_with_space mem len buflen then None
      else if buflen \<ge> 2 \<and> take 2 (rest_of mem len buflen) = ''Z:'' then Some (NullMixer, buflen - 2)
      else None)"

definition parse_output_scaler :: "string \<Rightarrow> nat \<Rightarrow> nat \<Rightarrow> (mixer_scaler \<times> nat) option" where
  "parse_output_scaler mem len buflen =
     (case findtag mem len buflen (CHR ''O'') of None \<Rightarrow> None
      | Some buflen \<Rightarrow>
          if buflen < 12 then None
          else (case Option.bind (scan_tag (CHR ''O'') (c_string (rest_of mem len buflen))) (scan_numbers 5) of
                  None \<Rightarrow> None
                | Some (s, _) \<Rightarrow>
                    (case skipline mem len buflen of None \<Rightarrow> None
                     | Some buflen \<Rightarrow> Some (scaler_of s, buflen))))"

definition parse_control_scaler :: "string \<Rightarrow> nat \<Rightarrow> nat \<Rightarrow> (mixer_control \<times> nat) option" where
  "parse_control_scaler mem len buflen =
     (case findtag mem len buflen (CHR ''S'') of None \<Rightarrow> None
      | Some buflen \<Rightarrow>
          if buflen < 16 then None
          else (case Option.bind (scan_tag (CHR ''S'') (c_string (rest_of mem len buflen))) (scan_numbers 7) of
                  None \<Rightarrow> None
                | Some (s, _) \<Rightarrow>
                    (case skipline mem len buflen of None \<Rightarrow> None
                     | Some buflen \<Rightarrow>
                         Some (\<lparr>control_group = of_int (s ! 0), control_index = of_int (s ! 1),
                                control_scaler = scaler_of (drop 2 s)\<rparr>, buflen))))"

text \<open>
  \<open>SimpleMixer::from_text\<close> allocates room for the announced number of inputs, a product that wraps at
  32 bits, and keeps the count in a byte; \<open>alloc\<close> says which allocations succeed.  \<open>parse_controls\<close> is
  \<^term>\<open>None\<close> where it would write a control past the allocation.
\<close>

definition mixer_simple_size :: "u32 \<Rightarrow> u32" where
  "mixer_simple_size icount = 24 + icount * 24"

fun parse_controls ::
    "string \<Rightarrow> nat \<Rightarrow> nat \<Rightarrow> nat \<Rightarrow> nat \<Rightarrow> nat \<Rightarrow> (mixer_control list \<times> nat) option option" where
  "parse_controls mem len room i buflen 0 = Some (Some ([], buflen))"
| "parse_controls mem len room i buflen (Suc n) =
     (case parse_control_scaler mem len buflen of None \<Rightarrow> Some None
      | Some (c, buflen) \<Rightarrow>
          if room < 24 + (i + 1) * 24 then None
          else map_option (map_option (\<lambda>(cs, buflen). (c # cs, buflen)))
                 (parse_controls mem len room (Suc i) buflen n))"

definition simple_from_text ::
    "(nat \<Rightarrow> bool) \<Rightarrow> string \<Rightarrow> nat \<Rightarrow> nat \<Rightarrow> (mixer \<times> nat) option option" where
  "simple_from_text alloc mem len buflen =
     (case Option.bind (scan_tag (CHR ''M'') (c_string (rest_of mem len buflen))) scan_number of
        None \<Rightarrow> Some None
      | Some (v, _) \<Rightarrow>
          (let inputs = of_int v :: u32; room = unat (mixer_simple_size inputs)
           in case skipline mem len buflen of None \<Rightarrow> Some None
              | Some buflen \<Rightarrow>
                  if \<not> alloc room then Some None
                  else if room < 24 then None
                  else (case parse_output_scaler mem len buflen of None \<Rightarrow> Some None
                        | Some (scaler, buflen) \<Rightarrow>
                            map_option (map_option (\<lambda>(cs, buflen).
                                (SimpleMixer \<lparr>output_scaler = scaler,
                                   simple_controls = take (unat inputs mod 256) cs\<rparr>, buflen)))
                              (parse_controls mem len room 0 buflen (unat inputs)))))"

definition geometry_names :: "string list" where
  "geometry_names =
     [''4+'', ''4x'', ''4h'', ''4v'', ''4w'', ''4dc'', ''6+'', ''6x'', ''6c'', ''8+'', ''8x'', ''8c'', ''2-'', ''3y'']"

definition multirotor_from_text ::
    "(string \<Rightarrow> rotor list) \<Rightarrow> string \<Rightarrow> nat \<Rightarrow> nat \<Rightarrow> (mixer \<times> nat) option option" where
  "multirotor_from_text tables mem len buflen =
     (let text = c_string (rest_of mem len buflen)
      in if \<not> ends_with_space mem len buflen then Some None
         else case Option.bind (scan_tag (CHR ''R'') text) scan_word of
             None \<Rightarrow> Some None
           | Some (geomname, rest) \<Rightarrow>
               if length geomname > 7 then None
               else (case scan_numbers 4 rest of None \<Rightarrow> Some None
                     | Some (s, rest) \<Rightarrow>
                         if length text - length rest > buflen then Some None
                         else (case skipline mem len buflen of None \<Rightarrow> Some None
                               | Some buflen \<Rightarrow>
                                   if geomname \<notin> set geometry_names then Some None
                                   else Some (Some (MultirotorMixer
                                     (multirotor_init (scaled10000 (s ! 0)) (scaled10000 (s ! 1))
                                        (scaled10000 (s ! 2)) (scaled10000 (s ! 3)) (tables geomname)),
                                     buflen)))))"

section \<open>Loading a group\<close>

lemma findtag_le: "findtag mem len buflen t = Some n \<Longrightarrow> n \<le> buflen"
  by (induction mem len buflen t rule: findtag.induct) (auto split: if_splits intro: le_SucI)

lemma skipline_less: "skipline mem len buflen = Some n \<Longrightarrow> n < buflen"
  by (auto simp: skipline_def Let_def dest!: first_index_bound split: option.splits)

lemma parse_output_scaler_less: "parse_output_scaler mem len buflen = Some (s, n) \<Longrightarrow> n < buflen"
  by (auto simp: parse_output_scaler_def split: option.splits if_splits
      dest!: findtag_le skipline_less)

lemma parse_control_scaler_less: "parse_control_scaler mem len buflen = Some (c, n) \<Longrightarrow> n < buflen"
  by (auto simp: parse_control_scaler_def split: option.splits if_splits
      dest!: findtag_le skipline_less)

lemma parse_controls_le:
  "parse_controls mem len room i buflen n = Some (Some (cs, k)) \<Longrightarrow> k \<le> buflen"
proof (induction n arbitrary: i buflen cs)
  case (Suc n)
  then show ?case
    by (fastforce split: option.splits if_splits dest: parse_control_scaler_less)
qed simp

lemma simple_from_text_less: "simple_from_text alloc mem len buflen = Some (Some (m, n)) \<Longrightarrow> n < buflen"
  by (auto simp: simple_from_text_def Let_def split: option.splits if_splits
      dest!: skipline_less parse_output_scaler_less parse_controls_le)

lemma multirotor_from_text_less:
  "multirotor_from_text tables mem len buflen = Some (Some (m, n)) \<Longrightarrow> n < buflen"
  by (auto simp: multirotor_from_text_def Let_def split: option.splits if_splits dest!: skipline_less)

definition mixer_from_text ::
    "(nat \<Rightarrow> bool) \<Rightarrow> (string \<Rightarrow> rotor list) \<Rightarrow> string \<Rightarrow> nat \<Rightarrow> nat \<Rightarrow> (mixer \<times> nat) option option option" where
  "mixer_from_text alloc tables mem len buflen =
     (case rest_of mem len buflen of
        [] \<Rightarrow> None
      | c # _ \<Rightarrow>
          if c = CHR ''Z'' then Some (Some (null_from_text mem len buflen))
          else if c = CHR ''M'' then Some (simple_from_text alloc mem len buflen)
          else if c = CHR ''R'' then Some (multirotor_from_text tables mem len buflen)
          else None)"

lemma mixer_from_text_less:
  "mixer_from_text alloc tables mem len buflen = Some (Some (Some (m, n))) \<Longrightarrow> n < buflen"
  by (auto simp: mixer_from_text_def null_from_text_def split: list.splits if_splits
      dest: simple_from_text_less multirotor_from_text_less)

function load_from_buf ::
    "(nat \<Rightarrow> bool) \<Rightarrow> (string \<Rightarrow> rotor list) \<Rightarrow> string \<Rightarrow> nat \<Rightarrow> nat \<Rightarrow> mixer list \<Rightarrow> (nat \<times> mixer list) option" where
  "load_from_buf alloc tables mem len buflen ms =
     (if buflen = 0 then Some (0, ms)
      else case mixer_from_text alloc tables mem len buflen of
          None \<Rightarrow> load_from_buf alloc tables mem len (buflen - 1) ms
        | Some None \<Rightarrow> None
        | Some (Some None) \<Rightarrow> Some (buflen, ms)
        | Some (Some (Some (m, resid))) \<Rightarrow> load_from_buf alloc tables mem len resid (ms @ [m]))"
  by pat_completeness auto
termination
  by (relation "measure (\<lambda>(alloc, tables, mem, len, buflen, ms). buflen)")
     (auto dest: mixer_from_text_less)

declare load_from_buf.simps [simp del]

lemma load_from_buf_le: "load_from_buf alloc tables mem len buflen ms = Some (n, ms') \<Longrightarrow> n \<le> buflen"
proof (induction alloc tables mem len buflen ms rule: load_from_buf.induct)
  case (1 alloc tables mem len buflen ms)
  then show ?case
    by (subst (asm) load_from_buf.simps)
       (fastforce split: if_splits option.splits prod.splits dest: mixer_from_text_less)
qed

text \<open>
  The loop of \<open>load_from_buf\<close> written with a count of turns: \<^term>\<open>None\<close> says that the turns did not suffice.
\<close>

fun load_loop ::
    "nat \<Rightarrow> (nat \<Rightarrow> bool) \<Rightarrow> (string \<Rightarrow> rotor list) \<Rightarrow> string \<Rightarrow> nat \<Rightarrow> nat \<Rightarrow> mixer list \<Rightarrow>
     (nat \<times> mixer list) option option" where
  "load_loop 0 alloc tables mem len buflen ms = (if buflen = 0 then Some (Some (0, ms)) else None)"
| "load_loop (Suc turns) alloc tables mem len buflen ms =
     (if buflen = 0 then Some (Some (0, ms))
      else case mixer_from_text alloc tables mem len buflen of
          None \<Rightarrow> load_loop turns alloc tables mem len (buflen - 1) ms
        | Some None \<Rightarrow> Some None
        | Some (Some None) \<Rightarrow> Some (Some (buflen, ms))
        | Some (Some (Some (m, resid))) \<Rightarrow> load_loop turns alloc tables mem len resid (ms @ [m]))"

text \<open>
  C40: Loading mixers from a text of any content ends: every turn of the loop consumes text or leaves it, so as many
  turns as there are characters suffice.
\<close>

theorem mixer_load_terminates:
  "load_loop buflen alloc tables mem len buflen ms = Some (load_from_buf alloc tables mem len buflen ms)"
proof -
  have "load_loop turns alloc tables mem len buflen ms = Some (load_from_buf alloc tables mem len buflen ms)"
    if "buflen \<le> turns" for turns
    using that
  proof (induction turns arbitrary: buflen ms)
    case 0
    then show ?case
      by (simp add: load_from_buf.simps)
  next
    case (Suc turns)
    have "resid \<le> turns" if "mixer_from_text alloc tables mem len buflen = Some (Some (Some (m, resid)))" for m resid
      using mixer_from_text_less [OF that] Suc.prems by simp
    then show ?case
      using Suc by (subst load_from_buf.simps) (auto split: option.splits)
  qed
  then show ?thesis
    by simp
qed

end
