(* ===== verification/Px4io.thy ===== *)
theory Px4io
  imports PwmLimit MixerText
begin

text \<open>
  The co-processor that drives the servos (\<open>src/modules/px4iofirmware\<close>), second hardware
  revision: its register pages, the safety switch (\<open>safety.c\<close>) and the mixing loop
  (\<open>mixer.cpp\<close>).  A register page with named words is a field per word that the firmware writes;
  array pages are lists.  Bits of a flag word are addressed by number.  Each function runs
  without preemption; the calls that touch the hardware are appended to the log
  \<open>io_out\<close>.  \<^term>\<open>None\<close> is an access outside an array.
\<close>

section \<open>Constants\<close>

abbreviation (input) "FLAGS_OUTPUTS_ARMED \<equiv> 0 :: nat"
abbreviation (input) "FLAGS_OVERRIDE \<equiv> 1 :: nat"
abbreviation (input) "FLAGS_RC_OK \<equiv> 2 :: nat"
abbreviation (input) "FLAGS_RC_PPM \<equiv> 3 :: nat"
abbreviation (input) "FLAGS_RC_DSM \<equiv> 4 :: nat"
abbreviation (input) "FLAGS_RC_SBUS \<equiv> 5 :: nat"
abbreviation (input) "FLAGS_FMU_OK \<equiv> 6 :: nat"
abbreviation (input) "FLAGS_RAW_PWM \<equiv> 7 :: nat"
abbreviation (input) "FLAGS_MIXER_OK \<equiv> 8 :: nat"
abbreviation (input) "FLAGS_ARM_SYNC \<equiv> 9 :: nat"
abbreviation (input) "FLAGS_INIT_OK \<equiv> 10 :: nat"
abbreviation (input) "FLAGS_FAILSAFE \<equiv> 11 :: nat"
abbreviation (input) "FLAGS_SAFETY_OFF \<equiv> 12 :: nat"
abbreviation (input) "FLAGS_FMU_INITIALIZED \<equiv> 13 :: nat"
abbreviation (input) "FLAGS_RC_ST24 \<equiv> 14 :: nat"
abbreviation (input) "FLAGS_RC_SUMD \<equiv> 15 :: nat"

abbreviation (input) "ALARMS_FMU_LOST \<equiv> 4 :: nat"
abbreviation (input) "ALARMS_RC_LOST \<equiv> 5 :: nat"
abbreviation (input) "ALARMS_PWM_ERROR \<equiv> 6 :: nat"

abbreviation (input) "RAW_FRAME_DROP \<equiv> 0 :: nat"
abbreviation (input) "RAW_FAILSAFE \<equiv> 1 :: nat"
abbreviation (input) "RAW_RC_DSM11 \<equiv> 2 :: nat"
abbreviation (input) "RAW_MAPPING_OK \<equiv> 3 :: nat"
abbreviation (input) "RAW_RC_OK \<equiv> 4 :: nat"

abbreviation (input) "FEATURES_SBUS1_OUT \<equiv> 0 :: nat"
abbreviation (input) "FEATURES_SBUS2_OUT \<equiv> 1 :: nat"
abbreviation (input) "FEATURES_PWM_RSSI \<equiv> 2 :: nat"
abbreviation (input) "FEATURES_ADC_RSSI \<equiv> 3 :: nat"

abbreviation (input) "ARMING_IO_ARM_OK \<equiv> 0 :: nat"
abbreviation (input) "ARMING_FMU_ARMED \<equiv> 1 :: nat"
abbreviation (input) "ARMING_MANUAL_OVERRIDE_OK \<equiv> 2 :: nat"
abbreviation (input) "ARMING_FAILSAFE_CUSTOM \<equiv> 3 :: nat"
abbreviation (input) "ARMING_INAIR_RESTART_OK \<equiv> 4 :: nat"
abbreviation (input) "ARMING_ALWAYS_PWM_ENABLE \<equiv> 5 :: nat"
abbreviation (input) "ARMING_RC_HANDLING_DISABLED \<equiv> 6 :: nat"
abbreviation (input) "ARMING_LOCKDOWN \<equiv> 7 :: nat"
abbreviation (input) "ARMING_FORCE_FAILSAFE \<equiv> 8 :: nat"
abbreviation (input) "ARMING_TERMINATION_FAILSAFE \<equiv> 9 :: nat"
abbreviation (input) "ARMING_OVERRIDE_IMMEDIATE \<equiv> 10 :: nat"

abbreviation (input) "PX4IO_SERVO_COUNT \<equiv> 8 :: nat"
abbreviation (input) "PX4IO_CONTROL_CHANNELS \<equiv> 8 :: nat"
abbreviation (input) "PX4IO_CONTROL_GROUPS \<equiv> 4 :: nat"
abbreviation (input) "PX4IO_RC_INPUT_CHANNELS \<equiv> 18 :: nat"
abbreviation (input) "PX4IO_RC_MAPPED_CONTROL_CHANNELS \<equiv> 8 :: nat"

definition FMU_INPUT_DROP_LIMIT_US :: u64 where "FMU_INPUT_DROP_LIMIT_US = 500000"

section \<open>State\<close>

record rc_channel_config =
  rcc_min :: u16
  rcc_center :: u16
  rcc_max :: u16
  rcc_deadzone :: u16
  rcc_assignment :: u16
  rcc_options :: u16

datatype mixer_source = MIX_NONE | MIX_FMU | MIX_OVERRIDE | MIX_FAILSAFE | MIX_OVERRIDE_FMU_OK

datatype io_effect =
    Servo_arm bool
  | Servo_set nat u16
  | Sbus1_output "u16 list"
  | Sbus2_output "u16 list"
  | Sbus_enable bool
  | Led_safety bool
  | Led_amber bool
  | Dsm_bind u16 u16
  | Rate_update nat u16

record px4io =
  io_freemem :: u16
  io_flags :: u16
  io_alarms :: u16
  io_vservo :: u16
  io_vrssi :: u16
  io_mixer_limits :: u16
  io_actuators :: "u16 list"
  io_servos :: "u16 list"
  io_raw_count :: u16
  io_raw_flags :: u16
  io_raw_nrssi :: u16
  io_raw_data :: u16
  io_raw_values :: "u16 list"
  io_rc_valid :: u16
  io_rc_values :: "u16 list"
  io_features :: u16
  io_arming :: u16
  io_pwm_rates :: u16
  io_defaultrate :: u16
  io_altrate :: u16
  io_vscale :: u16
  io_debug :: u16
  io_crc :: "u16 list"
  io_thr_failsafe :: u16
  io_reverse :: u16
  io_trim_roll :: u16
  io_trim_pitch :: u16
  io_trim_yaw :: u16
  io_controls :: "u16 list"
  io_rc_config :: "rc_channel_config list"
  io_failsafe :: "u16 list"
  io_control_min :: "u16 list"
  io_control_max :: "u16 list"
  io_disarmed :: "u16 list"
  io_rc_received :: u64
  io_rc_valid_time :: u64
  io_fmu_time :: u64
  io_pwm_limit :: pwm_limit_t
  io_source :: mixer_source
  io_should_arm :: bool
  io_should_arm_nothrottle :: bool
  io_always_pwm :: bool
  io_in_mixer :: bool
  io_servos_armed :: bool
  io_mixers :: "mixer list"
  io_text :: string
  io_text_length :: nat
  io_button_counter :: u32
  io_blink_counter :: u32
  io_failsafe_led :: bool
  io_override_value :: u16
  io_rssi_counts :: u32
  io_reboot_time :: u64
  io_out :: "io_effect list"

text \<open>
  What the firmware's environment contributes: the conversion of a float that does not fit, the
  uninitialised variables of the mixers, the allocator, the generated rotor tables, the rate
  groups of the timer driver and whether it accepts a rate.
\<close>

record io_env =
  env_u16 :: "f32 \<Rightarrow> u16"
  env_i16 :: "f32 \<Rightarrow> u16"
  env_junk :: "nat \<Rightarrow> nat \<Rightarrow> f32"
  env_alloc :: "nat \<Rightarrow> bool"
  env_tables :: "string \<Rightarrow> rotor list"
  env_rate_group :: "nat \<Rightarrow> u32"
  env_rate_ok :: "nat \<Rightarrow> u16 \<Rightarrow> bool"

definition upd_flags :: "(u16 \<Rightarrow> u16) \<Rightarrow> px4io \<Rightarrow> px4io" where
  "upd_flags f s = s\<lparr>io_flags := f (io_flags s)\<rparr>"

definition emit :: "io_effect list \<Rightarrow> px4io \<Rightarrow> px4io" where
  "emit es s = s\<lparr>io_out := io_out s @ es\<rparr>"

definition put_flag :: "nat \<Rightarrow> bool \<Rightarrow> 'a::len word \<Rightarrow> 'a word" where
  "put_flag n b w = (if b then set_bit n w else unset_bit n w)"

lemma bit_put_flag [simp]:
  "bit (put_flag n b w :: 'a::len word) k \<longleftrightarrow> (if k = n then b \<and> n < LENGTH('a) else bit w k)"
  by (auto simp: put_flag_def bit_set_bit_iff bit_unset_bit_iff dest: bit_imp_le_length)

section \<open>Register values\<close>

definition REG_TO_FLOAT :: "u16 \<Rightarrow> f32" where
  "REG_TO_FLOAT reg = f32_div (f32_of_int (sint reg)) 0x461C4000"

definition FLOAT_TO_REG :: "io_env \<Rightarrow> f32 \<Rightarrow> u16" where
  "FLOAT_TO_REG env x = cvt_i16 (env_i16 env) (f32_mul x 0x461C4000)"

definition CONTROL_PAGE_INDEX :: "u8 \<Rightarrow> u8 \<Rightarrow> nat" where
  "CONTROL_PAGE_INDEX grp idx = unat grp * PX4IO_CONTROL_CHANNELS + unat idx"

section \<open>Safety switch\<close>

definition ARM_COUNTER_THRESHOLD :: u32 where "ARM_COUNTER_THRESHOLD = 10"

definition safety_debounce :: "bool \<Rightarrow> px4io \<Rightarrow> px4io" where
  "safety_debounce pressed s =
     (if pressed \<and> \<not> bit (io_flags s) FLAGS_SAFETY_OFF \<and> bit (io_arming s) ARMING_IO_ARM_OK
      then (if io_button_counter s < ARM_COUNTER_THRESHOLD
            then s\<lparr>io_button_counter := io_button_counter s + 1\<rparr>
            else if io_button_counter s = ARM_COUNTER_THRESHOLD
            then s\<lparr>io_flags := set_bit FLAGS_SAFETY_OFF (io_flags s),
                   io_button_counter := io_button_counter s + 1\<rparr>
            else s)
      else if pressed \<and> bit (io_flags s) FLAGS_SAFETY_OFF
      then (if io_button_counter s < ARM_COUNTER_THRESHOLD
            then s\<lparr>io_button_counter := io_button_counter s + 1\<rparr>
            else if io_button_counter s = ARM_COUNTER_THRESHOLD
            then s\<lparr>io_flags := unset_bit FLAGS_SAFETY_OFF (io_flags s),
                   io_button_counter := io_button_counter s + 1\<rparr>
            else s)
      else s\<lparr>io_button_counter := 0\<rparr>)"

definition led_pattern :: "px4io \<Rightarrow> u16" where
  "led_pattern s =
     (if bit (io_flags s) FLAGS_SAFETY_OFF
      then (if bit (io_arming s) ARMING_FMU_ARMED then 0xffff else 0x5050)
      else if bit (io_arming s) ARMING_FMU_ARMED then 0x5500
      else if bit (io_arming s) ARMING_IO_ARM_OK then 0x0003
      else 0x5555)"

definition safety_check_button :: "bool \<Rightarrow> px4io \<Rightarrow> px4io" where
  "safety_check_button pressed s =
     (let s = safety_debounce pressed s;
          s = emit [Led_safety (bit (led_pattern s) (unat (io_blink_counter s)))] s;
          s = s\<lparr>io_blink_counter := io_blink_counter s + 1\<rparr>
      in if io_blink_counter s > 15 then s\<lparr>io_blink_counter := 0\<rparr> else s)"

definition failsafe_blink :: "px4io \<Rightarrow> px4io" where
  "failsafe_blink s =
     (if \<not> bit (io_flags s) FLAGS_INIT_OK then emit [Led_amber True] s
      else (let s = s\<lparr>io_failsafe_led := \<not> bit (io_flags s) FLAGS_FMU_OK \<and> \<not> io_failsafe_led s\<rparr>
            in emit [Led_amber (io_failsafe_led s)] s))"

section \<open>Control callback\<close>

text \<open>
  \<open>mixer_callback\<close>: the control value by source, \<^term>\<open>None\<close> where the function returns early and
  leaves the caller's variable alone.
\<close>

definition callback_fetch :: "px4io \<Rightarrow> u8 \<Rightarrow> u8 \<Rightarrow> f32 option" where
  "callback_fetch s grp idx =
     (let from_fmu = (if unat idx < PX4IO_CONTROL_CHANNELS \<and> unat grp < PX4IO_CONTROL_GROUPS
                      then Some (REG_TO_FLOAT (io_controls s ! CONTROL_PAGE_INDEX grp idx)) else None);
          rc_valid = bit (io_rc_valid s) (CONTROL_PAGE_INDEX grp idx);
          from_rc = Some (REG_TO_FLOAT (io_rc_values s ! unat idx))
      in case io_source s of
           MIX_FMU \<Rightarrow> from_fmu
         | MIX_OVERRIDE \<Rightarrow> if rc_valid then from_rc else None
         | MIX_OVERRIDE_FMU_OK \<Rightarrow> if rc_valid then from_rc else from_fmu
         | MIX_FAILSAFE \<Rightarrow> None
         | MIX_NONE \<Rightarrow> None)"

definition callback_trim :: "px4io \<Rightarrow> u8 \<Rightarrow> u8 \<Rightarrow> f32 \<Rightarrow> f32" where
  "callback_trim s grp idx control =
     (if io_source s = MIX_OVERRIDE \<or> io_source s = MIX_OVERRIDE_FMU_OK
      then (if grp = 0 \<and> idx = 0 then f32_add control (REG_TO_FLOAT (io_trim_roll s))
            else if grp = 0 \<and> idx = 1 then f32_add control (REG_TO_FLOAT (io_trim_pitch s))
            else if grp = 0 \<and> idx = 2 then f32_add control (REG_TO_FLOAT (io_trim_yaw s))
            else control)
      else control)"

definition callback_limit :: "px4io \<Rightarrow> u8 \<Rightarrow> u8 \<Rightarrow> f32 \<Rightarrow> f32" where
  "callback_limit s grp idx control =
     (let throttle = (grp = 0 \<and> idx = 3);
          preflight = (io_should_arm_nothrottle s \<and> \<not> io_should_arm s);
          control = (if f32_gt control f32_one then f32_one
                     else if f32_lt control f32_minus_one then f32_minus_one else control);
          control = (if (pl_state (io_pwm_limit s) = PWM_LIMIT_STATE_RAMP \<or> preflight) \<and> throttle
                     then 0 else control)
      in if preflight \<and> throttle then f32_nan else control)"

definition mixer_callback :: "px4io \<Rightarrow> control_cb" where
  "mixer_callback s grp idx control =
     (if unat grp \<ge> PX4IO_CONTROL_GROUPS then (-1, control)
      else case callback_fetch s grp idx of
          None \<Rightarrow> (-1, if io_source s = MIX_FAILSAFE \<or> io_source s = MIX_NONE then 0 else control)
        | Some control \<Rightarrow> (0, callback_limit s grp idx (callback_trim s grp idx control)))"

end
