(* ===== verification/Px4ioMixer.thy ===== *)
theory Px4ioMixer
  imports Px4io
begin

text \<open>
  The mixing loop of the co-processor: \<open>mixer_tick\<close>, \<open>mixer_handle_text\<close> and
  \<open>mixer_set_failsafe\<close> of \<open>px4iofirmware/mixer.cpp\<close>.  The clock readings of one
  \<open>mixer_tick\<close> are those of \<open>pwm_limit_calc\<close> and reading 3, which dates the FMU's data.
\<close>

section \<open>Deciding\<close>

definition mixer_check_fmu :: "clock \<Rightarrow> px4io \<Rightarrow> px4io" where
  "mixer_check_fmu clk s =
     (if io_fmu_time s = 0 \<or> clk 3 - io_fmu_time s > FMU_INPUT_DROP_LIMIT_US
      then s\<lparr>io_flags := unset_bit FLAGS_FMU_OK (io_flags s),
             io_alarms := set_bit ALARMS_FMU_LOST (io_alarms s)\<rparr>
      else s\<lparr>io_flags := set_bit FLAGS_FMU_INITIALIZED (set_bit FLAGS_FMU_OK (io_flags s))\<rparr>)"

definition select_source :: "px4io \<Rightarrow> mixer_source" where
  "select_source s =
     (let f = bit (io_flags s); a = bit (io_arming s)
      in if f FLAGS_RAW_PWM \<and> f FLAGS_FMU_OK then MIX_NONE
         else if f FLAGS_OVERRIDE \<and> f FLAGS_RC_OK \<and> f FLAGS_MIXER_OK \<and> \<not> a ARMING_RC_HANDLING_DISABLED \<and>
                 \<not> f FLAGS_FMU_OK \<and> \<not> a ARMING_TERMINATION_FAILSAFE then MIX_OVERRIDE
         else if f FLAGS_OVERRIDE \<and> f FLAGS_RC_OK \<and> f FLAGS_MIXER_OK \<and> \<not> a ARMING_RC_HANDLING_DISABLED \<and>
                 f FLAGS_FMU_OK then MIX_OVERRIDE_FMU_OK
         else if \<not> f FLAGS_OVERRIDE \<and> f FLAGS_FMU_OK \<and> f FLAGS_MIXER_OK then MIX_FMU
         else MIX_FAILSAFE)"

definition arm_wanted :: "px4io \<Rightarrow> bool" where
  "arm_wanted s =
     (let f = bit (io_flags s); a = bit (io_arming s)
      in f FLAGS_INIT_OK \<and> f FLAGS_SAFETY_OFF \<and>
         (a ARMING_FMU_ARMED \<and> f FLAGS_MIXER_OK \<or> f FLAGS_RAW_PWM \<or>
          a ARMING_FAILSAFE_CUSTOM \<and> \<not> f FLAGS_FMU_OK))"

definition arm_nothrottle_wanted :: "px4io \<Rightarrow> bool" where
  "arm_nothrottle_wanted s =
     (bit (io_flags s) FLAGS_INIT_OK \<and> bit (io_flags s) FLAGS_SAFETY_OFF \<and>
      bit (io_flags s) FLAGS_MIXER_OK)"

definition always_pwm_wanted :: "px4io \<Rightarrow> bool" where
  "always_pwm_wanted s =
     (bit (io_arming s) ARMING_ALWAYS_PWM_ENABLE \<and> bit (io_flags s) FLAGS_INIT_OK \<and>
      bit (io_flags s) FLAGS_FMU_OK)"

definition mixer_decide :: "px4io \<Rightarrow> px4io" where
  "mixer_decide s =
     (let s = s\<lparr>io_source := select_source s\<rparr>;
          s = s\<lparr>io_should_arm := arm_wanted s\<rparr>;
          s = s\<lparr>io_should_arm_nothrottle := arm_nothrottle_wanted s\<rparr>;
          s = s\<lparr>io_always_pwm := always_pwm_wanted s\<rparr>;
          s = (if bit (io_arming s) ARMING_TERMINATION_FAILSAFE \<and> io_source s = MIX_FAILSAFE \<and>
                  io_should_arm s \<and> bit (io_flags s) FLAGS_FMU_INITIALIZED
               then s\<lparr>io_arming := set_bit ARMING_FORCE_FAILSAFE (io_arming s)\<rparr> else s);
          s = (if bit (io_arming s) ARMING_FORCE_FAILSAFE then s\<lparr>io_source := MIX_FAILSAFE\<rparr> else s)
      in upd_flags (put_flag FLAGS_FAILSAFE (io_source s = MIX_FAILSAFE)) s)"

section \<open>Mixing\<close>

definition mixer_failsafe_outputs :: "io_env \<Rightarrow> px4io \<Rightarrow> px4io" where
  "mixer_failsafe_outputs env s =
     s\<lparr>io_servos := io_failsafe s,
       io_actuators := map (\<lambda>v. FLOAT_TO_REG env (f32_div (f32_of_int (uint v - 1500)) 0x44160000))
                         (io_failsafe s)\<rparr>"

definition mixer_run :: "io_env \<Rightarrow> clock \<Rightarrow> px4io \<Rightarrow> px4io option" where
  "mixer_run env clk s =
     (if io_source s = MIX_FAILSAFE then Some (mixer_failsafe_outputs env s)
      else if io_source s \<noteq> MIX_NONE \<and> bit (io_flags s) FLAGS_MIXER_OK
      then (let (outputs, limits) = group_mix (mixer_callback s) (env_junk env) PX4IO_SERVO_COUNT
                                      (io_mixer_limits s) (io_mixers s);
                mixed = length outputs;
                (servos, limit) = pwm_limit_calc (env_u16 env) (io_should_arm s) (io_should_arm_nothrottle s)
                  mixed (io_reverse s) (io_disarmed s) (io_control_min s) (io_control_max s) outputs clk
                  (io_servos s) (io_pwm_limit s)
            in if mixed > PX4IO_SERVO_COUNT then None
               else Some (s\<lparr>io_servos := take mixed servos @ replicate (PX4IO_SERVO_COUNT - mixed) 0,
                            io_actuators := map (FLOAT_TO_REG env)
                                              (outputs @ replicate (PX4IO_SERVO_COUNT - mixed) 0),
                            io_mixer_limits := limits, io_pwm_limit := limit\<rparr>))
      else Some s)"

section \<open>Arming and output\<close>

definition needs_to_arm :: "px4io \<Rightarrow> bool" where
  "needs_to_arm s =
     ((io_should_arm s \<or> io_should_arm_nothrottle s \<or> io_always_pwm s) \<and>
      \<not> bit (io_arming s) ARMING_LOCKDOWN)"

definition mixer_set_arming :: "px4io \<Rightarrow> px4io" where
  "mixer_set_arming s =
     (if needs_to_arm s \<and> \<not> io_servos_armed s
      then upd_flags (set_bit FLAGS_OUTPUTS_ARMED) (emit [Servo_arm True] (s\<lparr>io_servos_armed := True\<rparr>))
      else if \<not> needs_to_arm s \<and> io_servos_armed s
      then upd_flags (unset_bit FLAGS_OUTPUTS_ARMED) (emit [Servo_arm False] (s\<lparr>io_servos_armed := False\<rparr>))
      else s)"

definition servo_sets :: "u16 list \<Rightarrow> io_effect list" where
  "servo_sets vs = map (\<lambda>(i, v). Servo_set i v) (enumerate 0 vs)"

definition mixer_output :: "px4io \<Rightarrow> px4io" where
  "mixer_output s =
     (if io_servos_armed s \<and> (io_should_arm s \<or> io_should_arm_nothrottle s)
      then emit (servo_sets (io_servos s) @
             (if bit (io_features s) FEATURES_SBUS2_OUT then [Sbus2_output (io_servos s)]
              else if bit (io_features s) FEATURES_SBUS1_OUT then [Sbus1_output (io_servos s)] else [])) s
      else if io_servos_armed s \<and> io_always_pwm s
      then emit (servo_sets (io_disarmed s) @
             (if bit (io_features s) FEATURES_SBUS1_OUT then [Sbus1_output (io_disarmed s)] else []) @
             (if bit (io_features s) FEATURES_SBUS2_OUT then [Sbus2_output (io_disarmed s)] else [])) s
      else s)"

definition mixer_tick :: "io_env \<Rightarrow> clock \<Rightarrow> px4io \<Rightarrow> px4io option" where
  "mixer_tick env clk s =
     map_option (\<lambda>s. mixer_output (mixer_set_arming s))
       (mixer_run env clk (mixer_decide (mixer_check_fmu clk s)))"

section \<open>Loading mixers and failsafe values\<close>

definition mixer_append :: "io_env \<Rightarrow> string \<Rightarrow> px4io \<Rightarrow> (int \<times> px4io) option" where
  "mixer_append env text s =
     (let n = io_text_length s
      in if n + length text + 1 > 256
         then Some (0, upd_flags (unset_bit FLAGS_MIXER_OK) s)
         else do {
           buf \<leftarrow> mem_write (io_text s) n text;
           buf \<leftarrow> mem_write buf (n + length text) [NUL];
           (let used = n + length text
            in do {
              (resid, mixers) \<leftarrow> load_from_buf (env_alloc env) (env_tables env) buf used used (io_mixers s);
              if resid = used
              then Some (0, s\<lparr>io_text := buf, io_text_length := used, io_mixers := mixers\<rparr>)
              else do {
                left \<leftarrow> mem_read buf (used - resid) resid;
                buf \<leftarrow> mem_write buf 0 left;
                Some (0, s\<lparr>io_text := buf, io_text_length := resid, io_mixers := mixers\<rparr>)
              }})})"

definition mixer_handle_text :: "io_env \<Rightarrow> u8 list \<Rightarrow> px4io \<Rightarrow> (int \<times> px4io) option" where
  "mixer_handle_text env buffer s =
     (if bit (io_flags s) FLAGS_SAFETY_OFF \<and> bit (io_arming s) ARMING_FMU_ARMED then Some (1, s)
      else (let s = upd_flags (unset_bit FLAGS_MIXER_OK) s
            in if io_in_mixer s then Some (1, s)
               else if length buffer < 3 then Some (0, s)
               else (let text = chars (drop 3 buffer); action = buffer ! 2
                     in if action = 0
                        then mixer_append env text (s\<lparr>io_mixers := [], io_text_length := 0\<rparr>)
                        else if action = 1 then mixer_append env text s
                        else Some (0, s))))"

definition mixer_set_failsafe :: "io_env \<Rightarrow> px4io \<Rightarrow> px4io option" where
  "mixer_set_failsafe env s =
     (if bit (io_arming s) ARMING_FAILSAFE_CUSTOM \<or> \<not> bit (io_flags s) FLAGS_MIXER_OK then Some s
      else (let (outputs, limits) = group_mix (mixer_callback s) (env_junk env) PX4IO_SERVO_COUNT
                                      (io_mixer_limits s) (io_mixers s)
            in if length outputs > PX4IO_SERVO_COUNT then None
               else Some (s\<lparr>io_failsafe :=
                              map (\<lambda>x. cvt_u16 (env_u16 env)
                                     (f32_add (f32_mul x 0x44160000) (f32_of_int 1500))) outputs @
                              replicate (PX4IO_SERVO_COUNT - length outputs) 0,
                            io_mixer_limits := limits\<rparr>)))"

end
