(* ===== verification/Px4ioRegs.thy ===== *)
theory Px4ioRegs
  imports Px4ioMixer
begin

text \<open>
  The register protocol of the co-processor (\<open>px4iofirmware/registers.c\<close>): writes by page and
  offset, reads by page, and the PWM rate groups.  A handler returns its C result with the new
  state.
\<close>

section \<open>PWM rates\<close>

text \<open>The mask of a group is the set of channels that share its timer.\<close>

definition rates_legal :: "io_env \<Rightarrow> u16 \<Rightarrow> bool" where
  "rates_legal env rmap =
     list_all (\<lambda>g. let rmask = env_rate_group env g; alt = ucast rmap AND rmask
                    in rmask = 0 \<or> alt = 0 \<or> alt = rmask) [0..<PX4IO_SERVO_COUNT]"

definition set_group_rate :: "io_env \<Rightarrow> u16 \<Rightarrow> nat \<Rightarrow> px4io \<Rightarrow> px4io" where
  "set_group_rate env rmap g s =
     (let rmask = env_rate_group env g
      in if rmask = 0 then s
         else (let rate = (if ucast rmap AND rmask \<noteq> 0 then io_altrate s else io_defaultrate s);
                   s = emit [Rate_update g rate] s
               in if env_rate_ok env g rate then s
                  else s\<lparr>io_alarms := set_bit ALARMS_PWM_ERROR (io_alarms s)\<rparr>))"

definition pwm_configure_rates :: "io_env \<Rightarrow> u16 \<Rightarrow> u16 \<Rightarrow> u16 \<Rightarrow> px4io \<Rightarrow> px4io" where
  "pwm_configure_rates env rmap defaultrate altrate s =
     (if \<not> rates_legal env rmap then s\<lparr>io_alarms := set_bit ALARMS_PWM_ERROR (io_alarms s)\<rparr>
      else (fold (set_group_rate env rmap) [0..<PX4IO_SERVO_COUNT] s)
             \<lparr>io_pwm_rates := rmap, io_defaultrate := defaultrate, io_altrate := altrate\<rparr>)"

section \<open>Writing one register\<close>

definition set_status_register :: "io_env \<Rightarrow> u8 \<Rightarrow> u16 \<Rightarrow> px4io \<Rightarrow> (int \<times> px4io) option" where
  "set_status_register env offset value s =
     (if offset = 3 then Some (0, s\<lparr>io_alarms := io_alarms s AND NOT value\<rparr>)
      else if offset = 2
      then (let s = (if bit value FLAGS_MIXER_OK then upd_flags (set_bit FLAGS_MIXER_OK) s
                     else if \<not> bit (io_flags s) FLAGS_ARM_SYNC then upd_flags (\<lambda>_. value) s
                     else s)
            in if bit (io_flags s) FLAGS_MIXER_OK
               then map_option (Pair 0) (mixer_set_failsafe env s) else Some (0, s))
      else Some (0, s))"

definition features_filter :: "u16 \<Rightarrow> u16" where
  "features_filter value =
     (let value = value AND 0xF;
          value = (if bit value FEATURES_SBUS1_OUT
                   then unset_bit FEATURES_PWM_RSSI (unset_bit FEATURES_ADC_RSSI (unset_bit FEATURES_SBUS2_OUT value))
                   else value);
          value = (if bit value FEATURES_SBUS2_OUT
                   then unset_bit FEATURES_PWM_RSSI (unset_bit FEATURES_ADC_RSSI (unset_bit FEATURES_SBUS1_OUT value))
                   else value);
          value = (if bit value FEATURES_ADC_RSSI
                   then unset_bit FEATURES_PWM_RSSI (unset_bit FEATURES_SBUS1_OUT (unset_bit FEATURES_SBUS2_OUT value))
                   else value)
      in if bit value FEATURES_PWM_RSSI
         then unset_bit FEATURES_ADC_RSSI (unset_bit FEATURES_SBUS1_OUT (unset_bit FEATURES_SBUS2_OUT value))
         else value)"

definition set_setup_arming :: "u16 \<Rightarrow> px4io \<Rightarrow> px4io" where
  "set_setup_arming value s =
     (let value = value AND 0x7FF;
          s = (if bit value ARMING_RC_HANDLING_DISABLED then upd_flags (set_bit FLAGS_INIT_OK) s else s);
          old = bit (io_arming s);
          value = (if old ARMING_TERMINATION_FAILSAFE then set_bit ARMING_TERMINATION_FAILSAFE value else value);
          value = (if old ARMING_TERMINATION_FAILSAFE \<and> old ARMING_FORCE_FAILSAFE
                   then set_bit ARMING_FORCE_FAILSAFE value else value)
      in s\<lparr>io_arming := value\<rparr>)"

definition clamp_rate :: "u16 \<Rightarrow> u16" where
  "clamp_rate value = (let value = (if value < 25 then 25 else value) in if value > 400 then 400 else value)"

definition PX4IO_REBOOT_BL_MAGIC :: u16 where "PX4IO_REBOOT_BL_MAGIC = 14662"
definition PX4IO_FORCE_SAFETY_MAGIC :: u16 where "PX4IO_FORCE_SAFETY_MAGIC = 22027"

definition schedule_reboot :: "u64 \<Rightarrow> u32 \<Rightarrow> px4io \<Rightarrow> px4io" where
  "schedule_reboot now time_delta_usec s = s\<lparr>io_reboot_time := now + ucast time_delta_usec\<rparr>"

definition set_setup_register :: "io_env \<Rightarrow> u64 \<Rightarrow> u8 \<Rightarrow> u16 \<Rightarrow> px4io \<Rightarrow> int \<times> px4io" where
  "set_setup_register env now offset value s =
     (if offset = 0
      then (0, emit [Sbus_enable (value AND 0xF AND 3 \<noteq> 0)] (s\<lparr>io_features := features_filter value\<rparr>))
      else if offset = 1 then (0, set_setup_arming value s)
      else if offset = 2
      then (0, pwm_configure_rates env (value AND 0xFF) (io_defaultrate s) (io_altrate s) s)
      else if offset = 3
      then (0, pwm_configure_rates env (io_pwm_rates s) (clamp_rate value) (io_altrate s) s)
      else if offset = 4
      then (0, pwm_configure_rates env (io_pwm_rates s) (io_defaultrate s) (clamp_rate value) s)
      else if offset = 6 then (0, s\<lparr>io_vscale := value\<rparr>)
      else if offset = 9 then (0, s\<lparr>io_debug := value\<rparr>)
      else if offset = 10
      then (if bit (io_flags s) FLAGS_SAFETY_OFF \<or> value \<noteq> PX4IO_REBOOT_BL_MAGIC then (0, s)
            else (0, schedule_reboot now 100000 s))
      else if offset = 7
      then (0, emit [Dsm_bind (value AND 0x0f) (drop_bit 4 value AND 0xF)] s)
      else if offset = 14
      then (0, if value = PX4IO_FORCE_SAFETY_MAGIC then upd_flags (unset_bit FLAGS_SAFETY_OFF) s else s)
      else if offset = 12
      then (0, if value = PX4IO_FORCE_SAFETY_MAGIC then upd_flags (set_bit FLAGS_SAFETY_OFF) s else s)
      else if offset = 13
      then (0, if value > 650 \<and> value < 2350 then s\<lparr>io_thr_failsafe := value\<rparr> else s)
      else if offset = 15 then (0, s\<lparr>io_reverse := value\<rparr>)
      else if offset = 16 then (0, s\<lparr>io_trim_roll := value\<rparr>)
      else if offset = 17 then (0, s\<lparr>io_trim_pitch := value\<rparr>)
      else if offset = 18 then (0, s\<lparr>io_trim_yaw := value\<rparr>)
      else (-1, s))"

abbreviation (input) "OPTIONS_ENABLED \<equiv> 0 :: nat"
abbreviation (input) "OPTIONS_REVERSE \<equiv> 1 :: nat"

definition rc_config_faults :: "rc_channel_config \<Rightarrow> nat" where
  "rc_config_faults conf =
     length (filter (\<lambda>b. b)
       [rcc_min conf < 500, rcc_max conf > 2500, rcc_center conf < rcc_min conf,
        rcc_center conf > rcc_max conf, rcc_deadzone conf > 500,
        rcc_assignment conf \<noteq> 255 \<and> rcc_assignment conf \<ge> 8 \<and> rcc_assignment conf \<noteq> 100])"

definition set_rc_options :: "nat \<Rightarrow> u16 \<Rightarrow> px4io \<Rightarrow> px4io" where
  "set_rc_options channel value s =
     (let value = value AND 3;
          s = upd_flags (set_bit FLAGS_INIT_OK) s;
          s = s\<lparr>io_arming := unset_bit ARMING_RC_HANDLING_DISABLED (io_arming s)\<rparr>;
          conf = (io_rc_config s ! channel)\<lparr>rcc_options := unset_bit OPTIONS_ENABLED value\<rparr>;
          s = s\<lparr>io_rc_config := (io_rc_config s)[channel := conf]\<rparr>
      in if \<not> bit value OPTIONS_ENABLED then s
         else if rc_config_faults conf \<noteq> 0 then upd_flags (unset_bit FLAGS_INIT_OK) s
         else if rcc_assignment conf = 255 then s
         else s\<lparr>io_rc_config := (io_rc_config s)
                  [channel := conf\<lparr>rcc_options := set_bit OPTIONS_ENABLED (rcc_options conf)\<rparr>]\<rparr>)"

definition set_rc_register :: "u8 \<Rightarrow> u16 \<Rightarrow> px4io \<Rightarrow> int \<times> px4io" where
  "set_rc_register offset value s =
     (let channel = unat offset div 6; index = unat offset - channel * 6
      in if bit (io_flags s) FLAGS_SAFETY_OFF then (0, s)
         else if channel \<ge> PX4IO_RC_INPUT_CHANNELS then (-1, s)
         else (let conf = io_rc_config s ! channel;
                   conf = conf\<lparr>rcc_options := rcc_options conf AND 1\<rparr>;
                   conf' = (if index = 0 then conf\<lparr>rcc_min := value\<rparr>
                            else if index = 1 then conf\<lparr>rcc_center := value\<rparr>
                            else if index = 2 then conf\<lparr>rcc_max := value\<rparr>
                            else if index = 3 then conf\<lparr>rcc_deadzone := value\<rparr>
                            else if index = 4 then conf\<lparr>rcc_assignment := value\<rparr>
                            else conf);
                   s = s\<lparr>io_rc_config := (io_rc_config s)[channel := conf']\<rparr>
               in (0, if index = 5 then set_rc_options channel value s else s)))"

definition registers_set_one ::
    "io_env \<Rightarrow> u64 \<Rightarrow> u8 \<Rightarrow> u8 \<Rightarrow> u16 \<Rightarrow> px4io \<Rightarrow> (int \<times> px4io) option" where
  "registers_set_one env now pg offset value s =
     (if pg = 1 then set_status_register env offset value s
      else if pg = 50 then Some (set_setup_register env now offset value s)
      else if pg = 53 then Some (set_rc_register offset value s)
      else if pg = 127
      then Some (0, if offset = 0 then emit [Led_amber (bit value 0)] s else s)
      else Some (-1, s))"

section \<open>Writing a block\<close>

text \<open>
  The array pages are written by a loop that stops at the end of the page or of the data.
  \<open>set_array\<close> applies it to the entries from \<open>offset\<close> on; the entry function may keep the old value.
\<close>

fun set_array :: "(u16 \<Rightarrow> u16 \<Rightarrow> u16) \<Rightarrow> nat \<Rightarrow> nat \<Rightarrow> u16 list \<Rightarrow> u16 list \<Rightarrow> u16 list" where
  "set_array entry limit offset [] old = old"
| "set_array entry limit offset (v # vs) old =
     (if offset < limit
      then set_array entry limit (Suc offset) vs (old[offset := entry v (old ! offset)])
      else old)"

definition PWM_LOWEST_MIN :: u16 where "PWM_LOWEST_MIN = 90"
definition PWM_HIGHEST_MIN :: u16 where "PWM_HIGHEST_MIN = 1600"
definition PWM_HIGHEST_MAX :: u16 where "PWM_HIGHEST_MAX = 2150"
definition PWM_LOWEST_MAX :: u16 where "PWM_LOWEST_MAX = 200"
definition PWM_IGNORE_THIS_CHANNEL :: u16 where "PWM_IGNORE_THIS_CHANNEL = 0xFFFF"

definition range_entry :: "u16 \<Rightarrow> u16 \<Rightarrow> u16 \<Rightarrow> u16 \<Rightarrow> u16" where
  "range_entry lo hi v old = (if v = 0 then old else if v < lo then lo else if v > hi then hi else v)"

definition disarmed_entry :: "u16 \<Rightarrow> u16 \<Rightarrow> u16" where
  "disarmed_entry v old = (if v = 0 then 0 else range_entry PWM_LOWEST_MIN PWM_HIGHEST_MAX v old)"

fun set_ones ::
    "io_env \<Rightarrow> u64 \<Rightarrow> u8 \<Rightarrow> u8 \<Rightarrow> u16 list \<Rightarrow> px4io \<Rightarrow> (int \<times> px4io) option" where
  "set_ones env now pg offset [] s = Some (0, s)"
| "set_ones env now pg offset (v # vs) s =
     (case registers_set_one env now pg offset v s of None \<Rightarrow> None
      | Some (r, s) \<Rightarrow> if r \<noteq> 0 then Some (-1, s) else set_ones env now pg (offset + 1) vs s)"

definition registers_set ::
    "io_env \<Rightarrow> u64 \<Rightarrow> u8 \<Rightarrow> u8 \<Rightarrow> u16 list \<Rightarrow> px4io \<Rightarrow> (int \<times> px4io) option" where
  "registers_set env now pg offset vs s =
     (let off = unat offset; room = 8 - off
      in if pg = 51
         then Some (0, upd_flags (\<lambda>f. unset_bit FLAGS_RAW_PWM (set_bit FLAGS_FMU_OK f))
                (s\<lparr>io_controls := set_array (\<lambda>v _. v) 32 off vs (io_controls s), io_fmu_time := now\<rparr>))
         else if pg = 54
         then Some (0, upd_flags (\<lambda>f. set_bit FLAGS_RAW_PWM (set_bit FLAGS_FMU_OK f))
                (s\<lparr>io_servos := set_array (\<lambda>v old. if v \<noteq> PWM_IGNORE_THIS_CHANNEL then v else old)
                                   PX4IO_CONTROL_CHANNELS off vs (io_servos s), io_fmu_time := now\<rparr>))
         else if pg = 55
         then Some (0, s\<lparr>io_failsafe := set_array (range_entry PWM_LOWEST_MIN PWM_HIGHEST_MAX)
                                          PX4IO_SERVO_COUNT off vs (io_failsafe s),
                         io_arming := (if room > 0 \<and> vs \<noteq> [] then set_bit ARMING_FAILSAFE_CUSTOM (io_arming s)
                                       else io_arming s)\<rparr>)
         else if pg = 106
         then Some (0, s\<lparr>io_control_min := set_array (range_entry PWM_LOWEST_MIN PWM_HIGHEST_MIN)
                                             PX4IO_SERVO_COUNT off vs (io_control_min s)\<rparr>)
         else if pg = 107
         then Some (0, s\<lparr>io_control_max := set_array (range_entry PWM_LOWEST_MAX PWM_HIGHEST_MAX)
                                             PX4IO_SERVO_COUNT off vs (io_control_max s)\<rparr>)
         else if pg = 108
         then Some (0, s\<lparr>io_disarmed := set_array disarmed_entry PX4IO_SERVO_COUNT off vs (io_disarmed s),
                         io_arming := put_flag ARMING_ALWAYS_PWM_ENABLE
                           (\<exists>v \<in> set (take room vs). v \<noteq> 0) (io_arming s)\<rparr>)
         else if pg = 52 then mixer_handle_text env (concat (map le_bytes vs)) s
         else set_ones env now pg offset
                (if off + length vs > 255 then take (255 - off) vs else vs) s)"

section \<open>Reading\<close>

definition rc_config_words :: "rc_channel_config \<Rightarrow> u16 list" where
  "rc_config_words c =
     [rcc_min c, rcc_center c, rcc_max c, rcc_deadzone c, rcc_assignment c, rcc_options c]"

definition status_words :: "px4io \<Rightarrow> u16 list" where
  "status_words s =
     [io_freemem s, 0, io_flags s, io_alarms s, 0, 0, io_vservo s, io_vrssi s, 0, io_mixer_limits s]"

definition setup_words :: "px4io \<Rightarrow> u16 list" where
  "setup_words s =
     [io_features s, io_arming s, io_pwm_rates s, io_defaultrate s, io_altrate s, 0, io_vscale s, 0, 0,
      io_debug s, 0] @ io_crc s @
     [io_thr_failsafe s, 0, io_reverse s, io_trim_roll s, io_trim_pitch s, io_trim_yaw s]"

definition config_words :: "u16 list" where
  "config_words = [4, 2, 3, 64, 8, 8, 18, 2, 0]"

definition adc_millivolts :: "nat \<Rightarrow> u16 \<Rightarrow> u16 \<Rightarrow> u16" where
  "adc_millivolts full counts old =
     (if counts \<noteq> 0xffff then of_nat (unat counts * full div 4096) else old)"

text \<open>\<open>freemem\<close> is the allocator's report, \<open>vservo\<close> and \<open>vrssi\<close> the readings of the two ADC channels.\<close>

definition read_status :: "u16 \<Rightarrow> u16 \<Rightarrow> u16 \<Rightarrow> px4io \<Rightarrow> px4io" where
  "read_status freemem vservo vrssi s =
     s\<lparr>io_freemem := freemem, io_vservo := adc_millivolts 9900 vservo (io_vservo s),
       io_vrssi := adc_millivolts 3300 vrssi (io_vrssi s)\<rparr>"

definition page_words :: "io_env \<Rightarrow> u16 \<Rightarrow> u16 \<Rightarrow> u8 \<Rightarrow> px4io \<Rightarrow> u16 list option" where
  "page_words env vservo vrssi pg s =
     (if pg = 1 then Some (status_words s)
      else if pg = 6 then Some ([vservo, vrssi] @ replicate 30 0)
      else if pg = 7
      then Some (map (\<lambda>i. ucast (env_rate_group env i)) [0..<PX4IO_SERVO_COUNT] @ replicate 24 0)
      else if pg = 0 then Some config_words
      else if pg = 2 then Some (io_actuators s)
      else if pg = 3 then Some (io_servos s)
      else if pg = 4
      then Some ([io_raw_count s, io_raw_flags s, io_raw_nrssi s, io_raw_data s, 0, 0] @ io_raw_values s)
      else if pg = 5 then Some (io_rc_valid s # io_rc_values s)
      else if pg = 50 then Some (setup_words s)
      else if pg = 51 then Some (io_controls s)
      else if pg = 53 then Some (concat (map rc_config_words (io_rc_config s)))
      else if pg = 54 then Some (io_servos s)
      else if pg = 55 then Some (io_failsafe s)
      else if pg = 106 then Some (io_control_min s)
      else if pg = 107 then Some (io_control_max s)
      else if pg = 108 then Some (io_disarmed s)
      else None)"

text \<open>The registers from the offset to the end of the page, or the error.\<close>

definition registers_get ::
    "io_env \<Rightarrow> u16 \<Rightarrow> u16 \<Rightarrow> u16 \<Rightarrow> u8 \<Rightarrow> u8 \<Rightarrow> px4io \<Rightarrow> u16 list option \<times> px4io" where
  "registers_get env freemem vservo vrssi pg offset s =
     (let s = (if pg = 1 then read_status freemem vservo vrssi s else s)
      in (case page_words env vservo vrssi pg s of None \<Rightarrow> None
          | Some ws \<Rightarrow> if unat offset \<ge> length ws then None else Some (drop (unat offset) ws), s))"

end
