(* ===== verification/RcSerial.thy ===== *)
theory RcSerial
  imports PwmLimit
begin

text \<open>
  The radio receivers' byte decoders \<open>st24_decode\<close> and \<open>sumd_decode\<close> (\<open>src/lib/rc/st24.c\<close> and
  \<open>sumd.c\<close>).  A decoder keeps its packet between calls; the results it hands back through
  pointers are the record \<open>rc_out\<close>.  \<^term>\<open>None\<close> is a write outside the packet's data array or the
  caller's channel array.
\<close>

record rc_out =
  out_rssi :: u8
  out_rx_count :: u8
  out_count :: u16
  out_channels :: "u16 list"

definition put_channel :: "nat \<Rightarrow> u16 \<Rightarrow> rc_out \<Rightarrow> rc_out option" where
  "put_channel i v out =
     (if i < length (out_channels out) then Some (out\<lparr>out_channels := (out_channels out)[i := v]\<rparr>) else None)"

section \<open>ST24\<close>

datatype st24_decode_state =
    ST24_UNSYNCED | ST24_GOT_STX1 | ST24_GOT_STX2 | ST24_GOT_LEN | ST24_GOT_TYPE | ST24_GOT_DATA

record st24 =
  st_state :: st24_decode_state
  st_rxlen :: u8
  st_length :: u8
  st_type :: u8
  st_data :: "u8 list"
  st_crc8 :: u8

definition crc8_bit :: "u8 \<Rightarrow> nat \<Rightarrow> u8 \<Rightarrow> u8" where
  "crc8_bit v i crc =
     (let crc = (if bit crc 7 then push_bit 1 crc XOR 7 else push_bit 1 crc)
      in if bit v i then crc XOR 7 else crc)"

definition crc8_byte :: "u8 \<Rightarrow> u8 \<Rightarrow> u8" where
  "crc8_byte v crc = fold (crc8_bit v) [7, 6, 5, 4, 3, 2, 1, 0] crc"

definition st24_common_crc8 :: "u8 list \<Rightarrow> u8" where
  "st24_common_crc8 bytes = fold crc8_byte bytes 0"

text \<open>12-bit channel values to 1000..2000 microseconds; the factor is \<open>1000 / 4096\<close>, the offset 999.\<close>

definition st24_scale :: "(f32 \<Rightarrow> u16) \<Rightarrow> u16 \<Rightarrow> u16" where
  "st24_scale undef v = cvt_u16 undef (f32_add (f32_mul (f32_of_int (uint v)) 0x3E7A0000) 0x3F000000) + 999"

fun st24_channels ::
    "(f32 \<Rightarrow> u16) \<Rightarrow> u8 list \<Rightarrow> nat \<Rightarrow> nat \<Rightarrow> rc_out \<Rightarrow> rc_out option" where
  "st24_channels undef d i 0 out = Some out"
| "st24_channels undef d i (Suc n) out = do {
     out \<leftarrow> put_channel (2 * i) (st24_scale undef
              ((push_bit 4 (ucast (d ! (3 * i)))) OR drop_bit 4 (ucast (d ! (3 * i + 1) AND 0xF0)))) out;
     out \<leftarrow> put_channel (2 * i + 1) (st24_scale undef
              (ucast (d ! (3 * i + 2)) OR push_bit 8 (ucast (d ! (3 * i + 1) AND 0x0F)))) out;
     st24_channels undef d (Suc i) n out
   }"

text \<open>
  The channel data follow a 16-bit counter, the signal strength and the packet count.  The loop
  takes three bytes at a time up to the stride count.
\<close>

definition st24_channel_packet :: "(f32 \<Rightarrow> u16) \<Rightarrow> u16 \<Rightarrow> u16 \<Rightarrow> u8 list \<Rightarrow> rc_out \<Rightarrow> rc_out option" where
  "st24_channel_packet undef channels max_chan_count d out =
     (let count = (if max_chan_count < channels then max_chan_count else channels);
          stride_count = unat count * 3 div 2
      in st24_channels undef (drop 4 d) 0 ((stride_count + 2) div 3)
           (out\<lparr>out_rssi := d ! 2, out_rx_count := d ! 3, out_count := count\<rparr>))"

definition st24_packet :: "(f32 \<Rightarrow> u16) \<Rightarrow> u16 \<Rightarrow> st24 \<Rightarrow> rc_out \<Rightarrow> (int \<times> rc_out) option" where
  "st24_packet undef max_chan_count st out =
     (if st24_common_crc8 (take (unat (st_rxlen st)) (st_length st # st_type st # st_data st)) \<noteq> st_crc8 st
      then Some (4, out)
      else if st_type st = 0 then map_option (Pair 0) (st24_channel_packet undef 12 max_chan_count (st_data st) out)
      else if st_type st = 1 then map_option (Pair 0) (st24_channel_packet undef 24 max_chan_count (st_data st) out)
      else Some (2, out))"

definition st24_decode ::
    "(f32 \<Rightarrow> u16) \<Rightarrow> u16 \<Rightarrow> u8 \<Rightarrow> st24 \<Rightarrow> rc_out \<Rightarrow> (int \<times> st24 \<times> rc_out) option" where
  "st24_decode undef max_chan_count byte st out =
     (case st_state st of
        ST24_UNSYNCED \<Rightarrow>
          if byte = 0x55 then Some (1, st\<lparr>st_state := ST24_GOT_STX1\<rparr>, out) else Some (3, st, out)
      | ST24_GOT_STX1 \<Rightarrow>
          Some (1, st\<lparr>st_state := (if byte = 0x55 then ST24_GOT_STX2 else ST24_UNSYNCED)\<rparr>, out)
      | ST24_GOT_STX2 \<Rightarrow>
          if byte \<le> 66
          then Some (1, st\<lparr>st_length := byte, st_rxlen := 0, st_state := ST24_GOT_LEN\<rparr>, out)
          else Some (1, st\<lparr>st_state := ST24_UNSYNCED\<rparr>, out)
      | ST24_GOT_LEN \<Rightarrow>
          Some (1, st\<lparr>st_type := byte, st_rxlen := st_rxlen st + 1, st_state := ST24_GOT_TYPE\<rparr>, out)
      | ST24_GOT_TYPE \<Rightarrow>
          if st_rxlen st = 0 \<or> unat (st_rxlen st) - 1 \<ge> length (st_data st) then None
          else (let st = st\<lparr>st_data := (st_data st)[unat (st_rxlen st) - 1 := byte],
                            st_rxlen := st_rxlen st + 1\<rparr>
                in Some (1, if uint (st_rxlen st) = uint (st_length st) - 1
                            then st\<lparr>st_state := ST24_GOT_DATA\<rparr> else st, out))
      | ST24_GOT_DATA \<Rightarrow>
          (let st = st\<lparr>st_crc8 := byte, st_rxlen := st_rxlen st + 1\<rparr>
           in map_option (\<lambda>(ret, out). (ret, st\<lparr>st_state := ST24_UNSYNCED\<rparr>, out))
                (st24_packet undef max_chan_count st out)))"

section \<open>SUMD\<close>

datatype sumd_decode_state =
    SUMD_UNSYNCED | SUMD_GOT_HEADER | SUMD_GOT_STATE | SUMD_GOT_LEN | SUMD_GOT_DATA | SUMD_GOT_CRC
  | SUMD_GOT_CRC16_BYTE_1 | SUMD_GOT_CRC16_BYTE_2

text \<open>
  The data array of 64 bytes is followed by the received checksum; the last data byte of a frame of 32
  channels goes one past the array, into \<open>crc16_high\<close>, which the model keeps as the 65th entry of \<open>su_data\<close>.
\<close>

record sumd =
  su_state :: sumd_decode_state
  su_rxlen :: u8
  su_crc8 :: u8
  su_crc16 :: u16
  su_sumd :: bool
  su_crc_ok :: bool
  su_header :: u8
  su_status :: u8
  su_length :: u8
  su_data :: "u8 list"
  su_crc16_low :: u8
  su_telemetry :: u8
  su_rx_crc8 :: u8

definition sumd_crc16 :: "u16 \<Rightarrow> u8 \<Rightarrow> u16" where
  "sumd_crc16 crc v =
     ((\<lambda>crc. if bit crc 15 then push_bit 1 crc XOR 0x1021 else push_bit 1 crc) ^^ 8)
       (crc XOR push_bit 8 (ucast v))"

definition sumd_crc8 :: "u8 \<Rightarrow> u8 \<Rightarrow> u8" where
  "sumd_crc8 crc v = crc + v"

definition sumd_crc :: "u8 \<Rightarrow> sumd \<Rightarrow> sumd" where
  "sumd_crc byte su =
     (if su_sumd su then su\<lparr>su_crc16 := sumd_crc16 (su_crc16 su) byte\<rparr>
      else su\<lparr>su_crc8 := sumd_crc8 (su_crc8 su) byte\<rparr>)"

definition sumd_channel :: "u8 list \<Rightarrow> nat \<Rightarrow> u16" where
  "sumd_channel d i = drop_bit 3 (push_bit 8 (ucast (d ! (2 * i + 1))) OR ucast (d ! (2 * i + 2)))"

fun sumd_channels :: "u8 list \<Rightarrow> (nat \<times> nat) list \<Rightarrow> rc_out \<Rightarrow> rc_out option" where
  "sumd_channels d [] out = Some out"
| "sumd_channels d ((i, k) # cs) out = do {
     out \<leftarrow> put_channel i (sumd_channel d k) out;
     sumd_channels d cs out
   }"

definition sumd_packet :: "u16 \<Rightarrow> sumd \<Rightarrow> rc_out \<Rightarrow> (sumd \<times> rc_out) option" where
  "sumd_packet max_chan_count su out =
     (let su = (if ucast (su_length su) > max_chan_count then su\<lparr>su_length := ucast max_chan_count\<rparr> else su);
          out = out\<lparr>out_rx_count := out_rx_count out + 1, out_rssi := 100, out_count := ucast (su_length su)\<rparr>
      in map_option (Pair su)
           (sumd_channels (su_data su)
              ([(0, 1), (1, 2), (2, 0), (3, 3)] @ map (\<lambda>i. (i, i)) [4..<unat (su_length su)]) out))"

definition sumd_decode :: "u16 \<Rightarrow> u8 \<Rightarrow> sumd \<Rightarrow> rc_out \<Rightarrow> (int \<times> sumd \<times> rc_out) option" where
  "sumd_decode max_chan_count byte su out =
     (case su_state su of
        SUMD_UNSYNCED \<Rightarrow>
          if byte = 0xA8
          then Some (1, su\<lparr>su_header := byte, su_sumd := True, su_rxlen := 0, su_crc_ok := False,
                           su_crc16 := sumd_crc16 0 byte, su_crc8 := sumd_crc8 0 byte,
                           su_state := SUMD_GOT_HEADER\<rparr>, out)
          else Some (3, su, out)
      | SUMD_GOT_HEADER \<Rightarrow>
          if byte = 0x01 \<or> byte = 0x00
          then (let su = su\<lparr>su_status := byte\<rparr>;
                    su = (if byte = 0x00 then su\<lparr>su_sumd := False\<rparr> else su)
                in Some (1, (sumd_crc byte su)\<lparr>su_state := SUMD_GOT_STATE\<rparr>, out))
          else Some (1, su\<lparr>su_state := SUMD_UNSYNCED\<rparr>, out)
      | SUMD_GOT_STATE \<Rightarrow>
          if byte \<ge> 2 \<and> byte \<le> 32
          then Some (1, (sumd_crc byte (su\<lparr>su_length := byte\<rparr>))
                          \<lparr>su_rxlen := su_rxlen su + 1, su_state := SUMD_GOT_LEN\<rparr>, out)
          else Some (1, su\<lparr>su_state := SUMD_UNSYNCED\<rparr>, out)
      | SUMD_GOT_LEN \<Rightarrow>
          if unat (su_rxlen su) \<ge> length (su_data su) then None
          else (let su = sumd_crc byte (su\<lparr>su_data := (su_data su)[unat (su_rxlen su) := byte]\<rparr>);
                    su = su\<lparr>su_rxlen := su_rxlen su + 1\<rparr>
                in Some (1, if unat (su_rxlen su) \<le> unat (su_length su) * 2 then su
                            else su\<lparr>su_state := SUMD_GOT_DATA\<rparr>, out))
      | SUMD_GOT_DATA \<Rightarrow>
          Some (1, su\<lparr>su_data := (su_data su)[64 := byte],
                      su_state := (if su_sumd su then SUMD_GOT_CRC else SUMD_GOT_CRC16_BYTE_1)\<rparr>, out)
      | SUMD_GOT_CRC16_BYTE_1 \<Rightarrow>
          Some (1, su\<lparr>su_crc16_low := byte, su_state := SUMD_GOT_CRC16_BYTE_2\<rparr>, out)
      | SUMD_GOT_CRC16_BYTE_2 \<Rightarrow>
          Some (1, su\<lparr>su_telemetry := byte, su_state := SUMD_GOT_CRC\<rparr>, out)
      | SUMD_GOT_CRC \<Rightarrow>
          (let su = (if su_sumd su then su\<lparr>su_crc16_low := byte\<rparr> else su\<lparr>su_rx_crc8 := byte\<rparr>);
               match = (if su_sumd su
                        then su_crc16 su = push_bit 8 (ucast (su_data su ! 64)) + ucast (su_crc16_low su)
                        else su_crc8 su = su_rx_crc8 su);
               su = (if match then su\<lparr>su_crc_ok := True\<rparr> else su)
           in if su_crc_ok su
              then map_option (\<lambda>(su, out). (0, su\<lparr>su_state := SUMD_UNSYNCED\<rparr>, out))
                     (sumd_packet max_chan_count su out)
              else Some (4, su\<lparr>su_state := SUMD_UNSYNCED\<rparr>, out)))"

end
