(* ===== verification/RcFrames.thy ===== *)
theory RcFrames
  imports RcSerial
begin

text \<open>
  The receivers without byte framing: Spektrum satellites (\<open>src/lib/rc/dsm.c\<close>) and S.BUS
  (\<open>src/lib/rc/sbus.c\<close>), with the S.BUS transmitter.  The static variables of each file are a
  record; what a read of the serial line returns is an argument.  Channel values and their count
  are passed and returned.  \<^term>\<open>None\<close> is an access outside an array.
\<close>

section \<open>DSM\<close>

record dsm =
  dsm_last_rx_time :: u64
  dsm_last_frame_time :: u64
  dsm_frame :: "u8 list"
  dsm_partial_frame_count :: nat
  dsm_channel_shift :: nat
  dsm_frame_drops :: u32
  dsm_cs10 :: u32
  dsm_cs11 :: u32
  dsm_samples :: u32

definition dsm_decode_channel :: "u16 \<Rightarrow> nat \<Rightarrow> (nat \<times> u32) option" where
  "dsm_decode_channel raw shift =
     (if raw = 0xffff then None
      else Some (unat (drop_bit shift raw AND 0xf), ucast (take_bit shift raw)))"

definition dsm_raw :: "u8 list \<Rightarrow> nat \<Rightarrow> u16" where
  "dsm_raw frame i = push_bit 8 (ucast (frame ! (2 + 2 * i))) OR ucast (frame ! (2 + 2 * i + 1))"

definition dsm_reset_format :: "dsm \<Rightarrow> dsm" where
  "dsm_reset_format d = d\<lparr>dsm_cs10 := 0, dsm_cs11 := 0, dsm_samples := 0, dsm_channel_shift := 0\<rparr>"

definition dsm_sniff :: "nat \<Rightarrow> u8 list \<Rightarrow> nat \<Rightarrow> u32 \<Rightarrow> u32" where
  "dsm_sniff shift frame i cs =
     (case dsm_decode_channel (dsm_raw frame i) shift of
        Some (channel, v) \<Rightarrow> if channel < 31 then set_bit channel cs else cs
      | None \<Rightarrow> cs)"

definition dsm_masks :: "u32 list" where
  "dsm_masks = [0x3f, 0x7f, 0xff, 0x1ff, 0x3ff, 0x1fff, 0x3fff]"

definition dsm_votes :: "u32 \<Rightarrow> nat" where
  "dsm_votes cs = length (filter (\<lambda>m. cs = m) dsm_masks)"

definition dsm_guess_format :: "bool \<Rightarrow> dsm \<Rightarrow> dsm" where
  "dsm_guess_format reset d =
     (if reset then dsm_reset_format d
      else (let d = d\<lparr>dsm_cs10 := fold (dsm_sniff 10 (dsm_frame d)) [0..<7] (dsm_cs10 d),
                      dsm_cs11 := fold (dsm_sniff 11 (dsm_frame d)) [0..<7] (dsm_cs11 d)\<rparr>;
                early = (dsm_samples d < 5);
                d = d\<lparr>dsm_samples := dsm_samples d + 1\<rparr>;
                votes10 = dsm_votes (dsm_cs10 d);
                votes11 = dsm_votes (dsm_cs11 d)
            in if early then d
               else if votes11 = 1 \<and> votes10 = 0 then d\<lparr>dsm_channel_shift := 11\<rparr>
               else if votes10 = 1 \<and> votes11 = 0 then d\<lparr>dsm_channel_shift := 10\<rparr>
               else dsm_reset_format d))"

definition dsm_pulse :: "nat \<Rightarrow> u32 \<Rightarrow> u16" where
  "dsm_pulse shift v =
     (let v = (if shift = 10 then v * 2 else v); n = (sint v - 1024) * 1000
      in of_int ((if n < 0 then - (- n div 1700) else n div 1700) + 1500))"

definition dsm_slot :: "nat \<Rightarrow> nat" where
  "dsm_slot channel = (if channel = 0 then 2 else if channel = 1 then 0 else if channel = 2 then 1 else channel)"

fun dsm_channels ::
    "nat \<Rightarrow> u32 \<Rightarrow> u8 list \<Rightarrow> nat list \<Rightarrow> u16 list \<times> u16 \<Rightarrow> (u16 list \<times> u16) option" where
  "dsm_channels shift max_values frame [] (values, num) = Some (values, num)"
| "dsm_channels shift max_values frame (i # is) (values, num) =
     (case dsm_decode_channel (dsm_raw frame i) shift of
        None \<Rightarrow> dsm_channels shift max_values frame is (values, num)
      | Some (channel, v) \<Rightarrow>
          if channel \<ge> unat max_values then dsm_channels shift max_values frame is (values, num)
          else (let num = (if channel \<ge> unat num then of_nat (channel + 1) else num)
                in if dsm_slot channel < length values
                   then dsm_channels shift max_values frame is
                          (values[dsm_slot channel := dsm_pulse shift v], num)
                   else None))"

definition dsm_decode ::
    "u64 \<Rightarrow> u32 \<Rightarrow> dsm \<Rightarrow> u16 list \<Rightarrow> u16 \<Rightarrow> (bool \<times> dsm \<times> u16 list \<times> u16) option" where
  "dsm_decode frame_time max_values d values num =
     (let d = (if frame_time - dsm_last_frame_time d > 1000000 \<and> dsm_channel_shift d \<noteq> 0
               then dsm_guess_format True d else d);
          d = d\<lparr>dsm_last_frame_time := frame_time\<rparr>
      in if dsm_channel_shift d = 0 then Some (False, dsm_guess_format False d, values, num)
         else map_option (\<lambda>(values, num).
                let num = (if num = 13 then 12 else num);
                    num = (if dsm_channel_shift d = 11 then num OR 0x8000 else num)
                in (True, d, values, num))
              (dsm_channels (dsm_channel_shift d) max_values (dsm_frame d) [0..<7] (values, num)))"

text \<open>
  One call of \<open>dsm_input\<close> at time \<open>now\<close>; \<open>line\<close> is what the non-blocking read finds, cut to
  the room that is left in the frame.  The bytes read are handed on to the other decoders.
\<close>

definition dsm_input ::
    "u64 \<Rightarrow> u8 list \<Rightarrow> u32 \<Rightarrow> dsm \<Rightarrow> u16 list \<Rightarrow> u16 \<Rightarrow>
     (bool \<times> u8 list \<times> dsm \<times> u16 list \<times> u16) option" where
  "dsm_input now line max_values d values num =
     (let d = (if now - dsm_last_rx_time d > 5000 \<and> dsm_partial_frame_count d > 0
               then d\<lparr>dsm_frame_drops := dsm_frame_drops d + 1, dsm_partial_frame_count := 0\<rparr> else d);
          got = take (16 - dsm_partial_frame_count d) line
      in if got = [] then Some (False, [], d, values, num)
         else do {
           frame \<leftarrow> mem_write (dsm_frame d) (dsm_partial_frame_count d) got;
           (let d = d\<lparr>dsm_frame := frame, dsm_last_rx_time := now,
                      dsm_partial_frame_count := dsm_partial_frame_count d + length got\<rparr>
            in if dsm_partial_frame_count d < 16 then Some (False, got, d, values, num)
               else map_option (\<lambda>(ok, d, values, num). (ok, got, d, values, num))
                      (dsm_decode now max_values (d\<lparr>dsm_partial_frame_count := 0\<rparr>) values num))
         })"

definition dsm_init :: "u64 \<Rightarrow> dsm \<Rightarrow> dsm" where
  "dsm_init now d =
     dsm_guess_format True (d\<lparr>dsm_partial_frame_count := 0, dsm_last_rx_time := now\<rparr>)"

text \<open>The bind commands act on the pins of the receiver; powering it up also resets the format detector.\<close>

definition dsm_bind :: "u16 \<Rightarrow> dsm \<Rightarrow> dsm" where
  "dsm_bind cmd d = (if cmd = 1 then dsm_guess_format True d else d)"

section \<open>S.BUS frames\<close>

record sbus_bit_pick =
  pick_byte :: nat
  pick_rshift :: nat
  pick_mask :: u32
  pick_lshift :: nat

abbreviation bit_pick :: "nat \<Rightarrow> nat \<Rightarrow> u32 \<Rightarrow> nat \<Rightarrow> sbus_bit_pick" where
  "bit_pick b r m l \<equiv> \<lparr>pick_byte = b, pick_rshift = r, pick_mask = m, pick_lshift = l\<rparr>"

definition sbus_decoder :: "sbus_bit_pick list list" where
  "sbus_decoder =
    [[bit_pick 0 0 0xff 0, bit_pick 1 0 0x07 8, bit_pick 0 0 0 0],
     [bit_pick 1 3 0x1f 0, bit_pick 2 0 0x3f 5, bit_pick 0 0 0 0],
     [bit_pick 2 6 0x03 0, bit_pick 3 0 0xff 2, bit_pick 4 0 0x01 10],
     [bit_pick 4 1 0x7f 0, bit_pick 5 0 0x0f 7, bit_pick 0 0 0 0],
     [bit_pick 5 4 0x0f 0, bit_pick 6 0 0x7f 4, bit_pick 0 0 0 0],
     [bit_pick 6 7 0x01 0, bit_pick 7 0 0xff 1, bit_pick 8 0 0x03 9],
     [bit_pick 8 2 0x3f 0, bit_pick 9 0 0x1f 6, bit_pick 0 0 0 0],
     [bit_pick 9 5 0x07 0, bit_pick 10 0 0xff 3, bit_pick 0 0 0 0],
     [bit_pick 11 0 0xff 0, bit_pick 12 0 0x07 8, bit_pick 0 0 0 0],
     [bit_pick 12 3 0x1f 0, bit_pick 13 0 0x3f 5, bit_pick 0 0 0 0],
     [bit_pick 13 6 0x03 0, bit_pick 14 0 0xff 2, bit_pick 15 0 0x01 10],
     [bit_pick 15 1 0x7f 0, bit_pick 16 0 0x0f 7, bit_pick 0 0 0 0],
     [bit_pick 16 4 0x0f 0, bit_pick 17 0 0x7f 4, bit_pick 0 0 0 0],
     [bit_pick 17 7 0x01 0, bit_pick 18 0 0xff 1, bit_pick 19 0 0x03 9],
     [bit_pick 19 2 0x3f 0, bit_pick 20 0 0x1f 6, bit_pick 0 0 0 0],
     [bit_pick 20 5 0x07 0, bit_pick 21 0 0xff 3, bit_pick 0 0 0 0]]"

definition sbus_piece :: "u8 list \<Rightarrow> sbus_bit_pick \<Rightarrow> u32 \<Rightarrow> u32" where
  "sbus_piece frame pick v =
     (if pick_mask pick \<noteq> 0
      then v OR push_bit (pick_lshift pick)
                  (drop_bit (pick_rshift pick) (ucast (frame ! (1 + pick_byte pick))) AND pick_mask pick)
      else v)"

definition sbus_raw :: "u8 list \<Rightarrow> nat \<Rightarrow> u32" where
  "sbus_raw frame channel = fold (sbus_piece frame) (sbus_decoder ! channel) 0"

text \<open>The factor is \<open>1000 / 1600\<close>, the offset 874.\<close>

definition sbus_scale :: "(f32 \<Rightarrow> u16) \<Rightarrow> u32 \<Rightarrow> u16" where
  "sbus_scale undef v = cvt_u16 undef (f32_add (f32_mul (f32_of_int (uint v)) 0x3F200000) 0x3F000000) + 874"

datatype sbus2_decode_state =
    SBUS2_DESYNC | SBUS_START | SBUS1_SYNC | SBUS2_SYNC | SBUS2_RX_VOLTAGE | SBUS2_GPS

record sbus =
  sb_last_rx_time :: u64
  sb_last_frame_time :: u64
  sb_last_txframe_time :: u64
  sb_state :: sbus2_decode_state
  sb_frame :: "u8 list"
  sb_count :: nat
  sb_drops :: u32

record sbus_out =
  sb_values :: "u16 list"
  sb_num :: u16
  sb_failsafe :: bool
  sb_frame_drop :: bool

fun put_values :: "nat \<Rightarrow> u16 list \<Rightarrow> sbus_out \<Rightarrow> sbus_out option" where
  "put_values i [] out = Some out"
| "put_values i (v # vs) out =
     (if i < length (sb_values out)
      then put_values (Suc i) vs (out\<lparr>sb_values := (sb_values out)[i := v]\<rparr>) else None)"

definition sbus_end_marker :: "u8 \<Rightarrow> sbus2_decode_state" where
  "sbus_end_marker b =
     (if b = 0x00 then SBUS1_SYNC else if b = 0x04 then SBUS2_RX_VOLTAGE
      else if b = 0x14 then SBUS2_GPS else if b = 0x24 \<or> b = 0x34 then SBUS2_SYNC else SBUS2_DESYNC)"

definition sbus_flags :: "u8 \<Rightarrow> sbus_out \<Rightarrow> sbus_out" where
  "sbus_flags b out =
     (if bit b 3 then out\<lparr>sb_failsafe := True, sb_frame_drop := True\<rparr>
      else out\<lparr>sb_failsafe := False, sb_frame_drop := bit b 2\<rparr>)"

definition sbus_decode ::
    "(f32 \<Rightarrow> u16) \<Rightarrow> u64 \<Rightarrow> u8 list \<Rightarrow> u16 \<Rightarrow> sbus \<Rightarrow> sbus_out \<Rightarrow> (bool \<times> sbus \<times> sbus_out) option" where
  "sbus_decode undef frame_time frame max_values sb out =
     (if frame ! 0 \<noteq> 0x0f
      then Some (False, sb\<lparr>sb_drops := sb_drops sb + 1, sb_state := SBUS2_DESYNC\<rparr>, out)
      else (let st = sbus_end_marker (frame ! 24); sb = sb\<lparr>sb_state := st\<rparr>
            in if st = SBUS2_DESYNC then Some (False, sb, out)
               else (let sb = sb\<lparr>sb_last_frame_time := frame_time\<rparr>;
                         chancount = (if max_values > 16 then 16 else unat max_values);
                         switches = (if max_values > 17 \<and> chancount > 15
                           then [ucast (frame ! 23 AND 1) * 1000 + 998, ucast (frame ! 23 AND 2) * 1000 + 998]
                           else []);
                         num = (if max_values > 17 \<and> chancount > 15 then 18 else chancount)
                     in do {
                       out \<leftarrow> put_values 0 (map (\<lambda>c. sbus_scale undef (sbus_raw frame c)) [0..<chancount]) out;
                       out \<leftarrow> put_values 16 switches out;
                       Some (True, sb, sbus_flags (frame ! 23) (out\<lparr>sb_num := of_nat num\<rparr>))
                     })))"

section \<open>S.BUS stream\<close>

text \<open>
  \<open>sbus_parse\<close> consumes the received bytes one by one; \<open>decode_ret\<close> is the verdict of the last frame.
\<close>

definition sbus_put :: "u8 \<Rightarrow> sbus \<Rightarrow> sbus option" where
  "sbus_put b sb =
     (if sb_count sb < length (sb_frame sb)
      then Some (sb\<lparr>sb_frame := (sb_frame sb)[sb_count sb := b], sb_count := sb_count sb + 1\<rparr>) else None)"

definition sbus_overflow :: "sbus \<Rightarrow> sbus" where
  "sbus_overflow sb =
     (if sb_count sb = 37 \<or> sb_count sb = 25 then sb\<lparr>sb_count := 0, sb_state := SBUS2_DESYNC\<rparr> else sb)"

text \<open>A second start marker in a frame that failed: the bytes from it on are the start of the next frame.\<close>

definition sbus_recover :: "sbus \<Rightarrow> sbus" where
  "sbus_recover sb =
     (case first_index (\<lambda>b. b = 0x0f) (drop 1 (take (sb_count sb) (sb_frame sb))) of
        None \<Rightarrow> sb\<lparr>sb_count := 0\<rparr>
      | Some k \<Rightarrow>
          (let start = k + 1; left = take (sb_count sb - start) (drop start (sb_frame sb))
           in sb\<lparr>sb_frame := left @ drop (length left) (sb_frame sb),
                 sb_count := sb_count sb - start, sb_state := SBUS_START\<rparr>))"

definition sbus_sync_byte ::
    "(f32 \<Rightarrow> u16) \<Rightarrow> u64 \<Rightarrow> u16 \<Rightarrow> u8 \<Rightarrow> sbus \<times> sbus_out \<times> bool \<Rightarrow> (sbus \<times> sbus_out \<times> bool) option" where
  "sbus_sync_byte undef now max_channels b = (\<lambda>(sb, out, decode_ret). do {
     sb \<leftarrow> sbus_put b sb;
     (if sb_count sb < 25 then Some (sb, out, decode_ret)
      else do {
        (ok, sb, out) \<leftarrow> sbus_decode undef now (sb_frame sb) max_channels sb out;
        Some (if \<not> ok \<and> sb_state sb = SBUS2_DESYNC then sbus_recover sb else sb\<lparr>sb_count := 0\<rparr>, out, ok)
      })
   })"

definition sbus_slot_byte ::
    "nat \<Rightarrow> u8 \<Rightarrow> u8 \<Rightarrow> sbus \<times> sbus_out \<times> bool \<Rightarrow> (sbus \<times> sbus_out \<times> bool) option" where
  "sbus_slot_byte slot_len kind b = (\<lambda>(sb, out, decode_ret). do {
     sb \<leftarrow> sbus_put b sb;
     (let sb = (if sb_count sb = 1 \<and> sb_frame sb ! 0 = 0x0f then sb\<lparr>sb_state := SBUS2_SYNC\<rparr> else sb)
      in if sb_count sb < slot_len then Some (sb, out, decode_ret)
         else if sb_frame sb ! 0 = kind then Some (sb\<lparr>sb_count := 0\<rparr>, out, decode_ret)
         else Some (sb\<lparr>sb_state := SBUS2_DESYNC, sb_drops := sb_drops sb + 1\<rparr>, out, decode_ret))
   })"

definition sbus_byte ::
    "(f32 \<Rightarrow> u16) \<Rightarrow> u64 \<Rightarrow> u16 \<Rightarrow> u8 \<Rightarrow> sbus \<times> sbus_out \<times> bool \<Rightarrow> (sbus \<times> sbus_out \<times> bool) option" where
  "sbus_byte undef now max_channels b = (\<lambda>(sb, out, decode_ret).
     let sb = sbus_overflow sb
     in case sb_state sb of
          SBUS2_DESYNC \<Rightarrow>
            if b = 0x0f
            then map_option (\<lambda>sb. (sb, out, decode_ret))
                   (sbus_put b (sb\<lparr>sb_state := SBUS_START, sb_count := 0\<rparr>))
            else Some (sb, out, decode_ret)
        | SBUS2_RX_VOLTAGE \<Rightarrow> sbus_slot_byte 3 0x03 b (sb, out, decode_ret)
        | SBUS2_GPS \<Rightarrow> sbus_slot_byte 24 0x13 b (sb, out, decode_ret)
        | _ \<Rightarrow> sbus_sync_byte undef now max_channels b (sb, out, decode_ret))"

fun sbus_bytes ::
    "(f32 \<Rightarrow> u16) \<Rightarrow> u64 \<Rightarrow> u16 \<Rightarrow> u8 list \<Rightarrow> sbus \<times> sbus_out \<times> bool \<Rightarrow> (sbus \<times> sbus_out \<times> bool) option" where
  "sbus_bytes undef now max_channels [] r = Some r"
| "sbus_bytes undef now max_channels (b # bs) r =
     Option.bind (sbus_byte undef now max_channels b r) (sbus_bytes undef now max_channels bs)"

definition sbus_parse ::
    "(f32 \<Rightarrow> u16) \<Rightarrow> u64 \<Rightarrow> u8 list \<Rightarrow> u16 \<Rightarrow> sbus \<Rightarrow> sbus_out \<Rightarrow> (bool \<times> sbus \<times> sbus_out) option" where
  "sbus_parse undef now bytes max_channels sb out =
     map_option (\<lambda>(sb, out, decode_ret). (decode_ret, sb, out))
       (sbus_bytes undef now max_channels bytes (sb\<lparr>sb_last_rx_time := now\<rparr>, out, False))"

definition sbus_input ::
    "(f32 \<Rightarrow> u16) \<Rightarrow> u64 \<Rightarrow> u8 list \<Rightarrow> u16 \<Rightarrow> sbus \<Rightarrow> sbus_out \<Rightarrow> (bool \<times> sbus \<times> sbus_out) option" where
  "sbus_input undef now line max_channels sb out =
     (let got = take 25 line
      in if got = [] then Some (False, sb, out) else sbus_parse undef now got max_channels sb out)"

definition sbus_init :: "u64 \<Rightarrow> sbus \<Rightarrow> sbus" where
  "sbus_init now sb = sb\<lparr>sb_count := 0, sb_last_rx_time := now, sb_last_frame_time := now, sb_drops := 0\<rparr>"

section \<open>S.BUS transmitter\<close>

definition sbus_code :: "(f32 \<Rightarrow> u16) \<Rightarrow> u16 \<Rightarrow> u16" where
  "sbus_code undef v =
     (let code = cvt_u16 undef (f32_add (f32_div (f32_of_int (uint v - 874)) 0x3F200000) 0x3F000000)
      in if code > 0x07ff then 0x07ff else code)"

definition or_byte :: "nat \<Rightarrow> u8 \<Rightarrow> u8 list \<Rightarrow> u8 list" where
  "or_byte i v frame = frame[i := frame ! i OR v]"

text \<open>Eleven bits of \<open>code\<close> at \<open>offset\<close> bits past the start of byte \<open>byteindex\<close>.\<close>

definition sbus_pack_code :: "u16 \<Rightarrow> nat \<Rightarrow> nat \<Rightarrow> u8 list \<Rightarrow> u8 list" where
  "sbus_pack_code code byteindex offset frame =
     or_byte (byteindex + 2) (ucast (drop_bit (16 - offset) (ucast code :: 32 word)))
       (or_byte (byteindex + 1) (ucast (drop_bit (8 - offset) (ucast code :: 32 word)))
         (or_byte byteindex (ucast (push_bit offset (ucast code :: 32 word))) frame))"

fun sbus_pack :: "u16 list \<Rightarrow> nat \<Rightarrow> nat \<Rightarrow> u8 list \<Rightarrow> u8 list" where
  "sbus_pack [] byteindex offset frame = frame"
| "sbus_pack (code # codes) byteindex offset frame =
     (let byteindex = byteindex + offset div 8; offset = offset mod 8
      in sbus_pack codes byteindex (offset + 11) (sbus_pack_code code byteindex offset frame))"

definition sbus_frame_of :: "u16 list \<Rightarrow> u8 list" where
  "sbus_frame_of codes = sbus_pack (take 16 codes) 1 0 (0x0f # replicate 24 0)"

text \<open>The bytes written to the line, if the frame delay has passed.\<close>

definition sbus1_output :: "(f32 \<Rightarrow> u16) \<Rightarrow> u64 \<Rightarrow> u16 list \<Rightarrow> sbus \<Rightarrow> u8 list option \<times> sbus" where
  "sbus1_output undef now values sb =
     (if now - sb_last_txframe_time sb > 14000
      then (Some (sbus_frame_of (map (sbus_code undef) values)), sb\<lparr>sb_last_txframe_time := now\<rparr>)
      else (None, sb))"

end
