(* ===== verification/Px4ioControls.thy ===== *)
theory Px4ioControls
  imports Px4ioRegs RcFrames
begin

text \<open>
  Radio input of the co-processor (\<open>px4iofirmware/controls.c\<close>): gathering frames from the
  receivers, mapping raw channels to controls, detecting loss of the radio and deciding on manual
  override.  The decoders' state is the record \<open>rc_world\<close>; what arrives in one call, and the readings of the
  clock during it, is an \<open>rc_inputs\<close>.
\<close>

section \<open>State and inputs\<close>

record rc_world =
  rw_dsm :: dsm
  rw_st24 :: st24
  rw_sumd :: sumd
  rw_sbus :: sbus
  rw_ppm_last_valid :: u64
  rw_ppm_channels :: u32
  rw_ppm_buffer :: "u16 list"
  rw_ppm_frame_length :: u16

record rc_inputs =
  in_clk :: clock
  in_mixer_clk :: clock
  in_dsm_line :: "u8 list"
  in_sbus_line :: "u8 list"
  in_adc_rssi :: u16

abbreviation (input) "RC_INPUT_RSSI_MAX \<equiv> 100 :: nat"
definition RC_CHANNEL_LOW_THRESH :: int where "RC_CHANNEL_LOW_THRESH = - 8000"

definition default_channel :: "nat \<Rightarrow> rc_channel_config" where
  "default_channel i =
     \<lparr>rcc_min = 1000, rcc_center = 1500, rcc_max = 2000, rcc_deadzone = 30,
      rcc_assignment = of_nat i, rcc_options = 1\<rparr>"

definition controls_init :: "u64 \<Rightarrow> u64 \<Rightarrow> px4io \<times> rc_world \<Rightarrow> px4io \<times> rc_world" where
  "controls_init now_dsm now_sbus = (\<lambda>(s, w).
     (s\<lparr>io_raw_count := 0, io_rc_received := 0, io_rc_valid_time := 0,
        io_rc_config := map default_channel [0..<PX4IO_RC_INPUT_CHANNELS]\<rparr>,
      w\<lparr>rw_dsm := dsm_init now_dsm (rw_dsm w), rw_sbus := sbus_init now_sbus (rw_sbus w)\<rparr>))"

section \<open>Receivers\<close>

fun st24_bytes ::
    "(f32 \<Rightarrow> u16) \<Rightarrow> u8 list \<Rightarrow> st24 \<times> rc_out \<times> bool \<Rightarrow> (st24 \<times> rc_out \<times> bool) option" where
  "st24_bytes undef [] r = Some r"
| "st24_bytes undef (b # bs) (st, out, updated) = do {
     (ret, st, out) \<leftarrow> st24_decode undef 18 b st (out\<lparr>out_rssi := of_nat RC_INPUT_RSSI_MAX\<rparr>);
     st24_bytes undef bs (st, out, updated \<or> ret = 0)
   }"

fun sumd_bytes :: "u8 list \<Rightarrow> sumd \<times> rc_out \<times> bool \<Rightarrow> (sumd \<times> rc_out \<times> bool) option" where
  "sumd_bytes [] r = Some r"
| "sumd_bytes (b # bs) (su, out, updated) = do {
     (ret, su, out) \<leftarrow> sumd_decode 18 b su (out\<lparr>out_rssi := of_nat RC_INPUT_RSSI_MAX\<rparr>);
     sumd_bytes bs (su, out, updated \<or> ret = 0)
   }"

definition clear_drop_failsafe :: "px4io \<Rightarrow> px4io" where
  "clear_drop_failsafe s =
     s\<lparr>io_raw_flags := unset_bit RAW_FAILSAFE (unset_bit RAW_FRAME_DROP (io_raw_flags s))\<rparr>"

text \<open>The result says which of the three decoders completed a frame.\<close>

definition dsm_port_input ::
    "io_env \<Rightarrow> rc_inputs \<Rightarrow> u16 \<Rightarrow> px4io \<times> rc_world \<Rightarrow> (bool \<times> bool \<times> bool \<times> u16 \<times> px4io \<times> rc_world) option" where
  "dsm_port_input env inp rssi = (\<lambda>(s, w). do {
     (dsm_upd, bytes, d, values, temp_count) \<leftarrow>
        dsm_input (in_clk inp 0) (in_dsm_line inp) 18 (rw_dsm w) (io_raw_values s) (io_raw_count s);
     let s = s\<lparr>io_raw_values := values\<rparr>;
     let s = (if dsm_upd
              then clear_drop_failsafe (s\<lparr>io_raw_count := temp_count AND 0x7fff,
                     io_raw_flags := put_flag RAW_RC_DSM11 (bit temp_count 15) (io_raw_flags s)\<rparr>)
              else s);
     (st, out, st24_upd) \<leftarrow> st24_bytes (env_u16 env) bytes
        (rw_st24 w, \<lparr>out_rssi = 0, out_rx_count = 0, out_count = 0, out_channels = io_raw_values s\<rparr>, False);
     let s = s\<lparr>io_raw_values := out_channels out\<rparr>;
     let rssi = (if st24_upd then ucast (out_rssi out) else rssi);
     let s = (if st24_upd
              then clear_drop_failsafe (upd_flags (set_bit FLAGS_RC_ST24)
                     (s\<lparr>io_features := unset_bit FEATURES_ADC_RSSI (io_features s), io_raw_count := out_count out\<rparr>))
              else s);
     (su, out, sumd_upd) \<leftarrow> sumd_bytes bytes
        (rw_sumd w, \<lparr>out_rssi = 0, out_rx_count = 0, out_count = 0, out_channels = io_raw_values s\<rparr>, False);
     let s = s\<lparr>io_raw_values := out_channels out\<rparr>;
     let s = (if sumd_upd
              then clear_drop_failsafe (upd_flags (set_bit FLAGS_RC_SUMD) (s\<lparr>io_raw_count := out_count out\<rparr>))
              else s);
     Some (dsm_upd, st24_upd, sumd_upd, rssi, s, w\<lparr>rw_dsm := d, rw_st24 := st, rw_sumd := su\<rparr>)
   })"

definition controls_adc_rssi :: "rc_inputs \<Rightarrow> px4io \<Rightarrow> u16 \<times> px4io" where
  "controls_adc_rssi inp s =
     (if bit (io_features s) FEATURES_ADC_RSSI \<and> in_adc_rssi inp \<noteq> 0xffff
      then (let x = f32_add (f32_mul (f32_of_int (uint (io_rssi_counts s))) 0x3F7F7CEE)
                      (f32_mul (f32_of_int (uint (in_adc_rssi inp))) 0x3B03126F);
                counts = (case f32_to_u32 x of Some v \<Rightarrow> v | None \<Rightarrow> 0);
                mV = counts * 3300 div 4095;
                rssi = ucast (mV * 100 div 3300)
            in (if rssi > 100 then 100 else rssi, s\<lparr>io_rssi_counts := counts\<rparr>))
      else (0, s))"

definition sbus_gather ::
    "io_env \<Rightarrow> rc_inputs \<Rightarrow> u16 \<Rightarrow> px4io \<times> rc_world \<Rightarrow> (bool \<times> u16 \<times> px4io \<times> rc_world) option" where
  "sbus_gather env inp rssi = (\<lambda>(s, w). do {
     (upd, sb, out) \<leftarrow> sbus_input (env_u16 env) (in_clk inp 1) (in_sbus_line inp) 18 (rw_sbus w)
        \<lparr>sb_values = io_raw_values s, sb_num = io_raw_count s, sb_failsafe = False, sb_frame_drop = False\<rparr>;
     let s = s\<lparr>io_raw_values := sb_values out, io_raw_count := sb_num out\<rparr>;
     let w = w\<lparr>rw_sbus := sb\<rparr>;
     Some (if \<not> upd then (False, rssi, s, w)
           else (True, if bit (io_features s) FEATURES_ADC_RSSI then rssi
                       else if sb_frame_drop out then 50 else 100,
                 upd_flags (set_bit FLAGS_RC_SBUS)
                   (s\<lparr>io_raw_flags := put_flag RAW_FAILSAFE (sb_failsafe out)
                       (put_flag RAW_FRAME_DROP (sb_frame_drop out) (io_raw_flags s))\<rparr>), w))
   })"

definition ppm_input :: "rc_inputs \<Rightarrow> px4io \<times> rc_world \<Rightarrow> bool \<times> px4io \<times> rc_world" where
  "ppm_input inp = (\<lambda>(s, w).
     if in_clk inp 2 - rw_ppm_last_valid w < 200000
     then (let num = ucast (rw_ppm_channels w) :: u16;
               num = (if num > 18 then 18 else num);
               n = min (unat num) 20
           in (num > 0,
               s\<lparr>io_raw_count := num, io_raw_values := take n (rw_ppm_buffer w) @ drop n (io_raw_values s),
                 io_raw_data := rw_ppm_frame_length w\<rparr>,
               w\<lparr>rw_ppm_last_valid := 0\<rparr>))
     else (False, s, w))"

section \<open>Mapping channels\<close>

definition rc_constrain :: "rc_channel_config \<Rightarrow> u16 \<Rightarrow> u16" where
  "rc_constrain conf raw =
     (let raw = (if raw < rcc_min conf then rcc_min conf else raw)
      in if raw > rcc_max conf then rcc_max conf else raw)"

definition rc_scaled :: "io_env \<Rightarrow> rc_channel_config \<Rightarrow> u16 \<Rightarrow> u16" where
  "rc_scaled env conf raw =
     (let r = uint raw; c = uint (rcc_center conf); dz = uint (rcc_deadzone conf)
      in if r > c + dz
         then cvt_i16 (env_i16 env) (f32_mul 0x461C4000
                (f32_div (f32_of_int (r - c - dz)) (f32_of_int (uint (rcc_max conf) - c - dz))))
         else if r < c - dz
         then cvt_i16 (env_i16 env) (f32_mul 0x461C4000
                (f32_div (f32_of_int (r - c + dz)) (f32_of_int (c - dz - uint (rcc_min conf)))))
         else 0)"

definition throttle_failsafe :: "rc_channel_config \<Rightarrow> u16 \<Rightarrow> u16 \<Rightarrow> bool" where
  "throttle_failsafe conf thr raw \<longleftrightarrow>
     raw < rcc_min conf \<and> raw < thr \<or> raw > rcc_max conf \<and> raw > thr"

text \<open>One channel of a new frame; the second component collects the controls that are assigned.\<close>

definition map_channel :: "io_env \<Rightarrow> nat \<Rightarrow> px4io \<times> u32 \<Rightarrow> px4io \<times> u32" where
  "map_channel env i = (\<lambda>(s, assigned).
     let conf = io_rc_config s ! i
     in if \<not> bit (rcc_options conf) OPTIONS_ENABLED then (s, assigned)
        else (let raw = rc_constrain conf (io_raw_values s ! i);
                  scaled = rc_scaled env conf raw;
                  scaled = (if bit (rcc_options conf) OPTIONS_REVERSE then - scaled else scaled);
                  mapped = unat (rcc_assignment conf)
              in if mapped < PX4IO_CONTROL_CHANNELS
                 then (let scaled = (if mapped = 1 then - scaled else scaled);
                           s = (if mapped = 3 \<and> io_thr_failsafe s \<noteq> 0
                                then s\<lparr>io_raw_flags := put_flag RAW_FAILSAFE
                                         (throttle_failsafe conf (io_thr_failsafe s) raw) (io_raw_flags s)\<rparr>
                                else s)
                       in (s\<lparr>io_rc_values := (io_rc_values s)[mapped := scaled]\<rparr>, set_bit mapped assigned))
                 else if mapped = 100 then (s\<lparr>io_override_value := scaled\<rparr>, assigned)
                 else (s, assigned)))"

definition zero_unassigned :: "u32 \<Rightarrow> u16 list \<Rightarrow> u16 list" where
  "zero_unassigned assigned vs =
     map (\<lambda>(i, v). if i < PX4IO_CONTROL_CHANNELS \<and> \<not> bit assigned i then 0 else v) (enumerate 0 vs)"

definition map_frame :: "io_env \<Rightarrow> rc_inputs \<Rightarrow> px4io \<Rightarrow> px4io" where
  "map_frame env inp s =
     (let s = s\<lparr>io_rc_received := in_clk inp 3, io_rc_valid_time := in_clk inp 3\<rparr>;
          (s, assigned) = fold (map_channel env) [0..<unat (io_raw_count s)] (s, 0)
      in upd_flags (set_bit FLAGS_RC_OK)
           (s\<lparr>io_rc_values := zero_unassigned assigned (io_rc_values s),
              io_raw_flags := put_flag RAW_MAPPING_OK (assigned > 4) (set_bit RAW_RC_OK (io_raw_flags s)),
              io_rc_valid := ucast assigned\<rparr>))"

section \<open>Loss of the radio and manual override\<close>

definition rc_lost :: "px4io \<Rightarrow> px4io" where
  "rc_lost s =
     upd_flags (\<lambda>f. unset_bit FLAGS_OVERRIDE (unset_bit FLAGS_RC_OK f))
       (s\<lparr>io_raw_flags := unset_bit RAW_RC_OK (io_raw_flags s), io_rc_valid := 0, io_raw_count := 0,
          io_alarms := set_bit ALARMS_RC_LOST (io_alarms s)\<rparr>)"

definition check_rc_loss :: "rc_inputs \<Rightarrow> px4io \<Rightarrow> px4io" where
  "check_rc_loss inp s =
     (let lost = in_clk inp 4 - io_rc_received s > 200000;
          s = (if lost then upd_flags (\<lambda>f. unset_bit FLAGS_RC_PPM (unset_bit FLAGS_RC_DSM
                                             (unset_bit FLAGS_RC_SBUS f))) s else s);
          s = (if bit (io_raw_flags s) RAW_FAILSAFE then upd_flags (unset_bit FLAGS_OVERRIDE) s else s)
      in if lost then rc_lost s else s)"

definition override_allowed :: "px4io \<Rightarrow> bool" where
  "override_allowed s \<longleftrightarrow>
     (\<not> bit (io_flags s) FLAGS_FMU_OK \<or> bit (io_arming s) ARMING_MANUAL_OVERRIDE_OK) \<and>
     bit (io_flags s) FLAGS_RC_OK \<and> \<not> bit (io_raw_flags s) RAW_FAILSAFE"

definition override_requested :: "px4io \<Rightarrow> bool" where
  "override_requested s \<longleftrightarrow>
     bit (io_flags s) FLAGS_RC_OK \<and> sint (io_override_value s) < RC_CHANNEL_LOW_THRESH \<or>
     \<not> bit (io_flags s) FLAGS_FMU_OK \<and> bit (io_arming s) ARMING_OVERRIDE_IMMEDIATE \<and>
     bit (io_flags s) FLAGS_MIXER_OK"

definition decide_override :: "io_env \<Rightarrow> rc_inputs \<Rightarrow> bool \<Rightarrow> px4io \<Rightarrow> px4io option" where
  "decide_override env inp updated s =
     (if override_allowed s \<and> override_requested s
      then (let s = upd_flags (set_bit FLAGS_OVERRIDE) s
            in if updated then mixer_tick env (in_mixer_clk inp) s else Some s)
      else Some (upd_flags (unset_bit FLAGS_OVERRIDE) s))"

definition flag_kinds :: "bool \<Rightarrow> bool \<Rightarrow> bool \<Rightarrow> px4io \<Rightarrow> px4io" where
  "flag_kinds dsm_upd st24_upd sumd_upd s =
     (let s = (if dsm_upd then upd_flags (set_bit FLAGS_RC_DSM) s else s);
          s = (if st24_upd then upd_flags (set_bit FLAGS_RC_ST24) s else s)
      in if sumd_upd then upd_flags (set_bit FLAGS_RC_SUMD) s else s)"

definition controls_gather ::
    "io_env \<Rightarrow> rc_inputs \<Rightarrow> px4io \<times> rc_world \<Rightarrow> (bool \<times> px4io \<times> rc_world) option" where
  "controls_gather env inp = (\<lambda>(s, w).
     do {
       (rssi, s) \<leftarrow> Some (controls_adc_rssi inp s);
       let rssi = (if bit (io_raw_flags s) RAW_RC_OK then rssi else 0);
       (dsm_upd, st24_upd, sumd_upd, rssi, s, w) \<leftarrow> dsm_port_input env inp rssi (s, w);
       (sbus_upd, rssi, s, w) \<leftarrow> sbus_gather env inp rssi (flag_kinds dsm_upd st24_upd sumd_upd s, w);
       (ppm_upd, s, w) \<leftarrow> Some (ppm_input inp (s, w));
       let s = (if ppm_upd then clear_drop_failsafe (upd_flags (set_bit FLAGS_RC_PPM) s) else s);
       let s = (if io_raw_count s > 18 then s\<lparr>io_raw_count := 18\<rparr> else s);
       Some (dsm_upd \<or> sbus_upd \<or> ppm_upd \<or> st24_upd \<or> sumd_upd, s\<lparr>io_raw_nrssi := rssi\<rparr>, w)
     })"

definition controls_tick ::
    "io_env \<Rightarrow> rc_inputs \<Rightarrow> px4io \<times> rc_world \<Rightarrow> (px4io \<times> rc_world) option" where
  "controls_tick env inp sw = do {
     (updated, s, w) \<leftarrow> controls_gather env inp sw;
     s \<leftarrow> decide_override env inp updated
            (check_rc_loss inp (if updated then map_frame env inp s else s));
     Some (s, w)
   }"

end
