(* ===== verification/Px4ioSerial.thy ===== *)
theory Px4ioSerial
  imports Px4ioControls
begin

text \<open>
  The serial link to the main processor: packets and their checksum (\<open>px4iofirmware/protocol.h\<close>)
  and the receive side (\<open>px4iofirmware/serial.c\<close>).  A packet is its 68 bytes of memory: a code with
  a register count, the checksum, page, offset and 32 registers.  \<^term>\<open>None\<close> is a read past it.
\<close>

section \<open>Checksum\<close>

definition crc8_tab :: "u8 list" where
  "crc8_tab = [
   0x00, 0x07, 0x0E, 0x09, 0x1C, 0x1B, 0x12, 0x15, 0x38, 0x3F, 0x36, 0x31, 0x24, 0x23, 0x2A, 0x2D,
   0x70, 0x77, 0x7E, 0x79, 0x6C, 0x6B, 0x62, 0x65, 0x48, 0x4F, 0x46, 0x41, 0x54, 0x53, 0x5A, 0x5D,
   0xE0, 0xE7, 0xEE, 0xE9, 0xFC, 0xFB, 0xF2, 0xF5, 0xD8, 0xDF, 0xD6, 0xD1, 0xC4, 0xC3, 0xCA, 0xCD,
   0x90, 0x97, 0x9E, 0x99, 0x8C, 0x8B, 0x82, 0x85, 0xA8, 0xAF, 0xA6, 0xA1, 0xB4, 0xB3, 0xBA, 0xBD,
   0xC7, 0xC0, 0xC9, 0xCE, 0xDB, 0xDC, 0xD5, 0xD2, 0xFF, 0xF8, 0xF1, 0xF6, 0xE3, 0xE4, 0xED, 0xEA,
   0xB7, 0xB0, 0xB9, 0xBE, 0xAB, 0xAC, 0xA5, 0xA2, 0x8F, 0x88, 0x81, 0x86, 0x93, 0x94, 0x9D, 0x9A,
   0x27, 0x20, 0x29, 0x2E, 0x3B, 0x3C, 0x35, 0x32, 0x1F, 0x18, 0x11, 0x16, 0x03, 0x04, 0x0D, 0x0A,
   0x57, 0x50, 0x59, 0x5E, 0x4B, 0x4C, 0x45, 0x42, 0x6F, 0x68, 0x61, 0x66, 0x73, 0x74, 0x7D, 0x7A,
   0x89, 0x8E, 0x87, 0x80, 0x95, 0x92, 0x9B, 0x9C, 0xB1, 0xB6, 0xBF, 0xB8, 0xAD, 0xAA, 0xA3, 0xA4,
   0xF9, 0xFE, 0xF7, 0xF0, 0xE5, 0xE2, 0xEB, 0xEC, 0xC1, 0xC6, 0xCF, 0xC8, 0xDD, 0xDA, 0xD3, 0xD4,
   0x69, 0x6E, 0x67, 0x60, 0x75, 0x72, 0x7B, 0x7C, 0x51, 0x56, 0x5F, 0x58, 0x4D, 0x4A, 0x43, 0x44,
   0x19, 0x1E, 0x17, 0x10, 0x05, 0x02, 0x0B, 0x0C, 0x21, 0x26, 0x2F, 0x28, 0x3D, 0x3A, 0x33, 0x34,
   0x4E, 0x49, 0x40, 0x47, 0x52, 0x55, 0x5C, 0x5B, 0x76, 0x71, 0x78, 0x7F, 0x6A, 0x6D, 0x64, 0x63,
   0x3E, 0x39, 0x30, 0x37, 0x22, 0x25, 0x2C, 0x2B, 0x06, 0x01, 0x08, 0x0F, 0x1A, 0x1D, 0x14, 0x13,
   0xAE, 0xA9, 0xA0, 0xA7, 0xB2, 0xB5, 0xBC, 0xBB, 0x96, 0x91, 0x98, 0x9F, 0x8A, 0x8D, 0x84, 0x83,
   0xDE, 0xD9, 0xD0, 0xD7, 0xC2, 0xC5, 0xCC, 0xCB, 0xE6, 0xE1, 0xE8, 0xEF, 0xFA, 0xFD, 0xF4, 0xF3]"

definition crc8_step :: "u8 \<Rightarrow> u8 \<Rightarrow> u8" where
  "crc8_step b c = crc8_tab ! unat (c XOR b)"

definition crc8_run :: "u8 list \<Rightarrow> u8 \<Rightarrow> u8" where
  "crc8_run bs c = fold crc8_step bs c"

section \<open>Packets\<close>

definition PKT_COUNT :: "u8 list \<Rightarrow> nat" where "PKT_COUNT p = unat (p ! 0 AND 0x3f)"
definition PKT_CODE :: "u8 list \<Rightarrow> u8" where "PKT_CODE p = p ! 0 AND 0xc0"
definition PKT_SIZE :: "u8 list \<Rightarrow> nat" where "PKT_SIZE p = 4 + 2 * PKT_COUNT p"

abbreviation (input) "PKT_CODE_READ \<equiv> 0x00 :: u8"
abbreviation (input) "PKT_CODE_WRITE \<equiv> 0x40 :: u8"
abbreviation (input) "PKT_CODE_SUCCESS \<equiv> 0x00 :: u8"
abbreviation (input) "PKT_CODE_CORRUPT \<equiv> 0x40 :: u8"
abbreviation (input) "PKT_CODE_ERROR \<equiv> 0x80 :: u8"

definition crc_packet :: "u8 list \<Rightarrow> u8 option" where
  "crc_packet p = map_option (\<lambda>bs. crc8_run bs 0) (mem_read p 0 (PKT_SIZE p))"

definition pkt_regs :: "u8 list \<Rightarrow> u16 list" where
  "pkt_regs p = map (\<lambda>i. of_le_bytes (take 2 (drop (4 + 2 * i) p))) [0..<PKT_COUNT p]"

text \<open>What the hardware contributes to a read of the status page: free memory and two ADC channels.\<close>

record io_readings =
  rd_freemem :: u16
  rd_vservo :: u16
  rd_vrssi :: u16

definition rx_write :: "io_env \<Rightarrow> u64 \<Rightarrow> u8 list \<Rightarrow> px4io \<Rightarrow> (u8 list \<times> px4io) option" where
  "rx_write env now p s =
     map_option (\<lambda>(r, s). (p[0 := if r \<noteq> 0 then PKT_CODE_ERROR else PKT_CODE_SUCCESS], s))
       (registers_set env now (p ! 2) (p ! 3) (pkt_regs p) s)"

definition rx_read :: "io_env \<Rightarrow> io_readings \<Rightarrow> u8 list \<Rightarrow> px4io \<Rightarrow> (u8 list \<times> px4io) option" where
  "rx_read env rd p s =
     (case registers_get env (rd_freemem rd) (rd_vservo rd) (rd_vrssi rd) (p ! 2) (p ! 3) s of
        (None, s) \<Rightarrow> Some (p[0 := PKT_CODE_ERROR], s)
      | (Some ws, s) \<Rightarrow>
          (let count = min (min (length ws) 32) (PKT_COUNT p)
           in map_option (\<lambda>p. (p[0 := of_nat count OR PKT_CODE_SUCCESS], s))
                (mem_write p 4 (concat (map le_bytes (take count ws))))))"

definition rx_handle_packet ::
    "io_env \<Rightarrow> u64 \<Rightarrow> io_readings \<Rightarrow> u8 list \<Rightarrow> px4io \<Rightarrow> (u8 list \<times> px4io) option" where
  "rx_handle_packet env now rd packet s =
     (let crc = packet ! 1; p = packet[1 := 0]
      in case crc_packet p of None \<Rightarrow> None
         | Some c \<Rightarrow>
             if crc \<noteq> c then Some (p[0 := PKT_CODE_CORRUPT, 2 := 0xff, 3 := 0xff], s)
             else if PKT_CODE p = PKT_CODE_WRITE then rx_write env now p s
             else if PKT_CODE p = PKT_CODE_READ then rx_read env rd p s
             else Some (p[0 := PKT_CODE_CORRUPT, 2 := 0xff, 3 := 0xfe], s))"

text \<open>The reply that \<open>rx_dma_callback\<close> sends: the handled packet with a fresh checksum, cut to its size.\<close>

definition rx_dma_callback ::
    "io_env \<Rightarrow> u64 \<Rightarrow> io_readings \<Rightarrow> u8 list \<Rightarrow> px4io \<Rightarrow> (u8 list \<times> u8 list \<times> px4io) option" where
  "rx_dma_callback env now rd p s = do {
     (p, s) \<leftarrow> rx_handle_packet env now rd p s;
     let p = p[1 := 0];
     c \<leftarrow> crc_packet p;
     let p = p[1 := c];
     reply \<leftarrow> mem_read p 0 (PKT_SIZE p);
     Some (reply, p, s)
   }"

section \<open>Interrupts\<close>

record io_link =
  ln_packet :: "u8 list"
  ln_abort_on_idle :: bool

record uart_status =
  ua_error :: bool
  ua_idle :: bool

text \<open>
  An interrupt after the DMA has stored \<open>received\<close> bytes at the start of the packet; the result is
  the reply that is sent, if any.  Restarting the DMA leaves the packet's bytes in place.
\<close>

definition serial_interrupt ::
    "io_env \<Rightarrow> u64 \<Rightarrow> io_readings \<Rightarrow> uart_status \<Rightarrow> nat \<Rightarrow> io_link \<Rightarrow> px4io \<Rightarrow>
     (u8 list option \<times> io_link \<times> px4io) option" where
  "serial_interrupt env now rd ua received ln s =
     (let ln = (if ua_error ua then ln\<lparr>ln_abort_on_idle := True\<rparr> else ln)
      in if \<not> ua_idle ua then Some (None, ln, s)
         else if ln_abort_on_idle ln then Some (None, ln\<lparr>ln_abort_on_idle := False\<rparr>, s)
         else if received < 1 \<or> received < PKT_SIZE (ln_packet ln) then Some (None, ln, s)
         else map_option (\<lambda>(reply, p, s). (Some reply, ln\<lparr>ln_packet := p\<rparr>, s))
                (rx_dma_callback env now rd (ln_packet ln) s))"

section \<open>Start\<close>

text \<open>The static initial values, and the state in which \<open>user_start\<close> enters its loop.\<close>

definition px4io_static :: px4io where
  "px4io_static =
     \<lparr>io_freemem = 0, io_flags = 0, io_alarms = 0, io_vservo = 0, io_vrssi = 0, io_mixer_limits = 0,
      io_actuators = replicate 8 0, io_servos = replicate 8 0,
      io_raw_count = 0, io_raw_flags = 0, io_raw_nrssi = 0, io_raw_data = 0, io_raw_values = replicate 19 0,
      io_rc_valid = 0, io_rc_values = replicate 9 0,
      io_features = 8, io_arming = 0x400, io_pwm_rates = 0, io_defaultrate = 50, io_altrate = 200,
      io_vscale = 10000, io_debug = 0, io_crc = [0, 0], io_thr_failsafe = 0, io_reverse = 0,
      io_trim_roll = 0, io_trim_pitch = 0, io_trim_yaw = 0,
      io_controls = replicate 32 0,
      io_rc_config = replicate 18 \<lparr>rcc_min = 0, rcc_center = 0, rcc_max = 0, rcc_deadzone = 0,
                                   rcc_assignment = 0, rcc_options = 0\<rparr>,
      io_failsafe = replicate 8 0, io_control_min = replicate 8 1000, io_control_max = replicate 8 2000,
      io_disarmed = replicate 8 0,
      io_rc_received = 0, io_rc_valid_time = 0, io_fmu_time = 0,
      io_pwm_limit = \<lparr>pl_state = PWM_LIMIT_STATE_OFF, pl_time_armed = 0\<rparr>,
      io_source = MIX_NONE, io_should_arm = False, io_should_arm_nothrottle = False,
      io_always_pwm = False, io_in_mixer = False, io_servos_armed = False,
      io_mixers = [], io_text = replicate 256 NUL, io_text_length = 0,
      io_button_counter = 0, io_blink_counter = 0, io_failsafe_led = False,
      io_override_value = 0, io_rssi_counts = 0, io_reboot_time = 0, io_out = []\<rparr>"

definition rc_static :: rc_world where
  "rc_static =
     \<lparr>rw_dsm = \<lparr>dsm_last_rx_time = 0, dsm_last_frame_time = 0, dsm_frame = replicate 16 0,
               dsm_partial_frame_count = 0, dsm_channel_shift = 0, dsm_frame_drops = 0,
               dsm_cs10 = 0, dsm_cs11 = 0, dsm_samples = 0\<rparr>,
      rw_st24 = \<lparr>st_state = ST24_UNSYNCED, st_rxlen = 0, st_length = 0, st_type = 0,
                st_data = replicate 64 0, st_crc8 = 0\<rparr>,
      rw_sumd = \<lparr>su_state = SUMD_UNSYNCED, su_rxlen = 0, su_crc8 = 0, su_crc16 = 0, su_sumd = True,
                su_crc_ok = False, su_header = 0, su_status = 0, su_length = 0, su_data = replicate 65 0,
                su_crc16_low = 0, su_telemetry = 0, su_rx_crc8 = 0\<rparr>,
      rw_sbus = \<lparr>sb_last_rx_time = 0, sb_last_frame_time = 0, sb_last_txframe_time = 0,
                sb_state = SBUS2_DESYNC, sb_frame = replicate 37 0, sb_count = 0, sb_drops = 0\<rparr>,
      rw_ppm_last_valid = 0, rw_ppm_channels = 0, rw_ppm_buffer = replicate 20 0, rw_ppm_frame_length = 0\<rparr>"

definition user_start :: "u16 list \<Rightarrow> u64 \<Rightarrow> u64 \<Rightarrow> px4io \<times> rc_world" where
  "user_start crc now_dsm now_sbus =
     (case controls_init now_dsm now_sbus (px4io_static\<lparr>io_crc := crc\<rparr>, rc_static) of
        (s, w) \<Rightarrow> (s\<lparr>io_pwm_limit := pwm_limit_init (io_pwm_limit s)\<rparr>, w))"

section \<open>The main loop\<close>

text \<open>\<open>check_reboot\<close>: whether the scheduled reset is due.\<close>

definition check_reboot :: "u64 \<Rightarrow> px4io \<Rightarrow> bool" where
  "check_reboot now s \<longleftrightarrow> io_reboot_time s \<noteq> 0 \<and> now > io_reboot_time s"

text \<open>
  What happens on the co-processor: a turn of the main loop, the 10 Hz and 8 Hz callouts of the
  safety switch and the LED, and a packet from the main processor, whose effects reach the DSM receiver.
\<close>

datatype io_event =
    Loop_turn clock rc_inputs
  | Button_tick bool
  | Blink_tick
  | Packet u64 io_readings "u8 list"

definition apply_effect :: "io_effect \<Rightarrow> rc_world \<Rightarrow> rc_world" where
  "apply_effect e w = (case e of Dsm_bind cmd pulses \<Rightarrow> w\<lparr>rw_dsm := dsm_bind cmd (rw_dsm w)\<rparr> | _ \<Rightarrow> w)"

definition io_step :: "io_env \<Rightarrow> io_event \<Rightarrow> px4io \<times> rc_world \<Rightarrow> (px4io \<times> rc_world) option" where
  "io_step env e = (\<lambda>(s, w).
     case e of
       Loop_turn clk inp \<Rightarrow> Option.bind (mixer_tick env clk s) (\<lambda>s. controls_tick env inp (s, w))
     | Button_tick pressed \<Rightarrow> Some (safety_check_button pressed s, w)
     | Blink_tick \<Rightarrow> Some (failsafe_blink s, w)
     | Packet now rd p \<Rightarrow>
         map_option (\<lambda>(reply, p, s'). (s', fold apply_effect (drop (length (io_out s)) (io_out s')) w))
           (rx_dma_callback env now rd p s))"

fun io_run :: "io_env \<Rightarrow> io_event list \<Rightarrow> px4io \<times> rc_world \<Rightarrow> (px4io \<times> rc_world) option" where
  "io_run env [] sw = Some sw"
| "io_run env (e # es) sw = Option.bind (io_step env e sw) (io_run env es)"

text \<open>A state the firmware gets to after power-up.\<close>

definition io_reachable :: "io_env \<Rightarrow> px4io \<times> rc_world \<Rightarrow> bool" where
  "io_reachable env sw \<longleftrightarrow> (\<exists>es crc t u. io_run env es (user_start crc t u) = Some sw)"

end
