(* ===== verification/Px4ioFrame.thy ===== *)
theory Px4ioFrame
  imports Px4ioSerial
begin

text \<open>
  What the operations of the co-processor leave alone.  \<open>config_of\<close> collects the registers that
  only the main processor's writes (and, for the arming word, the termination logic) may change.
\<close>

section \<open>Configuration registers\<close>

definition config_of :: "px4io \<Rightarrow> u16 list \<times> u16 list \<times> u16 list \<times> u16 list \<times> u16 \<times> mixer list" where
  "config_of s =
     (io_control_min s, io_control_max s, io_disarmed s, io_failsafe s, io_arming s, io_mixers s)"

named_theorems io_frame \<open>configuration after an operation\<close>

lemma config_upd_flags [io_frame]: "config_of (upd_flags f s) = config_of s"
  by (simp add: config_of_def upd_flags_def)

lemma config_emit [io_frame]: "config_of (emit es s) = config_of s"
  by (simp add: config_of_def emit_def)

lemma config_fields [io_frame]:
  "config_of (s\<lparr>io_raw_flags := a\<rparr>) = config_of s"
  "config_of (s\<lparr>io_raw_values := vs\<rparr>) = config_of s"
  "config_of (s\<lparr>io_raw_count := a\<rparr>) = config_of s"
  "config_of (s\<lparr>io_raw_nrssi := a\<rparr>) = config_of s"
  "config_of (s\<lparr>io_raw_data := a\<rparr>) = config_of s"
  "config_of (s\<lparr>io_rc_values := vs\<rparr>) = config_of s"
  "config_of (s\<lparr>io_rc_valid := a\<rparr>) = config_of s"
  "config_of (s\<lparr>io_rc_received := t\<rparr>) = config_of s"
  "config_of (s\<lparr>io_rc_valid_time := t\<rparr>) = config_of s"
  "config_of (s\<lparr>io_override_value := a\<rparr>) = config_of s"
  "config_of (s\<lparr>io_rssi_counts := c\<rparr>) = config_of s"
  "config_of (s\<lparr>io_features := a\<rparr>) = config_of s"
  "config_of (s\<lparr>io_alarms := a\<rparr>) = config_of s"
  "config_of (s\<lparr>io_flags := a\<rparr>) = config_of s"
  "config_of (s\<lparr>io_button_counter := c\<rparr>) = config_of s"
  "config_of (s\<lparr>io_blink_counter := c\<rparr>) = config_of s"
  "config_of (s\<lparr>io_failsafe_led := b\<rparr>) = config_of s"
  "config_of (s\<lparr>io_servos_armed := b\<rparr>) = config_of s"
  "config_of (s\<lparr>io_source := src\<rparr>) = config_of s"
  "config_of (s\<lparr>io_should_arm := b\<rparr>) = config_of s"
  "config_of (s\<lparr>io_should_arm_nothrottle := b\<rparr>) = config_of s"
  "config_of (s\<lparr>io_always_pwm := b\<rparr>) = config_of s"
  "config_of (s\<lparr>io_servos := vs\<rparr>) = config_of s"
  "config_of (s\<lparr>io_actuators := vs\<rparr>) = config_of s"
  "config_of (s\<lparr>io_mixer_limits := a\<rparr>) = config_of s"
  "config_of (s\<lparr>io_pwm_limit := l\<rparr>) = config_of s"
  "config_of (s\<lparr>io_controls := vs\<rparr>) = config_of s"
  "config_of (s\<lparr>io_fmu_time := t\<rparr>) = config_of s"
  "config_of (s\<lparr>io_rc_config := cs\<rparr>) = config_of s"
  "config_of (s\<lparr>io_reboot_time := t\<rparr>) = config_of s"
  "config_of (s\<lparr>io_vscale := a\<rparr>) = config_of s"
  "config_of (s\<lparr>io_debug := a\<rparr>) = config_of s"
  "config_of (s\<lparr>io_thr_failsafe := a\<rparr>) = config_of s"
  "config_of (s\<lparr>io_reverse := a\<rparr>) = config_of s"
  "config_of (s\<lparr>io_trim_roll := a\<rparr>) = config_of s"
  "config_of (s\<lparr>io_trim_pitch := a\<rparr>) = config_of s"
  "config_of (s\<lparr>io_trim_yaw := a\<rparr>) = config_of s"
  "config_of (s\<lparr>io_pwm_rates := a\<rparr>) = config_of s"
  "config_of (s\<lparr>io_defaultrate := a\<rparr>) = config_of s"
  "config_of (s\<lparr>io_altrate := a\<rparr>) = config_of s"
  "config_of (s\<lparr>io_freemem := a\<rparr>) = config_of s"
  "config_of (s\<lparr>io_vservo := a\<rparr>) = config_of s"
  "config_of (s\<lparr>io_vrssi := a\<rparr>) = config_of s"
  by (simp_all add: config_of_def)

lemma config_put_flag_flags [io_frame]:
  "config_of (clear_drop_failsafe s) = config_of s"
  by (simp add: clear_drop_failsafe_def io_frame)

section \<open>Safety switch, LED and radio\<close>

lemma config_safety [io_frame]: "config_of (safety_check_button pressed s) = config_of s"
  by (simp add: safety_check_button_def safety_debounce_def Let_def io_frame)

lemma config_blink [io_frame]: "config_of (failsafe_blink s) = config_of s"
  by (simp add: failsafe_blink_def Let_def io_frame)

lemma config_map_channel [io_frame]: "config_of (fst (map_channel env i sa)) = config_of (fst sa)"
  by (cases sa) (simp add: map_channel_def Let_def io_frame)

lemma config_map_channels [io_frame]:
  "config_of (fst (fold (map_channel env) is sa)) = config_of (fst sa)"
  by (induction "is" arbitrary: sa) (simp_all add: io_frame)

lemma config_map_frame [io_frame]: "config_of (map_frame env inp s) = config_of s"
proof -
  let ?s = "s\<lparr>io_rc_received := in_clk inp 3, io_rc_valid_time := in_clk inp 3\<rparr>"
  have "config_of (fst (fold (map_channel env) [0..<unat (io_raw_count s)] (?s, 0))) = config_of s"
    by (simp add: io_frame)
  then show ?thesis
    by (cases "fold (map_channel env) [0..<unat (io_raw_count s)] (?s, 0)")
       (simp add: map_frame_def Let_def io_frame)
qed

lemma config_rc_loss [io_frame]: "config_of (check_rc_loss inp s) = config_of s"
  by (simp add: check_rc_loss_def rc_lost_def Let_def io_frame)

lemma config_adc [io_frame]: "config_of (snd (controls_adc_rssi inp s)) = config_of s"
  by (simp add: controls_adc_rssi_def Let_def io_frame)

lemma config_ppm [io_frame]: "config_of (fst (snd (ppm_input inp sw))) = config_of (fst sw)"
  by (cases sw) (simp add: ppm_input_def Let_def io_frame)

lemma config_sbus:
  "sbus_gather env inp rssi sw = Some r \<Longrightarrow> config_of (fst (snd (snd r))) = config_of (fst sw)"
  by (cases sw) (auto simp: sbus_gather_def Let_def io_frame bind_eq_Some_conv split: if_splits prod.splits)

lemma config_dsm_port:
  "dsm_port_input env inp rssi sw = Some r \<Longrightarrow>
   config_of (fst (snd (snd (snd (snd r))))) = config_of (fst sw)"
  by (cases sw) (auto simp: dsm_port_input_def Let_def io_frame bind_eq_Some_conv)

lemma config_flag_kinds [io_frame]: "config_of (flag_kinds a b c s) = config_of s"
  by (simp add: flag_kinds_def Let_def io_frame)

lemma config_gather:
  "controls_gather env inp sw = Some r \<Longrightarrow> config_of (fst (snd r)) = config_of (fst sw)"
  by (cases sw) (auto simp: controls_gather_def Let_def bind_eq_Some_conv io_frame split_beta
      dest!: config_dsm_port config_sbus split: if_splits)

section \<open>Mixing\<close>

lemma config_check_fmu [io_frame]: "config_of (mixer_check_fmu clk s) = config_of s"
  by (simp add: mixer_check_fmu_def io_frame)

lemma config_set_arming [io_frame]: "config_of (mixer_set_arming s) = config_of s"
  by (simp add: mixer_set_arming_def io_frame)

lemma config_output [io_frame]: "config_of (mixer_output s) = config_of s"
  by (simp add: mixer_output_def io_frame)

lemma config_mixer_run: "mixer_run env clk s = Some s' \<Longrightarrow> config_of s' = config_of s"
  by (auto simp: mixer_run_def mixer_failsafe_outputs_def Let_def io_frame
      split: if_splits prod.splits)

end
