(* ===== verification/Px4ioInv.thy ===== *)
theory Px4ioInv
  imports Px4ioFrame
begin

text \<open>
  Invariants of the co-processor's registers: the pulse limits stay within the ranges the protocol
  promises, and once the flight is terminated it stays terminated.
\<close>

section \<open>Invariants\<close>

definition pulse_ok :: "u16 \<Rightarrow> bool" where
  "pulse_ok v \<longleftrightarrow> v = 0 \<or> PWM_LOWEST_MIN \<le> v \<and> v \<le> PWM_HIGHEST_MAX"

definition limits_ok :: "px4io \<Rightarrow> bool" where
  "limits_ok s \<longleftrightarrow>
     length (io_control_min s) = 8 \<and> length (io_control_max s) = 8 \<and>
     length (io_disarmed s) = 8 \<and> length (io_servos s) = 8 \<and> length (io_failsafe s) = 8 \<and>
     (\<forall>v \<in> set (io_control_min s). PWM_LOWEST_MIN \<le> v \<and> v \<le> PWM_HIGHEST_MIN) \<and>
     (\<forall>v \<in> set (io_control_max s). PWM_LOWEST_MAX \<le> v \<and> v \<le> PWM_HIGHEST_MAX) \<and>
     (\<forall>v \<in> set (io_disarmed s). pulse_ok v)"

definition flight_terminated :: "px4io \<Rightarrow> bool" where
  "flight_terminated s \<longleftrightarrow>
     bit (io_arming s) ARMING_TERMINATION_FAILSAFE \<and> bit (io_arming s) ARMING_FORCE_FAILSAFE"

lemma limits_ok_config:
  "config_of s' = config_of s \<Longrightarrow> io_servos s' = io_servos s \<Longrightarrow> limits_ok s' = limits_ok s"
  by (simp add: limits_ok_def config_of_def)

lemma terminated_config: "config_of s' = config_of s \<Longrightarrow> flight_terminated s' = flight_terminated s"
  by (simp add: flight_terminated_def config_of_def)

lemma limits_ok_servos:
  "config_of s' = config_of s \<Longrightarrow> limits_ok s \<Longrightarrow> length (io_servos s') = 8 \<Longrightarrow> limits_ok s'"
  by (simp add: limits_ok_def config_of_def)

section \<open>Operations that leave the servo registers alone\<close>

named_theorems servo_frame \<open>servo registers after an operation\<close>

lemma servos_basic [servo_frame]:
  "io_servos (upd_flags f s) = io_servos s" "io_servos (emit es s) = io_servos s"
  "io_servos (clear_drop_failsafe s) = io_servos s" "io_servos (flag_kinds a b c s) = io_servos s"
  by (simp_all add: upd_flags_def emit_def clear_drop_failsafe_def flag_kinds_def Let_def)

lemma servos_safety [servo_frame]:
  "io_servos (safety_check_button pressed s) = io_servos s" "io_servos (failsafe_blink s) = io_servos s"
  by (simp_all add: safety_check_button_def safety_debounce_def failsafe_blink_def Let_def servo_frame)

lemma servos_map_channel [servo_frame]: "io_servos (fst (map_channel env i sa)) = io_servos (fst sa)"
  by (cases sa) (simp add: map_channel_def Let_def)

lemma servos_map_channels [servo_frame]:
  "io_servos (fst (fold (map_channel env) is sa)) = io_servos (fst sa)"
  by (induction "is" arbitrary: sa) (simp_all add: servo_frame)

lemma servos_radio [servo_frame]:
  "io_servos (map_frame env inp s) = io_servos s" "io_servos (check_rc_loss inp s) = io_servos s"
  by (simp_all add: map_frame_def check_rc_loss_def rc_lost_def Let_def servo_frame split_beta)

lemma servos_adc [servo_frame]: "io_servos (snd (controls_adc_rssi inp s)) = io_servos s"
  by (simp add: controls_adc_rssi_def Let_def)

lemma servos_ppm [servo_frame]: "io_servos (fst (snd (ppm_input inp sw))) = io_servos (fst sw)"
  by (cases sw) (simp add: ppm_input_def Let_def)

lemma servos_sbus:
  "sbus_gather env inp rssi sw = Some r \<Longrightarrow> io_servos (fst (snd (snd r))) = io_servos (fst sw)"
  by (cases sw) (auto simp: sbus_gather_def Let_def servo_frame bind_eq_Some_conv split: if_splits prod.splits)

lemma servos_dsm_port:
  "dsm_port_input env inp rssi sw = Some r \<Longrightarrow>
   io_servos (fst (snd (snd (snd (snd r))))) = io_servos (fst sw)"
  by (cases sw) (auto simp: dsm_port_input_def Let_def servo_frame bind_eq_Some_conv)

lemma servos_gather:
  "controls_gather env inp sw = Some r \<Longrightarrow> io_servos (fst (snd r)) = io_servos (fst sw)"
  by (cases sw) (auto simp: controls_gather_def Let_def bind_eq_Some_conv servo_frame split_beta
      dest!: servos_dsm_port servos_sbus split: if_splits)

lemma servos_mixer [servo_frame]:
  "io_servos (mixer_check_fmu clk s) = io_servos s" "io_servos (mixer_decide s) = io_servos s"
  "io_servos (mixer_set_arming s) = io_servos s" "io_servos (mixer_output s) = io_servos s"
  by (simp_all add: mixer_check_fmu_def mixer_decide_def mixer_set_arming_def mixer_output_def
      Let_def servo_frame)

section \<open>The mixing loop\<close>

lemma decide_config:
  "io_control_min (mixer_decide s) = io_control_min s" "io_control_max (mixer_decide s) = io_control_max s"
  "io_disarmed (mixer_decide s) = io_disarmed s" "io_failsafe (mixer_decide s) = io_failsafe s"
  "io_mixers (mixer_decide s) = io_mixers s"
  by (simp_all add: mixer_decide_def upd_flags_def Let_def)

lemma decide_arming:
  "bit (io_arming (mixer_decide s)) n \<longleftrightarrow> bit (io_arming s) n \<or>
     n = ARMING_FORCE_FAILSAFE \<and> bit (io_arming s) ARMING_TERMINATION_FAILSAFE \<and>
     select_source s = MIX_FAILSAFE \<and> arm_wanted s \<and> bit (io_flags s) FLAGS_FMU_INITIALIZED"
  by (auto simp: mixer_decide_def upd_flags_def Let_def bit_set_bit_iff arm_wanted_def)

lemma limits_decide: "limits_ok (mixer_decide s) = limits_ok s"
  by (simp add: limits_ok_def decide_config servo_frame)

lemma terminated_decide: "flight_terminated s \<Longrightarrow> flight_terminated (mixer_decide s)"
  by (simp add: flight_terminated_def decide_arming)

lemma run_servos_length:
  "mixer_run env clk s = Some s' \<Longrightarrow> limits_ok s \<Longrightarrow> length (io_servos s') = 8"
  by (auto simp: mixer_run_def mixer_failsafe_outputs_def limits_ok_def Let_def pwm_limit_calc_def
      split: if_splits prod.splits)

lemma tick_stages:
  assumes "mixer_tick env clk s = Some s'"
  obtains s1 where "mixer_run env clk (mixer_decide (mixer_check_fmu clk s)) = Some s1"
    "s' = mixer_output (mixer_set_arming s1)"
  using assms by (auto simp: mixer_tick_def)

lemma limits_tick: "mixer_tick env clk s = Some s' \<Longrightarrow> limits_ok s \<Longrightarrow> limits_ok s'"
  by (elim tick_stages)
     (metis config_check_fmu config_mixer_run config_output config_set_arming limits_decide
       limits_ok_config limits_ok_servos run_servos_length servos_mixer(1,3,4))

lemma terminated_tick: "mixer_tick env clk s = Some s' \<Longrightarrow> flight_terminated s \<Longrightarrow> flight_terminated s'"
  by (elim tick_stages)
     (metis config_check_fmu config_mixer_run config_output config_set_arming terminated_config
       terminated_decide)

lemma override_stages:
  assumes "decide_override env inp u s = Some s'"
  shows "(\<exists>f. s' = upd_flags f s) \<or> (\<exists>f. mixer_tick env (in_mixer_clk inp) (upd_flags f s) = Some s')"
  using assms by (auto simp: decide_override_def Let_def split: if_splits)

lemma controls_stages:
  assumes "controls_tick env inp sw = Some (s', w')"
  obtains u s1 where "controls_gather env inp sw = Some (u, s1, w')"
    "decide_override env inp u (check_rc_loss inp (if u then map_frame env inp s1 else s1)) = Some s'"
  using assms by (auto simp: controls_tick_def bind_eq_Some_conv)

lemma limits_override: "decide_override env inp u s = Some s' \<Longrightarrow> limits_ok s \<Longrightarrow> limits_ok s'"
  using override_stages [of env inp u s s'] limits_tick
  by (metis config_upd_flags limits_ok_config servos_basic(1))

lemma terminated_override:
  "decide_override env inp u s = Some s' \<Longrightarrow> flight_terminated s \<Longrightarrow> flight_terminated s'"
  using override_stages [of env inp u s s'] terminated_tick
  by (metis config_upd_flags terminated_config)

lemma controls_config:
  assumes "controls_gather env inp (s, w) = Some (u, s1, w')"
  shows "config_of (check_rc_loss inp (if u then map_frame env inp s1 else s1)) = config_of s"
    "io_servos (check_rc_loss inp (if u then map_frame env inp s1 else s1)) = io_servos s"
  using config_gather [OF assms] servos_gather [OF assms] by (simp_all add: io_frame servo_frame)

lemma limits_controls:
  "controls_tick env inp (s, w) = Some (s', w') \<Longrightarrow> limits_ok s \<Longrightarrow> limits_ok s'"
  by (elim controls_stages) (metis controls_config limits_ok_config limits_override)

lemma terminated_controls:
  "controls_tick env inp (s, w) = Some (s', w') \<Longrightarrow> flight_terminated s \<Longrightarrow> flight_terminated s'"
  by (elim controls_stages) (metis controls_config(1) terminated_config terminated_override)

section \<open>Register writes\<close>

lemma length_set_array [simp]: "length (set_array e n off vs old) = length old"
  by (induction e n off vs old rule: set_array.induct) simp_all

lemma set_array_all:
  assumes "\<And>v old. P old \<Longrightarrow> P (e v old)" "\<forall>x \<in> set old. P x" "n \<le> length old"
  shows "\<forall>x \<in> set (set_array e n off vs old). P x"
  using assms(2, 3)
proof (induction vs arbitrary: off old)
  case (Cons v vs)
  show ?case
  proof (cases "off < n")
    case True
    have "\<forall>x \<in> set (old[off := e v (old ! off)]). P x"
      using Cons.prems assms(1) [of "old ! off" v] set_update_subset_insert [of old off "e v (old ! off)"] True
      by (auto dest: subsetD)
    then show ?thesis
      using Cons.IH [of "old[off := e v (old ! off)]" "Suc off"] Cons.prems True by simp
  qed (use Cons.prems in simp)
qed simp

lemma limits_range_entry: "lo \<le> hi \<Longrightarrow> lo \<le> old \<and> old \<le> hi \<Longrightarrow> lo \<le> range_entry lo hi v old \<and> range_entry lo hi v old \<le> hi"
  by (simp add: range_entry_def not_less)

lemma pulse_disarmed_entry: "pulse_ok old \<Longrightarrow> pulse_ok (disarmed_entry v old)"
  by (simp add: pulse_ok_def disarmed_entry_def range_entry_def PWM_LOWEST_MIN_def PWM_HIGHEST_MAX_def not_less)

lemma limits_ok_sets:
  assumes "limits_ok s"
  shows "limits_ok (s\<lparr>io_control_min := set_array (range_entry PWM_LOWEST_MIN PWM_HIGHEST_MIN) 8 off vs (io_control_min s)\<rparr>)"
    "limits_ok (s\<lparr>io_control_max := set_array (range_entry PWM_LOWEST_MAX PWM_HIGHEST_MAX) 8 off vs (io_control_max s)\<rparr>)"
    "limits_ok (s\<lparr>io_disarmed := set_array disarmed_entry 8 off vs (io_disarmed s), io_arming := a\<rparr>)"
    "limits_ok (s\<lparr>io_failsafe := set_array e 8 off vs (io_failsafe s), io_arming := a\<rparr>)"
    "limits_ok (s\<lparr>io_failsafe := set_array e 8 off vs (io_failsafe s)\<rparr>)"
proof -
  have "\<forall>v \<in> set (set_array (range_entry PWM_LOWEST_MIN PWM_HIGHEST_MIN) 8 off vs (io_control_min s)).
      PWM_LOWEST_MIN \<le> v \<and> v \<le> PWM_HIGHEST_MIN"
    using assms by (intro set_array_all limits_range_entry)
      (auto simp: limits_ok_def PWM_LOWEST_MIN_def PWM_HIGHEST_MIN_def)
  then show "limits_ok (s\<lparr>io_control_min := set_array (range_entry PWM_LOWEST_MIN PWM_HIGHEST_MIN) 8 off vs (io_control_min s)\<rparr>)"
    using assms by (simp add: limits_ok_def)
next
  have "\<forall>v \<in> set (set_array (range_entry PWM_LOWEST_MAX PWM_HIGHEST_MAX) 8 off vs (io_control_max s)).
      PWM_LOWEST_MAX \<le> v \<and> v \<le> PWM_HIGHEST_MAX"
    using assms by (intro set_array_all limits_range_entry)
      (auto simp: limits_ok_def PWM_LOWEST_MAX_def PWM_HIGHEST_MAX_def)
  then show "limits_ok (s\<lparr>io_control_max := set_array (range_entry PWM_LOWEST_MAX PWM_HIGHEST_MAX) 8 off vs (io_control_max s)\<rparr>)"
    using assms by (simp add: limits_ok_def)
next
  have "\<forall>v \<in> set (set_array disarmed_entry 8 off vs (io_disarmed s)). pulse_ok v"
    using assms by (intro set_array_all pulse_disarmed_entry) (auto simp: limits_ok_def)
  then show "limits_ok (s\<lparr>io_disarmed := set_array disarmed_entry 8 off vs (io_disarmed s), io_arming := a\<rparr>)"
    using assms by (simp add: limits_ok_def)
next
  show "limits_ok (s\<lparr>io_failsafe := set_array e 8 off vs (io_failsafe s), io_arming := a\<rparr>)"
    "limits_ok (s\<lparr>io_failsafe := set_array e 8 off vs (io_failsafe s)\<rparr>)"
    using assms by (simp_all add: limits_ok_def)
qed

text \<open>The fields on which \<^const>\<open>limits_ok\<close> and \<^const>\<open>flight_terminated\<close> depend.\<close>

definition core_of :: "px4io \<Rightarrow> u16 list \<times> u16 list \<times> u16 list \<times> u16 list \<times> nat \<times> bool \<times> bool" where
  "core_of s =
     (io_control_min s, io_control_max s, io_disarmed s, io_servos s, length (io_failsafe s),
      bit (io_arming s) ARMING_TERMINATION_FAILSAFE, bit (io_arming s) ARMING_FORCE_FAILSAFE)"

lemma core_limits: "core_of s' = core_of s \<Longrightarrow> limits_ok s' = limits_ok s"
  by (auto simp: core_of_def limits_ok_def)

lemma core_terminated: "core_of s' = core_of s \<Longrightarrow> flight_terminated s' = flight_terminated s"
  by (simp add: core_of_def flight_terminated_def)

lemma core_config:
  "config_of s' = config_of s \<Longrightarrow> io_servos s' = io_servos s \<Longrightarrow> core_of s' = core_of s"
  by (simp add: core_of_def config_of_def)

named_theorems core_frame \<open>core fields after an update\<close>

lemma core_fields [core_frame]:
  "core_of (s\<lparr>io_text := t\<rparr>) = core_of s"
  "core_of (s\<lparr>io_text_length := n\<rparr>) = core_of s"
  "core_of (s\<lparr>io_mixers := ms\<rparr>) = core_of s"
  "core_of (s\<lparr>io_alarms := a\<rparr>) = core_of s"
  "core_of (s\<lparr>io_rc_config := cs\<rparr>) = core_of s"
  "core_of (s\<lparr>io_features := a\<rparr>) = core_of s"
  "core_of (s\<lparr>io_vscale := a\<rparr>) = core_of s"
  "core_of (s\<lparr>io_debug := a\<rparr>) = core_of s"
  "core_of (s\<lparr>io_reboot_time := rt\<rparr>) = core_of s"
  "core_of (s\<lparr>io_thr_failsafe := a\<rparr>) = core_of s"
  "core_of (s\<lparr>io_reverse := a\<rparr>) = core_of s"
  "core_of (s\<lparr>io_trim_roll := a\<rparr>) = core_of s"
  "core_of (s\<lparr>io_trim_pitch := a\<rparr>) = core_of s"
  "core_of (s\<lparr>io_trim_yaw := a\<rparr>) = core_of s"
  "core_of (upd_flags f s) = core_of s"
  "core_of (emit es s) = core_of s"
  "core_of (schedule_reboot now d s) = core_of s"
  by (simp_all add: core_of_def upd_flags_def emit_def schedule_reboot_def)

lemma core_rates [core_frame]: "core_of (pwm_configure_rates env m d a s) = core_of s"
proof -
  have "core_of (fold (set_group_rate env m) gs s) = core_of s" for gs
    by (induction gs arbitrary: s)
       (simp_all add: set_group_rate_def core_of_def emit_def Let_def)
  then show ?thesis
    by (simp add: pwm_configure_rates_def core_of_def)
qed

lemma core_rc_options [core_frame]: "core_of (set_rc_options c v s) = core_of s"
proof -
  have "core_of (t\<lparr>io_arming := unset_bit ARMING_RC_HANDLING_DISABLED (io_arming t)\<rparr>) = core_of t" for t
    by (simp add: core_of_def bit_unset_bit_iff)
  then show ?thesis
    by (simp add: set_rc_options_def Let_def core_frame)
qed

lemma core_rc_register: "core_of (snd (set_rc_register off v s)) = core_of s"
  by (simp add: set_rc_register_def Let_def core_frame)

lemma set_failsafe_length:
  "mixer_set_failsafe env s = Some s' \<Longrightarrow> length (io_failsafe s) = 8 \<Longrightarrow> length (io_failsafe s') = 8"
  by (auto simp: mixer_set_failsafe_def Let_def split: if_splits prod.splits)

lemma set_failsafe_core:
  "mixer_set_failsafe env s = Some s' \<Longrightarrow> length (io_failsafe s) = 8 \<Longrightarrow> core_of s' = core_of s"
  by (auto simp: mixer_set_failsafe_def core_of_def Let_def split: if_splits prod.splits)

lemma append_core: "mixer_append env t s = Some (r, s') \<Longrightarrow> core_of s' = core_of s"
  apply (simp only: mixer_append_def Let_def split: if_split_asm)
  subgoal by (auto simp: core_frame)
  apply (simp only: bind_eq_Some_conv, elim exE conjE)
  apply (simp only: bind_eq_Some_conv split: prod.split_asm if_split_asm)
  subgoal by (auto simp: core_frame)
  by (elim exE conjE) (auto simp: core_frame)

lemma handle_text_core: "mixer_handle_text env buf s = Some (r, s') \<Longrightarrow> core_of s' = core_of s"
  by (auto simp: mixer_handle_text_def Let_def core_frame split: if_splits dest!: append_core)

lemma status_register_core:
  assumes "set_status_register env off v s = Some (r, s')" "length (io_failsafe s) = 8"
  shows "core_of s' = core_of s"
proof -
  have l: "length (io_failsafe (upd_flags f s)) = 8" for f
    using assms(2) by (simp add: upd_flags_def)
  show ?thesis
    using assms(1) set_failsafe_core [OF _ l] set_failsafe_core [OF _ assms(2)]
    by (auto simp: set_status_register_def Let_def core_frame split: if_split_asm)
qed

lemma arming_register_limits: "limits_ok (set_setup_arming v s) = limits_ok s"
  by (simp add: set_setup_arming_def limits_ok_def upd_flags_def Let_def)

lemma arming_register_terminated: "flight_terminated s \<Longrightarrow> flight_terminated (set_setup_arming v s)"
  by (simp add: set_setup_arming_def flight_terminated_def upd_flags_def Let_def bit_set_bit_iff)

lemma setup_register_core:
  "off \<noteq> 1 \<Longrightarrow> core_of (snd (set_setup_register env now off v s)) = core_of s"
  by (simp add: set_setup_register_def core_frame)

lemma setup_register_arming: "snd (set_setup_register env now 1 v s) = set_setup_arming v s"
  by (simp add: set_setup_register_def)

lemma setup_register_ok:
  assumes "limits_ok s"
  shows "limits_ok (snd (set_setup_register env now off v s)) \<and>
    (flight_terminated s \<longrightarrow> flight_terminated (snd (set_setup_register env now off v s)))"
proof (cases "off = 1")
  case True
  then show ?thesis
    using assms by (simp add: setup_register_arming arming_register_limits arming_register_terminated)
next
  case False
  then show ?thesis
    using assms setup_register_core [OF False, of env now v s] core_limits core_terminated by metis
qed

lemma set_one_ok:
  assumes "registers_set_one env now pg off v s = Some (r, s')" "limits_ok s"
  shows "limits_ok s' \<and> (flight_terminated s \<longrightarrow> flight_terminated s')"
proof -
  have l: "length (io_failsafe s) = 8"
    using assms(2) by (simp add: limits_ok_def)
  consider "set_status_register env off v s = Some (r, s')"
    | "s' = snd (set_setup_register env now off v s)" | "s' = snd (set_rc_register off v s)"
    | "\<exists>es. s' = emit es s" | "s' = s"
    using assms(1) by (fastforce simp: registers_set_one_def split: if_splits)
  then show ?thesis
  proof cases
    case 1
    then show ?thesis
      using status_register_core [OF 1 l] assms(2) core_limits core_terminated by blast
  next
    case 2
    then show ?thesis
      using setup_register_ok assms(2) by blast
  next
    case 3
    then show ?thesis
      using core_rc_register [of off v s] assms(2) core_limits core_terminated by blast
  next
    case 4
    then show ?thesis
      using assms(2) by (auto simp: limits_ok_def flight_terminated_def emit_def)
  qed (use assms(2) in simp)
qed

lemma set_ones_ok:
  "set_ones env now pg off vs s = Some (r, s') \<Longrightarrow> limits_ok s \<Longrightarrow>
   limits_ok s' \<and> (flight_terminated s \<longrightarrow> flight_terminated s')"
proof (induction vs arbitrary: off s)
  case (Cons v vs)
  then obtain r1 s1 where one: "registers_set_one env now pg off v s = Some (r1, s1)"
    by (auto split: option.splits)
  have "limits_ok s1 \<and> (flight_terminated s \<longrightarrow> flight_terminated s1)"
    using set_one_ok [OF one Cons.prems(2)] .
  then show ?case
    using Cons one by (auto split: if_splits)
qed simp

lemma registers_set_ok:
  assumes "registers_set env now pg off vs s = Some (r, s')" "limits_ok s"
  shows "limits_ok s' \<and> (flight_terminated s \<longrightarrow> flight_terminated s')"
proof -
  have load: "mixer_handle_text env buf s = Some (r, s') \<Longrightarrow> ?thesis" for buf
    using handle_text_core core_limits core_terminated assms(2) by blast
  have simple: "limits_ok (upd_flags f (s\<lparr>io_controls := xs, io_fmu_time := now\<rparr>))"
    "limits_ok (upd_flags f (s\<lparr>io_servos := set_array e 8 n vs (io_servos s), io_fmu_time := now\<rparr>))"
    for f xs e n
    using assms(2) by (simp_all add: limits_ok_def upd_flags_def)
  have arming: "flight_terminated s \<Longrightarrow> flight_terminated (s\<lparr>io_failsafe := xs, io_arming := set_bit 3 (io_arming s)\<rparr>)"
    "flight_terminated s \<Longrightarrow> flight_terminated (s\<lparr>io_disarmed := xs, io_arming := put_flag 5 b (io_arming s)\<rparr>)"
    for xs b
    by (simp_all add: flight_terminated_def bit_set_bit_iff)
  show ?thesis
    using assms set_ones_ok [of env now pg off _ s r s'] load simple arming limits_ok_sets [OF assms(2)]
    by (auto simp: registers_set_def Let_def flight_terminated_def upd_flags_def split: if_splits)
qed

section \<open>Runs\<close>

definition io_fine :: "px4io \<Rightarrow> px4io \<Rightarrow> bool" where
  "io_fine s s' \<longleftrightarrow> (limits_ok s \<longrightarrow> limits_ok s' \<and> (flight_terminated s \<longrightarrow> flight_terminated s'))"

lemma io_fine_refl [simp]: "io_fine s s"
  by (simp add: io_fine_def)

lemma io_fine_trans: "io_fine s t \<Longrightarrow> io_fine t u \<Longrightarrow> io_fine s u"
  by (simp add: io_fine_def)

lemma io_fine_core: "core_of s' = core_of s \<Longrightarrow> io_fine s s'"
  using core_limits [of s' s] core_terminated [of s' s] by (simp add: io_fine_def)

lemma io_fine_config: "config_of s' = config_of s \<Longrightarrow> io_servos s' = io_servos s \<Longrightarrow> io_fine s s'"
  by (intro io_fine_core core_config)

lemma fine_get: "io_fine s (snd (registers_get env fm vs vr pg off s))"
proof -
  have "core_of (read_status fm vs vr s) = core_of s"
    unfolding read_status_def core_of_def by simp
  moreover have "snd (registers_get env fm vs vr pg off s) = (if pg = 1 then read_status fm vs vr s else s)"
    by (simp only: registers_get_def Let_def snd_conv)
  ultimately show ?thesis
    using io_fine_core by simp
qed

lemma fine_registers_set:
  "registers_set env now pg off vs s = Some (r, s') \<Longrightarrow> io_fine s s'"
  by (simp add: io_fine_def registers_set_ok)

lemma fine_rx_write: "rx_write env now p s = Some (p', s') \<Longrightarrow> io_fine s s'"
  by (auto simp: rx_write_def dest: fine_registers_set)

lemma fine_rx_read:
  assumes "rx_read env rd p s = Some (p', s')"
  shows "io_fine s s'"
proof -
  have "s' = snd (registers_get env (rd_freemem rd) (rd_vservo rd) (rd_vrssi rd) (p ! 2) (p ! 3) s)"
    using assms by (auto simp: rx_read_def Let_def split: prod.splits option.splits)
  then show ?thesis
    by (simp add: fine_get)
qed

lemma packet_cases:
  assumes "rx_handle_packet env now rd p s = Some (p', s')"
  obtains "s' = s" | "rx_write env now (p[1 := 0]) s = Some (p', s')"
    | "rx_read env rd (p[1 := 0]) s = Some (p', s')"
  using assms by (simp add: rx_handle_packet_def Let_def split: if_split_asm option.split_asm)

lemma fine_packet: "rx_handle_packet env now rd p s = Some (p', s') \<Longrightarrow> io_fine s s'"
  by (elim packet_cases) (simp_all add: fine_rx_write fine_rx_read)

lemma fine_callback: "rx_dma_callback env now rd p s = Some (r, p', s') \<Longrightarrow> io_fine s s'"
  by (auto simp: rx_dma_callback_def Let_def bind_eq_Some_conv dest: fine_packet)

lemma fine_step: "io_step env e (s, w) = Some (s', w') \<Longrightarrow> io_fine s s'"
proof (cases e)
  case (Loop_turn clk inp)
  assume "io_step env e (s, w) = Some (s', w')"
  then obtain s1 where "mixer_tick env clk s = Some s1" "controls_tick env inp (s1, w) = Some (s', w')"
    using Loop_turn by (auto simp: io_step_def bind_eq_Some_conv)
  then show ?thesis
    using limits_tick terminated_tick limits_controls terminated_controls
    by (simp add: io_fine_def)
qed (auto simp: io_step_def io_frame servo_frame intro: io_fine_config fine_callback)

lemma fine_run: "io_run env es (s, w) = Some (s', w') \<Longrightarrow> io_fine s s'"
proof (induction es arbitrary: s w)
  case (Cons e es)
  then obtain s1 w1 where "io_step env e (s, w) = Some (s1, w1)" "io_run env es (s1, w1) = Some (s', w')"
    by (auto simp: bind_eq_Some_conv)
  then show ?case
    using Cons.IH fine_step io_fine_trans by blast
qed simp

lemma run_limits_ok: "io_run env es (s, w) = Some (s', w') \<Longrightarrow> limits_ok s \<Longrightarrow> limits_ok s'"
  using fine_run by (auto simp: io_fine_def)

lemma run_terminated:
  "io_run env es (s, w) = Some (s', w') \<Longrightarrow> limits_ok s \<Longrightarrow> flight_terminated s \<Longrightarrow>
   limits_ok s' \<and> flight_terminated s'"
  using fine_run by (auto simp: io_fine_def)

end
