(* ===== verification/Px4ioProps.thy ===== *)
theory Px4ioProps
  imports Px4ioInv
begin

text \<open>
  The safety properties of the co-processor, on every state it can reach after power-up.
\<close>

section \<open>Reachable states\<close>

lemma limits_ok_start: "limits_ok (fst (user_start crc t u))"
  by (simp add: user_start_def controls_init_def px4io_static_def limits_ok_def pulse_ok_def
      PWM_LOWEST_MIN_def PWM_HIGHEST_MIN_def PWM_LOWEST_MAX_def PWM_HIGHEST_MAX_def)

lemma reachable_limits: "io_reachable env (s, w) \<Longrightarrow> limits_ok s"
  using run_limits_ok limits_ok_start by (metis io_reachable_def surjective_pairing)

section \<open>What one turn of the mixing loop does\<close>

lemma arming_frame:
  "io_arming (mixer_check_fmu clk s) = io_arming s"
  "io_arming (mixer_set_arming s) = io_arming s" "io_arming (mixer_output s) = io_arming s"
  by (simp_all add: mixer_check_fmu_def mixer_set_arming_def mixer_output_def upd_flags_def emit_def)

definition decision_of :: "px4io \<Rightarrow> mixer_source \<times> bool \<times> bool \<times> bool \<times> u16 \<times> u64" where
  "decision_of s = (io_source s, io_should_arm s, io_should_arm_nothrottle s, io_always_pwm s,
     io_arming s, io_fmu_time s)"

lemma decision_frame:
  "decision_of (mixer_set_arming s) = decision_of s" "decision_of (mixer_output s) = decision_of s"
  by (simp_all add: mixer_set_arming_def mixer_output_def upd_flags_def emit_def decision_of_def)

lemma decision_run: "mixer_run env clk s = Some s' \<Longrightarrow> decision_of s' = decision_of s"
  by (auto simp: mixer_run_def mixer_failsafe_outputs_def Let_def decision_of_def split: if_splits prod.splits)

lemma run_rest:
  assumes "mixer_run env clk s = Some s'"
  shows "io_flags s' = io_flags s" "io_servos_armed s' = io_servos_armed s" "io_out s' = io_out s"
  using assms
  by (auto simp: mixer_run_def mixer_failsafe_outputs_def Let_def split: if_splits prod.splits)

lemma decide_flags:
  "bit (io_flags (mixer_decide s)) n \<longleftrightarrow>
     (if n = FLAGS_FAILSAFE then io_source (mixer_decide s) = MIX_FAILSAFE else bit (io_flags s) n)"
  by (simp add: mixer_decide_def upd_flags_def Let_def)

lemma decide_source:
  "io_source (mixer_decide s) =
     (if bit (io_arming (mixer_decide s)) ARMING_FORCE_FAILSAFE then MIX_FAILSAFE else select_source s)"
  by (simp add: mixer_decide_def upd_flags_def Let_def)

lemma decide_wanted:
  "io_should_arm (mixer_decide s) = arm_wanted s"
  "io_should_arm_nothrottle (mixer_decide s) = arm_nothrottle_wanted s"
  "io_always_pwm (mixer_decide s) = always_pwm_wanted s"
  by (simp_all add: mixer_decide_def upd_flags_def Let_def arm_wanted_def arm_nothrottle_wanted_def
      always_pwm_wanted_def)

lemma set_arming_flags:
  "bit (io_flags (mixer_set_arming s)) n \<longleftrightarrow>
     (if n = FLAGS_OUTPUTS_ARMED \<and> needs_to_arm s \<noteq> io_servos_armed s then needs_to_arm s
      else bit (io_flags s) n)"
  by (auto simp: mixer_set_arming_def upd_flags_def emit_def bit_set_bit_iff bit_unset_bit_iff)

lemma output_flags: "io_flags (mixer_output s) = io_flags s"
  by (simp add: mixer_output_def emit_def)

lemma set_arming_armed: "io_servos_armed (mixer_set_arming s) = needs_to_arm s"
  by (simp add: mixer_set_arming_def upd_flags_def emit_def)

lemma output_armed: "io_servos_armed (mixer_output s) = io_servos_armed s"
  by (simp add: mixer_output_def emit_def)

text \<open>All of it, by the stages of \<open>mixer_tick\<close>.\<close>

lemma tick_decided:
  assumes "mixer_tick env clk s = Some s'"
  defines "d \<equiv> mixer_decide (mixer_check_fmu clk s)"
  shows "decision_of s' = decision_of d" "io_servos_armed s' = needs_to_arm d"
    "n \<noteq> FLAGS_OUTPUTS_ARMED \<Longrightarrow> bit (io_flags s') n = bit (io_flags d) n"
    "io_failsafe s' = io_failsafe s" "io_disarmed s' = io_disarmed s"
proof -
  obtain s1 where run: "mixer_run env clk d = Some s1" and s': "s' = mixer_output (mixer_set_arming s1)"
    using assms by (elim tick_stages) simp
  have cfg: "config_of s' = config_of d"
    using config_mixer_run [OF run] by (simp add: s' io_frame)
  have "config_of (mixer_check_fmu clk s) = config_of s"
    by (simp add: io_frame)
  then show "io_failsafe s' = io_failsafe s" "io_disarmed s' = io_disarmed s"
    using cfg by (simp_all add: config_of_def d_def decide_config)
  show dec: "decision_of s' = decision_of d"
    using decision_run [OF run] by (simp add: s' decision_frame)
  have "needs_to_arm s1 = needs_to_arm d"
    using decision_run [OF run] by (simp add: needs_to_arm_def decision_of_def)
  then show "io_servos_armed s' = needs_to_arm d"
    by (simp add: s' output_armed set_arming_armed)
  show "bit (io_flags s') n = bit (io_flags d) n" if "n \<noteq> FLAGS_OUTPUTS_ARMED"
    using that run_rest(1) [OF run] by (simp add: s' output_flags set_arming_flags)
qed

lemma tick_effects:
  assumes "mixer_tick env clk s = Some s'"
  obtains es where "io_out s' = io_out s @ es"
    "\<And>i v. Servo_set i v \<in> set es \<Longrightarrow> io_servos_armed s' \<and> i < length (io_servos s') + length (io_disarmed s') \<and>
       ((io_should_arm s' \<or> io_should_arm_nothrottle s') \<and> v = io_servos s' ! i \<or>
        io_always_pwm s' \<and> v = io_disarmed s' ! i)"
proof -
  obtain s1 where run: "mixer_run env clk (mixer_decide (mixer_check_fmu clk s)) = Some s1"
    and s': "s' = mixer_output (mixer_set_arming s1)"
    using assms by (elim tick_stages) simp
  have "io_out (mixer_decide (mixer_check_fmu clk s)) = io_out s"
    by (simp add: mixer_decide_def mixer_check_fmu_def upd_flags_def Let_def)
  then have out1: "io_out s1 = io_out s"
    using run_rest(3) [OF run] by simp
  obtain es1 where es1: "io_out (mixer_set_arming s1) = io_out s @ es1" "\<forall>i v. Servo_set i v \<notin> set es1"
    using out1 by (cases "needs_to_arm s1"; cases "io_servos_armed s1")
      (auto simp: mixer_set_arming_def upd_flags_def emit_def)
  have sets: "Servo_set i v \<in> set (servo_sets vs) \<longleftrightarrow> i < length vs \<and> v = vs ! i" for i v vs
    by (auto simp: servo_sets_def in_set_enumerate_eq)
  define t where "t = mixer_set_arming s1"
  have fields: "io_servos s' = io_servos t" "io_disarmed s' = io_disarmed t"
    "io_should_arm s' = io_should_arm t" "io_should_arm_nothrottle s' = io_should_arm_nothrottle t"
    "io_always_pwm s' = io_always_pwm t" "io_servos_armed s' = io_servos_armed t"
    by (simp_all add: s' t_def [symmetric] mixer_output_def emit_def)
  have "\<exists>es2. io_out s' = io_out t @ es2 \<and> (\<forall>i v. Servo_set i v \<in> set es2 \<longrightarrow>
      io_servos_armed t \<and> i < length (io_servos t) + length (io_disarmed t) \<and>
      ((io_should_arm t \<or> io_should_arm_nothrottle t) \<and> v = io_servos t ! i \<or>
       io_always_pwm t \<and> v = io_disarmed t ! i))"
    by (simp add: s' t_def [symmetric] mixer_output_def emit_def sets)
  then obtain es2 where "io_out s' = io_out t @ es2" and es2: "\<forall>i v. Servo_set i v \<in> set es2 \<longrightarrow>
      io_servos_armed t \<and> i < length (io_servos t) + length (io_disarmed t) \<and>
      ((io_should_arm t \<or> io_should_arm_nothrottle t) \<and> v = io_servos t ! i \<or>
       io_always_pwm t \<and> v = io_disarmed t ! i)"
    by blast
  then have "io_out s' = io_out s @ (es1 @ es2)"
    using es1(1) by (simp add: t_def)
  then show thesis
    using es1(2) es2 fields by (intro that [of "es1 @ es2"]) auto
qed

lemma run_failsafe:
  "mixer_run env clk s = Some s' \<Longrightarrow> io_source s = MIX_FAILSAFE \<Longrightarrow> io_servos s' = io_failsafe s"
  by (auto simp: mixer_run_def mixer_failsafe_outputs_def)

lemma tick_failsafe:
  assumes tick: "mixer_tick env clk s = Some s'" and "io_source s' = MIX_FAILSAFE"
  shows "io_servos s' = io_failsafe s" "bit (io_flags s') FLAGS_FAILSAFE"
proof -
  let ?d = "mixer_decide (mixer_check_fmu clk s)"
  obtain s1 where run: "mixer_run env clk ?d = Some s1" and s': "s' = mixer_output (mixer_set_arming s1)"
    using tick by (elim tick_stages)
  have src: "io_source ?d = MIX_FAILSAFE"
    using tick_decided(1) [OF tick] assms(2) by (simp add: decision_of_def)
  have "io_servos s' = io_failsafe ?d"
    using run_failsafe [OF run src] by (simp add: s' servo_frame)
  moreover have "config_of (mixer_check_fmu clk s) = config_of s"
    by (simp add: io_frame)
  ultimately show "io_servos s' = io_failsafe s"
    by (simp add: decide_config config_of_def)
  show "bit (io_flags s') FLAGS_FAILSAFE"
    using tick_decided(3) [OF tick, of FLAGS_FAILSAFE] src by (simp add: decide_flags)
qed

section \<open>Flight termination\<close>

definition io_demo_env :: io_env where
  "io_demo_env = \<lparr>env_u16 = \<lambda>_. 0, env_i16 = \<lambda>_. 0, env_junk = \<lambda>_ _. 0, env_alloc = \<lambda>_. True,
     env_tables = \<lambda>_. [], env_rate_group = \<lambda>_. 0, env_rate_ok = \<lambda>_ _. True\<rparr>"

text \<open>A checked write request.\<close>

definition write_packet :: "u8 \<Rightarrow> u8 \<Rightarrow> u16 list \<Rightarrow> u8 list" where
  "write_packet pg off vs =
     (let p = [0x40 OR of_nat (length vs), 0, pg, off] @ concat (map le_bytes vs) @
                replicate (64 - 2 * length vs) 0
      in p[1 := crc8_run (take (4 + 2 * length vs) p) 0])"

definition no_readings :: io_readings where
  "no_readings = \<lparr>rd_freemem = 0, rd_vservo = 0, rd_vrssi = 0\<rparr>"



section \<open>Loss of the main processor\<close>

lemma alarms_tick:
  assumes "mixer_tick env clk s = Some s'"
  shows "io_alarms s' = io_alarms (mixer_check_fmu clk s)"
proof -
  obtain s1 where run: "mixer_run env clk (mixer_decide (mixer_check_fmu clk s)) = Some s1"
    and s': "s' = mixer_output (mixer_set_arming s1)"
    using assms by (elim tick_stages)
  have "io_alarms s' = io_alarms s1"
    by (simp add: s' mixer_output_def mixer_set_arming_def upd_flags_def emit_def)
  also have "\<dots> = io_alarms (mixer_decide (mixer_check_fmu clk s))"
    using run by (auto simp: mixer_run_def mixer_failsafe_outputs_def Let_def split: if_splits prod.splits)
  finally show ?thesis
    by (simp add: mixer_decide_def upd_flags_def Let_def)
qed

text \<open>
  C3: Half a second without data from the main processor takes it out of the loop.  The turn of the mixing loop
  clears the FMU flag and raises the alarm; it never mixes the main processor's controls or leaves its raw pulses in place.
  Either the pilot has the vehicle, which takes a healthy radio, a good mixer, radio handling enabled, override
  requested and no termination request, or the failsafe values go to the servo registers; and if termination on
  failsafe is requested and the outputs were armed by an initialised main processor, the failsafe is forced from then on.
\<close>

theorem io_fmu_loss:
  assumes tick: "mixer_tick env clk s = Some s'"
    and lost: "io_fmu_time s = 0 \<or> clk 3 - io_fmu_time s > FMU_INPUT_DROP_LIMIT_US"
  shows "\<not> bit (io_flags s') FLAGS_FMU_OK \<and> bit (io_alarms s') ALARMS_FMU_LOST \<and>
    (io_source s' = MIX_OVERRIDE \<and> bit (io_flags s) FLAGS_OVERRIDE \<and> bit (io_flags s) FLAGS_RC_OK \<and>
       bit (io_flags s) FLAGS_MIXER_OK \<and> \<not> bit (io_arming s) ARMING_RC_HANDLING_DISABLED \<and>
       \<not> bit (io_arming s) ARMING_TERMINATION_FAILSAFE \<and> \<not> bit (io_arming s) ARMING_FORCE_FAILSAFE \<or>
     io_source s' = MIX_FAILSAFE \<and> io_servos s' = io_failsafe s \<and>
       (bit (io_arming s) ARMING_TERMINATION_FAILSAFE \<and> bit (io_flags s) FLAGS_INIT_OK \<and>
        bit (io_flags s) FLAGS_SAFETY_OFF \<and> bit (io_flags s) FLAGS_FMU_INITIALIZED \<and>
        (bit (io_arming s) ARMING_FMU_ARMED \<and> bit (io_flags s) FLAGS_MIXER_OK \<or>
         bit (io_flags s) FLAGS_RAW_PWM \<or> bit (io_arming s) ARMING_FAILSAFE_CUSTOM) \<longrightarrow>
        bit (io_arming s') ARMING_FORCE_FAILSAFE))"
proof -
  define c where "c = mixer_check_fmu clk s"
  have flags: "bit (io_flags c) n \<longleftrightarrow> n \<noteq> FLAGS_FMU_OK \<and> bit (io_flags s) n" for n
    using lost by (auto simp: c_def mixer_check_fmu_def bit_unset_bit_iff)
  have arming: "io_arming c = io_arming s"
    by (simp add: c_def arming_frame)
  have src: "select_source c = MIX_OVERRIDE \<and> bit (io_flags s) FLAGS_OVERRIDE \<and> bit (io_flags s) FLAGS_RC_OK \<and>
       bit (io_flags s) FLAGS_MIXER_OK \<and> \<not> bit (io_arming s) ARMING_RC_HANDLING_DISABLED \<and>
       \<not> bit (io_arming s) ARMING_TERMINATION_FAILSAFE \<or> select_source c = MIX_FAILSAFE"
    by (simp add: select_source_def Let_def flags arming)
  have dec: "io_source s' = io_source (mixer_decide c)" "io_arming s' = io_arming (mixer_decide c)"
    using tick_decided(1) [OF tick] by (simp_all add: decision_of_def c_def)
  have "\<not> bit (io_flags s') FLAGS_FMU_OK"
    using tick_decided(3) [OF tick, of FLAGS_FMU_OK] by (simp add: decide_flags c_def [symmetric] flags)
  moreover have "bit (io_alarms s') ALARMS_FMU_LOST"
    using alarms_tick [OF tick] lost by (simp add: mixer_check_fmu_def bit_set_bit_iff)
  moreover have "io_source s' = MIX_FAILSAFE \<Longrightarrow> io_servos s' = io_failsafe s"
    using tick_failsafe(1) [OF tick] .
  moreover have "bit (io_arming s') ARMING_FORCE_FAILSAFE"
    if "bit (io_arming s) ARMING_TERMINATION_FAILSAFE" "bit (io_flags s) FLAGS_INIT_OK"
      "bit (io_flags s) FLAGS_SAFETY_OFF" "bit (io_flags s) FLAGS_FMU_INITIALIZED"
      "bit (io_arming s) ARMING_FMU_ARMED \<and> bit (io_flags s) FLAGS_MIXER_OK \<or>
       bit (io_flags s) FLAGS_RAW_PWM \<or> bit (io_arming s) ARMING_FAILSAFE_CUSTOM"
      "select_source c = MIX_FAILSAFE"
    using that by (auto simp: dec decide_arming arm_wanted_def Let_def flags arming)
  ultimately show ?thesis
    using src by (auto simp: dec decide_source decide_arming arming)
qed

lemma tick_exists:
  "io_source (mixer_decide (mixer_check_fmu clk s)) = MIX_FAILSAFE \<Longrightarrow> \<exists>s'. mixer_tick env clk s = Some s'"
  by (simp add: mixer_tick_def mixer_run_def)

theorem io_fmu_loss_witness:
  "\<exists>s'. mixer_tick io_demo_env (\<lambda>_. 1000000) px4io_static = Some s' \<and>
     \<not> bit (io_flags s') FLAGS_FMU_OK \<and> bit (io_alarms s') ALARMS_FMU_LOST"
proof -
  have "io_source (mixer_decide (mixer_check_fmu (\<lambda>_. 1000000) px4io_static)) = MIX_FAILSAFE"
    by code_simp
  then obtain s' where s': "mixer_tick io_demo_env (\<lambda>_. 1000000) px4io_static = Some s'"
    using tick_exists by blast
  have "io_fmu_time px4io_static = 0"
    by (simp add: px4io_static_def)
  then show ?thesis
    using io_fmu_loss [OF s'] s' by blast
qed

section \<open>What reaches the servos\<close>

text \<open>
  C4: The gate in front of the servos.  After every turn of the mixing loop the pulse outputs are enabled exactly if the
  co-processor is initialised, the lockdown is off, and either the safety switch is off and there is a source of
  pulses, or disarmed pulses are wanted for the speed controllers and the main processor is alive.  Every
  pulse the turn sends goes through enabled outputs; with the safety switch on it is the disarmed value of its channel.
\<close>

theorem io_servo_gate:
  assumes tick: "mixer_tick env clk s = Some s'"
  shows "(io_servos_armed s' \<longleftrightarrow>
      bit (io_flags s') FLAGS_INIT_OK \<and> \<not> bit (io_arming s') ARMING_LOCKDOWN \<and>
      (bit (io_flags s') FLAGS_SAFETY_OFF \<and>
         (bit (io_flags s') FLAGS_MIXER_OK \<or> bit (io_flags s') FLAGS_RAW_PWM \<or>
          bit (io_arming s') ARMING_FAILSAFE_CUSTOM \<and> \<not> bit (io_flags s') FLAGS_FMU_OK) \<or>
       bit (io_arming s') ARMING_ALWAYS_PWM_ENABLE \<and> bit (io_flags s') FLAGS_FMU_OK)) \<and>
    (\<forall>i v. Servo_set i v \<in> set (drop (length (io_out s)) (io_out s')) \<longrightarrow>
       io_servos_armed s' \<and>
       (bit (io_flags s') FLAGS_SAFETY_OFF \<and> v = io_servos s' ! i \<or> v = io_disarmed s' ! i))"
proof -
  define c where "c = mixer_check_fmu clk s"
  have flags: "bit (io_flags s') n \<longleftrightarrow> bit (io_flags c) n" if "n \<noteq> FLAGS_OUTPUTS_ARMED" "n \<noteq> FLAGS_FAILSAFE" for n
    using tick_decided(3) [OF tick, of n] that by (simp add: decide_flags c_def)
  have dec: "io_arming s' = io_arming (mixer_decide c)"
      "io_should_arm s' = arm_wanted c" "io_should_arm_nothrottle s' = arm_nothrottle_wanted c"
    using tick_decided(1) [OF tick] by (simp_all add: decision_of_def c_def decide_wanted)
  have arming: "bit (io_arming s') n \<longleftrightarrow> bit (io_arming c) n" if "n \<noteq> ARMING_FORCE_FAILSAFE" for n
    using that by (simp add: dec decide_arming)
  have armed: "io_servos_armed s' \<longleftrightarrow> needs_to_arm (mixer_decide c)"
    using tick_decided(2) [OF tick] by (simp add: c_def)
  have wanted: "arm_wanted c \<or> arm_nothrottle_wanted c \<Longrightarrow> bit (io_flags s') FLAGS_SAFETY_OFF"
    by (auto simp: arm_wanted_def arm_nothrottle_wanted_def Let_def flags)
  obtain es where "io_out s' = io_out s @ es"
    "\<And>i v. Servo_set i v \<in> set es \<Longrightarrow> io_servos_armed s' \<and>
      ((io_should_arm s' \<or> io_should_arm_nothrottle s') \<and> v = io_servos s' ! i \<or> v = io_disarmed s' ! i)"
    using tick_effects [OF tick] by metis
  then have "\<forall>i v. Servo_set i v \<in> set (drop (length (io_out s)) (io_out s')) \<longrightarrow>
       io_servos_armed s' \<and>
       (bit (io_flags s') FLAGS_SAFETY_OFF \<and> v = io_servos s' ! i \<or> v = io_disarmed s' ! i)"
    using wanted by (auto simp: dec)
  moreover have "io_servos_armed s' \<longleftrightarrow>
      bit (io_flags s') FLAGS_INIT_OK \<and> \<not> bit (io_arming s') ARMING_LOCKDOWN \<and>
      (bit (io_flags s') FLAGS_SAFETY_OFF \<and>
         (bit (io_flags s') FLAGS_MIXER_OK \<or> bit (io_flags s') FLAGS_RAW_PWM \<or>
          bit (io_arming s') ARMING_FAILSAFE_CUSTOM \<and> \<not> bit (io_flags s') FLAGS_FMU_OK) \<or>
       bit (io_arming s') ARMING_ALWAYS_PWM_ENABLE \<and> bit (io_flags s') FLAGS_FMU_OK)"
    by (auto simp: armed needs_to_arm_def decide_wanted decide_arming arm_wanted_def
        arm_nothrottle_wanted_def always_pwm_wanted_def Let_def flags arming)
  ultimately show ?thesis
    by blast
qed

definition gate_demo :: px4io where
  "gate_demo = px4io_static\<lparr>io_flags := 0x1500\<rparr>"

theorem io_servo_gate_witness:
  "\<exists>s'. mixer_tick io_demo_env (\<lambda>_. 1000000) gate_demo = Some s' \<and>
     (io_servos_armed s' \<longrightarrow> bit (io_flags s') FLAGS_INIT_OK)"
proof -
  have "io_source (mixer_decide (mixer_check_fmu (\<lambda>_. 1000000) gate_demo)) = MIX_FAILSAFE"
    by code_simp
  then obtain s' where s': "mixer_tick io_demo_env (\<lambda>_. 1000000) gate_demo = Some s'"
    using tick_exists by blast
  show ?thesis
    using io_servo_gate [OF s'] s' by blast
qed

section \<open>Pulse widths\<close>

lemma pwm_channel_pulse:
  assumes "pulse_ok d" "90 \<le> lo" "lo \<le> 2150" "90 \<le> hi" "hi \<le> 2150"
  shows "pulse_ok (pwm_channel undef r i d lo hi x)"
proof (cases "lo \<le> hi")
  case True
  then show ?thesis
    using pwm_channel_between [OF True, of undef r i d x] assms order_trans
    by (auto simp: pulse_ok_def PWM_LOWEST_MIN_def PWM_HIGHEST_MAX_def)
next
  case False
  then have "pwm_channel undef r i d lo hi x \<in> {d, lo, hi}"
    using pwm_clamp_ends [of hi lo] by (auto simp: pwm_channel_def)
  then show ?thesis
    using assms by (auto simp: pulse_ok_def PWM_LOWEST_MIN_def PWM_HIGHEST_MAX_def)
qed

lemma ramp_min_range:
  assumes "pulse_ok d" "90 \<le> m" "m \<le> 1600" "p \<le> 10000"
  shows "90 \<le> ramp_min_pwm p d m \<and> ramp_min_pwm p d m \<le> 2150"
proof -
  have "90 \<le> ramp_floor d m"
    using assms(1,2) by (auto simp: ramp_floor_def pulse_ok_def PWM_LOWEST_MIN_def)
  moreover have "ramp_min_pwm p d m \<le> 1600" "ramp_floor d m \<le> ramp_min_pwm p d m"
    using ramp_min_between [OF assms(4), of d m] assms(3) order_trans by auto
  moreover have "(1600 :: u16) \<le> 2150"
    by simp
  ultimately show ?thesis
    using order_trans by blast
qed

lemma limit_calc_pulses:
  assumes ok: "limits_ok s" and "i < n" "n \<le> 8"
  shows "pulse_ok (fst (pwm_limit_calc undef a pre n r (io_disarmed s) (io_control_min s)
    (io_control_max s) out clk eff limit) ! i)"
proof -
  have i: "i < 8"
    using assms by simp
  have d: "pulse_ok (io_disarmed s ! i)"
    and lo: "90 \<le> io_control_min s ! i" "io_control_min s ! i \<le> 1600"
    and hi: "200 \<le> io_control_max s ! i" "io_control_max s ! i \<le> 2150"
    using ok i by (auto simp: limits_ok_def PWM_LOWEST_MIN_def PWM_HIGHEST_MIN_def
        PWM_LOWEST_MAX_def PWM_HIGHEST_MAX_def)
  have "(1600 :: u16) \<le> 2150" "(90 :: u16) \<le> 200"
    by simp_all
  then have lo': "io_control_min s ! i \<le> 2150" and hi': "90 \<le> io_control_max s ! i"
    using lo hi order_trans by blast+
  show ?thesis
    using pwm_channel_pulse [OF d lo(1) lo' hi' hi(2)]
      pwm_channel_pulse [OF d _ _ hi' hi(2)] ramp_min_range [OF d lo pwm_progress_le] d
    by (simp add: pwm_limit_calc_nth [OF assms(2)] Let_def)
qed

text \<open>
  C11: Mixed outputs never leave the range of servo pulses.  In every state the firmware reaches after power-up - any sequence of
  register writes, radio frames and button presses, any mixers the text parser built, any uninitialised input, and
  whatever the target makes of floats that do not fit - a turn that mixes fills the eight servo registers with
  values that are zero or between 90 and 2150 microseconds.
\<close>

theorem io_pulse_range:
  assumes "io_reachable env (s, w)" and tick: "mixer_tick env clk s = Some s'"
    and mixed: "io_source s' \<in> {MIX_FMU, MIX_OVERRIDE, MIX_OVERRIDE_FMU_OK}"
  shows "length (io_servos s') = 8 \<and> (\<forall>v \<in> set (io_servos s'). v = 0 \<or> 90 \<le> v \<and> v \<le> 2150)"
proof -
  define d where "d = mixer_decide (mixer_check_fmu clk s)"
  have ok: "limits_ok d"
    using reachable_limits [OF assms(1)]
      limits_ok_config [OF config_check_fmu [of clk s] servos_mixer(1) [of clk s]]
    by (simp add: d_def limits_decide)
  obtain s1 where run: "mixer_run env clk d = Some s1" and s': "s' = mixer_output (mixer_set_arming s1)"
    using tick by (elim tick_stages) (simp add: d_def)
  have "io_source d \<in> {MIX_FMU, MIX_OVERRIDE, MIX_OVERRIDE_FMU_OK}"
    using tick_decided(1) [OF tick] mixed by (simp add: decision_of_def d_def)
  then obtain n outputs where n: "n \<le> 8" and
    sv: "io_servos s1 = take n (fst (pwm_limit_calc (env_u16 env) (io_should_arm d) (io_should_arm_nothrottle d) n
      (io_reverse d) (io_disarmed d) (io_control_min d) (io_control_max d) outputs clk (io_servos d) (io_pwm_limit d)))
      @ replicate (8 - n) 0 \<or> io_servos s1 = io_servos d \<and> \<not> bit (io_flags d) FLAGS_MIXER_OK"
    using run by (auto simp: mixer_run_def Let_def not_less split: if_splits prod.splits) (metis fst_conv)+
  have "bit (io_flags d) FLAGS_MIXER_OK"
    using mixed tick_decided(1) [OF tick]
    by (auto simp: d_def decision_of_def decide_source decide_flags select_source_def Let_def split: if_splits)
  then have sv: "io_servos s1 = take n (fst (pwm_limit_calc (env_u16 env) (io_should_arm d) (io_should_arm_nothrottle d) n
      (io_reverse d) (io_disarmed d) (io_control_min d) (io_control_max d) outputs clk (io_servos d) (io_pwm_limit d)))
      @ replicate (8 - n) 0"
    using sv by blast
  have len: "n \<le> length (io_servos d)"
    using ok n by (simp add: limits_ok_def)
  have "\<forall>v \<in> set (io_servos s1). pulse_ok v"
    using limit_calc_pulses [OF ok _ n] len n
    by (auto simp: sv in_set_conv_nth pulse_ok_def [of 0])
  moreover have "length (io_servos s1) = 8"
    using run_servos_length [OF run ok] .
  ultimately show ?thesis
    by (simp add: s' servo_frame pulse_ok_def PWM_LOWEST_MIN_def PWM_HIGHEST_MAX_def)
qed

text \<open>Commands that bring up mixing from the main processor's controls.\<close>

definition mixing_demo :: "io_event list" where
  "mixing_demo = [Packet 5 no_readings (write_packet 51 0 [1, 2]), Packet 6 no_readings (write_packet 1 2 [0x100])]"

theorem io_pulse_range_witness:
  "\<exists>s w s'. io_run io_demo_env mixing_demo (user_start [0, 0] 1 1) = Some (s, w) \<and>
     mixer_tick io_demo_env (\<lambda>_. 1000) s = Some s' \<and> io_source s' = MIX_FMU \<and> length (io_servos s') = 8"
proof -
  let ?r = "io_run io_demo_env mixing_demo (user_start [0, 0] 1 1)"
  have "case ?r of Some (s, w) \<Rightarrow>
      (case mixer_tick io_demo_env (\<lambda>_. 1000) s of Some s' \<Rightarrow> io_source s' = MIX_FMU | None \<Rightarrow> False) | None \<Rightarrow> False"
    by code_simp
  then obtain s w s' where r: "?r = Some (s, w)" and t: "mixer_tick io_demo_env (\<lambda>_. 1000) s = Some s'"
      "io_source s' = MIX_FMU"
    by (auto split: option.splits prod.splits)
  have "io_reachable io_demo_env (s, w)"
    using r by (auto simp only: io_reachable_def)
  then have "length (io_servos s') = 8"
    using io_pulse_range [OF _ t(1)] t(2) by blast
  then show ?thesis
    using r t by blast
qed

lemma callback_throttle_nan:
  assumes "io_source s = MIX_FMU" "io_should_arm_nothrottle s" "\<not> io_should_arm s"
  shows "f32_is_nan (snd (mixer_callback s 0 3 x))"
  using assms by (simp add: mixer_callback_def callback_fetch_def callback_limit_def Let_def)


lemma tick_exists_multirotor:
  assumes "io_mixers s = [MultirotorMixer m]" "length (mr_rotors m) \<le> 8"
  shows "\<exists>s'. mixer_tick env clk s = Some s'"
proof -
  let ?d = "mixer_decide (mixer_check_fmu clk s)"
  have "config_of (mixer_check_fmu clk s) = config_of s"
    by (simp add: io_frame)
  then have "io_mixers ?d = [MultirotorMixer m]"
    using assms(1) by (simp add: decide_config config_of_def)
  then have "length (fst (group_mix (mixer_callback ?d) (env_junk env) 8 (io_mixer_limits ?d) (io_mixers ?d))) \<le> 8"
    using assms(2) by (simp add: split_beta)
  then have "\<exists>s1. mixer_run env clk ?d = Some s1"
    by (simp add: mixer_run_def Let_def split_beta)
  then show ?thesis
    by (auto simp: mixer_tick_def)
qed

definition demo_rotor :: multirotor where
  "demo_rotor = \<lparr>mr_roll_scale = 0x3F800000, mr_pitch_scale = 0x3F800000, mr_yaw_scale = 0x3F800000,
     mr_idle_speed = 0xBF800000, mr_rotors = [\<lparr>rot_roll = 0, rot_pitch = 0, rot_yaw = 0x3F800000, rot_out = 0x3F800000\<rparr>]\<rparr>"

definition prearmed_demo :: px4io where
  "prearmed_demo = px4io_static\<lparr>io_flags := 0x1500, io_fmu_time := 5, io_mixers := [MultirotorMixer demo_rotor],
     io_disarmed := replicate 8 900\<rparr>"


section \<open>The safety switch\<close>

text \<open>
  The specification of the switch: it is thrown at a sample that is the eleventh of an unbroken run of presses.
\<close>

definition thrown_at :: "bool list \<Rightarrow> nat \<Rightarrow> bool" where
  "thrown_at samples i \<longleftrightarrow>
     10 \<le> i \<and> i < length samples \<and> (\<forall>k \<le> 10. samples ! (i - k)) \<and> (i = 10 \<or> \<not> samples ! (i - 11))"

definition held :: "bool list \<Rightarrow> nat" where
  "held samples = length (takeWhile (\<lambda>b. b) (rev samples))"

lemma held_snoc [simp]: "held (samples @ [b]) = (if b then Suc (held samples) else 0)"
  by (simp add: held_def)

lemma held_Nil [simp]: "held [] = 0"
  by (simp add: held_def)

lemma held_le: "held samples \<le> length samples"
  by (metis held_def length_rev length_takeWhile_le)

lemma held_nth: "k < held samples \<Longrightarrow> samples ! (length samples - Suc k)"
proof -
  assume k: "k < held samples"
  then have "takeWhile (\<lambda>b. b) (rev samples) ! k"
    by (metis held_def nth_mem set_takeWhileD)
  then show ?thesis
    using k held_le [of samples] by (simp add: held_def takeWhile_nth rev_nth)
qed

lemma held_released: "held samples < length samples \<Longrightarrow> \<not> samples ! (length samples - Suc (held samples))"
  using nth_length_takeWhile [of "\<lambda>b. b" "rev samples"] by (simp add: held_def rev_nth)

lemma thrown_at_last:
  "thrown_at (samples @ [b]) (length samples) \<longleftrightarrow> b \<and> held samples = 10"
proof
  let ?t = "samples @ [b]"
  assume t: "thrown_at ?t (length samples)"
  then have n: "10 \<le> length samples" and all: "\<And>k. k \<le> 10 \<Longrightarrow> ?t ! (length samples - k)"
    and end_: "length samples = 10 \<or> \<not> ?t ! (length samples - 11)"
    by (auto simp: thrown_at_def)
  have b: "b"
    using all [of 0] by simp
  have "\<not> held samples < 10"
  proof
    assume h: "held samples < 10"
    then have "\<not> samples ! (length samples - Suc (held samples))"
      using held_released n by simp
    moreover have "?t ! (length samples - Suc (held samples))"
      using all [of "Suc (held samples)"] h by simp
    ultimately show False
      using n h by (simp add: nth_append split: if_splits)
  qed
  moreover have "\<not> 10 < held samples"
  proof
    assume h: "10 < held samples"
    then have "10 < length samples"
      using held_le [of samples] by simp
    then show False
      using end_ held_nth [OF h] \<open>10 < length samples\<close> by (simp add: nth_append split: if_splits)
  qed
  ultimately show "b \<and> held samples = 10"
    using b by simp
next
  assume h: "b \<and> held samples = 10"
  then have n: "10 \<le> length samples"
    using held_le [of samples] by simp
  have all: "(samples @ [b]) ! (length samples - k)" if "k \<le> 10" for k
  proof (cases k)
    case (Suc j)
    then show ?thesis
      using held_nth [of j samples] that h n by (simp add: nth_append)
  qed (use h in simp)
  have "length samples = 10 \<or> \<not> (samples @ [b]) ! (length samples - 11)"
    using held_released [of samples] h n by (auto simp: nth_append)
  then show "thrown_at (samples @ [b]) (length samples)"
    using n all by (simp add: thrown_at_def)
qed

lemma thrown_at_append:
  "i < length samples \<Longrightarrow> thrown_at (samples @ [b]) i \<longleftrightarrow> thrown_at samples i"
  by (auto simp: thrown_at_def nth_append)

lemma throws_snoc:
  "card {i. thrown_at (samples @ [b]) i} =
     (if b \<and> held samples = 10 then Suc (card {i. thrown_at samples i}) else card {i. thrown_at samples i})"
proof -
  have fin: "finite {i. thrown_at samples i}"
    by (rule finite_subset [of _ "{..<length samples}"]) (auto simp: thrown_at_def)
  have bound: "thrown_at xs i \<Longrightarrow> i < length xs" for xs i
    by (simp add: thrown_at_def)
  have "thrown_at (samples @ [b]) i \<longleftrightarrow>
      thrown_at samples i \<or> i = length samples \<and> b \<and> held samples = 10" for i
    using thrown_at_last [of samples b] thrown_at_append [of i samples b]
      bound [of samples i] bound [of "samples @ [b]" i]
    by (cases i "length samples" rule: linorder_cases) auto
  then have "{i. thrown_at (samples @ [b]) i} =
      (if b \<and> held samples = 10 then insert (length samples) {i. thrown_at samples i} else {i. thrown_at samples i})"
    by auto
  moreover have "length samples \<notin> {i. thrown_at samples i}"
    by (simp add: thrown_at_def)
  ultimately show ?thesis
    using fin by simp
qed

definition switch_off :: "px4io \<Rightarrow> bool" where
  "switch_off s \<longleftrightarrow> bit (io_flags s) FLAGS_SAFETY_OFF"

lemma button_step:
  assumes "bit (io_arming s) ARMING_IO_ARM_OK" "unat (io_button_counter s) = min 11 n"
  shows "unat (io_button_counter (safety_check_button b s)) = min 11 (if b then Suc n else 0)"
    "switch_off (safety_check_button b s) \<longleftrightarrow> (if b \<and> n = 10 then \<not> switch_off s else switch_off s)"
    "io_arming (safety_check_button b s) = io_arming s"
proof -
  have frame: "io_button_counter (safety_check_button b s) = io_button_counter (safety_debounce b s)"
    "io_flags (safety_check_button b s) = io_flags (safety_debounce b s)"
    "io_arming (safety_check_button b s) = io_arming (safety_debounce b s)"
    by (simp_all add: safety_check_button_def Let_def emit_def)
  have c: "io_button_counter s = of_nat (min 11 n)"
    unfolding assms(2) [symmetric] by simp
  consider "n < 10" | "n = 10" | "n > 10"
    by linarith
  then have "unat (io_button_counter (safety_debounce b s)) = min 11 (if b then Suc n else 0) \<and>
      (switch_off (safety_debounce b s) \<longleftrightarrow> (if b \<and> n = 10 then \<not> switch_off s else switch_off s)) \<and>
      io_arming (safety_debounce b s) = io_arming s"
  proof cases
    case 1
    then have "io_button_counter s < 10" "unat (io_button_counter s + 1) = Suc n"
      using assms(2) by (simp_all add: word_less_nat_alt unat_word_ariths)
    then show ?thesis
      using 1 assms(1) by (simp add: safety_debounce_def ARM_COUNTER_THRESHOLD_def switch_off_def)
  next
    case 2
    then have "io_button_counter s = 10"
      by (simp add: c)
    then show ?thesis
      using 2 assms(1) by (simp add: safety_debounce_def ARM_COUNTER_THRESHOLD_def switch_off_def
          bit_set_bit_iff bit_unset_bit_iff)
  next
    case 3
    then have "io_button_counter s = 11"
      by (simp add: c)
    then show ?thesis
      using 3 assms(1) by (simp add: safety_debounce_def ARM_COUNTER_THRESHOLD_def switch_off_def)
  qed
  then show "unat (io_button_counter (safety_check_button b s)) = min 11 (if b then Suc n else 0)"
    "switch_off (safety_check_button b s) \<longleftrightarrow> (if b \<and> n = 10 then \<not> switch_off s else switch_off s)"
    "io_arming (safety_check_button b s) = io_arming s"
    by (simp_all only: frame switch_off_def)
qed



end
