(* ===== verification/Px4ioLink.thy ===== *)
theory Px4ioLink
  imports Px4ioProps
begin

text \<open>
  The link to the main processor and the radio: what the checksum of a packet detects, when mixers and channel
  configurations may change, and when the pilot's override is granted.
\<close>

section \<open>The checksum\<close>

text \<open>One bit of the polynomial division; both the table and the bitwise routine of the ST24 decoder iterate it.\<close>

definition crc8_shift :: "u8 \<Rightarrow> u8" where
  "crc8_shift c = (if bit c 7 then push_bit 1 c XOR 7 else push_bit 1 c)"

definition crc8_shift8 :: "u8 \<Rightarrow> u8" where
  "crc8_shift8 c = crc8_shift (crc8_shift (crc8_shift (crc8_shift (crc8_shift (crc8_shift (crc8_shift (crc8_shift c)))))))"

lemma crc8_shift_xor: "crc8_shift (a XOR b) = crc8_shift a XOR crc8_shift b"
  by (rule bit_word_eqI) (auto simp: crc8_shift_def bit_xor_iff bit_push_bit_iff)

lemma crc8_shift8_xor: "crc8_shift8 (a XOR b) = crc8_shift8 a XOR crc8_shift8 b"
  by (simp add: crc8_shift8_def crc8_shift_xor)

lemma crc8_bit_shift: "crc8_bit v i c = crc8_shift (c XOR (if bit v i then 0x80 else 0))"
proof -
  have "crc8_shift 0x80 = 7"
    by (simp add: crc8_shift_def)
  then show ?thesis
    by (simp add: crc8_shift_xor crc8_bit_def Let_def) (simp add: crc8_shift_def)
qed

lemma crc8_push [simp]:
  "crc8_shift (if P then x else 0) = (if P then crc8_shift x else 0)"
  by (simp add: crc8_shift_def)

lemma crc8_powers:
  "crc8_shift 1 = 2" "crc8_shift 2 = 4" "crc8_shift 4 = 8" "crc8_shift 8 = 0x10" "crc8_shift 0x10 = 0x20"
  "crc8_shift 0x20 = 0x40" "crc8_shift 0x40 = 0x80"
  by (simp_all add: crc8_shift_def)

lemma byte_bits:
  fixes v :: u8
  shows "v = (if bit v 7 then 0x80 else 0) XOR (if bit v 6 then 0x40 else 0) XOR (if bit v 5 then 0x20 else 0) XOR
    (if bit v 4 then 0x10 else 0) XOR (if bit v 3 then 8 else 0) XOR (if bit v 2 then 4 else 0) XOR
    (if bit v 1 then 2 else 0) XOR (if bit v 0 then 1 else 0)"
proof (rule bit_word_eqI)
  fix n :: nat
  assume "n < LENGTH(8)"
  then have "n \<in> {0, 1, 2, 3, 4, 5, 6, 7}"
    by (simp, presburger)
  then show "bit v n = bit ((if bit v 7 then 0x80 else 0) XOR (if bit v 6 then 0x40 else 0) XOR
      (if bit v 5 then 0x20 else 0) XOR (if bit v 4 then 0x10 else 0) XOR (if bit v 3 then 8 else 0) XOR
      (if bit v 2 then 4 else 0) XOR (if bit v 1 then 2 else 0) XOR (if bit v 0 then 1 else 0) :: u8) n"
    by (elim insertE emptyE) (simp_all add: bit_xor_iff)
qed

lemma crc8_byte_shift8: "crc8_byte v c = crc8_shift8 (c XOR v)"
proof -
  have "crc8_byte v c = crc8_shift8 (c XOR ((if bit v 7 then 0x80 else 0) XOR (if bit v 6 then 0x40 else 0) XOR
    (if bit v 5 then 0x20 else 0) XOR (if bit v 4 then 0x10 else 0) XOR (if bit v 3 then 8 else 0) XOR
    (if bit v 2 then 4 else 0) XOR (if bit v 1 then 2 else 0) XOR (if bit v 0 then 1 else 0)))"
    by (simp add: crc8_byte_def crc8_bit_shift crc8_shift8_def crc8_shift_xor crc8_powers xor.assoc cong: if_cong split del: if_split)
  then show ?thesis
    by (simp only: byte_bits [symmetric])
qed

text \<open>The table is built by doubling: the upper half of a power of two is the lower half with one more bit.\<close>

definition crc8_double :: "u8 \<Rightarrow> u8 list \<Rightarrow> u8 list" where
  "crc8_double p xs = xs @ map (\<lambda>x. x XOR p) xs"

lemma crc8_tab_doubled: "crc8_tab = fold crc8_double [0x07, 0x0E, 0x1C, 0x38, 0x70, 0xE0, 0xC7, 0x89] [0]"
  by (simp add: crc8_tab_def crc8_double_def)

lemma crc8_shift8_powers:
  "map crc8_shift8 [0, 1, 2, 4, 8, 0x10, 0x20, 0x40, 0x80] =
     [0, 0x07, 0x0E, 0x1C, 0x38, 0x70, 0xE0, 0xC7, 0x89]"
  by (simp add: crc8_shift8_def) (simp add: crc8_shift_def)

definition crc8_first :: "nat \<Rightarrow> u8 list" where
  "crc8_first n = map (\<lambda>i. crc8_shift8 (of_nat i)) [0..<n]"

lemma of_nat_add_power:
  assumes "i < 2 ^ k"
  shows "(of_nat (2 ^ k + i) :: 'a::len word) = 2 ^ k XOR of_nat i"
proof -
  have "(2 ^ k :: 'a word) AND of_nat i = 0"
  proof (rule bit_eqI)
    fix n
    have "\<not> bit i k"
      using assms by (simp add: bit_iff_odd)
    then show "bit ((2 ^ k :: 'a word) AND of_nat i) n \<longleftrightarrow> bit (0 :: 'a word) n"
      by (auto simp: bit_and_iff bit_exp_iff bit_of_nat_iff)
  qed
  then have "(2 ^ k :: 'a word) + of_nat i = 2 ^ k XOR of_nat i"
    by (rule disjunctive_add_eq_xor)
  then show ?thesis
    by simp
qed

lemma crc8_first_double: "crc8_first (2 * 2 ^ k) = crc8_double (crc8_shift8 (2 ^ k)) (crc8_first (2 ^ k))"
proof -
  have "[0..<2 * 2 ^ k] = [0..<2 ^ k] @ map (\<lambda>i. 2 ^ k + i) [0..<2 ^ k :: nat]"
    by (rule nth_equalityI) (auto simp: nth_append)
  then show ?thesis
    by (auto simp: crc8_first_def crc8_double_def of_nat_add_power crc8_shift8_xor xor.commute
        simp del: of_nat_add)
qed

lemma crc8_tab_shift8: "crc8_tab = crc8_first 256"
proof -
  have "crc8_first 1 = [0]"
    using crc8_shift8_powers by (simp add: crc8_first_def)
  then show ?thesis
    using crc8_shift8_powers crc8_first_double [of 0] crc8_first_double [of 1] crc8_first_double [of 2]
      crc8_first_double [of 3] crc8_first_double [of 4] crc8_first_double [of 5] crc8_first_double [of 6]
      crc8_first_double [of 7]
    by (simp add: crc8_tab_doubled)
qed

lemma crc8_step_shift8: "crc8_step b c = crc8_shift8 (c XOR b)"
proof -
  have "unat (c XOR b) < 256"
    using unsigned_less [of "c XOR b"] by simp
  then show ?thesis
    by (simp add: crc8_step_def crc8_tab_shift8 crc8_first_def)
qed

text \<open>C39: The table-driven checksum of the packets is the one the radio decoder computes bit by bit.\<close>

theorem io_checksum_bitwise: "crc8_run bs 0 = st24_common_crc8 bs"
proof -
  have "crc8_step = crc8_byte"
    by (simp add: fun_eq_iff crc8_step_shift8 crc8_byte_shift8)
  then show ?thesis
    by (simp add: crc8_run_def st24_common_crc8_def)
qed

section \<open>Damaged packets\<close>

lemma xor_zero_iff: "a XOR b = 0 \<longleftrightarrow> a = b" for a b :: "'a::len word"
  by (auto simp: bit_eq_iff bit_xor_iff)

lemma xor_inject [simp]:
  fixes a b c :: "'a::len word"
  shows "a XOR c = b XOR c \<longleftrightarrow> a = b" "c XOR a = c XOR b \<longleftrightarrow> a = b"
  by (auto simp: bit_eq_iff bit_xor_iff)

lemma crc8_shift_zero: "crc8_shift c = 0 \<Longrightarrow> c = 0"
proof -
  assume zero: "crc8_shift c = 0"
  have "\<not> bit c 7"
  proof
    assume "bit c 7"
    then have "push_bit 1 c XOR 7 = 0"
      using zero by (simp add: crc8_shift_def)
    then have "bit (push_bit 1 c XOR 7) 0 = bit (0 :: u8) 0"
      by simp
    then show False
      by (simp only: bit_xor_iff bit_push_bit_iff) simp
  qed
  then have push: "push_bit 1 c = 0"
    using zero by (simp add: crc8_shift_def)
  show "c = 0"
  proof (rule bit_word_eqI)
    fix n :: nat
    assume n: "n < LENGTH(8)"
    have "\<not> bit (push_bit 1 c) (Suc n)"
      by (subst push) simp
    moreover have "bit (push_bit 1 c) (Suc n) \<longleftrightarrow> n < 7 \<and> bit c n"
      using n by (subst bit_push_bit_iff) auto
    ultimately have "\<not> (n < 7 \<and> bit c n)"
      by blast
    then show "bit c n = bit (0 :: u8) n"
      using n \<open>\<not> bit c 7\<close> by (cases "n = 7") auto
  qed
qed

lemma crc8_shift_inject [simp]: "crc8_shift a = crc8_shift b \<longleftrightarrow> a = b"
  using crc8_shift_zero [of "a XOR b"] by (auto simp: crc8_shift_xor xor_zero_iff)

lemma crc8_step_inject: "crc8_step b c = crc8_step b' c' \<longleftrightarrow> c XOR b = c' XOR b'"
  by (simp add: crc8_step_shift8 crc8_shift8_def)

lemma crc8_run_inject: "crc8_run bs c = crc8_run bs c' \<longleftrightarrow> c = c'"
proof (induction bs arbitrary: c c')
  case (Cons b bs)
  then show ?case
    by (simp add: crc8_run_def crc8_step_inject)
qed (simp add: crc8_run_def)

lemma crc8_run_update:
  "k < length bs \<Longrightarrow> x \<noteq> bs ! k \<Longrightarrow> crc8_run (bs[k := x]) c \<noteq> crc8_run bs c"
proof (induction bs arbitrary: c k)
  case (Cons b bs)
  show ?case
  proof (cases k)
    case 0
    then show ?thesis
      using Cons.prems crc8_run_inject [of bs] by (simp add: crc8_run_def crc8_step_inject)
  next
    case (Suc j)
    then show ?thesis
      using Cons.IH [of j] Cons.prems by (simp add: crc8_run_def)
  qed
qed simp

lemma crc_packet_Some:
  "PKT_SIZE p \<le> length p \<Longrightarrow> crc_packet p = Some (crc8_run (take (PKT_SIZE p) p) 0)"
  by (simp add: crc_packet_def mem_read_def)

definition packet_ok :: "u8 list \<Rightarrow> bool" where
  "packet_ok p \<longleftrightarrow> 4 \<le> length p \<and> PKT_SIZE p \<le> length p \<and> crc_packet (p[1 := 0]) = Some (p ! 1)"

lemma PKT_COUNT_update [simp]:
  "0 < k \<Longrightarrow> PKT_COUNT (p[k := x]) = PKT_COUNT p" "0 < k \<Longrightarrow> PKT_SIZE (p[k := x]) = PKT_SIZE p"
  by (simp_all add: PKT_COUNT_def PKT_SIZE_def)


definition good_packet :: "u8 list" where
  "good_packet = [0x41, 0x7B, 51, 0, 0x11, 0x27] @ replicate 62 0"

lemma good_packet_ok: "packet_ok good_packet" "4 < PKT_SIZE good_packet" "good_packet ! 4 = 0x11"
  by code_simp+


end
