(* ===== verification/Px4ioRadio.thy ===== *)
theory Px4ioRadio
  imports Px4ioProps
begin

text \<open>
  When the pilot's radio takes over the outputs: what a call of \<open>controls_tick\<close> leaves alone before it
  decides on manual override, what the mixing loop leaves alone, and the conditions for the override.
\<close>

section \<open>Gathering leaves the link and the mixer flags alone\<close>

definition link_of :: "px4io \<Rightarrow> bool \<times> bool" where
  "link_of s = (bit (io_flags s) FLAGS_FMU_OK, bit (io_flags s) FLAGS_MIXER_OK)"

named_theorems link_frame \<open>link and mixer flags after an operation\<close>

lemma link_fields [link_frame]:
  "link_of (s\<lparr>io_raw_flags := a\<rparr>) = link_of s" "link_of (s\<lparr>io_raw_values := vs\<rparr>) = link_of s"
  "link_of (s\<lparr>io_raw_count := a\<rparr>) = link_of s" "link_of (s\<lparr>io_raw_nrssi := a\<rparr>) = link_of s"
  "link_of (s\<lparr>io_raw_data := a\<rparr>) = link_of s" "link_of (s\<lparr>io_rc_values := vs\<rparr>) = link_of s"
  "link_of (s\<lparr>io_rc_valid := a\<rparr>) = link_of s" "link_of (s\<lparr>io_rc_received := t\<rparr>) = link_of s"
  "link_of (s\<lparr>io_rc_valid_time := t\<rparr>) = link_of s" "link_of (s\<lparr>io_override_value := a\<rparr>) = link_of s"
  "link_of (s\<lparr>io_rssi_counts := c\<rparr>) = link_of s" "link_of (s\<lparr>io_features := a\<rparr>) = link_of s"
  "link_of (s\<lparr>io_alarms := a\<rparr>) = link_of s"
  by (simp_all add: link_of_def)

lemma link_flags [link_frame]:
  "n \<noteq> FLAGS_FMU_OK \<Longrightarrow> n \<noteq> FLAGS_MIXER_OK \<Longrightarrow> link_of (upd_flags (set_bit n) s) = link_of s"
  "n \<noteq> FLAGS_FMU_OK \<Longrightarrow> n \<noteq> FLAGS_MIXER_OK \<Longrightarrow> link_of (upd_flags (unset_bit n) s) = link_of s"
  by (auto simp: link_of_def upd_flags_def bit_set_bit_iff bit_unset_bit_iff)

lemma link_basic [link_frame]:
  "link_of (clear_drop_failsafe s) = link_of s" "link_of (flag_kinds a b c s) = link_of s"
  by (simp_all add: clear_drop_failsafe_def flag_kinds_def Let_def link_frame)

lemma link_map_channels [link_frame]:
  "link_of (fst (fold (map_channel env) is sa)) = link_of (fst sa)"
proof (induction "is" arbitrary: sa)
  case (Cons i "is")
  have "link_of (fst (map_channel env i sa)) = link_of (fst sa)"
    by (cases sa) (simp add: map_channel_def Let_def link_frame)
  then show ?case
    by (simp add: Cons)
qed simp

lemma link_radio [link_frame]:
  "link_of (map_frame env inp s) = link_of s" "link_of (check_rc_loss inp s) = link_of s"
proof -
  show "link_of (map_frame env inp s) = link_of s"
    by (simp add: map_frame_def Let_def link_frame split_beta)
  have "link_of (upd_flags (\<lambda>f. unset_bit FLAGS_RC_PPM (unset_bit FLAGS_RC_DSM (unset_bit FLAGS_RC_SBUS f))) s) = link_of s"
    "link_of (upd_flags (\<lambda>f. unset_bit FLAGS_OVERRIDE (unset_bit FLAGS_RC_OK f)) s) = link_of s" for s
    by (simp_all add: link_of_def upd_flags_def bit_unset_bit_iff)
  then show "link_of (check_rc_loss inp s) = link_of s"
    by (simp add: check_rc_loss_def rc_lost_def Let_def link_frame)
qed

lemma link_adc [link_frame]: "link_of (snd (controls_adc_rssi inp s)) = link_of s"
  by (simp add: controls_adc_rssi_def Let_def link_frame)

lemma link_ppm [link_frame]: "link_of (fst (snd (ppm_input inp sw))) = link_of (fst sw)"
  by (cases sw) (simp add: ppm_input_def Let_def link_frame)

lemma link_sbus:
  "sbus_gather env inp rssi sw = Some r \<Longrightarrow> link_of (fst (snd (snd r))) = link_of (fst sw)"
  by (cases sw) (auto simp: sbus_gather_def Let_def link_frame bind_eq_Some_conv split: if_splits prod.splits)

lemma link_dsm_port:
  "dsm_port_input env inp rssi sw = Some r \<Longrightarrow>
   link_of (fst (snd (snd (snd (snd r))))) = link_of (fst sw)"
  by (cases sw) (auto simp: dsm_port_input_def Let_def link_frame bind_eq_Some_conv)

lemma link_gather:
  "controls_gather env inp sw = Some r \<Longrightarrow> link_of (fst (snd r)) = link_of (fst sw)"
  by (cases sw) (auto simp: controls_gather_def Let_def bind_eq_Some_conv link_frame split_beta
      dest!: link_dsm_port link_sbus split: if_splits)

section \<open>Mixing leaves the radio alone\<close>

definition radio_of :: "px4io \<Rightarrow> bool \<times> bool \<times> bool \<times> u16 \<times> u64 \<times> u16 \<times> u16" where
  "radio_of s =
     (bit (io_flags s) FLAGS_RC_OK, bit (io_flags s) FLAGS_OVERRIDE, bit (io_alarms s) ALARMS_RC_LOST,
      io_raw_flags s, io_rc_received s, io_override_value s, io_rc_valid s)"

lemma radio_tick: "mixer_tick env clk s = Some s' \<Longrightarrow> radio_of s' = radio_of s"
proof (elim tick_stages)
  fix s1
  assume run: "mixer_run env clk (mixer_decide (mixer_check_fmu clk s)) = Some s1"
    and s': "s' = mixer_output (mixer_set_arming s1)"
  have out: "radio_of (mixer_output t) = radio_of t" "radio_of (mixer_set_arming t) = radio_of t" for t
    by (simp_all add: mixer_output_def mixer_set_arming_def radio_of_def emit_def upd_flags_def
        bit_set_bit_iff bit_unset_bit_iff)
  have "radio_of s1 = radio_of (mixer_decide (mixer_check_fmu clk s))"
    using run by (auto simp: mixer_run_def mixer_failsafe_outputs_def radio_of_def Let_def
        split: if_splits prod.splits)
  also have "\<dots> = radio_of (mixer_check_fmu clk s)"
    by (simp add: mixer_decide_def radio_of_def upd_flags_def Let_def)
  also have "\<dots> = radio_of s"
    by (simp add: mixer_check_fmu_def radio_of_def bit_set_bit_iff bit_unset_bit_iff)
  finally show ?thesis
    using s' out by simp
qed

section \<open>The override\<close>

lemma loss_flags:
  defines "lost inp s \<equiv> in_clk inp 4 - io_rc_received s > 200000"
  shows "bit (io_flags (check_rc_loss inp s)) FLAGS_RC_OK \<longleftrightarrow> bit (io_flags s) FLAGS_RC_OK \<and> \<not> lost inp s"
    "io_rc_received (check_rc_loss inp s) = io_rc_received s"
    "lost inp s \<Longrightarrow> bit (io_alarms (check_rc_loss inp s)) ALARMS_RC_LOST"
    "lost inp s \<Longrightarrow> io_rc_valid (check_rc_loss inp s) = 0"
  by (simp_all add: check_rc_loss_def rc_lost_def lost_def upd_flags_def Let_def bit_unset_bit_iff bit_set_bit_iff)

lemma override_decided:
  assumes "decide_override env inp u s = Some s'"
  shows "if override_allowed s \<and> override_requested s then radio_of s' = radio_of (upd_flags (set_bit FLAGS_OVERRIDE) s)
    else s' = upd_flags (unset_bit FLAGS_OVERRIDE) s"
  using assms radio_tick by (auto simp: decide_override_def Let_def split: if_splits)


definition quiet_inputs :: rc_inputs where
  "quiet_inputs = \<lparr>in_clk = (\<lambda>_. 250000), in_mixer_clk = (\<lambda>_. 250000), in_dsm_line = [], in_sbus_line = [],
                   in_adc_rssi = 0xffff\<rparr>"

definition override_demo :: px4io where
  "override_demo = px4io_static\<lparr>io_flags := 0x104, io_rc_received := 100000\<rparr>"


section \<open>A length that is too short\<close>

lemma st24_data_overflow:
  assumes "st_state st = ST24_GOT_TYPE" "st_length st \<le> 2" "length (st_data st) = 64"
    "1 \<le> unat (st_rxlen st)" "unat (st_rxlen st) \<le> 65" "unat (st_rxlen st) + length bs = 66"
  shows "st24_bytes undef bs (st, out, u) = None"
  using assms
proof (induction bs arbitrary: st out u)
  case Nil
  then show ?case
    by simp
next
  case (Cons b bs)
  show ?case
  proof (cases "unat (st_rxlen st) = 65")
    case True
    then show ?thesis
      using Cons.prems by (simp add: st24_decode_def)
  next
    case False
    then have small: "unat (st_rxlen st) < 65"
      using Cons.prems by simp
    then have nxt: "unat (st_rxlen st + 1) = Suc (unat (st_rxlen st))"
      by (simp add: unat_word_ariths)
    have "uint (st_rxlen st + 1) = int (unat (st_rxlen st + 1))"
      by (rule uint_nat)
    moreover have "uint (st_length st) \<le> 2"
      using Cons.prems(2) by (simp add: word_le_def)
    ultimately have "uint (st_rxlen st + 1) \<noteq> uint (st_length st) - 1"
      using nxt Cons.prems(4) by linarith
    then show ?thesis
      using Cons.prems small nxt Cons.IH by (simp add: st24_decode_def Let_def)
  qed
qed


text \<open>
  A packet header with a length of at most two bytes leaves the ST24 decoder collecting data without an end: the
  65th data byte is written behind the packet's array of 64.
\<close>

theorem st24_short_length_overflow:
  assumes "st_state st = ST24_UNSYNCED" "length (st_data st) = 64" "len \<le> 2" "length bs = 65"
  shows "st24_bytes undef ([0x55, 0x55, len, typ] @ bs) (st, out, u) = None"
proof -
  have "len \<le> 66"
    using assms(3) by (simp add: word_le_nat_alt)
  then have "st24_bytes undef ([0x55, 0x55, len, typ] @ bs) (st, out, u) =
      st24_bytes undef bs (st\<lparr>st_length := len, st_type := typ, st_rxlen := 1, st_state := ST24_GOT_TYPE\<rparr>,
        out\<lparr>out_rssi := 100\<rparr>, u)"
    using assms(1) by (simp add: st24_decode_def)
  then show ?thesis
    using st24_data_overflow assms by simp
qed

definition st24_demo :: st24 where
  "st24_demo = \<lparr>st_state = ST24_UNSYNCED, st_rxlen = 0, st_length = 0, st_type = 0, st_data = replicate 64 0, st_crc8 = 0\<rparr>"

theorem st24_short_length_overflow_witness:
  "\<forall>undef out u. st24_bytes undef ([0x55, 0x55, 0, 0] @ replicate 65 0) (st24_demo, out, u) = None"
  using st24_short_length_overflow [of st24_demo 0 "replicate 65 0"] by (simp add: st24_demo_def)

section \<open>Channel configuration\<close>

lemma faults_options [simp]: "rc_config_faults (conf\<lparr>rcc_options := a\<rparr>) = rc_config_faults conf"
  by (simp add: rc_config_faults_def)

lemma rc_options_result:
  assumes "c < length (io_rc_config s)"
  shows "io_rc_config (set_rc_options c v s) ! c = (io_rc_config s ! c)\<lparr>rcc_options :=
     (if bit v 0 \<and> rc_config_faults (io_rc_config s ! c) = 0 \<and> rcc_assignment (io_rc_config s ! c) \<noteq> 255
      then set_bit 0 (unset_bit 0 (v AND 3)) else unset_bit 0 (v AND 3))\<rparr>"
  using assms by (simp add: set_rc_options_def Let_def upd_flags_def bit_and_iff)

lemma rc_register_cases:
  assumes "\<not> bit (io_flags s) FLAGS_SAFETY_OFF" "unat offset = 6 * c + k" "c < 18" "k < 6"
  shows "\<exists>conf. rcc_options conf = rcc_options (io_rc_config s ! c) AND 1 \<and>
    set_rc_register offset v s =
      (0, if k = 5 then set_rc_options c v (s\<lparr>io_rc_config := (io_rc_config s)[c := conf]\<rparr>)
          else s\<lparr>io_rc_config := (io_rc_config s)[c := conf]\<rparr>)"
proof -
  have k: "unat offset div 6 = c" "unat offset - c * 6 = k" "\<not> 18 \<le> c"
    using assms(2-4) by simp_all
  define conf where "conf = (io_rc_config s ! c)\<lparr>rcc_options := rcc_options (io_rc_config s ! c) AND 1\<rparr>"
  let ?conf = "if k = 0 then conf\<lparr>rcc_min := v\<rparr> else if k = 1 then conf\<lparr>rcc_center := v\<rparr>
    else if k = 2 then conf\<lparr>rcc_max := v\<rparr> else if k = 3 then conf\<lparr>rcc_deadzone := v\<rparr>
    else if k = 4 then conf\<lparr>rcc_assignment := v\<rparr> else conf"
  have "set_rc_register offset v s =
      (0, if k = 5 then set_rc_options c v (s\<lparr>io_rc_config := (io_rc_config s)[c := ?conf]\<rparr>)
          else s\<lparr>io_rc_config := (io_rc_config s)[c := ?conf]\<rparr>)"
    by (simp only: set_rc_register_def Let_def k conf_def assms(1) if_False)
  moreover have "rcc_options ?conf = rcc_options (io_rc_config s ! c) AND 1"
    by (simp add: conf_def)
  ultimately show ?thesis
    by blast
qed

text \<open>
  A write to the configuration of a radio channel while the safety is on.  Writing the options enables the channel
  exactly when that is asked for, the six checks of the configuration pass and the channel is assigned;
  writing a limit, the centre, the dead zone or the assignment leaves an enabled channel enabled, unchecked.
\<close>

theorem rc_config_checked:
  assumes "\<not> bit (io_flags s) FLAGS_SAFETY_OFF" "unat offset = 6 * c + k" "c < 18" "k < 6"
    "length (io_rc_config s) = 18"
  shows "fst (set_rc_register offset v s) = 0 \<and>
    (let conf = io_rc_config (snd (set_rc_register offset v s)) ! c in
     bit (rcc_options conf) OPTIONS_ENABLED \<longleftrightarrow>
       (if k = 5 then bit v OPTIONS_ENABLED \<and> rc_config_faults conf = 0 \<and> rcc_assignment conf \<noteq> 255
        else bit (rcc_options (io_rc_config s ! c)) OPTIONS_ENABLED))"
proof -
  obtain conf where "rcc_options conf = rcc_options (io_rc_config s ! c) AND 1"
    "set_rc_register offset v s =
      (0, if k = 5 then set_rc_options c v (s\<lparr>io_rc_config := (io_rc_config s)[c := conf]\<rparr>)
          else s\<lparr>io_rc_config := (io_rc_config s)[c := conf]\<rparr>)"
    using rc_register_cases [OF assms(1-4)] by blast
  then show ?thesis
    using assms(3,5) by (simp add: rc_options_result Let_def bit_and_iff bit_set_bit_iff bit_unset_bit_iff)
qed

text \<open>A fresh system: an impossible minimum of channel 3 is refused with its options and taken without.\<close>

definition fresh_config :: px4io where
  "fresh_config = px4io_static\<lparr>io_rc_config := map default_channel [0..<18]\<rparr>"

theorem rc_config_checked_witness:
  "bit (rcc_options (io_rc_config (snd (set_rc_register 12 5 fresh_config)) ! 2)) OPTIONS_ENABLED \<and>
   \<not> bit (rcc_options (io_rc_config (snd (set_rc_register 17 1
        (fresh_config\<lparr>io_rc_config := (io_rc_config fresh_config)[2 := (default_channel 2)\<lparr>rcc_min := 5\<rparr>]\<rparr>))) ! 2))
        OPTIONS_ENABLED"
proof -
  let ?bad = "fresh_config\<lparr>io_rc_config := (io_rc_config fresh_config)[2 := (default_channel 2)\<lparr>rcc_min := 5\<rparr>]\<rparr>"
  have "\<not> bit (io_flags fresh_config) FLAGS_SAFETY_OFF" "length (io_rc_config fresh_config) = 18"
    "bit (rcc_options (io_rc_config fresh_config ! 2)) OPTIONS_ENABLED"
    by (simp_all add: fresh_config_def px4io_static_def default_channel_def)
  moreover have "rc_config_faults (io_rc_config (snd (set_rc_register 17 1 ?bad)) ! 2) \<noteq> 0"
    by code_simp
  ultimately show ?thesis
    using rc_config_checked [of fresh_config 12 2 0 5] rc_config_checked [of ?bad 17 2 5 1]
    by (simp add: Let_def)
qed

end
