(* ===== verification/Px4ioLocked.thy ===== *)
theory Px4ioLocked
  imports Px4ioProps
begin

text \<open>
  Mixers of an active system: only the text page changes them, it refuses while the safety is off and
  the main processor is armed, and a change takes the flag away that lets the mixers run.
\<close>

section \<open>The loop\<close>

lemma mixers_config: "config_of s' = config_of s \<Longrightarrow> io_mixers s' = io_mixers s"
  by (simp add: config_of_def)

lemma mixers_tick: "mixer_tick env clk s = Some s' \<Longrightarrow> io_mixers s' = io_mixers s"
proof (elim tick_stages)
  fix s1
  assume run: "mixer_run env clk (mixer_decide (mixer_check_fmu clk s)) = Some s1"
    and s': "s' = mixer_output (mixer_set_arming s1)"
  have "io_mixers s' = io_mixers s1"
    using s' by (intro mixers_config) (simp add: io_frame)
  also have "\<dots> = io_mixers (mixer_decide (mixer_check_fmu clk s))"
    using run by (intro mixers_config config_mixer_run)
  also have "\<dots> = io_mixers s"
    using mixers_config [OF config_check_fmu] by (simp add: decide_config)
  finally show ?thesis .
qed

lemma mixers_controls: "controls_tick env inp (s, w) = Some (s', w') \<Longrightarrow> io_mixers s' = io_mixers s"
proof (elim controls_stages)
  fix u s1
  assume gather: "controls_gather env inp (s, w) = Some (u, s1, w')"
    and decide: "decide_override env inp u (check_rc_loss inp (if u then map_frame env inp s1 else s1)) = Some s'"
  have "io_mixers s' = io_mixers (check_rc_loss inp (if u then map_frame env inp s1 else s1))"
    using override_stages [OF decide] mixers_tick by (auto simp: upd_flags_def)
  then show ?thesis
    using mixers_config [OF controls_config(1) [OF gather]] by simp
qed

section \<open>Register access\<close>

named_theorems mixers_frame \<open>the mixers after an operation\<close>

lemma mixers_basic [mixers_frame]:
  "io_mixers (upd_flags f s) = io_mixers s" "io_mixers (emit es s) = io_mixers s"
  "io_mixers (schedule_reboot now d s) = io_mixers s" "io_mixers (read_status fm vs vr s) = io_mixers s"
  by (simp_all add: upd_flags_def emit_def schedule_reboot_def read_status_def)

lemma mixers_rates [mixers_frame]: "io_mixers (pwm_configure_rates env m d a s) = io_mixers s"
proof -
  have "io_mixers (fold (set_group_rate env m) gs s) = io_mixers s" for gs
    by (induction gs arbitrary: s) (simp_all add: set_group_rate_def mixers_frame Let_def)
  then show ?thesis
    by (simp add: pwm_configure_rates_def)
qed

lemma mixers_set_failsafe: "mixer_set_failsafe env s = Some s' \<Longrightarrow> io_mixers s' = io_mixers s"
  by (auto simp: mixer_set_failsafe_def Let_def split: if_splits prod.splits)

lemma mixers_status: "set_status_register env off v s = Some (r, s') \<Longrightarrow> io_mixers s' = io_mixers s"
  by (auto simp: set_status_register_def Let_def mixers_frame split: if_split_asm dest!: mixers_set_failsafe)

lemma mixers_setup [mixers_frame]: "io_mixers (snd (set_setup_register env now off v s)) = io_mixers s"
  by (simp add: set_setup_register_def set_setup_arming_def Let_def mixers_frame)

lemma mixers_rc_register [mixers_frame]: "io_mixers (snd (set_rc_register off v s)) = io_mixers s"
  by (simp add: set_rc_register_def set_rc_options_def Let_def mixers_frame)

lemma mixers_set_one:
  assumes "registers_set_one env now pg off v s = Some (r, s')"
  shows "io_mixers s' = io_mixers s"
proof -
  consider "set_status_register env off v s = Some (r, s')"
    | "s' = snd (set_setup_register env now off v s)" | "s' = snd (set_rc_register off v s)"
    | "\<exists>es. s' = emit es s" | "s' = s"
    using assms by (fastforce simp: registers_set_one_def split: if_splits)
  then show ?thesis
    by cases (auto simp: mixers_frame dest: mixers_status)
qed

lemma mixers_set_ones: "set_ones env now pg off vs s = Some (r, s') \<Longrightarrow> io_mixers s' = io_mixers s"
proof (induction vs arbitrary: off s)
  case (Cons v vs)
  then obtain r1 s1 where one: "registers_set_one env now pg off v s = Some (r1, s1)"
    by (auto split: option.splits)
  then show ?case
    using Cons mixers_set_one [OF one] by (auto split: if_splits)
qed simp

section \<open>The lock\<close>

definition active :: "px4io \<Rightarrow> bool" where
  "active s \<longleftrightarrow> bit (io_flags s) FLAGS_SAFETY_OFF \<and> bit (io_arming s) ARMING_FMU_ARMED"

definition locked :: "px4io \<Rightarrow> px4io \<Rightarrow> bool" where
  "locked s s' \<longleftrightarrow>
     (active s \<longrightarrow> io_mixers s' = io_mixers s) \<and>
     (io_mixers s' \<noteq> io_mixers s \<longrightarrow> \<not> bit (io_flags s') FLAGS_MIXER_OK)"

lemma locked_same: "io_mixers s' = io_mixers s \<Longrightarrow> locked s s'"
  by (simp add: locked_def)

lemma append_flag:
  "mixer_append env t s = Some (r, s') \<Longrightarrow> \<not> bit (io_flags s) FLAGS_MIXER_OK \<Longrightarrow> \<not> bit (io_flags s') FLAGS_MIXER_OK"
  apply (simp only: mixer_append_def Let_def split: if_split_asm)
  subgoal by (auto simp: upd_flags_def bit_unset_bit_iff)
  apply (simp only: bind_eq_Some_conv, elim exE conjE)
  apply (simp only: bind_eq_Some_conv split: prod.split_asm if_split_asm)
  subgoal by auto
  by (elim exE conjE) auto

lemma locked_text: "mixer_handle_text env buf s = Some (r, s') \<Longrightarrow> locked s s'"
  by (auto simp: mixer_handle_text_def locked_def active_def Let_def upd_flags_def bit_unset_bit_iff
      split: if_splits dest: append_flag)

lemma locked_set: "registers_set env now pg off vs s = Some (r, s') \<Longrightarrow> locked s s'"
  using locked_text [of env "concat (map le_bytes vs)" s r s'] mixers_set_ones [of env now pg off _ s r s']
  by (auto simp: registers_set_def Let_def mixers_frame intro: locked_same split: if_split_asm)

lemma locked_read:
  assumes "rx_read env rd p s = Some (p', s')"
  shows "locked s s'"
proof -
  have "s' = snd (registers_get env (rd_freemem rd) (rd_vservo rd) (rd_vrssi rd) (p ! 2) (p ! 3) s)"
    using assms by (auto simp: rx_read_def Let_def split: prod.splits option.splits)
  then have "io_mixers s' = io_mixers s"
    by (simp add: registers_get_def Let_def mixers_frame)
  then show ?thesis
    by (rule locked_same)
qed

lemma locked_packet: "rx_handle_packet env now rd p s = Some (p', s') \<Longrightarrow> locked s s'"
  by (elim packet_cases) (auto simp: locked_read rx_write_def intro: locked_same dest: locked_set)

lemma locked_callback: "rx_dma_callback env now rd p s = Some (r, p', s') \<Longrightarrow> locked s s'"
  by (auto simp: rx_dma_callback_def Let_def bind_eq_Some_conv dest: locked_packet)

text \<open>
  C21: While the safety is off and the main processor is armed no event changes the mixers; and when an event changes
  them, the flag without which they do not run is off afterwards.
\<close>

theorem io_mixers_locked:
  assumes "io_step env e (s, w) = Some (s', w')"
  shows "(bit (io_flags s) FLAGS_SAFETY_OFF \<and> bit (io_arming s) ARMING_FMU_ARMED \<longrightarrow> io_mixers s' = io_mixers s) \<and>
    (io_mixers s' \<noteq> io_mixers s \<longrightarrow> \<not> bit (io_flags s') FLAGS_MIXER_OK)"
proof -
  have "locked s s'"
  proof (cases e)
    case (Loop_turn clk inp)
    then obtain s1 where "mixer_tick env clk s = Some s1" "controls_tick env inp (s1, w) = Some (s', w')"
      using assms by (auto simp: io_step_def bind_eq_Some_conv)
    then show ?thesis
      by (simp add: locked_same mixers_tick mixers_controls)
  next
    case (Packet now rd p)
    then show ?thesis
      using assms locked_callback by (auto simp: io_step_def)
  next
    case (Button_tick b)
    then show ?thesis
      using assms mixers_config [OF config_safety] by (auto simp: io_step_def intro: locked_same)
  next
    case Blink_tick
    then show ?thesis
      using assms mixers_config [OF config_blink] by (auto simp: io_step_def intro: locked_same)
  qed
  then show ?thesis
    by (simp add: locked_def active_def)
qed

text \<open>A packet that resets the mixers: obeyed when the system is idle, and refused when it is active.\<close>

definition reset_text :: io_event where
  "reset_text = Packet 5 no_readings (write_packet 52 0 [0, 0])"

definition mixing_state :: "u16 \<Rightarrow> u16 \<Rightarrow> px4io" where
  "mixing_state flags arming = px4io_static\<lparr>io_flags := flags, io_arming := arming, io_mixers := [NullMixer]\<rparr>"

theorem io_mixers_locked_witness:
  "(\<exists>s w. io_step io_demo_env reset_text (mixing_state 0x100 0, rc_static) = Some (s, w) \<and>
        io_mixers s = [] \<and> \<not> bit (io_flags s) FLAGS_MIXER_OK) \<and>
   (\<exists>s w. io_step io_demo_env reset_text (mixing_state 0x1100 2, rc_static) = Some (s, w) \<and>
        io_mixers s = [NullMixer])"
proof -
  have "case io_step io_demo_env reset_text (mixing_state 0x100 0, rc_static) of None \<Rightarrow> False
      | Some (s, w) \<Rightarrow> io_mixers s = []"
    "case io_step io_demo_env reset_text (mixing_state 0x1100 2, rc_static) of None \<Rightarrow> False | Some (s, w) \<Rightarrow> True"
    by code_simp+
  then obtain s t v w where s: "io_step io_demo_env reset_text (mixing_state 0x100 0, rc_static) = Some (s, v)"
      "io_mixers s = []"
    and t: "io_step io_demo_env reset_text (mixing_state 0x1100 2, rc_static) = Some (t, w)"
    by (fastforce split: option.splits)
  then have "\<not> bit (io_flags s) FLAGS_MIXER_OK"
    using io_mixers_locked [OF s(1)] by (simp add: mixing_state_def)
  moreover have "io_mixers t = [NullMixer]"
    using io_mixers_locked [OF t] by (simp add: mixing_state_def bit_simps)
  ultimately show ?thesis
    using s t by blast
qed

end
