(* ===== verification/RcProps.thy ===== *)
theory RcProps
  imports RcFrames
begin

text \<open>
  The S.BUS transmitter and receiver agree: channels are eleven bits each, one after the other from the
  lowest bit of the second byte on, and a transmitted frame is received with its codes.
\<close>

unbundle bit_operations_syntax

section \<open>The decoder table\<close>

text \<open>The table picks the bits \<open>11 c\<close> to \<open>11 c + 10\<close> of the bytes after the start byte.\<close>

definition payload_bit :: "u8 list \<Rightarrow> nat \<Rightarrow> bool" where
  "payload_bit frame n = bit (frame ! (1 + n div 8)) (n mod 8)"

lemma less_11: "n < 11 \<Longrightarrow> n \<in> {0, 1, 2, 3, 4, 5, 6, 7, 8, 9, 10}" for n :: nat
  by (simp, presburger)

definition pick_bit :: "u8 list \<Rightarrow> nat \<Rightarrow> sbus_bit_pick \<Rightarrow> bool" where
  "pick_bit frame n pick \<longleftrightarrow>
     pick_lshift pick \<le> n \<and> n < 32 \<and> bit (pick_mask pick) (n - pick_lshift pick) \<and>
     bit (frame ! (1 + pick_byte pick)) (n - pick_lshift pick + pick_rshift pick)"

lemma bit_sbus_piece: "bit (sbus_piece frame pick v) n \<longleftrightarrow> bit v n \<or> pick_bit frame n pick"
  by (auto simp: sbus_piece_def pick_bit_def bit_or_iff bit_and_iff bit_push_bit_iff bit_drop_bit_eq
      bit_ucast_iff ac_simps dest: bit_imp_le_length)

lemma bit_sbus_raw: "bit (sbus_raw frame c) n \<longleftrightarrow> list_ex (pick_bit frame n) (sbus_decoder ! c)"
proof -
  have "bit (fold (sbus_piece frame) ps v) n \<longleftrightarrow> bit v n \<or> list_ex (pick_bit frame n) ps" for ps v
    by (induction ps arbitrary: v) (auto simp: bit_sbus_piece)
  then show ?thesis
    by (simp add: sbus_raw_def)
qed

text \<open>Where the table takes bit \<open>n\<close> of a channel from, as byte and bit, is the same for every frame.\<close>

definition pick_source :: "nat \<Rightarrow> sbus_bit_pick \<Rightarrow> (nat \<times> nat) option" where
  "pick_source n pick =
     (if pick_lshift pick \<le> n \<and> bit (pick_mask pick) (n - pick_lshift pick)
      then Some (1 + pick_byte pick, n - pick_lshift pick + pick_rshift pick) else None)"

definition channel_sources :: "nat \<Rightarrow> nat \<Rightarrow> (nat \<times> nat) list" where
  "channel_sources c n = List.map_filter (pick_source n) (sbus_decoder ! c)"

lemma channel_sources_slices:
  "\<forall>c \<in> set [0..<16]. \<forall>n \<in> set [0..<32]. channel_sources c n =
     (if n < 11 then [(1 + (11 * c + n) div 8, (11 * c + n) mod 8)] else [])"
  by code_simp

lemma channel_sources_at:
  "c < 16 \<Longrightarrow> n < 32 \<Longrightarrow>
   channel_sources c n = (if n < 11 then [(1 + (11 * c + n) div 8, (11 * c + n) mod 8)] else [])"
  using bspec [OF bspec [OF channel_sources_slices, of c], of n] by simp

lemma pick_bit_source:
  "n < 32 \<Longrightarrow> pick_bit frame n pick \<longleftrightarrow> (case pick_source n pick of Some (i, k) \<Rightarrow> bit (frame ! i) k | None \<Rightarrow> False)"
  by (auto simp: pick_bit_def pick_source_def ac_simps)

lemma bit_sbus_raw_sources:
  "n < 32 \<Longrightarrow> bit (sbus_raw frame c) n \<longleftrightarrow> (\<exists>(i, k) \<in> set (channel_sources c n). bit (frame ! i) k)"
  by (force simp: bit_sbus_raw list_ex_iff pick_bit_source channel_sources_def map_filter_def
      split: option.splits)

lemma sbus_raw_slice:
  assumes "c < 16"
  shows "bit (sbus_raw frame c) n \<longleftrightarrow> n < 11 \<and> payload_bit frame (11 * c + n)"
proof (cases "n < 32")
  case True
  then show ?thesis
    using assms by (simp add: bit_sbus_raw_sources channel_sources_at payload_bit_def)
next
  case False
  then show ?thesis
    using bit_imp_le_length [of "sbus_raw frame c" n] by auto
qed

section \<open>The transmitter\<close>

definition code_ok :: "u16 \<Rightarrow> bool" where
  "code_ok code \<longleftrightarrow> code \<le> 0x7ff"

lemma code_ok_bit:
  assumes "code_ok code" "bit code n"
  shows "n < 11"
proof (rule ccontr)
  assume "\<not> n < 11"
  then have "(2::nat) ^ 11 \<le> 2 ^ n"
    by (intro power_increasing) auto
  moreover have "unat code \<le> 0x7ff"
    using assms(1) by (simp add: code_ok_def word_le_nat_alt)
  ultimately have "unat code div 2 ^ n = 0"
    by simp
  then have "\<not> bit (unat code) n"
    by (simp add: bit_iff_odd)
  then show False
    using assms(2) bit_imp_le_length [OF assms(2)] by (simp add: bit_unsigned_iff)
qed

lemma nth_or_byte: "i < length f \<Longrightarrow> or_byte j v f ! i = (if i = j then f ! i OR v else f ! i)"
  by (simp add: or_byte_def nth_list_update)

lemma length_or_byte [simp]: "length (or_byte j v f) = length f"
  by (simp add: or_byte_def)

lemma length_pack_code [simp]: "length (sbus_pack_code code b q f) = length f"
  by (simp add: sbus_pack_code_def)

lemma length_pack [simp]: "length (sbus_pack codes b q f) = length f"
  by (induction codes b q f rule: sbus_pack.induct) (simp_all add: Let_def)

text \<open>Bit \<open>8 * i + k\<close> of the frame is bit \<open>k\<close> of byte \<open>i\<close>.\<close>

definition in_code :: "nat \<Rightarrow> u16 \<Rightarrow> nat \<Rightarrow> bool" where
  "in_code start code n \<longleftrightarrow> start \<le> n \<and> bit code (n - start)"

lemma pack_code_bit:
  assumes "q < 8" "k < 8" "i < length f" "code_ok code"
  shows "bit (sbus_pack_code code b q f ! i) k \<longleftrightarrow> bit (f ! i) k \<or> in_code (8 * b + q) code (8 * i + k)"
proof -
  have far: "\<not> in_code (8 * b + q) code (8 * i + k)" if "i < b \<or> b + 3 \<le> i"
    using that assms(1, 2) code_ok_bit [OF assms(4), of "8 * i + k - (8 * b + q)"] by (auto simp: in_code_def)
  consider "i = b" | "i = b + 1" | "i = b + 2" | "i < b \<or> b + 3 \<le> i"
    by linarith
  then show ?thesis
  proof cases
    case 1
    then show ?thesis
      using assms by (simp add: sbus_pack_code_def nth_or_byte in_code_def bit_or_iff bit_ucast_iff bit_push_bit_iff)
        (auto dest: bit_imp_le_length)
  next
    case 2
    then have "8 * i + k - (8 * b + q) = 8 - q + k"
      using assms(1) by simp
    then show ?thesis
      using assms 2 by (simp add: sbus_pack_code_def nth_or_byte in_code_def bit_or_iff bit_ucast_iff bit_drop_bit_eq)
        (auto dest: bit_imp_le_length)
  next
    case 3
    then have "8 * i + k - (8 * b + q) = 16 - q + k"
      using assms(1) by simp
    then show ?thesis
      using assms 3 by (simp add: sbus_pack_code_def nth_or_byte in_code_def bit_or_iff bit_ucast_iff bit_drop_bit_eq)
        (auto dest: bit_imp_le_length)
  next
    case 4
    then show ?thesis
      using assms far by (auto simp: sbus_pack_code_def nth_or_byte)
  qed
qed

lemma pack_bit:
  assumes "k < 8" "i < length f" "\<forall>code \<in> set codes. code_ok code"
  shows "bit (sbus_pack codes b q f ! i) k \<longleftrightarrow>
    bit (f ! i) k \<or> (\<exists>m < length codes. in_code (8 * b + q + 11 * m) (codes ! m) (8 * i + k))"
  using assms
proof (induction codes arbitrary: b q f)
  case (Cons code codes)
  let ?b = "b + q div 8" and ?q = "q mod 8"
  have pos: "8 * ?b + ?q = 8 * b + q"
    by simp
  have "bit (sbus_pack (code # codes) b q f ! i) k \<longleftrightarrow>
      bit (f ! i) k \<or> in_code (8 * b + q) code (8 * i + k) \<or>
      (\<exists>m < length codes. in_code (8 * ?b + (?q + 11) + 11 * m) (codes ! m) (8 * i + k))"
    using Cons.prems pack_code_bit [of ?q k i f code ?b]
    by (simp add: Let_def Cons.IH pos del: distrib_left_numeral)
  also have "\<dots> \<longleftrightarrow> bit (f ! i) k \<or>
      (\<exists>m < length (code # codes). in_code (8 * b + q + 11 * m) ((code # codes) ! m) (8 * i + k))"
    using pos by (auto simp: less_Suc_eq_0_disj add.assoc ac_simps)
  finally show ?case .
qed simp

lemma length_frame_of [simp]: "length (sbus_frame_of codes) = 25"
  by (simp add: sbus_frame_of_def)

lemma bit_15: "k < 8 \<Longrightarrow> bit (0x0f :: u8) k \<longleftrightarrow> k < 4"
  using less_11 [of k] by auto

lemma frame_of_bit:
  assumes "k < 8" "i < 25" "\<forall>code \<in> set codes. code_ok code"
  shows "bit (sbus_frame_of codes ! i) k \<longleftrightarrow>
    i = 0 \<and> k < 4 \<or> (\<exists>m < min 16 (length codes). in_code (8 + 11 * m) (codes ! m) (8 * i + k))"
proof -
  have "bit ((0x0f # replicate 24 0 :: u8 list) ! i) k \<longleftrightarrow> i = 0 \<and> k < 4"
    using bit_15 [OF assms(1)] assms(2) by (cases i) auto
  moreover have "\<forall>code \<in> set (take 16 codes). code_ok code"
    using assms(3) by (auto dest: in_set_takeD)
  ultimately show ?thesis
    using assms(1,2) pack_bit [of k i "0x0f # replicate 24 0" "take 16 codes" 1 0]
    by (auto simp: sbus_frame_of_def)
qed

lemma frame_of_raw:
  assumes "c < 16" "\<forall>code \<in> set codes. code_ok code"
  shows "sbus_raw (sbus_frame_of codes) c = (if c < length codes then ucast (codes ! c) else 0)"
proof (rule bit_word_eqI)
  fix n :: nat
  assume n: "n < LENGTH(32)"
  have pos: "8 * (1 + (11 * c + n) div 8) + (11 * c + n) mod 8 = 8 + (11 * c + n)"
    by simp
  have only: "in_code (8 + 11 * m) (codes ! m) (8 + (11 * c + n)) \<longleftrightarrow> m = c \<and> bit (codes ! m) n"
    if "n < 11" "m < length codes" for m
  proof -
    have "bit (codes ! m) j \<Longrightarrow> j < 11" for j
      by (rule code_ok_bit [OF bspec [OF assms(2) nth_mem [OF that(2)]]])
    moreover have "m < c \<Longrightarrow> 11 * m + 11 \<le> 11 * c" "c < m \<Longrightarrow> 11 * c + 11 \<le> 11 * m"
      by simp_all
    ultimately show ?thesis
      using that(1) by (cases m c rule: linorder_cases) (force simp: in_code_def)+
  qed
  have "bit (sbus_raw (sbus_frame_of codes) c) n \<longleftrightarrow>
      n < 11 \<and> (\<exists>m < min 16 (length codes). in_code (8 + 11 * m) (codes ! m) (8 + (11 * c + n)))"
  proof (cases "n < 11")
    case True
    then have "1 + (11 * c + n) div 8 < 25"
      using assms(1) by simp
    then show ?thesis
      using True assms frame_of_bit [of "(11 * c + n) mod 8" "1 + (11 * c + n) div 8" codes]
      by (simp add: sbus_raw_slice payload_bit_def pos add.commute [of 8] del: distrib_left_numeral)
  qed (simp add: sbus_raw_slice assms(1))
  also have "\<dots> \<longleftrightarrow> n < 11 \<and> c < length codes \<and> bit (codes ! c) n"
    using only assms(1) by auto
  also have "\<dots> \<longleftrightarrow> bit (if c < length codes then ucast (codes ! c) else 0 :: u32) n"
    using n assms(2) code_ok_bit [of "codes ! c" n] by (auto simp: bit_ucast_iff dest: bit_imp_le_length)
  finally show "bit (sbus_raw (sbus_frame_of codes) c) n \<longleftrightarrow>
      bit (if c < length codes then ucast (codes ! c) else 0 :: u32) n" .
qed

section \<open>The receiver\<close>

lemma sbus_bytes_append:
  "sbus_bytes undef now mc (as @ bs) r = Option.bind (sbus_bytes undef now mc as r) (sbus_bytes undef now mc bs)"
  by (induction as arbitrary: r) (auto split: bind_splits)

lemma sbus_collect:
  assumes "sb_state sb = SBUS_START" "0 < sb_count sb" "sb_count sb + length bs < 25" "length (sb_frame sb) = 37"
  shows "sbus_bytes undef now mc bs (sb, out, ret) =
    Some (sb\<lparr>sb_frame := take (sb_count sb) (sb_frame sb) @ bs @ drop (sb_count sb + length bs) (sb_frame sb),
            sb_count := sb_count sb + length bs\<rparr>, out, ret)"
  using assms
proof (induction bs arbitrary: sb)
  case (Cons b bs)
  let ?sb = "sb\<lparr>sb_frame := (sb_frame sb)[sb_count sb := b], sb_count := sb_count sb + 1\<rparr>"
  have "sbus_byte undef now mc b (sb, out, ret) = Some (?sb, out, ret)"
    using Cons.prems by (simp add: sbus_byte_def sbus_overflow_def sbus_sync_byte_def sbus_put_def)
  moreover have "take (Suc (sb_count sb)) ((sb_frame sb)[sb_count sb := b]) = take (sb_count sb) (sb_frame sb) @ [b]"
    using Cons.prems by (simp add: take_Suc_conv_app_nth)
  ultimately show ?case
    using Cons.prems Cons.IH [of ?sb] by simp
qed simp

lemma put_values_ok:
  "i + length vs \<le> length (sb_values out) \<Longrightarrow>
   put_values i vs out = Some (out\<lparr>sb_values := take i (sb_values out) @ vs @ drop (i + length vs) (sb_values out)\<rparr>)"
proof (induction vs arbitrary: i out)
  case (Cons v vs)
  then show ?case
    by (simp add: take_Suc_conv_app_nth)
qed simp

lemma sbus_raw_append:
  "25 \<le> length f \<Longrightarrow> c < 16 \<Longrightarrow> sbus_raw (f @ g) c = sbus_raw f c"
  by (rule bit_eqI) (auto simp: sbus_raw_slice payload_bit_def nth_append)

lemma sbus_code_ok: "code_ok (sbus_code undef v)"
  by (simp add: code_ok_def sbus_code_def Let_def not_less)

lemma frame_of_ends:
  assumes "\<forall>code \<in> set codes. code_ok code"
  shows "sbus_frame_of codes ! 0 = 0x0f" "sbus_frame_of codes ! 23 = 0" "sbus_frame_of codes ! 24 = 0"
proof -
  have none: "\<not> in_code (8 + 11 * m) (codes ! m) n" if "m < min 16 (length codes)" "n < 8 \<or> 184 \<le> n" for m n
  proof -
    have "bit (codes ! m) j \<Longrightarrow> j < 11" for j
      using that(1) by (intro code_ok_bit [OF bspec [OF assms nth_mem]]) auto
    then show ?thesis
      using that by (force simp: in_code_def)
  qed
  have "bit (sbus_frame_of codes ! i) k \<longleftrightarrow> i = 0 \<and> k < 4" if "k < 8" "i = 0 \<or> i = 23 \<or> i = 24" for i k
    using that none frame_of_bit [OF that(1) _ assms, of i] by auto
  then show "sbus_frame_of codes ! 0 = 0x0f" "sbus_frame_of codes ! 23 = 0" "sbus_frame_of codes ! 24 = 0"
    using bit_15 by (auto intro!: bit_word_eqI)
qed

lemma sbus_decode_frame:
  assumes "\<forall>code \<in> set codes. code_ok code" "18 \<le> length (sb_values out)"
  shows "\<exists>sb' out'. sbus_decode undef t (sbus_frame_of codes @ g) 18 sb out = Some (True, sb', out') \<and>
    sb' = sb\<lparr>sb_state := SBUS1_SYNC, sb_last_frame_time := t\<rparr> \<and> sb_num out' = 18 \<and>
    \<not> sb_failsafe out' \<and> \<not> sb_frame_drop out' \<and>
    (\<forall>c < 16. sb_values out' ! c = sbus_scale undef (if c < length codes then ucast (codes ! c) else 0))"
proof -
  let ?f = "sbus_frame_of codes"
  let ?vs = "map (\<lambda>c. sbus_scale undef (sbus_raw (?f @ g) c)) [0..<16]"
  have len: "length ?vs = 16"
    by simp
  have vals: "?vs ! c = sbus_scale undef (if c < length codes then ucast (codes ! c) else 0)" if "c < 16" for c
    using that by (simp add: sbus_raw_append frame_of_raw assms(1))
  show ?thesis
    using assms(2) vals
    by (simp add: sbus_decode_def Let_def frame_of_ends [OF assms(1)] sbus_end_marker_def put_values_ok sbus_flags_def nth_append
        del: upt_Suc)
qed

lemma sbus_receive:
  assumes "length f = 25" "f ! 0 = 0x0f" "sb_state sb = SBUS2_DESYNC" "length (sb_frame sb) = 37"
    "sbus_decode undef t (f @ drop 25 (sb_frame sb)) mc
       (sb\<lparr>sb_state := SBUS_START, sb_frame := f @ drop 25 (sb_frame sb), sb_count := 25\<rparr>) out =
     Some (True, sb', out')"
  shows "sbus_bytes undef t mc f (sb, out, False) = Some (sb'\<lparr>sb_count := 0\<rparr>, out', True)"
proof -
  let ?mid = "take 23 (drop 1 f)"
  let ?sb1 = "sb\<lparr>sb_state := SBUS_START, sb_frame := (sb_frame sb)[0 := f ! 0], sb_count := 1\<rparr>"
  let ?g = "take 1 (sb_frame ?sb1) @ ?mid @ drop 24 (sb_frame ?sb1)"
  let ?sb2 = "?sb1\<lparr>sb_frame := ?g, sb_count := 24\<rparr>"
  have f: "f = [f ! 0] @ ?mid @ [f ! 24]"
    using assms(1) by (intro nth_equalityI) (auto simp: nth_append nth_Cons' intro: arg_cong [where f = "nth f"])
  have start: "sbus_byte undef t mc (f ! 0) (sb, out, False) = Some (?sb1, out, False)"
    using assms by (simp add: sbus_byte_def sbus_overflow_def sbus_put_def)
  have mid: "sbus_bytes undef t mc ?mid (?sb1, out, False) = Some (?sb2, out, False)"
    using sbus_collect [of ?sb1 ?mid undef t mc out False] assms by simp
  have full: "?g[24 := f ! 24] = f @ drop 25 (sb_frame sb)"
    using assms(1,4) by (intro nth_equalityI) (auto simp: nth_append nth_list_update nth_Cons')
  have last: "sbus_byte undef t mc (f ! 24) (?sb2, out, False) = Some (sb'\<lparr>sb_count := 0\<rparr>, out', True)"
    using assms full by (simp add: sbus_byte_def sbus_overflow_def sbus_sync_byte_def sbus_put_def)
  show ?thesis
    by (subst f) (simp only: sbus_bytes_append sbus_bytes.simps start mid last Option.bind.simps append.simps)
qed

text \<open>
  C12: What \<open>sbus1_output\<close> sends, a receiver that waits for a frame decodes at once: it is in step with the
  transmitter, reports neither failsafe nor a lost frame, and finds each channel's eleven-bit code, and zero
  for the channels that were not sent.
\<close>

theorem sbus_roundtrip:
  assumes "fst (sbus1_output undef now vs tx) = Some bytes"
    "sb_state sb = SBUS2_DESYNC" "length (sb_frame sb) = 37" "18 \<le> length (sb_values out)"
  shows "\<exists>sb' out'. sbus_input undef' t bytes 18 sb out = Some (True, sb', out') \<and>
    sb_state sb' = SBUS1_SYNC \<and> sb_count sb' = 0 \<and> sb_num out' = 18 \<and>
    \<not> sb_failsafe out' \<and> \<not> sb_frame_drop out' \<and>
    (\<forall>c < 16. sb_values out' ! c =
       sbus_scale undef' (if c < length vs then ucast (sbus_code undef (vs ! c)) else 0))"
proof -
  let ?codes = "map (sbus_code undef) vs"
  let ?sb = "sb\<lparr>sb_last_rx_time := t\<rparr>"
  have bytes: "bytes = sbus_frame_of ?codes"
    using assms(1) by (auto simp: sbus1_output_def split: if_splits)
  have ok: "\<forall>code \<in> set ?codes. code_ok code"
    by (simp add: sbus_code_ok)
  let ?full = "?sb\<lparr>sb_state := SBUS_START, sb_frame := bytes @ drop 25 (sb_frame ?sb), sb_count := 25\<rparr>"
  obtain sb' out' where decode:
    "sbus_decode undef' t (bytes @ drop 25 (sb_frame ?sb)) 18 ?full out = Some (True, sb', out')"
    "sb' = ?full\<lparr>sb_state := SBUS1_SYNC, sb_last_frame_time := t\<rparr>" "sb_num out' = 18"
    "\<not> sb_failsafe out'" "\<not> sb_frame_drop out'"
    "\<forall>c < 16. sb_values out' ! c = sbus_scale undef' (if c < length ?codes then ucast (?codes ! c) else 0)"
    using sbus_decode_frame [OF ok assms(4), of undef' t "drop 25 (sb_frame ?sb)" ?full] bytes by blast
  have "sbus_bytes undef' t 18 bytes (?sb, out, False) = Some (sb'\<lparr>sb_count := 0\<rparr>, out', True)"
    by (rule sbus_receive [OF _ _ _ _ decode(1)])
       (simp_all add: bytes frame_of_ends [OF ok] assms(2,3))
  moreover have "take 25 bytes = bytes" "bytes \<noteq> []"
    using length_frame_of [of ?codes] by (auto simp: bytes simp del: length_frame_of)
  ultimately have "sbus_input undef' t bytes 18 sb out = Some (True, sb'\<lparr>sb_count := 0\<rparr>, out')"
    by (simp add: sbus_input_def sbus_parse_def Let_def)
  then show ?thesis
    using decode by (intro exI conjI) auto
qed

definition sbus_demo :: sbus where
  "sbus_demo = \<lparr>sb_last_rx_time = 0, sb_last_frame_time = 0, sb_last_txframe_time = 0, sb_state = SBUS2_DESYNC,
                sb_frame = replicate 37 0, sb_count = 0, sb_drops = 0\<rparr>"

theorem sbus_roundtrip_witness:
  "\<exists>bytes sb' out'. fst (sbus1_output (\<lambda>_. 0) 20000 [1000, 1500, 2000] sbus_demo) = Some bytes \<and>
     sbus_input (\<lambda>_. 0) 20001 bytes 18 sbus_demo
       \<lparr>sb_values = replicate 19 0, sb_num = 0, sb_failsafe = True, sb_frame_drop = False\<rparr> = Some (True, sb', out') \<and>
     sb_values out' ! 2 = sbus_scale (\<lambda>_. 0) (ucast (sbus_code (\<lambda>_. 0) 2000))"
proof -
  obtain bytes where sent: "fst (sbus1_output (\<lambda>_. 0) 20000 [1000, 1500, 2000] sbus_demo) = Some bytes"
    by (simp add: sbus1_output_def sbus_demo_def)
  obtain sb' out' where "sbus_input (\<lambda>_. 0) 20001 bytes 18 sbus_demo
       \<lparr>sb_values = replicate 19 0, sb_num = 0, sb_failsafe = True, sb_frame_drop = False\<rparr> = Some (True, sb', out')"
    "\<forall>c < 16. sb_values out' ! c = sbus_scale (\<lambda>_. 0)
       (if c < length [1000, 1500, 2000] then ucast (sbus_code (\<lambda>_. 0) ([1000, 1500, 2000] ! c)) else 0)"
    using sbus_roundtrip [OF sent, of sbus_demo
        "\<lparr>sb_values = replicate 19 0, sb_num = 0, sb_failsafe = True, sb_frame_drop = False\<rparr>" "\<lambda>_. 0" 20001]
    by (auto simp: sbus_demo_def)
  then show ?thesis
    using sent by (intro exI conjI) auto
qed

end
