(* ===== verification/Spec2Isabelle.thy ===== *)
theory Spec2Isabelle
  imports RingBuffer Commander MissionManager OrbContainers UOrbProps FtpProps MuorbProps UbxProps Mtk
    Px4ioLink Px4ioRadio Px4ioLocked RcProps
begin

text \<open>
  A verification library for the PX4 flight control firmware (its sources are under \<open>src/src/\<close>;
  paths below are relative to the repository root \<open>src/\<close>).

  \<^bold>\<open>The program.\<close>  PX4 is a set of modules that run as tasks of one autopilot and talk to each other
  through the object request broker uORB.  Drivers publish sensor data; the commander decides
  whether the vehicle may arm and in which flight mode it is; the navigator flies missions that
  the mission protocol received from a ground station and kept in the data manager; the MAVLink
  module is the link to the ground station.  This library models the parts that decide and keep
  state, and not those that compute with physical quantities.

  \<^bold>\<open>Parts and theories\<close>, in the order of the imports:

  \<^item> \<open>Prelude\<close>: machine integers, blocks of memory, little-endian encoding, fixed tables with free
    slots, decimal numbers, log lines.  \<open>Fifo\<close>: the contract of a bounded queue, as a locale.
  \<^item> \<open>RingBuffer\<close>: the byte queue of the drivers (\<open>src/drivers/device/ringbuffer.cpp\<close>), an instance
    of \<open>Fifo\<close>; \<open>get\<close> is also modelled step by step, against a producer that overwrites.
  \<^item> \<open>Float32\<close>: single precision numbers by bit pattern.  \<open>Preflight\<close>: the sensor checks before
    arming (\<open>src/modules/commander/PreflightCheck.cpp\<close>).  \<open>StateMachine\<close>: arming, main, navigation
    and HIL state (\<open>state_machine_helper.cpp\<close>).  \<open>VehicleSafety\<close>: these run together as a step
    relation.  \<open>Commander\<close>: commands, mode switches of the radio, stick arming and the derived
    control mode (\<open>commander.cpp\<close>), which refine the steps of \<open>VehicleSafety\<close>.
  \<^item> \<open>Dataman\<close>: the item store (\<open>src/modules/dataman/dataman.c\<close>), an instance of the locale
    \<open>item_store\<close>.  \<open>MissionItem\<close>: the packed mission item.  \<open>MissionManager\<close>: upload and download of
    missions (\<open>src/modules/mavlink/mavlink_mission.cpp\<close>), a client of the store; a lossless
    upload followed by a download is shown to return the mission, while an upload in progress
    never touches the mission that is flown.
  \<^item> \<open>OrbContainers\<close>: the linked lists of the broker on NuttX (\<open>src/modules/uORB/ORBSet.hpp\<close>,
    \<open>ORBMap.hpp\<close>) over a store of cells.
  \<^item> \<open>VDev\<close>: device names and poll waiters (\<open>src/drivers/device/vdev.cpp\<close>), an instance of the locale
    \<open>directory\<close>.  \<open>UOrb\<close>, \<open>UOrbManager\<close>: topics, master device, descriptors and manager of the
    broker's POSIX build (\<open>src/modules/uORB/*_posix.cpp\<close>, \<open>src/drivers/device/vdev_posix.cpp\<close>).
    \<open>UOrbFrame\<close>, \<open>UOrbRun\<close>: what each operation leaves alone, composed over runs.  \<open>UOrbProps\<close>: what a
    subscriber sees whatever the other clients do in between.
  \<^item> \<open>PosixFiles\<close>: the file calls of the C library.  \<open>Crc32\<close>: the checksum
    (\<open>src/platforms/posix/px4_layer/lib_crc32.c\<close>).  \<open>MavlinkFTP\<close>: the file server of the link
    (\<open>src/modules/mavlink/mavlink_ftp.cpp\<close>).  \<open>FtpProps\<close>: its properties.

  \<^item> \<open>Muorb\<close>: the bridge to the broker of a second processor (\<open>src/modules/muorb/\<close>).  \<open>MuorbProps\<close>: its
    queue is shown to refine a bounded list, through the packed bytes.

  \<^item> \<open>Gps\<close>: what the GPS parsers share (\<open>src/drivers/gps/gps_helper.cpp\<close>).  \<open>Ubx\<close>, \<open>Mtk\<close>: the decoders,
    messages and configuration of two receivers (\<open>ubx.cpp\<close>, \<open>mtk.cpp\<close>).  \<open>UbxProps\<close>: frames are
    received as sent, damaged ones are refused, the buffers are kept, waiting ends.

  \<^bold>\<open>How they interact.\<close>  The mission protocol writes items through the data manager and publishes the
  mission it activates; the commander reads topics and calls the state machines and the
  preflight checks; every module reaches its topics through descriptors of the broker, whose
  topics are devices in the table of \<open>VDev\<close>.  Inputs that come from other modules (sensor values,
  topics, parameters, outcomes of system calls) are arguments of the definitions.

  \<^bold>\<open>Conventions.\<close>  A C++ class is a record of its fields, a method a function of the record that
  returns it updated; enums are datatypes with the names of the source; integers have their
  width; \<^term>\<open>None\<close> is an access the language leaves undefined (outside an array, through a null or
  freed pointer).  Devices, files, list cells and inodes are never moved, so that their position
  in a list stands for their address.  Loops over arrays are recursions over lists.

  \<^bold>\<open>Loops and fuel.\<close>  Loops whose end depends on data are \<open>function\<close>s with a termination proof (the
  length left in a copy, the unread bytes of a file, the room of the transmit buffer); the loops
  that may run forever (\<open>force\<close> of the ring buffer, \<open>erase\<close> of the name set) are
  \<open>partial_function (option)\<close> and are shown to return, or not to, in the cases stated.  The client
  \<open>download\<close> of \<open>FtpProps\<close> has fuel, and one more unit than the file has bytes is shown to suffice.

  \<^bold>\<open>Kinds of lemmas.\<close>  Each component theory first gives the definitions, then their rewrite rules,
  then an invariant with one preservation lemma for each operation, then the properties; each
  property states its claim in the text before it, and its witness applies it to a concrete
  case.  The broker is proved through frames: \<open>frame D R F w w'\<close> says what may change between two
  worlds, every operation is shown to respect one, and runs compose them.

  \<^bold>\<open>Not modelled.\<close>  Interleaving below the level of an operation is only modelled for the ring buffer;
  elsewhere the code holds a lock around its updates and an operation runs to its end.  Memory
  allocation succeeds.  The rest of the commander (its main loop, calibration), the NuttX build of
  the devices, the navigator, estimators, controllers, mixers, drivers and vendored libraries are
  not modelled: most of them compute with floating-point quantities or talk to hardware.  The
  list of components says for each why.

  \<^bold>\<open>Plan.\<close>  Next are the navigator (mission state, failsafe sequences), the parsers of the GPS
  drivers, the channel between the two processors of the QURT build, the parameter protocol, and
  the main loop of the commander.
\<close>

end
